(* ===== verification/K8up_Prelude.thy ===== *)
theory K8up_Prelude
  imports Main
begin

text \<open>
  Shared ground of the development.

  \<^item> The error values of the Go code: an error is a tree of wrapped messages
    (\<^verbatim>\<open>fmt.Errorf("...: %w", err)\<close>) over a plain error, an error of the Kubernetes API
    with its reason, or a run-time panic (index out of range, nil dereference).
  \<^item> The parts of Go's \<^verbatim>\<open>strings\<close>, \<^verbatim>\<open>strconv\<close>
    and \<^verbatim>\<open>path\<close> packages the sources use, over byte strings.
  \<^item> Go maps as partial functions: what a \<^verbatim>\<open>range\<close> loop over a map does, for
    every order in which the runtime may enumerate the keys.
  \<^item> The collections of simplification rules the components share.
\<close>

named_theorems k8up_consts "the string constants of the sources"
named_theorems k8up_defs "non-recursive definitions that proofs unfold"

section \<open>Errors\<close>

datatype api_reason = NotFoundReason | ConflictReason | OtherReason

datatype gerr =
    ApiError api_reason string
  | PlainError string
  | Wrapped string gerr
  | Panic string

type_synonym 'a result = "gerr + 'a"

text \<open>The text that \<^verbatim>\<open>err.Error()\<close> gives.\<close>

fun err_text :: "gerr \<Rightarrow> string" where
  "err_text (ApiError _ m) = m"
| "err_text (PlainError m) = m"
| "err_text (Wrapped m e) = m @ '': '' @ err_text e"
| "err_text (Panic m) = m"

text \<open>
  \<^verbatim>\<open>errors.IsNotFound\<close> and \<^verbatim>\<open>errors.IsConflict\<close> of the
  API machinery look through wrapped errors for the reason of the API error.
\<close>

fun err_reason :: "gerr \<Rightarrow> api_reason option" where
  "err_reason (ApiError r _) = Some r"
| "err_reason (PlainError _) = None"
| "err_reason (Wrapped _ e) = err_reason e"
| "err_reason (Panic _) = None"

definition IsNotFound :: "gerr \<Rightarrow> bool" where
  "IsNotFound e \<longleftrightarrow> err_reason e = Some NotFoundReason"

definition IsConflict :: "gerr \<Rightarrow> bool" where
  "IsConflict e \<longleftrightarrow> err_reason e = Some ConflictReason"

section \<open>Strings\<close>

definition HasPrefix :: "string \<Rightarrow> string \<Rightarrow> bool" where
  "HasPrefix s p \<longleftrightarrow> take (length p) s = p"

definition HasSuffix :: "string \<Rightarrow> string \<Rightarrow> bool" where
  "HasSuffix s p \<longleftrightarrow> length p \<le> length s \<and> drop (length s - length p) s = p"

fun Contains :: "string \<Rightarrow> string \<Rightarrow> bool" where
  "Contains [] p \<longleftrightarrow> p = []"
| "Contains (c # s) p \<longleftrightarrow> HasPrefix (c # s) p \<or> Contains s p"

text \<open>\<^verbatim>\<open>strings.TrimRight(s, c)\<close> for a cutset of one byte.\<close>

definition TrimRight :: "string \<Rightarrow> char \<Rightarrow> string" where
  "TrimRight s c = rev (dropWhile (\<lambda>x. x = c) (rev s))"

text \<open>\<^verbatim>\<open>strings.Cut\<close>: the text before and after the first separator.\<close>

fun Cut :: "string \<Rightarrow> string \<Rightarrow> string \<times> string \<times> bool" where
  "Cut [] sep = (if sep = [] then ([], [], True) else ([], [], False))"
| "Cut (c # s) sep =
     (if HasPrefix (c # s) sep then ([], drop (length sep) (c # s), True)
      else (case Cut s sep of (b, a, found) \<Rightarrow> (c # b, a, found)))"

fun Join :: "string list \<Rightarrow> string \<Rightarrow> string" where
  "Join [] sep = []"
| "Join [s] sep = s"
| "Join (s # t # ss) sep = s @ sep @ Join (t # ss) sep"

text \<open>\<^verbatim>\<open>strings.Split\<close> for a separator of one byte: never the empty list.\<close>

fun Split :: "string \<Rightarrow> char \<Rightarrow> string list" where
  "Split [] c = [[]]"
| "Split (x # s) c =
     (if x = c then [] # Split s c
      else (case Split s c of [] \<Rightarrow> [[x]] | t # ts \<Rightarrow> (x # t) # ts))"

text \<open>\<^verbatim>\<open>strings.Replace(s, c, "", 1)\<close>: drop the first occurrence of a byte.\<close>

fun ReplaceFirst :: "string \<Rightarrow> char \<Rightarrow> string" where
  "ReplaceFirst [] c = []"
| "ReplaceFirst (x # s) c = (if x = c then s else x # ReplaceFirst s c)"

text \<open>\<^verbatim>\<open>strings.ToLower\<close> on ASCII.\<close>

definition ToLower :: "string \<Rightarrow> string" where
  "ToLower s = map (\<lambda>c. if 65 \<le> (of_char c :: nat) \<and> (of_char c :: nat) \<le> 90
                        then char_of ((of_char c :: nat) + 32) else c) s"

text \<open>Decimal numerals, \<^verbatim>\<open>strconv.Itoa\<close> and the \<^verbatim>\<open>%d\<close> verb.\<close>

fun nat_numeral :: "nat \<Rightarrow> string" where
  "nat_numeral n =
     (if n < 10 then [char_of (48 + n)]
      else nat_numeral (n div 10) @ [char_of (48 + n mod 10)])"

declare nat_numeral.simps [simp del]

definition Itoa :: "int \<Rightarrow> string" where
  "Itoa i = (if i < 0 then CHR ''-'' # nat_numeral (nat (- i)) else nat_numeral (nat i))"

section \<open>Go maps\<close>

text \<open>
  A loop \<^verbatim>\<open>for k, v := range m { dst[k] = f(v) }\<close> overwrites the entries of
  \<open>dst\<close> at the keys of \<open>m\<close>. \<open>range_assign\<close> is its effect; lemma
  \<open>fold_range_assign\<close> shows that every enumeration of the keys gives it.
\<close>

definition range_assign :: "('k \<rightharpoonup> 'a) \<Rightarrow> ('a \<Rightarrow> 'b) \<Rightarrow> ('k \<rightharpoonup> 'b) \<Rightarrow> ('k \<rightharpoonup> 'b)" where
  "range_assign m f dst = (\<lambda>k. case m k of None \<Rightarrow> dst k | Some v \<Rightarrow> Some (f v))"

text \<open>A key order the runtime may choose for a loop over \<open>m\<close>.\<close>

definition range_order :: "('k \<rightharpoonup> 'a) \<Rightarrow> 'k list \<Rightarrow> bool" where
  "range_order m ks \<longleftrightarrow> distinct ks \<and> set ks = dom m"

text \<open>The values of a map in a given key order, \<^verbatim>\<open>slices.Collect(maps.Values(m))\<close>.\<close>

definition values_in :: "('k \<rightharpoonup> 'a) \<Rightarrow> 'k list \<Rightarrow> 'a list" where
  "values_in m ks = List.map_filter m ks"

section \<open>Lemmas\<close>

lemma err_reason_wrapped [simp]:
  "IsNotFound (Wrapped m e) = IsNotFound e" "IsConflict (Wrapped m e) = IsConflict e"
  by (simp_all add: IsNotFound_def IsConflict_def)

lemma HasPrefix_append [simp]: "HasPrefix (p @ s) p"
  by (simp add: HasPrefix_def)

lemma HasPrefix_iff: "HasPrefix s p \<longleftrightarrow> (\<exists>t. s = p @ t)"
  unfolding HasPrefix_def by (metis append_eq_conv_conj)

lemma HasPrefix_Nil [simp]: "HasPrefix s []"
  by (simp add: HasPrefix_def)

lemma HasSuffix_iff: "HasSuffix s p \<longleftrightarrow> (\<exists>t. s = t @ p)"
proof
  assume "HasSuffix s p"
  then have "s = take (length s - length p) s @ p"
    unfolding HasSuffix_def by (metis append_take_drop_id)
  then show "\<exists>t. s = t @ p" ..
qed (auto simp: HasSuffix_def)

lemma Contains_iff: "Contains s p \<longleftrightarrow> (\<exists>a b. s = a @ p @ b)"
proof (induction s)
  case (Cons c s)
  have "(\<exists>a b. c # s = a @ p @ b) \<longleftrightarrow> (\<exists>b. c # s = p @ b) \<or> (\<exists>a b. s = a @ p @ b)"
    by (metis append_Cons append_Nil list.inject neq_Nil_conv)
  then show ?case using Cons.IH by (simp add: HasPrefix_iff)
qed auto

lemma TrimRight_not_last: "TrimRight s c = [] \<or> last (TrimRight s c) \<noteq> c"
proof (cases "TrimRight s c = []")
  case False
  then have ne: "dropWhile (\<lambda>x. x = c) (rev s) \<noteq> []"
    by (simp add: TrimRight_def)
  then have "hd (dropWhile (\<lambda>x. x = c) (rev s)) \<noteq> c"
    by (rule hd_dropWhile)
  with ne show ?thesis by (simp add: TrimRight_def last_rev)
qed simp

lemma Cut_found: "Cut s sep = (b, a, True) \<Longrightarrow> s = b @ sep @ a"
proof (induction s arbitrary: b a)
  case (Cons c s)
  show ?case
  proof (cases "HasPrefix (c # s) sep")
    case True
    then show ?thesis using Cons.prems by (auto simp: HasPrefix_iff)
  next
    case False
    then show ?thesis using Cons by (auto split: prod.splits)
  qed
qed (auto split: if_splits)

lemma Split_nonempty [simp]: "Split s c \<noteq> []"
  by (induction s) (auto split: list.splits)

lemma Join_Split: "Join (Split s c) [c] = s"
proof (induction s)
  case (Cons x s)
  obtain t ts where sp: "Split s c = t # ts"
    by (metis Split_nonempty neq_Nil_conv)
  then show ?case using Cons.IH by (cases ts) auto
qed simp

lemma Split_no_sep: "t \<in> set (Split s c) \<Longrightarrow> c \<notin> set t"
  by (induction s arbitrary: t) (auto split: if_splits list.splits)

lemma nat_numeral_nonempty [simp]: "nat_numeral n \<noteq> []"
  by (subst nat_numeral.simps) simp

lemma nat_numeral_digits: "c \<in> set (nat_numeral n) \<Longrightarrow> 48 \<le> (of_char c :: nat) \<and> (of_char c :: nat) \<le> 57"
proof (induction n rule: nat_numeral.induct)
  case (1 n)
  show ?case
  proof (cases "n < 10")
    case True
    then show ?thesis using "1.prems" by (auto simp: nat_numeral.simps [of n])
  next
    case False
    then have "c \<in> set (nat_numeral (n div 10)) \<or> c = char_of (48 + n mod 10)"
      using "1.prems" by (auto simp: nat_numeral.simps [of n])
    moreover have "n mod 10 < 10" by simp
    ultimately show ?thesis using "1.IH" [OF False] by (auto simp del: pos_mod_bound)
  qed
qed

text \<open>Reading a numeral back gives the number: the numerals are injective.\<close>

definition numeral_value :: "string \<Rightarrow> nat" where
  "numeral_value s = foldl (\<lambda>a c. 10 * a + (of_char c - 48)) 0 s"

lemma numeral_value_nat_numeral [simp]: "numeral_value (nat_numeral n) = n"
proof (induction n rule: nat_numeral.induct)
  case (1 n)
  show ?case
  proof (cases "n < 10")
    case True
    then show ?thesis by (simp add: nat_numeral.simps [of n] numeral_value_def)
  next
    case False
    then have ih: "foldl (\<lambda>a c. 10 * a + (of_char c - 48)) 0 (nat_numeral (n div 10)) = n div 10"
      using "1.IH" [OF False] by (simp add: numeral_value_def)
    have "n mod 10 < 10" by simp
    then have d: "(of_char (char_of (48 + n mod 10) :: char) :: nat) - 48 = n mod 10"
      by simp
    have nn: "nat_numeral n = nat_numeral (n div 10) @ [char_of (48 + n mod 10)]"
      using False by (simp add: nat_numeral.simps [of n])
    show ?thesis
      unfolding numeral_value_def nn foldl_append ih by (simp add: d)
  qed
qed

lemma nat_numeral_inject [simp]: "nat_numeral m = nat_numeral n \<longleftrightarrow> m = n"
  by (metis numeral_value_nat_numeral)

lemma Itoa_inject: "Itoa i = Itoa j \<longleftrightarrow> i = j"
proof -
  have minus: "CHR ''-'' # s \<noteq> nat_numeral n" for s n
    using nat_numeral_digits [of "CHR ''-''" n] by (auto dest: sym)
  show ?thesis
    using minus minus [symmetric] by (auto simp: Itoa_def)
qed

lemma Itoa_nat_digits: "0 \<le> i \<Longrightarrow> c \<in> set (Itoa i) \<Longrightarrow> 48 \<le> (of_char c :: nat) \<and> (of_char c :: nat) \<le> 57"
  using nat_numeral_digits by (auto simp: Itoa_def)

lemma range_assign_dom [simp]: "dom (range_assign m f dst) = dom m \<union> dom dst"
  by (auto simp: range_assign_def split: option.splits)

lemma fold_range_assign_other:
  "k \<notin> set ks \<Longrightarrow> fold (\<lambda>k d. d(k \<mapsto> f (the (m k)))) ks dst k = dst k"
  by (induction ks arbitrary: dst) auto

lemma fold_range_assign_in:
  "k \<in> set ks \<Longrightarrow> fold (\<lambda>k d. d(k \<mapsto> f (the (m k)))) ks dst k = Some (f (the (m k)))"
proof (induction ks arbitrary: dst)
  case (Cons x ks)
  show ?case
  proof (cases "k \<in> set ks")
    case True
    then show ?thesis using Cons.IH by simp
  next
    case False
    then have "k = x" using Cons.prems by simp
    then show ?thesis
      using fold_range_assign_other [OF False, of f m "dst(x \<mapsto> f (the (m x)))"]
      by (simp del: fun_upd_apply) simp
  qed
qed simp

lemma fold_range_assign:
  assumes "range_order m ks"
  shows "fold (\<lambda>k d. d(k \<mapsto> f (the (m k)))) ks dst = range_assign m f dst"
proof
  fix k
  show "fold (\<lambda>k d. d(k \<mapsto> f (the (m k)))) ks dst k = range_assign m f dst k"
  proof (cases "k \<in> set ks")
    case True
    then obtain v where "m k = Some v"
      using assms by (auto simp: range_order_def)
    then show ?thesis
      using fold_range_assign_in [OF True, of f m dst]
      by (simp del: fun_upd_apply add: range_assign_def)
  next
    case False
    then have "m k = None" using assms by (auto simp: range_order_def)
    then show ?thesis
      using fold_range_assign_other [OF False, of f m dst]
      by (simp del: fun_upd_apply add: range_assign_def)
  qed
qed

lemma set_values_in: "range_order m ks \<Longrightarrow> set (values_in m ks) = ran m"
  by (force simp: range_order_def values_in_def List.map_filter_def ran_def)

lemma length_values_in: "range_order m ks \<Longrightarrow> length (values_in m ks) = card (dom m)"
proof -
  assume ord: "range_order m ks"
  then have "filter (\<lambda>k. m k \<noteq> None) ks = ks"
    by (auto simp: range_order_def filter_id_conv)
  with ord show ?thesis
    by (simp add: range_order_def values_in_def List.map_filter_def distinct_card [symmetric])
qed

end
