(* ===== verification/Kube_Types.thy ===== *)
theory Kube_Types
  imports K8up_Prelude
begin

text \<open>
  The Kubernetes objects the sources handle, with the fields they read or write, and the
  parameters that stand for library code the repository only calls:
  \<^item> \<open>meta_api\<close>: the condition helpers and \<^verbatim>\<open>GetControllerOf\<close> of
    \<^verbatim>\<open>k8s.io/apimachinery\<close>;
  \<^item> the locale \<open>meta_laws\<close> states what their documentation promises; every theorem
    that needs it names it as a hypothesis.
  \<open>meta_ref\<close> is one instance of the parameter that satisfies the laws. It only serves to
  show that they can hold.
\<close>

section \<open>Metadata\<close>

type_synonym labels = "string \<rightharpoonup> string"

record owner_ref =
  or_APIVersion :: string
  or_Kind :: string
  or_Name :: string
  or_UID :: string
  or_Controller :: "bool option"

record object_meta =
  om_Name :: string
  om_Namespace :: string
  om_UID :: string
  om_Labels :: labels
  om_Annotations :: labels
  om_OwnerReferences :: "owner_ref list"
  om_CreationTimestamp :: int
  om_DeletionTimestamp :: "int option"
  om_Finalizers :: "string list"

definition empty_meta :: object_meta where
  "empty_meta = \<lparr>om_Name = [], om_Namespace = [], om_UID = [], om_Labels = Map.empty,
     om_Annotations = Map.empty, om_OwnerReferences = [], om_CreationTimestamp = 0,
     om_DeletionTimestamp = None, om_Finalizers = []\<rparr>"

record namespaced_name =
  nn_Namespace :: string
  nn_Name :: string

section \<open>Conditions\<close>

datatype condition_status = ConditionTrue | ConditionFalse | ConditionUnknown

record condition =
  cond_Type :: string
  cond_Status :: condition_status
  cond_Reason :: string
  cond_Message :: string

record meta_api =
  FindStatusCondition :: "condition list \<Rightarrow> string \<Rightarrow> condition option"
  SetStatusCondition :: "condition list \<Rightarrow> condition \<Rightarrow> condition list"
  RemoveStatusCondition :: "condition list \<Rightarrow> string \<Rightarrow> condition list"
  GetControllerOf :: "object_meta \<Rightarrow> owner_ref option"

section \<open>Pods, volumes and batch jobs\<close>

record secret_key_selector =
  sks_Name :: string
  sks_Key :: string

record env_var_source =
  evs_SecretKeyRef :: "secret_key_selector option"

record env_var =
  ev_Name :: string
  ev_Value :: string
  ev_ValueFrom :: "env_var_source option"

text \<open>The payload of an \<^verbatim>\<open>EnvFromSource\<close> and of a toleration is only passed on.\<close>

type_synonym env_from_source = string
type_synonym toleration = string

record pvc_volume_source =
  pvs_ClaimName :: string
  pvs_ReadOnly :: bool

datatype volume_source =
    NoVolumeSource
  | PvcSource pvc_volume_source
  | SecretSource string
  | ConfigMapSource string
  | EmptyDirSource

record volume =
  vol_Name :: string
  vol_Source :: volume_source

record volume_mount =
  vm_Name :: string
  vm_MountPath :: string
  vm_ReadOnly :: bool

type_synonym quantity = string
type_synonym resource_list = "string \<rightharpoonup> quantity"

record resource_requirements =
  rr_Limits :: resource_list
  rr_Requests :: resource_list

record pod_security_context =
  psc_RunAsUser :: "int option"
  psc_FSGroup :: "int option"

record container =
  ctr_Name :: string
  ctr_Image :: string
  ctr_Command :: "string list"
  ctr_Args :: "string list"
  ctr_Env :: "env_var list"
  ctr_EnvFrom :: "env_from_source list"
  ctr_VolumeMounts :: "volume_mount list"
  ctr_Resources :: resource_requirements

definition empty_resources :: resource_requirements where
  "empty_resources = \<lparr>rr_Limits = Map.empty, rr_Requests = Map.empty\<rparr>"

definition empty_container :: container where
  "empty_container = \<lparr>ctr_Name = [], ctr_Image = [], ctr_Command = [], ctr_Args = [],
     ctr_Env = [], ctr_EnvFrom = [], ctr_VolumeMounts = [], ctr_Resources = empty_resources\<rparr>"

record pod_spec =
  ps_Containers :: "container list"
  ps_Volumes :: "volume list"
  ps_RestartPolicy :: string
  ps_SecurityContext :: "pod_security_context option"
  ps_NodeSelector :: labels
  ps_Tolerations :: "toleration list"
  ps_ServiceAccountName :: string
  ps_ImagePullSecrets :: "string list"
  ps_NodeName :: string

definition empty_pod_spec :: pod_spec where
  "empty_pod_spec = \<lparr>ps_Containers = [], ps_Volumes = [], ps_RestartPolicy = [],
     ps_SecurityContext = None, ps_NodeSelector = Map.empty, ps_Tolerations = [],
     ps_ServiceAccountName = [], ps_ImagePullSecrets = [], ps_NodeName = []\<rparr>"

record pod_template =
  pt_Labels :: labels
  pt_Annotations :: labels
  pt_Spec :: pod_spec

definition empty_template :: pod_template where
  "empty_template = \<lparr>pt_Labels = Map.empty, pt_Annotations = Map.empty, pt_Spec = empty_pod_spec\<rparr>"

datatype job_condition_type = JobComplete | JobFailed | JobOtherCondition string

record job_condition =
  jc_Type :: job_condition_type
  jc_Status :: condition_status

record job_status =
  js_Active :: int
  js_Succeeded :: int
  js_Failed :: int
  js_Conditions :: "job_condition list"

record batch_job =
  j_Meta :: object_meta
  j_ActiveDeadlineSeconds :: "int option"
  j_BackoffLimit :: "int option"
  j_Template :: pod_template
  j_Status :: job_status

definition empty_job :: batch_job where
  "empty_job = \<lparr>j_Meta = empty_meta, j_ActiveDeadlineSeconds = None, j_BackoffLimit = None,
     j_Template = empty_template,
     j_Status = \<lparr>js_Active = 0, js_Succeeded = 0, js_Failed = 0, js_Conditions = []\<rparr>\<rparr>"

definition job_labels :: "batch_job \<Rightarrow> labels" where
  "job_labels j = om_Labels (j_Meta j)"

definition job_key :: "batch_job \<Rightarrow> namespaced_name" where
  "job_key j = \<lparr>nn_Namespace = om_Namespace (j_Meta j), nn_Name = om_Name (j_Meta j)\<rparr>"

text \<open>
  An assignment through \<^verbatim>\<open>batchJob.Spec.Template.Spec.Containers[0]\<close>, which
  panics when there is no container.
\<close>

definition upd_container0 :: "(container \<Rightarrow> container) \<Rightarrow> batch_job \<Rightarrow> batch_job result" where
  "upd_container0 f j =
     (case ps_Containers (pt_Spec (j_Template j)) of
        [] \<Rightarrow> Inl (Panic ''index out of range'')
      | c # cs \<Rightarrow> Inr (j\<lparr>j_Template := (j_Template j)\<lparr>pt_Spec :=
            (pt_Spec (j_Template j))\<lparr>ps_Containers := f c # cs\<rparr>\<rparr>\<rparr>))"

text \<open>An assignment to a field of \<^verbatim>\<open>batchJob.Spec.Template.Spec\<close>.\<close>

definition upd_pod_spec :: "(pod_spec \<Rightarrow> pod_spec) \<Rightarrow> batch_job \<Rightarrow> batch_job" where
  "upd_pod_spec f j = j\<lparr>j_Template := (j_Template j)\<lparr>pt_Spec := f (pt_Spec (j_Template j))\<rparr>\<rparr>"

section \<open>The laws of the condition helpers\<close>

locale meta_laws =
  fixes M :: meta_api
  assumes find_set: "FindStatusCondition M (SetStatusCondition M cs c) t =
      (if t = cond_Type c then Some c else FindStatusCondition M cs t)"
    and find_remove: "FindStatusCondition M (RemoveStatusCondition M cs t') t =
      (if t = t' then None else FindStatusCondition M cs t)"
    and find_type: "FindStatusCondition M cs t = Some c \<Longrightarrow> cond_Type c = t \<and> c \<in> set cs"
    and controller_Some: "GetControllerOf M om = Some r \<Longrightarrow>
      r \<in> set (om_OwnerReferences om) \<and> or_Controller r = Some True"
    and controller_None: "GetControllerOf M om = None \<Longrightarrow>
      r \<in> set (om_OwnerReferences om) \<Longrightarrow> or_Controller r \<noteq> Some True"
begin

lemma find_Nil: "FindStatusCondition M [] t = None"
  using find_type [of "[]" t] by (cases "FindStatusCondition M [] t") auto

end

text \<open>One instance: lists searched from the front, conditions replaced in place or appended.\<close>

definition ref_find :: "condition list \<Rightarrow> string \<Rightarrow> condition option" where
  "ref_find cs t = find (\<lambda>c. cond_Type c = t) cs"

fun ref_set :: "condition list \<Rightarrow> condition \<Rightarrow> condition list" where
  "ref_set [] n = [n]"
| "ref_set (c # cs) n = (if cond_Type c = cond_Type n then n # cs else c # ref_set cs n)"

definition meta_ref :: meta_api where
  "meta_ref = \<lparr>FindStatusCondition = ref_find, SetStatusCondition = ref_set,
     RemoveStatusCondition = (\<lambda>cs t. filter (\<lambda>c. cond_Type c \<noteq> t) cs),
     GetControllerOf = (\<lambda>om. find (\<lambda>r. or_Controller r = Some True) (om_OwnerReferences om))\<rparr>"

lemma ref_find_set:
  "ref_find (ref_set cs c) t = (if t = cond_Type c then Some c else ref_find cs t)"
  by (induction cs) (auto simp: ref_find_def)

lemma ref_find_filter:
  "ref_find (filter (\<lambda>c. cond_Type c \<noteq> t') cs) t = (if t = t' then None else ref_find cs t)"
  by (induction cs) (auto simp: ref_find_def)

interpretation meta_ref: meta_laws meta_ref
proof
  fix cs t c
  show "FindStatusCondition meta_ref cs t = Some c \<Longrightarrow> cond_Type c = t \<and> c \<in> set cs"
    by (auto simp: meta_ref_def ref_find_def find_Some_iff)
next
  fix om r
  show "GetControllerOf meta_ref om = Some r \<Longrightarrow>
      r \<in> set (om_OwnerReferences om) \<and> or_Controller r = Some True"
    by (auto simp: meta_ref_def find_Some_iff)
next
  fix om r
  show "GetControllerOf meta_ref om = None \<Longrightarrow> r \<in> set (om_OwnerReferences om) \<Longrightarrow>
      or_Controller r \<noteq> Some True"
    by (auto simp: meta_ref_def find_None_iff)
qed (simp_all add: meta_ref_def ref_find_set ref_find_filter)

lemma upd_container0_labels:
  "upd_container0 f j = Inr j' \<Longrightarrow> j_Meta j' = j_Meta j"
  by (auto simp: upd_container0_def split: list.splits)

lemma upd_pod_spec_meta [simp]: "j_Meta (upd_pod_spec f j) = j_Meta j"
  by (simp add: upd_pod_spec_def)

end
