(* ===== verification/Operator_Cfg.thy ===== *)
theory Operator_Cfg
  imports Kube_Types
begin

text \<open>
  \<^verbatim>\<open>operator/cfg/config.go\<close>: the operator's configuration, with the defaults and
  limits derived from it. \<open>ParseQuantity\<close> of the API machinery is a parameter
  (\<open>Some\<close> of the parsed quantity, \<open>None\<close> on a parse error).
\<close>

record Configuration =
  cfg_MountPath :: string
  cfg_BackupAnnotation :: string
  cfg_BackupContainerAnnotation :: string
  cfg_BackupCommandAnnotation :: string
  cfg_FileExtensionAnnotation :: string
  cfg_BackupResticArgsAnnotation :: string
  cfg_RestoreResticArgsAnnotation :: string
  cfg_ServiceAccount :: string
  cfg_BackupCheckSchedule :: string
  cfg_GlobalAccessKey :: string
  cfg_GlobalKeepJobs :: int
  cfg_GlobalFailedJobsHistoryLimit :: int
  cfg_GlobalSuccessfulJobsHistoryLimit :: int
  cfg_GlobalBackoffLimit :: int
  cfg_GlobalRepoPassword :: string
  cfg_GlobalRestoreS3AccessKey :: string
  cfg_GlobalRestoreS3Bucket :: string
  cfg_GlobalRestoreS3Endpoint :: string
  cfg_GlobalRestoreS3SecretAccessKey :: string
  cfg_GlobalS3Bucket :: string
  cfg_GlobalS3Endpoint :: string
  cfg_GlobalSecretAccessKey :: string
  cfg_GlobalStatsURL :: string
  cfg_GlobalConcurrentArchiveJobsLimit :: int
  cfg_GlobalConcurrentBackupJobsLimit :: int
  cfg_GlobalConcurrentCheckJobsLimit :: int
  cfg_GlobalConcurrentPruneJobsLimit :: int
  cfg_GlobalConcurrentRestoreJobsLimit :: int
  cfg_GlobalCPUResourceRequest :: string
  cfg_GlobalCPUResourceLimit :: string
  cfg_GlobalMemoryResourceRequest :: string
  cfg_GlobalMemoryResourceLimit :: string
  cfg_BackupImage :: string
  cfg_BackupImagePullSecret :: string
  cfg_BackupCommandRestic :: "string list"
  cfg_MetricsBindAddress :: string
  cfg_PodExecRoleName :: string
  cfg_PodFilter :: string
  cfg_PromURL :: string
  cfg_ClusterName :: string
  cfg_RestartPolicy :: string
  cfg_SkipWithoutAnnotation :: bool
  cfg_SkipSnapshotSync :: bool
  cfg_EnableRelaxedScheduling :: bool
  cfg_InsecureAllowPodExecSPDYFallback :: bool
  cfg_EnableLeaderElection :: bool
  cfg_OperatorNamespace :: string
  cfg_PodVarDir :: string
  cfg_ResticOptions :: string

text \<open>
  The configuration when no flag and no environment variable is given but the required
  \<^verbatim>\<open>operator-namespace\<close> (\<^verbatim>\<open>Command.Flags\<close> and
  \<^verbatim>\<open>operatorMain\<close> of \<^verbatim>\<open>cmd/operator/main.go\<close>).
\<close>

definition default_config :: "string \<Rightarrow> Configuration" where
  "default_config operatorNamespace = \<lparr>
     cfg_MountPath = ''/data'',
     cfg_BackupAnnotation = ''k8up.io/backup'',
     cfg_BackupContainerAnnotation = [],
     cfg_BackupCommandAnnotation = ''k8up.io/backupcommand'',
     cfg_FileExtensionAnnotation = ''k8up.io/file-extension'',
     cfg_BackupResticArgsAnnotation = ''k8up.io/backup-restic-args'',
     cfg_RestoreResticArgsAnnotation = [],
     cfg_ServiceAccount = ''pod-executor'',
     cfg_BackupCheckSchedule = ''0 0 * * 0'',
     cfg_GlobalAccessKey = [],
     cfg_GlobalKeepJobs = - 1,
     cfg_GlobalFailedJobsHistoryLimit = 3,
     cfg_GlobalSuccessfulJobsHistoryLimit = 3,
     cfg_GlobalBackoffLimit = 6,
     cfg_GlobalRepoPassword = [],
     cfg_GlobalRestoreS3AccessKey = [],
     cfg_GlobalRestoreS3Bucket = [],
     cfg_GlobalRestoreS3Endpoint = [],
     cfg_GlobalRestoreS3SecretAccessKey = [],
     cfg_GlobalS3Bucket = [],
     cfg_GlobalS3Endpoint = [],
     cfg_GlobalSecretAccessKey = [],
     cfg_GlobalStatsURL = [],
     cfg_GlobalConcurrentArchiveJobsLimit = 0,
     cfg_GlobalConcurrentBackupJobsLimit = 0,
     cfg_GlobalConcurrentCheckJobsLimit = 0,
     cfg_GlobalConcurrentPruneJobsLimit = 0,
     cfg_GlobalConcurrentRestoreJobsLimit = 0,
     cfg_GlobalCPUResourceRequest = [],
     cfg_GlobalCPUResourceLimit = [],
     cfg_GlobalMemoryResourceRequest = [],
     cfg_GlobalMemoryResourceLimit = [],
     cfg_BackupImage = ''ghcr.io/k8up-io/k8up:latest'',
     cfg_BackupImagePullSecret = [],
     cfg_BackupCommandRestic = [''/usr/local/bin/k8up'', ''restic''],
     cfg_MetricsBindAddress = '':8080'',
     cfg_PodExecRoleName = ''pod-executor'',
     cfg_PodFilter = ''backupPod=true'',
     cfg_PromURL = ''http://127.0.0.1/'',
     cfg_ClusterName = ''default'',
     cfg_RestartPolicy = ''OnFailure'',
     cfg_SkipWithoutAnnotation = False,
     cfg_SkipSnapshotSync = False,
     cfg_EnableRelaxedScheduling = False,
     cfg_InsecureAllowPodExecSPDYFallback = False,
     cfg_EnableLeaderElection = True,
     cfg_OperatorNamespace = operatorNamespace,
     cfg_PodVarDir = ''/k8up'',
     cfg_ResticOptions = []\<rparr>"

definition RestoreS3EndpointEnvName :: string where
  [k8up_consts]: "RestoreS3EndpointEnvName = ''RESTORE_S3ENDPOINT''"
definition RestoreS3AccessKeyIDEnvName :: string where
  [k8up_consts]: "RestoreS3AccessKeyIDEnvName = ''RESTORE_ACCESSKEYID''"
definition RestoreS3SecretAccessKeyEnvName :: string where
  [k8up_consts]: "RestoreS3SecretAccessKeyEnvName = ''RESTORE_SECRETACCESSKEY''"
definition ResticRepositoryEnvName :: string where
  [k8up_consts]: "ResticRepositoryEnvName = ''RESTIC_REPOSITORY''"
definition ResticPasswordEnvName :: string where
  [k8up_consts]: "ResticPasswordEnvName = ''RESTIC_PASSWORD''"
definition ResticOptionsEnvName :: string where
  [k8up_consts]: "ResticOptionsEnvName = ''RESTIC_OPTIONS''"
definition AwsAccessKeyIDEnvName :: string where
  [k8up_consts]: "AwsAccessKeyIDEnvName = ''AWS_ACCESS_KEY_ID''"
definition AwsSecretAccessKeyEnvName :: string where
  [k8up_consts]: "AwsSecretAccessKeyEnvName = ''AWS_SECRET_ACCESS_KEY''"
definition AzureAccountEnvName :: string where
  [k8up_consts]: "AzureAccountEnvName = ''AZURE_ACCOUNT_NAME''"
definition AzureAccountKeyEnvName :: string where
  [k8up_consts]: "AzureAccountKeyEnvName = ''AZURE_ACCOUNT_KEY''"
definition GcsProjectIDEnvName :: string where
  [k8up_consts]: "GcsProjectIDEnvName = ''GOOGLE_PROJECT_ID''"
definition GcsAccessTokenEnvName :: string where
  [k8up_consts]: "GcsAccessTokenEnvName = ''GOOGLE_ACCESS_TOKEN''"
definition B2AccountIDEnvName :: string where
  [k8up_consts]: "B2AccountIDEnvName = ''B2_ACCOUNT_ID''"
definition B2AccountKeyEnvName :: string where
  [k8up_consts]: "B2AccountKeyEnvName = ''B2_ACCOUNT_KEY''"
definition RestUserEnvName :: string where
  [k8up_consts]: "RestUserEnvName = ''USER''"
definition RestPasswordEnvName :: string where
  [k8up_consts]: "RestPasswordEnvName = ''PASSWORD''"
definition SPDYFallbackEnvName :: string where
  [k8up_consts]: "SPDYFallbackEnvName = ''INSECURE_ALLOW_PODEXEC_SPDY_FALLBACK''"

definition maxInt :: "int \<Rightarrow> int \<Rightarrow> int" where
  "maxInt x y = (if x > y then x else y)"

text \<open>\<^verbatim>\<open>GetGlobalDefaultResources\<close>: each of the four settings that is given and
  parses becomes an entry.\<close>

definition add_quantity ::
  "(string \<Rightarrow> quantity option) \<Rightarrow> string \<Rightarrow> string \<Rightarrow> resource_list \<Rightarrow> resource_list" where
  "add_quantity parse setting key rl =
     (case parse setting of
        Some q \<Rightarrow> if setting \<noteq> [] then rl(key \<mapsto> q) else rl
      | None \<Rightarrow> rl)"

definition GetGlobalDefaultResources ::
  "(string \<Rightarrow> quantity option) \<Rightarrow> Configuration \<Rightarrow> resource_requirements" where
  "GetGlobalDefaultResources parse c =
     (let res = empty_resources;
          res = res\<lparr>rr_Requests := add_quantity parse (cfg_GlobalMemoryResourceRequest c) ''memory'' (rr_Requests res)\<rparr>;
          res = res\<lparr>rr_Requests := add_quantity parse (cfg_GlobalCPUResourceRequest c) ''cpu'' (rr_Requests res)\<rparr>;
          res = res\<lparr>rr_Limits := add_quantity parse (cfg_GlobalMemoryResourceLimit c) ''memory'' (rr_Limits res)\<rparr>;
          res = res\<lparr>rr_Limits := add_quantity parse (cfg_GlobalCPUResourceLimit c) ''cpu'' (rr_Limits res)\<rparr>
      in res)"

definition GetGlobalRepository :: "Configuration \<Rightarrow> string" where
  "GetGlobalRepository c = ''s3:'' @ cfg_GlobalS3Endpoint c @ ''/'' @ cfg_GlobalS3Bucket c"

definition GetGlobalFailedJobsHistoryLimit :: "Configuration \<Rightarrow> int" where
  "GetGlobalFailedJobsHistoryLimit c =
     (if cfg_GlobalKeepJobs c < 0 then maxInt 0 (cfg_GlobalFailedJobsHistoryLimit c)
      else if cfg_GlobalFailedJobsHistoryLimit c < 0 then maxInt 0 (cfg_GlobalKeepJobs c)
      else maxInt 0 (cfg_GlobalFailedJobsHistoryLimit c))"

definition GetGlobalSuccessfulJobsHistoryLimit :: "Configuration \<Rightarrow> int" where
  "GetGlobalSuccessfulJobsHistoryLimit c =
     (if cfg_GlobalKeepJobs c < 0 then maxInt 0 (cfg_GlobalSuccessfulJobsHistoryLimit c)
      else if cfg_GlobalSuccessfulJobsHistoryLimit c < 0 then maxInt 0 (cfg_GlobalKeepJobs c)
      else maxInt 0 (cfg_GlobalSuccessfulJobsHistoryLimit c))"

lemma maxInt_max [simp]: "maxInt x y = max x y"
  by (simp add: maxInt_def)

lemma global_limits_nonneg:
  "0 \<le> GetGlobalFailedJobsHistoryLimit c" "0 \<le> GetGlobalSuccessfulJobsHistoryLimit c"
  by (simp_all add: GetGlobalFailedJobsHistoryLimit_def GetGlobalSuccessfulJobsHistoryLimit_def)

lemma add_quantity_apply:
  "add_quantity parse s key rl k =
     (if k = key \<and> s \<noteq> [] \<and> parse s \<noteq> None then parse s else rl k)"
  by (auto simp: add_quantity_def split: option.splits)

end
