(* ===== verification/Api_Status.thy ===== *)
theory Api_Status
  imports Kube_Types
begin

text \<open>
  \<^verbatim>\<open>api/v1/common_types.go\<close> and \<^verbatim>\<open>api/v1/status.go\<close>: the
  names of job types, conditions, reasons and labels, and the status of a k8up job with its
  queries and updates. All of them go through the condition helpers \<open>M\<close>.
\<close>

section \<open>Names\<close>

type_synonym JobType = string
type_synonym ConditionType = string
type_synonym ConditionReason = string

definition BackupType :: JobType where [k8up_consts]: "BackupType = ''backup''"
definition CheckType :: JobType where [k8up_consts]: "CheckType = ''check''"
definition ArchiveType :: JobType where [k8up_consts]: "ArchiveType = ''archive''"
definition RestoreType :: JobType where [k8up_consts]: "RestoreType = ''restore''"
definition PruneType :: JobType where [k8up_consts]: "PruneType = ''prune''"
definition ScheduleType :: JobType where [k8up_consts]: "ScheduleType = ''schedule''"

definition ConditionCompleted :: ConditionType where
  [k8up_consts]: "ConditionCompleted = ''Completed''"
definition ConditionReady :: ConditionType where
  [k8up_consts]: "ConditionReady = ''Ready''"
definition ConditionScrubbed :: ConditionType where
  [k8up_consts]: "ConditionScrubbed = ''Scrubbed''"
definition ConditionProgressing :: ConditionType where
  [k8up_consts]: "ConditionProgressing = ''Progressing''"
definition ConditionPreBackupPodReady :: ConditionType where
  [k8up_consts]: "ConditionPreBackupPodReady = ''PreBackupPodReady''"

definition ReasonReady :: ConditionReason where [k8up_consts]: "ReasonReady = ''Ready''"
definition ReasonStarted :: ConditionReason where [k8up_consts]: "ReasonStarted = ''Started''"
definition ReasonFinished :: ConditionReason where [k8up_consts]: "ReasonFinished = ''Finished''"
definition ReasonSucceeded :: ConditionReason where [k8up_consts]: "ReasonSucceeded = ''Succeeded''"
definition ReasonFailed :: ConditionReason where [k8up_consts]: "ReasonFailed = ''Failed''"
definition ReasonCreationFailed :: ConditionReason where
  [k8up_consts]: "ReasonCreationFailed = ''CreationFailed''"
definition ReasonDeletionFailed :: ConditionReason where
  [k8up_consts]: "ReasonDeletionFailed = ''DeletionFailed''"
definition ReasonRetrievalFailed :: ConditionReason where
  [k8up_consts]: "ReasonRetrievalFailed = ''RetrievalFailed''"
definition ReasonNoPreBackupPodsFound :: ConditionReason where
  [k8up_consts]: "ReasonNoPreBackupPodsFound = ''NoPreBackupPodsFound''"
definition ReasonWaiting :: ConditionReason where [k8up_consts]: "ReasonWaiting = ''Waiting''"

definition LabelK8upType :: string where [k8up_consts]: "LabelK8upType = ''k8up.io/type''"
definition LabelK8upOwnedBy :: string where [k8up_consts]: "LabelK8upOwnedBy = ''k8up.io/owned-by''"
definition LabelK8upScheduleName :: string where
  [k8up_consts]: "LabelK8upScheduleName = ''k8up.io/schedule-name''"
definition LabelRepositoryHash :: string where
  [k8up_consts]: "LabelRepositoryHash = ''k8up.io/repository-hash''"
definition AnnotationK8upHostname :: string where
  [k8up_consts]: "AnnotationK8upHostname = ''k8up.io/hostname''"

definition MapToNamespacedName :: "object_meta \<Rightarrow> namespaced_name" where
  "MapToNamespacedName om = \<lparr>nn_Namespace = om_Namespace om, nn_Name = om_Name om\<rparr>"

section \<open>The status\<close>

record Status =
  st_Started :: bool
  st_Finished :: bool
  st_Exclusive :: bool
  st_Conditions :: "condition list"

definition empty_status :: Status where
  "empty_status = \<lparr>st_Started = False, st_Finished = False, st_Exclusive = False, st_Conditions = []\<rparr>"

fun matchAnyReason :: "condition \<Rightarrow> ConditionReason list \<Rightarrow> bool" where
  "matchAnyReason c [] = False"
| "matchAnyReason c (r # rs) = (if cond_Reason c = r then True else matchAnyReason c rs)"

definition isPreBackupFailed :: "condition \<Rightarrow> bool" where
  "isPreBackupFailed c =
     (\<not> matchAnyReason c [ReasonSucceeded, ReasonWaiting, ReasonNoPreBackupPodsFound, ReasonReady])"

definition HasFailedPreBackup :: "meta_api \<Rightarrow> Status \<Rightarrow> bool" where
  "HasFailedPreBackup M s =
     (case FindStatusCondition M (st_Conditions s) ConditionPreBackupPodReady of
        Some c \<Rightarrow> if isPreBackupFailed c then cond_Status c = ConditionFalse else False
      | None \<Rightarrow> False)"

definition HasFailed :: "meta_api \<Rightarrow> Status \<Rightarrow> bool" where
  "HasFailed M s =
     (if HasFailedPreBackup M s then True
      else case FindStatusCondition M (st_Conditions s) ConditionCompleted of
        Some c \<Rightarrow> if \<not> matchAnyReason c [ReasonSucceeded] then cond_Status c = ConditionTrue else False
      | None \<Rightarrow> False)"

definition HasSucceeded :: "meta_api \<Rightarrow> Status \<Rightarrow> bool" where
  "HasSucceeded M s =
     (if HasFailedPreBackup M s then False
      else case FindStatusCondition M (st_Conditions s) ConditionCompleted of
        Some c \<Rightarrow> if matchAnyReason c [ReasonSucceeded] then cond_Status c = ConditionTrue else False
      | None \<Rightarrow> False)"

definition HasFinished :: "meta_api \<Rightarrow> Status \<Rightarrow> bool" where
  "HasFinished M s \<longleftrightarrow> HasFailed M s \<or> HasSucceeded M s"

definition HasStarted :: "meta_api \<Rightarrow> Status \<Rightarrow> bool" where
  "HasStarted M s =
     (case FindStatusCondition M (st_Conditions s) ConditionProgressing of
        Some c \<Rightarrow> if matchAnyReason c [ReasonStarted] then cond_Status c = ConditionTrue else False
      | None \<Rightarrow> False)"

definition IsWaitingForPreBackup :: "meta_api \<Rightarrow> Status \<Rightarrow> bool" where
  "IsWaitingForPreBackup M s =
     (case FindStatusCondition M (st_Conditions s) ConditionPreBackupPodReady of
        Some c \<Rightarrow> if matchAnyReason c [ReasonWaiting] then cond_Status c = ConditionUnknown else False
      | None \<Rightarrow> False)"

definition SetCondition ::
  "meta_api \<Rightarrow> ConditionType \<Rightarrow> ConditionReason \<Rightarrow> condition_status \<Rightarrow> string \<Rightarrow> Status \<Rightarrow> Status" where
  "SetCondition M typ reason status message s =
     s\<lparr>st_Conditions := SetStatusCondition M (st_Conditions s)
         \<lparr>cond_Type = typ, cond_Status = status, cond_Reason = reason, cond_Message = message\<rparr>\<rparr>"

definition SetStarted :: "meta_api \<Rightarrow> string \<Rightarrow> Status \<Rightarrow> Status" where
  "SetStarted M message s =
     (let s = s\<lparr>st_Started := True\<rparr>;
          s = s\<lparr>st_Conditions := SetStatusCondition M (st_Conditions s)
                 \<lparr>cond_Type = ConditionReady, cond_Status = ConditionTrue,
                  cond_Reason = ReasonReady, cond_Message = message\<rparr>\<rparr>
      in s\<lparr>st_Conditions := SetStatusCondition M (st_Conditions s)
             \<lparr>cond_Type = ConditionProgressing, cond_Status = ConditionTrue,
              cond_Reason = ReasonStarted, cond_Message = ''The job is progressing''\<rparr>\<rparr>)"

definition SetFinished :: "meta_api \<Rightarrow> string \<Rightarrow> Status \<Rightarrow> Status" where
  "SetFinished M message s =
     (let s = s\<lparr>st_Finished := True\<rparr>;
          s = s\<lparr>st_Conditions := SetStatusCondition M (st_Conditions s)
                 \<lparr>cond_Type = ConditionProgressing, cond_Status = ConditionFalse,
                  cond_Reason = ReasonFinished, cond_Message = message\<rparr>\<rparr>
      in s\<lparr>st_Conditions := RemoveStatusCondition M (st_Conditions s) ConditionReady\<rparr>)"

definition SetFailed :: "meta_api \<Rightarrow> string \<Rightarrow> Status \<Rightarrow> Status" where
  "SetFailed M message s =
     s\<lparr>st_Conditions := SetStatusCondition M (st_Conditions s)
         \<lparr>cond_Type = ConditionCompleted, cond_Status = ConditionTrue,
          cond_Reason = ReasonFailed, cond_Message = message\<rparr>\<rparr>"

definition SetSucceeded :: "meta_api \<Rightarrow> string \<Rightarrow> Status \<Rightarrow> Status" where
  "SetSucceeded M message s =
     s\<lparr>st_Conditions := SetStatusCondition M (st_Conditions s)
         \<lparr>cond_Type = ConditionCompleted, cond_Status = ConditionTrue,
          cond_Reason = ReasonSucceeded, cond_Message = message\<rparr>\<rparr>"

lemmas status_queries =
  HasFinished_def HasFailed_def HasSucceeded_def HasFailedPreBackup_def HasStarted_def
  IsWaitingForPreBackup_def isPreBackupFailed_def

lemmas status_updates =
  SetCondition_def SetStarted_def SetFinished_def SetFailed_def SetSucceeded_def Let_def

section \<open>Lemmas\<close>

lemma matchAnyReason_iff: "matchAnyReason c rs \<longleftrightarrow> cond_Reason c \<in> set rs"
  by (induction rs) auto

text \<open>The names of the condition types are pairwise different, and so are the reasons.\<close>

lemma condition_types_distinct:
  "distinct [ConditionCompleted, ConditionReady, ConditionScrubbed, ConditionProgressing,
     ConditionPreBackupPodReady]"
  by (simp add: k8up_consts)

lemma failed_not_succeeded: "HasFailed M s \<Longrightarrow> \<not> HasSucceeded M s"
  by (auto simp: HasFailed_def HasSucceeded_def split: if_splits option.splits)

text \<open>
  The queries read three conditions only; a status in which these are found with the same
  contents answers them the same way.
\<close>

lemma queries_cong:
  assumes "FindStatusCondition M (st_Conditions s) ConditionPreBackupPodReady =
           FindStatusCondition M (st_Conditions s') ConditionPreBackupPodReady"
  shows "HasFailedPreBackup M s = HasFailedPreBackup M s'"
    "IsWaitingForPreBackup M s = IsWaitingForPreBackup M s'"
  using assms by (simp_all add: HasFailedPreBackup_def IsWaitingForPreBackup_def)

context meta_laws
begin

lemma set_started_started: "HasStarted M (SetStarted M msg s)"
  by (simp add: HasStarted_def SetStarted_def Let_def find_set k8up_consts)

lemma set_started_frame:
  "HasFailed M (SetStarted M msg s) = HasFailed M s"
  "HasSucceeded M (SetStarted M msg s) = HasSucceeded M s"
  "HasFailedPreBackup M (SetStarted M msg s) = HasFailedPreBackup M s"
  by (simp_all add: status_queries status_updates find_set k8up_consts)

lemma set_finished_not_started: "\<not> HasStarted M (SetFinished M msg s)"
  by (simp add: HasStarted_def SetFinished_def Let_def find_set find_remove k8up_consts)

lemma set_finished_frame:
  "HasFailed M (SetFinished M msg s) = HasFailed M s"
  "HasSucceeded M (SetFinished M msg s) = HasSucceeded M s"
  "HasFailedPreBackup M (SetFinished M msg s) = HasFailedPreBackup M s"
  by (simp_all add: status_queries status_updates find_set find_remove k8up_consts)

lemma set_failed_failed: "HasFailed M (SetFailed M msg s)"
  by (simp add: status_queries status_updates find_set k8up_consts)

lemma set_succeeded_prebackup:
  "HasFailedPreBackup M (SetSucceeded M msg s) = HasFailedPreBackup M s"
  "HasFailedPreBackup M (SetFailed M msg s) = HasFailedPreBackup M s"
  by (simp_all add: status_queries status_updates find_set k8up_consts)

lemma set_succeeded_succeeded: "HasSucceeded M (SetSucceeded M msg s) \<longleftrightarrow> \<not> HasFailedPreBackup M s"
  by (simp add: HasSucceeded_def set_succeeded_prebackup)
    (simp add: status_updates find_set k8up_consts)

lemma set_completed_started:
  "HasStarted M (SetSucceeded M msg s) = HasStarted M s"
  "HasStarted M (SetFailed M msg s) = HasStarted M s"
  by (simp_all add: status_queries status_updates find_set k8up_consts)

lemma find_set_condition:
  "FindStatusCondition M (st_Conditions (SetCondition M typ r status msg s)) t =
     (if t = typ then Some \<lparr>cond_Type = typ, cond_Status = status, cond_Reason = r, cond_Message = msg\<rparr>
      else FindStatusCondition M (st_Conditions s) t)"
  by (simp add: SetCondition_def find_set)

lemma set_condition_frame:
  assumes "typ \<noteq> ConditionPreBackupPodReady" "typ \<noteq> ConditionCompleted"
  shows "HasFailed M (SetCondition M typ r status msg s) = HasFailed M s"
    "HasSucceeded M (SetCondition M typ r status msg s) = HasSucceeded M s"
  using assms not_sym [OF assms(1)] not_sym [OF assms(2)]
  by (simp_all add: status_queries find_set_condition)

lemma set_condition_started:
  "typ \<noteq> ConditionProgressing \<Longrightarrow>
   HasStarted M (SetCondition M typ r status msg s) = HasStarted M s"
  using not_sym by (simp add: HasStarted_def find_set_condition)

text \<open>A condition is a pre-backup failure exactly when its reason is none of the four good ones.\<close>

lemma set_prebackup_failed:
  "HasFailedPreBackup M (SetCondition M ConditionPreBackupPodReady r status msg s) \<longleftrightarrow>
     r \<notin> {ReasonSucceeded, ReasonWaiting, ReasonNoPreBackupPodsFound, ReasonReady} \<and>
     status = ConditionFalse"
  by (auto simp: HasFailedPreBackup_def isPreBackupFailed_def find_set_condition matchAnyReason_iff)

end

end
