(* ===== verification/Api_Backend.thy ===== *)
theory Api_Backend
  imports Operator_Cfg Api_Status
begin

text \<open>
  \<^verbatim>\<open>api/v1/backend.go\<close> and \<^verbatim>\<open>api/v1/runnable_types.go\<close>: the
  storage backends, their repository strings and credential variables, and the spec shared by
  all jobs. A Go pointer is an \<open>option\<close>.
\<close>

section \<open>Data\<close>

record TLSOptions =
  tls_CACert :: string
  tls_ClientCert :: string
  tls_ClientKey :: string

record LocalSpec =
  local_MountPath :: string

record S3Spec =
  s3_Endpoint :: string
  s3_Bucket :: string
  s3_AccessKeyIDSecretRef :: "secret_key_selector option"
  s3_SecretAccessKeySecretRef :: "secret_key_selector option"

record GCSSpec =
  gcs_Bucket :: string
  gcs_ProjectIDSecretRef :: "secret_key_selector option"
  gcs_AccessTokenSecretRef :: "secret_key_selector option"

record AzureSpec =
  az_Container :: string
  az_Path :: string
  az_AccountNameSecretRef :: "secret_key_selector option"
  az_AccountKeySecretRef :: "secret_key_selector option"

record SwiftSpec =
  swift_Container :: string
  swift_Path :: string

record B2Spec =
  b2_Bucket :: string
  b2_Path :: string
  b2_AccountIDSecretRef :: "secret_key_selector option"
  b2_AccountKeySecretRef :: "secret_key_selector option"

record RestServerSpec =
  rest_URL :: string
  rest_UserSecretRef :: "secret_key_selector option"
  rest_PasswordSecretReg :: "secret_key_selector option"

record Backend =
  be_RepoPasswordSecretRef :: "secret_key_selector option"
  be_EnvFrom :: "env_from_source list"
  be_Local :: "LocalSpec option"
  be_S3 :: "S3Spec option"
  be_GCS :: "GCSSpec option"
  be_Azure :: "AzureSpec option"
  be_Swift :: "SwiftSpec option"
  be_B2 :: "B2Spec option"
  be_Rest :: "RestServerSpec option"
  be_TLSOptions :: "TLSOptions option"
  be_VolumeMounts :: "volume_mount list option"

text \<open>The values a \<^verbatim>\<open>BackendInterface\<close> can hold.\<close>

datatype BackendInterface =
    AzureBackend AzureSpec
  | B2Backend B2Spec
  | GCSBackend GCSSpec
  | LocalBackend LocalSpec
  | RestBackend RestServerSpec
  | S3Backend S3Spec
  | SwiftBackend SwiftSpec

type_synonym env_sources = "string \<rightharpoonup> env_var_source"

section \<open>Operations\<close>

definition addEnvVarFromSecret :: "env_sources \<Rightarrow> string \<Rightarrow> secret_key_selector option \<Rightarrow> env_sources" where
  "addEnvVarFromSecret vars key ref =
     (case ref of None \<Rightarrow> vars | Some r \<Rightarrow> vars(key \<mapsto> \<lparr>evs_SecretKeyRef = Some r\<rparr>))"

definition LocalSpec_EnvVars :: "LocalSpec \<Rightarrow> env_sources \<Rightarrow> env_sources" where
  [simp]: "LocalSpec_EnvVars s vars = vars"

definition S3Spec_EnvVars :: "S3Spec \<Rightarrow> env_sources \<Rightarrow> env_sources" where
  [simp]: "S3Spec_EnvVars s vars =
     addEnvVarFromSecret (addEnvVarFromSecret vars AwsAccessKeyIDEnvName (s3_AccessKeyIDSecretRef s)) AwsSecretAccessKeyEnvName (s3_SecretAccessKeySecretRef s)"

definition GCSSpec_EnvVars :: "GCSSpec \<Rightarrow> env_sources \<Rightarrow> env_sources" where
  [simp]: "GCSSpec_EnvVars s vars =
     addEnvVarFromSecret (addEnvVarFromSecret vars GcsProjectIDEnvName (gcs_ProjectIDSecretRef s)) GcsAccessTokenEnvName (gcs_AccessTokenSecretRef s)"

definition AzureSpec_EnvVars :: "AzureSpec \<Rightarrow> env_sources \<Rightarrow> env_sources" where
  [simp]: "AzureSpec_EnvVars s vars =
     addEnvVarFromSecret (addEnvVarFromSecret vars AzureAccountKeyEnvName (az_AccountKeySecretRef s)) AzureAccountEnvName (az_AccountNameSecretRef s)"

definition SwiftSpec_EnvVars :: "SwiftSpec \<Rightarrow> env_sources \<Rightarrow> env_sources" where
  [simp]: "SwiftSpec_EnvVars s vars = vars"

definition B2Spec_EnvVars :: "B2Spec \<Rightarrow> env_sources \<Rightarrow> env_sources" where
  [simp]: "B2Spec_EnvVars s vars =
     addEnvVarFromSecret (addEnvVarFromSecret vars B2AccountIDEnvName (b2_AccountIDSecretRef s)) B2AccountKeyEnvName (b2_AccountKeySecretRef s)"

definition RestServerSpec_EnvVars :: "RestServerSpec \<Rightarrow> env_sources \<Rightarrow> env_sources" where
  [simp]: "RestServerSpec_EnvVars s vars =
     addEnvVarFromSecret (addEnvVarFromSecret vars RestPasswordEnvName (rest_PasswordSecretReg s)) RestUserEnvName (rest_UserSecretRef s)"

fun EnvVars :: "BackendInterface \<Rightarrow> env_sources \<Rightarrow> env_sources" where
  "EnvVars (LocalBackend s) vars = LocalSpec_EnvVars s vars"
| "EnvVars (S3Backend s) vars = S3Spec_EnvVars s vars"
| "EnvVars (GCSBackend s) vars = GCSSpec_EnvVars s vars"
| "EnvVars (AzureBackend s) vars = AzureSpec_EnvVars s vars"
| "EnvVars (SwiftBackend s) vars = SwiftSpec_EnvVars s vars"
| "EnvVars (B2Backend s) vars = B2Spec_EnvVars s vars"
| "EnvVars (RestBackend s) vars = RestServerSpec_EnvVars s vars"

definition S3Spec_String :: "Configuration \<Rightarrow> S3Spec \<Rightarrow> string" where
  "S3Spec_String cfg s =
     (let endpoint = cfg_GlobalS3Endpoint cfg;
          endpoint = (if s3_Endpoint s \<noteq> [] then s3_Endpoint s else endpoint);
          endpoint = TrimRight endpoint (CHR ''/'');
          bucket = cfg_GlobalS3Bucket cfg;
          bucket = (if s3_Bucket s \<noteq> [] then s3_Bucket s else bucket)
      in ''s3:'' @ endpoint @ ''/'' @ bucket)"

definition AzureSpec_String :: "AzureSpec \<Rightarrow> string" where
  "AzureSpec_String s =
     (let path = (if az_Path s \<noteq> [] then az_Path s else ''/'')
      in ''azure:'' @ az_Container s @ '':'' @ path)"

definition RestServerSpec_String :: "RestServerSpec \<Rightarrow> string" where
  "RestServerSpec_String s =
     (case Cut (rest_URL s) ''://'' of (protocol, url, _) \<Rightarrow>
        ''rest:'' @ protocol @ ''://'' @ ''$(USER)'' @ '':'' @ ''$(PASSWORD)'' @ ''@'' @ url)"

definition LocalSpec_String :: "LocalSpec \<Rightarrow> string" where
  [simp]: "LocalSpec_String s = local_MountPath s"

definition GCSSpec_String :: "GCSSpec \<Rightarrow> string" where
  [simp]: "GCSSpec_String s = ''gs:'' @ gcs_Bucket s @ '':/''"

definition SwiftSpec_String :: "SwiftSpec \<Rightarrow> string" where
  [simp]: "SwiftSpec_String s = ''swift:'' @ swift_Container s @ '':'' @ swift_Path s"

definition B2Spec_String :: "B2Spec \<Rightarrow> string" where
  [simp]: "B2Spec_String s = ''b2:'' @ b2_Bucket s @ '':'' @ b2_Path s"

fun BackendInterface_String :: "Configuration \<Rightarrow> BackendInterface \<Rightarrow> string" where
  "BackendInterface_String cfg (LocalBackend s) = LocalSpec_String s"
| "BackendInterface_String cfg (S3Backend s) = S3Spec_String cfg s"
| "BackendInterface_String cfg (GCSBackend s) = GCSSpec_String s"
| "BackendInterface_String cfg (AzureBackend s) = AzureSpec_String s"
| "BackendInterface_String cfg (SwiftBackend s) = SwiftSpec_String s"
| "BackendInterface_String cfg (B2Backend s) = B2Spec_String s"
| "BackendInterface_String cfg (RestBackend s) = RestServerSpec_String s"

definition getSupportedBackends :: "Backend \<Rightarrow> BackendInterface option list" where
  "getSupportedBackends b =
     [map_option AzureBackend (be_Azure b), map_option B2Backend (be_B2 b),
      map_option GCSBackend (be_GCS b), map_option LocalBackend (be_Local b),
      map_option RestBackend (be_Rest b), map_option S3Backend (be_S3 b),
      map_option SwiftBackend (be_Swift b)]"

text \<open>The loops that skip the nil backends and return at the first other one.\<close>

fun first_backend :: "BackendInterface option list \<Rightarrow> BackendInterface option" where
  "first_backend [] = None"
| "first_backend (None # bs) = first_backend bs"
| "first_backend (Some b # bs) = Some b"

definition GetCredentialEnv :: "Backend \<Rightarrow> env_sources" where
  "GetCredentialEnv b =
     (let vars = Map.empty;
          vars = (case be_RepoPasswordSecretRef b of
                    Some r \<Rightarrow> vars(ResticPasswordEnvName \<mapsto> \<lparr>evs_SecretKeyRef = Some r\<rparr>)
                  | None \<Rightarrow> vars)
      in case first_backend (getSupportedBackends b) of
           Some be \<Rightarrow> EnvVars be vars
         | None \<Rightarrow> Map.empty)"

definition Backend_String :: "Configuration \<Rightarrow> Backend \<Rightarrow> string" where
  "Backend_String cfg b =
     (case first_backend (getSupportedBackends b) of
        Some be \<Rightarrow> BackendInterface_String cfg be
      | None \<Rightarrow> [])"

definition IsBackendEqualTo :: "Configuration \<Rightarrow> Backend \<Rightarrow> Backend option \<Rightarrow> bool" where
  "IsBackendEqualTo cfg b other =
     (case other of None \<Rightarrow> False | Some o' \<Rightarrow> Backend_String cfg b = Backend_String cfg o')"

text \<open>\<^verbatim>\<open>S3Spec.RestoreEnvVars\<close>, also on a nil receiver.\<close>

definition RestoreEnvVars :: "Configuration \<Rightarrow> S3Spec option \<Rightarrow> (string \<rightharpoonup> env_var)" where
  "RestoreEnvVars cfg receiver =
     (case receiver of
        None \<Rightarrow> Map.empty
      | Some s \<Rightarrow>
         (let vars = Map.empty;
              vars = (case s3_AccessKeyIDSecretRef s of
                        Some r \<Rightarrow> vars(RestoreS3AccessKeyIDEnvName \<mapsto>
                          \<lparr>ev_Name = [], ev_Value = [], ev_ValueFrom = Some \<lparr>evs_SecretKeyRef = Some r\<rparr>\<rparr>)
                      | None \<Rightarrow> vars(RestoreS3AccessKeyIDEnvName \<mapsto>
                          \<lparr>ev_Name = [], ev_Value = cfg_GlobalRestoreS3AccessKey cfg, ev_ValueFrom = None\<rparr>));
              vars = (case s3_SecretAccessKeySecretRef s of
                        Some r \<Rightarrow> vars(RestoreS3SecretAccessKeyEnvName \<mapsto>
                          \<lparr>ev_Name = [], ev_Value = [], ev_ValueFrom = Some \<lparr>evs_SecretKeyRef = Some r\<rparr>\<rparr>)
                      | None \<Rightarrow> vars(RestoreS3SecretAccessKeyEnvName \<mapsto>
                          \<lparr>ev_Name = [], ev_Value = cfg_GlobalRestoreS3SecretAccessKey cfg, ev_ValueFrom = None\<rparr>));
              bucket = (if s3_Bucket s = [] then cfg_GlobalRestoreS3Bucket cfg else s3_Bucket s);
              endpoint = (if s3_Endpoint s = [] then cfg_GlobalRestoreS3Endpoint cfg else s3_Endpoint s)
          in vars(RestoreS3EndpointEnvName \<mapsto>
               \<lparr>ev_Name = [], ev_Value = endpoint @ ''/'' @ bucket, ev_ValueFrom = None\<rparr>)))"

section \<open>The runnable spec\<close>

record RunnableVolumeSpec =
  rv_Name :: string
  rv_PersistentVolumeClaim :: "pvc_volume_source option"
  rv_Secret :: "string option"
  rv_ConfigMap :: "string option"

record RunnableSpec =
  rs_Backend :: "Backend option"
  rs_Resources :: resource_requirements
  rs_PodSecurityContext :: "pod_security_context option"
  rs_PodConfigRef :: "string option"
  rs_Volumes :: "RunnableVolumeSpec list option"
  rs_ActiveDeadlineSeconds :: "int option"

definition empty_runnable :: RunnableSpec where
  "empty_runnable = \<lparr>rs_Backend = None, rs_Resources = empty_resources, rs_PodSecurityContext = None,
     rs_PodConfigRef = None, rs_Volumes = None, rs_ActiveDeadlineSeconds = None\<rparr>"

definition AppendEnvFromToContainer :: "RunnableSpec \<Rightarrow> container \<Rightarrow> container" where
  "AppendEnvFromToContainer r c =
     (case rs_Backend r of
        Some b \<Rightarrow> c\<lparr>ctr_EnvFrom := ctr_EnvFrom c @ be_EnvFrom b\<rparr>
      | None \<Rightarrow> c)"

text \<open>
  The start of every \<^verbatim>\<open>Provision\<close>: the repository of the object's backend, or the
  global one.
\<close>

definition repository_of :: "Configuration \<Rightarrow> Backend option \<Rightarrow> string" where
  "repository_of cfg backend =
     (case backend of Some b \<Rightarrow> Backend_String cfg b | None \<Rightarrow> GetGlobalRepository cfg)"

section \<open>Lemmas\<close>

lemma first_backend_None: "first_backend bs = None \<longleftrightarrow> set bs \<subseteq> {None}"
  by (induction bs rule: first_backend.induct) auto

text \<open>Each backend's variables are named by constants that differ from the password's.\<close>

lemma EnvVars_keeps_password:
  "EnvVars be vars ResticPasswordEnvName = vars ResticPasswordEnvName"
  by (cases be) (auto simp: addEnvVarFromSecret_def k8up_consts split: option.splits)

lemma EnvVars_secret:
  "EnvVars be vars k = Some v \<Longrightarrow> vars k = Some v \<or> evs_SecretKeyRef v \<noteq> None"
  by (cases be) (auto simp: addEnvVarFromSecret_def split: option.splits if_splits)

lemma GetCredentialEnv_secret:
  "GetCredentialEnv b k = Some v \<Longrightarrow> \<exists>r. evs_SecretKeyRef v = Some r"
  using EnvVars_secret [of _ _ k v]
  by (fastforce simp: GetCredentialEnv_def Let_def split: option.splits if_splits)

lemma S3_trailing_slash:
  assumes "s3_Endpoint s \<noteq> []"
  shows "S3Spec_String cfg (s\<lparr>s3_Endpoint := s3_Endpoint s @ replicate n (CHR ''/'')\<rparr>) = S3Spec_String cfg s"
proof -
  have "dropWhile (\<lambda>x. x = CHR ''/'') (replicate n (CHR ''/'') @ t) =
        dropWhile (\<lambda>x. x = CHR ''/'') t" for t
    by (induction n) auto
  then show ?thesis
    using assms by (simp add: S3Spec_String_def Let_def TrimRight_def)
qed

end
