(* ===== verification/Api_Resources.thy ===== *)
theory Api_Resources
  imports Api_Backend
begin

text \<open>
  The custom resources of \<^verbatim>\<open>api/v1\<close> (\<^verbatim>\<open>*_types.go\<close>): their specs and the methods
  with which each implements \<^verbatim>\<open>JobObject\<close>. An embedded struct is a field; an embedded nil
  pointer panics when a promoted field is read.
\<close>

section \<open>Specs\<close>

record BackupSpec =
  bs_RunnableSpec :: RunnableSpec
  bs_KeepJobs :: "int option"
  bs_FailedJobsHistoryLimit :: "int option"
  bs_SuccessfulJobsHistoryLimit :: "int option"
  bs_PromURL :: string
  bs_ClusterName :: string
  bs_StatsURL :: string
  bs_Tags :: "string list"
  bs_LabelSelectors :: "string list option" \<comment> \<open>selectors by their textual form\<close>

record FolderRestore =
  fr_PersistentVolumeClaim :: "pvc_volume_source option"

record RestoreMethod =
  rm_S3 :: "S3Spec option"
  rm_Folder :: "FolderRestore option"
  rm_TLSOptions :: "TLSOptions option"
  rm_VolumeMounts :: "volume_mount list option"

record RestoreSpec =
  res_RunnableSpec :: RunnableSpec
  res_RestoreMethod :: "RestoreMethod option"
  res_RestoreFilter :: string
  res_RestoreTimeFilter :: string
  res_Snapshot :: string
  res_KeepJobs :: "int option"
  res_FailedJobsHistoryLimit :: "int option"
  res_SuccessfulJobsHistoryLimit :: "int option"
  res_Tags :: "string list"
  res_Paths :: "string list"
  res_Delete :: bool

definition empty_restore_spec :: RestoreSpec where
  "empty_restore_spec = \<lparr>res_RunnableSpec = empty_runnable, res_RestoreMethod = None,
     res_RestoreFilter = [], res_RestoreTimeFilter = [], res_Snapshot = [], res_KeepJobs = None,
     res_FailedJobsHistoryLimit = None, res_SuccessfulJobsHistoryLimit = None, res_Tags = [],
     res_Paths = [], res_Delete = False\<rparr>"

record ArchiveSpec =
  as_RestoreSpec :: "RestoreSpec option"

record RetentionPolicy =
  rp_KeepLast :: int
  rp_KeepHourly :: int
  rp_KeepDaily :: int
  rp_KeepWeekly :: int
  rp_KeepMonthly :: int
  rp_KeepYearly :: int
  rp_KeepTags :: "string list"
  rp_Tags :: "string list"
  rp_Hostnames :: "string list"

record PruneSpec =
  prs_RunnableSpec :: RunnableSpec
  prs_Retention :: RetentionPolicy
  prs_KeepJobs :: "int option"
  prs_FailedJobsHistoryLimit :: "int option"
  prs_SuccessfulJobsHistoryLimit :: "int option"

record CheckSpec =
  cs_RunnableSpec :: RunnableSpec
  cs_PromURL :: string
  cs_ClusterName :: string
  cs_KeepJobs :: "int option"
  cs_FailedJobsHistoryLimit :: "int option"
  cs_SuccessfulJobsHistoryLimit :: "int option"

section \<open>Schedules\<close>

type_synonym ScheduleDefinition = string

record ScheduleCommon =
  sc_Schedule :: ScheduleDefinition
  sc_ConcurrentRunsAllowed :: bool

record RestoreSchedule =
  rsch_Spec :: RestoreSpec
  rsch_Common :: "ScheduleCommon option"

record BackupSchedule =
  bsch_Spec :: BackupSpec
  bsch_Common :: "ScheduleCommon option"

record ArchiveSchedule =
  asch_Spec :: ArchiveSpec
  asch_Common :: "ScheduleCommon option"

record CheckSchedule =
  csch_Spec :: CheckSpec
  csch_Common :: "ScheduleCommon option"

record PruneSchedule =
  psch_Spec :: PruneSpec
  psch_Common :: "ScheduleCommon option"

record ScheduleSpec =
  ss_Restore :: "RestoreSchedule option"
  ss_Backup :: "BackupSchedule option"
  ss_Archive :: "ArchiveSchedule option"
  ss_Check :: "CheckSchedule option"
  ss_Prune :: "PruneSchedule option"
  ss_Backend :: "Backend option"
  ss_KeepJobs :: "int option"
  ss_FailedJobsHistoryLimit :: "int option"
  ss_SuccessfulJobsHistoryLimit :: "int option"
  ss_ResourceRequirementsTemplate :: resource_requirements
  ss_PodSecurityContext :: "pod_security_context option"
  ss_PodConfigRef :: "string option"

record EffectiveSchedule =
  es_JobType :: JobType
  es_GeneratedSchedule :: ScheduleDefinition

record ScheduleStatus =
  sst_Conditions :: "condition list"
  sst_EffectiveSchedules :: "EffectiveSchedule list"

definition ScheduleFinalizerName :: string where
  [k8up_consts]: "ScheduleFinalizerName = ''k8up.io/schedule''"
definition LegacyScheduleFinalizerName :: string where
  [k8up_consts]: "LegacyScheduleFinalizerName = ''k8up.syn.tools/schedule''"

section \<open>Resources\<close>

record Backup =
  b_Meta :: object_meta
  b_Spec :: BackupSpec
  b_Status :: Status

record Check =
  c_Meta :: object_meta
  c_Spec :: CheckSpec
  c_Status :: Status

record Archive =
  a_Meta :: object_meta
  a_Spec :: ArchiveSpec
  a_Status :: Status

record Restore =
  r_Meta :: object_meta
  r_Spec :: RestoreSpec
  r_Status :: Status

record Prune =
  p_Meta :: object_meta
  p_Spec :: PruneSpec
  p_Status :: Status

record Schedule =
  s_Meta :: object_meta
  s_Spec :: ScheduleSpec
  s_Status :: ScheduleStatus

section \<open>Methods\<close>

subsection \<open>Backup\<close>

definition Backup_GetType :: "Backup \<Rightarrow> JobType" where
  [simp]: "Backup_GetType b = BackupType"

definition Backup_GetStatus :: "Backup \<Rightarrow> Status" where
  [simp]: "Backup_GetStatus b = b_Status b"

definition Backup_SetStatus :: "Status \<Rightarrow> Backup \<Rightarrow> Backup" where
  [simp]: "Backup_SetStatus status b = b\<lparr>b_Status := status\<rparr>"

definition Backup_GetResources :: "Backup \<Rightarrow> resource_requirements" where
  [simp]: "Backup_GetResources b = rs_Resources (bs_RunnableSpec (b_Spec b))"

definition Backup_GetPodSecurityContext :: "Backup \<Rightarrow> pod_security_context option" where
  [simp]: "Backup_GetPodSecurityContext b = rs_PodSecurityContext (bs_RunnableSpec (b_Spec b))"

definition Backup_GetActiveDeadlineSeconds :: "Backup \<Rightarrow> int option" where
  [simp]: "Backup_GetActiveDeadlineSeconds b = rs_ActiveDeadlineSeconds (bs_RunnableSpec (b_Spec b))"

definition Backup_GetFailedJobsHistoryLimit :: "Backup \<Rightarrow> int option" where
  "Backup_GetFailedJobsHistoryLimit b =
     (if bs_FailedJobsHistoryLimit (b_Spec b) \<noteq> None then bs_FailedJobsHistoryLimit (b_Spec b)
      else bs_KeepJobs (b_Spec b))"

definition Backup_GetSuccessfulJobsHistoryLimit :: "Backup \<Rightarrow> int option" where
  "Backup_GetSuccessfulJobsHistoryLimit b =
     (if bs_SuccessfulJobsHistoryLimit (b_Spec b) \<noteq> None then bs_SuccessfulJobsHistoryLimit (b_Spec b)
      else bs_KeepJobs (b_Spec b))"

subsection \<open>Check\<close>

definition Check_GetType :: "Check \<Rightarrow> JobType" where
  [simp]: "Check_GetType c = CheckType"

definition Check_GetStatus :: "Check \<Rightarrow> Status" where
  [simp]: "Check_GetStatus c = c_Status c"

definition Check_SetStatus :: "Status \<Rightarrow> Check \<Rightarrow> Check" where
  [simp]: "Check_SetStatus status c = c\<lparr>c_Status := status\<rparr>"

definition Check_GetResources :: "Check \<Rightarrow> resource_requirements" where
  [simp]: "Check_GetResources c = rs_Resources (cs_RunnableSpec (c_Spec c))"

definition Check_GetPodSecurityContext :: "Check \<Rightarrow> pod_security_context option" where
  [simp]: "Check_GetPodSecurityContext c = rs_PodSecurityContext (cs_RunnableSpec (c_Spec c))"

definition Check_GetActiveDeadlineSeconds :: "Check \<Rightarrow> int option" where
  [simp]: "Check_GetActiveDeadlineSeconds c = rs_ActiveDeadlineSeconds (cs_RunnableSpec (c_Spec c))"

definition Check_GetFailedJobsHistoryLimit :: "Check \<Rightarrow> int option" where
  "Check_GetFailedJobsHistoryLimit c =
     (if cs_FailedJobsHistoryLimit (c_Spec c) \<noteq> None then cs_FailedJobsHistoryLimit (c_Spec c)
      else cs_KeepJobs (c_Spec c))"

definition Check_GetSuccessfulJobsHistoryLimit :: "Check \<Rightarrow> int option" where
  "Check_GetSuccessfulJobsHistoryLimit c =
     (if cs_SuccessfulJobsHistoryLimit (c_Spec c) \<noteq> None then cs_SuccessfulJobsHistoryLimit (c_Spec c)
      else cs_KeepJobs (c_Spec c))"

subsection \<open>Archive\<close>

definition Archive_GetType :: "Archive \<Rightarrow> JobType" where
  [simp]: "Archive_GetType a = ArchiveType"

definition Archive_GetStatus :: "Archive \<Rightarrow> Status" where
  [simp]: "Archive_GetStatus a = a_Status a"

definition Archive_SetStatus :: "Status \<Rightarrow> Archive \<Rightarrow> Archive" where
  [simp]: "Archive_SetStatus status a = a\<lparr>a_Status := status\<rparr>"

text \<open>A promoted field of \<^verbatim>\<open>Archive.Spec\<close> is read through \<^verbatim>\<open>*RestoreSpec\<close>.\<close>

definition archive_spec :: "Archive \<Rightarrow> RestoreSpec result" where
  "archive_spec a = (case as_RestoreSpec (a_Spec a) of
     Some r \<Rightarrow> Inr r | None \<Rightarrow> Inl (Panic ''nil pointer dereference''))"

definition Archive_GetResources :: "Archive \<Rightarrow> resource_requirements result" where
  [simp]: "Archive_GetResources a = map_sum id (\<lambda>spec. rs_Resources (res_RunnableSpec spec)) (archive_spec a)"

definition Archive_GetPodSecurityContext :: "Archive \<Rightarrow> pod_security_context option result" where
  [simp]: "Archive_GetPodSecurityContext a = map_sum id (\<lambda>spec. rs_PodSecurityContext (res_RunnableSpec spec)) (archive_spec a)"

definition Archive_GetActiveDeadlineSeconds :: "Archive \<Rightarrow> int option result" where
  [simp]: "Archive_GetActiveDeadlineSeconds a = map_sum id (\<lambda>spec. rs_ActiveDeadlineSeconds (res_RunnableSpec spec)) (archive_spec a)"

definition Archive_GetFailedJobsHistoryLimit :: "Archive \<Rightarrow> int option result" where
  "Archive_GetFailedJobsHistoryLimit a =
     map_sum id (\<lambda>spec. if res_FailedJobsHistoryLimit spec \<noteq> None then res_FailedJobsHistoryLimit spec else res_KeepJobs spec)
       (archive_spec a)"

definition Archive_GetSuccessfulJobsHistoryLimit :: "Archive \<Rightarrow> int option result" where
  "Archive_GetSuccessfulJobsHistoryLimit a =
     map_sum id (\<lambda>spec. if res_SuccessfulJobsHistoryLimit spec \<noteq> None then res_SuccessfulJobsHistoryLimit spec else res_KeepJobs spec)
       (archive_spec a)"

subsection \<open>Restore\<close>

definition Restore_GetType :: "Restore \<Rightarrow> JobType" where
  [simp]: "Restore_GetType r = RestoreType"

definition Restore_GetStatus :: "Restore \<Rightarrow> Status" where
  [simp]: "Restore_GetStatus r = r_Status r"

definition Restore_SetStatus :: "Status \<Rightarrow> Restore \<Rightarrow> Restore" where
  [simp]: "Restore_SetStatus status r = r\<lparr>r_Status := status\<rparr>"

definition Restore_GetResources :: "Restore \<Rightarrow> resource_requirements" where
  [simp]: "Restore_GetResources r = rs_Resources (res_RunnableSpec (r_Spec r))"

definition Restore_GetPodSecurityContext :: "Restore \<Rightarrow> pod_security_context option" where
  [simp]: "Restore_GetPodSecurityContext r = rs_PodSecurityContext (res_RunnableSpec (r_Spec r))"

definition Restore_GetActiveDeadlineSeconds :: "Restore \<Rightarrow> int option" where
  [simp]: "Restore_GetActiveDeadlineSeconds r = rs_ActiveDeadlineSeconds (res_RunnableSpec (r_Spec r))"

definition Restore_GetFailedJobsHistoryLimit :: "Restore \<Rightarrow> int option" where
  "Restore_GetFailedJobsHistoryLimit r =
     (if res_FailedJobsHistoryLimit (r_Spec r) \<noteq> None then res_FailedJobsHistoryLimit (r_Spec r)
      else res_KeepJobs (r_Spec r))"

definition Restore_GetSuccessfulJobsHistoryLimit :: "Restore \<Rightarrow> int option" where
  "Restore_GetSuccessfulJobsHistoryLimit r =
     (if res_SuccessfulJobsHistoryLimit (r_Spec r) \<noteq> None then res_SuccessfulJobsHistoryLimit (r_Spec r)
      else res_KeepJobs (r_Spec r))"

subsection \<open>Prune\<close>

definition Prune_GetType :: "Prune \<Rightarrow> JobType" where
  [simp]: "Prune_GetType p = PruneType"

definition Prune_GetStatus :: "Prune \<Rightarrow> Status" where
  [simp]: "Prune_GetStatus p = p_Status p"

definition Prune_SetStatus :: "Status \<Rightarrow> Prune \<Rightarrow> Prune" where
  [simp]: "Prune_SetStatus status p = p\<lparr>p_Status := status\<rparr>"

definition Prune_GetResources :: "Prune \<Rightarrow> resource_requirements" where
  [simp]: "Prune_GetResources p = rs_Resources (prs_RunnableSpec (p_Spec p))"

definition Prune_GetPodSecurityContext :: "Prune \<Rightarrow> pod_security_context option" where
  [simp]: "Prune_GetPodSecurityContext p = rs_PodSecurityContext (prs_RunnableSpec (p_Spec p))"

definition Prune_GetActiveDeadlineSeconds :: "Prune \<Rightarrow> int option" where
  [simp]: "Prune_GetActiveDeadlineSeconds p = rs_ActiveDeadlineSeconds (prs_RunnableSpec (p_Spec p))"

definition Prune_GetFailedJobsHistoryLimit :: "Prune \<Rightarrow> int option" where
  "Prune_GetFailedJobsHistoryLimit p =
     (if prs_FailedJobsHistoryLimit (p_Spec p) \<noteq> None then prs_FailedJobsHistoryLimit (p_Spec p)
      else prs_KeepJobs (p_Spec p))"

definition Prune_GetSuccessfulJobsHistoryLimit :: "Prune \<Rightarrow> int option" where
  "Prune_GetSuccessfulJobsHistoryLimit p =
     (if prs_SuccessfulJobsHistoryLimit (p_Spec p) \<noteq> None then prs_SuccessfulJobsHistoryLimit (p_Spec p)
      else prs_KeepJobs (p_Spec p))"

subsection \<open>Schedule\<close>

definition Schedule_GetType :: "Schedule \<Rightarrow> JobType" where
  [simp]: "Schedule_GetType s = ScheduleType"

definition Schedule_GetStatus :: "Schedule \<Rightarrow> Status" where
  [simp]: "Schedule_GetStatus s = empty_status\<lparr>st_Conditions := sst_Conditions (s_Status s)\<rparr>"

definition Schedule_SetStatus :: "Status \<Rightarrow> Schedule \<Rightarrow> Schedule" where
  [simp]: "Schedule_SetStatus status s = s\<lparr>s_Status := (s_Status s)\<lparr>sst_Conditions := st_Conditions status\<rparr>\<rparr>"

definition Schedule_GetResources :: "Schedule \<Rightarrow> resource_requirements" where
  [simp]: "Schedule_GetResources s = ss_ResourceRequirementsTemplate (s_Spec s)"

definition Schedule_GetPodSecurityContext :: "Schedule \<Rightarrow> pod_security_context option" where
  [simp]: "Schedule_GetPodSecurityContext s = ss_PodSecurityContext (s_Spec s)"

definition Schedule_GetActiveDeadlineSeconds :: "Schedule \<Rightarrow> int option" where
  [simp]: "Schedule_GetActiveDeadlineSeconds s = None"

definition Schedule_GetFailedJobsHistoryLimit :: "Schedule \<Rightarrow> int option" where
  "Schedule_GetFailedJobsHistoryLimit s =
     (if ss_FailedJobsHistoryLimit (s_Spec s) \<noteq> None then ss_FailedJobsHistoryLimit (s_Spec s)
      else ss_KeepJobs (s_Spec s))"

definition Schedule_GetSuccessfulJobsHistoryLimit :: "Schedule \<Rightarrow> int option" where
  "Schedule_GetSuccessfulJobsHistoryLimit s =
     (if ss_SuccessfulJobsHistoryLimit (s_Spec s) \<noteq> None then ss_SuccessfulJobsHistoryLimit (s_Spec s)
      else ss_KeepJobs (s_Spec s))"

lemmas type_methods = Backup_GetType_def Check_GetType_def Archive_GetType_def Restore_GetType_def Prune_GetType_def Schedule_GetType_def

end
