(* ===== verification/Api_Types.thy ===== *)
theory Api_Types
  imports Api_Resources "HOL-Library.List_Lexorder" "HOL-Library.Char_ord" "HOL-Library.Product_Lexorder"
    "HOL-Library.Multiset"
begin

text \<open>
  The interface \<^verbatim>\<open>JobObject\<close> of \<^verbatim>\<open>job_object.go\<close>: a datatype with one
  constructor per resource of \<open>Api_Resources\<close>, whose methods dispatch on it, and the lists of objects
  with their order.
\<close>

section \<open>Job objects\<close>

datatype JobObject =
    BackupObj Backup
  | CheckObj Check
  | ArchiveObj Archive
  | RestoreObj Restore
  | PruneObj Prune
  | ScheduleObj Schedule

fun obj_meta :: "JobObject \<Rightarrow> object_meta" where
  "obj_meta (BackupObj x) = b_Meta x"
| "obj_meta (CheckObj x) = c_Meta x"
| "obj_meta (ArchiveObj x) = a_Meta x"
| "obj_meta (RestoreObj x) = r_Meta x"
| "obj_meta (PruneObj x) = p_Meta x"
| "obj_meta (ScheduleObj x) = s_Meta x"

fun set_obj_meta :: "object_meta \<Rightarrow> JobObject \<Rightarrow> JobObject" where
  "set_obj_meta m (BackupObj x) = BackupObj (x\<lparr>b_Meta := m\<rparr>)"
| "set_obj_meta m (CheckObj x) = CheckObj (x\<lparr>c_Meta := m\<rparr>)"
| "set_obj_meta m (ArchiveObj x) = ArchiveObj (x\<lparr>a_Meta := m\<rparr>)"
| "set_obj_meta m (RestoreObj x) = RestoreObj (x\<lparr>r_Meta := m\<rparr>)"
| "set_obj_meta m (PruneObj x) = PruneObj (x\<lparr>p_Meta := m\<rparr>)"
| "set_obj_meta m (ScheduleObj x) = ScheduleObj (x\<lparr>s_Meta := m\<rparr>)"

fun GetType :: "JobObject \<Rightarrow> JobType" where
  "GetType (BackupObj b) = Backup_GetType b"
| "GetType (CheckObj c) = Check_GetType c"
| "GetType (ArchiveObj a) = Archive_GetType a"
| "GetType (RestoreObj r) = Restore_GetType r"
| "GetType (PruneObj p) = Prune_GetType p"
| "GetType (ScheduleObj s) = Schedule_GetType s"

fun GetStatus :: "JobObject \<Rightarrow> Status" where
  "GetStatus (BackupObj b) = Backup_GetStatus b"
| "GetStatus (CheckObj c) = Check_GetStatus c"
| "GetStatus (ArchiveObj a) = Archive_GetStatus a"
| "GetStatus (RestoreObj r) = Restore_GetStatus r"
| "GetStatus (PruneObj p) = Prune_GetStatus p"
| "GetStatus (ScheduleObj s) = Schedule_GetStatus s"

fun SetStatus :: "Status \<Rightarrow> JobObject \<Rightarrow> JobObject" where
  "SetStatus status (BackupObj b) = BackupObj (Backup_SetStatus status b)"
| "SetStatus status (CheckObj c) = CheckObj (Check_SetStatus status c)"
| "SetStatus status (ArchiveObj a) = ArchiveObj (Archive_SetStatus status a)"
| "SetStatus status (RestoreObj r) = RestoreObj (Restore_SetStatus status r)"
| "SetStatus status (PruneObj p) = PruneObj (Prune_SetStatus status p)"
| "SetStatus status (ScheduleObj s) = ScheduleObj (Schedule_SetStatus status s)"

fun GetResources :: "JobObject \<Rightarrow> resource_requirements result" where
  "GetResources (BackupObj b) = Inr (Backup_GetResources b)"
| "GetResources (CheckObj c) = Inr (Check_GetResources c)"
| "GetResources (ArchiveObj a) = Archive_GetResources a"
| "GetResources (RestoreObj r) = Inr (Restore_GetResources r)"
| "GetResources (PruneObj p) = Inr (Prune_GetResources p)"
| "GetResources (ScheduleObj s) = Inr (Schedule_GetResources s)"

fun GetPodSecurityContext :: "JobObject \<Rightarrow> pod_security_context option result" where
  "GetPodSecurityContext (BackupObj b) = Inr (Backup_GetPodSecurityContext b)"
| "GetPodSecurityContext (CheckObj c) = Inr (Check_GetPodSecurityContext c)"
| "GetPodSecurityContext (ArchiveObj a) = Archive_GetPodSecurityContext a"
| "GetPodSecurityContext (RestoreObj r) = Inr (Restore_GetPodSecurityContext r)"
| "GetPodSecurityContext (PruneObj p) = Inr (Prune_GetPodSecurityContext p)"
| "GetPodSecurityContext (ScheduleObj s) = Inr (Schedule_GetPodSecurityContext s)"

fun GetActiveDeadlineSeconds :: "JobObject \<Rightarrow> int option result" where
  "GetActiveDeadlineSeconds (BackupObj b) = Inr (Backup_GetActiveDeadlineSeconds b)"
| "GetActiveDeadlineSeconds (CheckObj c) = Inr (Check_GetActiveDeadlineSeconds c)"
| "GetActiveDeadlineSeconds (ArchiveObj a) = Archive_GetActiveDeadlineSeconds a"
| "GetActiveDeadlineSeconds (RestoreObj r) = Inr (Restore_GetActiveDeadlineSeconds r)"
| "GetActiveDeadlineSeconds (PruneObj p) = Inr (Prune_GetActiveDeadlineSeconds p)"
| "GetActiveDeadlineSeconds (ScheduleObj s) = Inr (Schedule_GetActiveDeadlineSeconds s)"

fun GetFailedJobsHistoryLimit :: "JobObject \<Rightarrow> int option result" where
  "GetFailedJobsHistoryLimit (BackupObj b) = Inr (Backup_GetFailedJobsHistoryLimit b)"
| "GetFailedJobsHistoryLimit (CheckObj c) = Inr (Check_GetFailedJobsHistoryLimit c)"
| "GetFailedJobsHistoryLimit (ArchiveObj a) = Archive_GetFailedJobsHistoryLimit a"
| "GetFailedJobsHistoryLimit (RestoreObj r) = Inr (Restore_GetFailedJobsHistoryLimit r)"
| "GetFailedJobsHistoryLimit (PruneObj p) = Inr (Prune_GetFailedJobsHistoryLimit p)"
| "GetFailedJobsHistoryLimit (ScheduleObj s) = Inr (Schedule_GetFailedJobsHistoryLimit s)"

fun GetSuccessfulJobsHistoryLimit :: "JobObject \<Rightarrow> int option result" where
  "GetSuccessfulJobsHistoryLimit (BackupObj b) = Inr (Backup_GetSuccessfulJobsHistoryLimit b)"
| "GetSuccessfulJobsHistoryLimit (CheckObj c) = Inr (Check_GetSuccessfulJobsHistoryLimit c)"
| "GetSuccessfulJobsHistoryLimit (ArchiveObj a) = Archive_GetSuccessfulJobsHistoryLimit a"
| "GetSuccessfulJobsHistoryLimit (RestoreObj r) = Inr (Restore_GetSuccessfulJobsHistoryLimit r)"
| "GetSuccessfulJobsHistoryLimit (PruneObj p) = Inr (Prune_GetSuccessfulJobsHistoryLimit p)"
| "GetSuccessfulJobsHistoryLimit (ScheduleObj s) = Inr (Schedule_GetSuccessfulJobsHistoryLimit s)"

text \<open>The reference that \<^verbatim>\<open>GetPodConfig\<close> resolves.\<close>

fun pod_config_ref :: "JobObject \<Rightarrow> string option result" where
  "pod_config_ref (BackupObj x) = Inr (rs_PodConfigRef (bs_RunnableSpec (b_Spec x)))"
| "pod_config_ref (CheckObj x) = Inr (rs_PodConfigRef (cs_RunnableSpec (c_Spec x)))"
| "pod_config_ref (ArchiveObj x) =
     map_sum id (\<lambda>r. rs_PodConfigRef (res_RunnableSpec r)) (archive_spec x)"
| "pod_config_ref (RestoreObj x) = Inr (rs_PodConfigRef (res_RunnableSpec (r_Spec x)))"
| "pod_config_ref (PruneObj x) = Inr (rs_PodConfigRef (prs_RunnableSpec (p_Spec x)))"
| "pod_config_ref (ScheduleObj x) = Inr (ss_PodConfigRef (s_Spec x))"

section \<open>Sorting job objects\<close>

definition Less :: "JobObject \<Rightarrow> JobObject \<Rightarrow> bool" where
  "Less a b =
     (if om_CreationTimestamp (obj_meta a) = om_CreationTimestamp (obj_meta b)
      then om_Name (obj_meta a) < om_Name (obj_meta b)
      else om_CreationTimestamp (obj_meta a) < om_CreationTimestamp (obj_meta b))"

text \<open>The key that \<open>Less\<close> compares.\<close>

definition age_key :: "JobObject \<Rightarrow> int \<times> string" where
  "age_key a = (om_CreationTimestamp (obj_meta a), om_Name (obj_meta a))"

text \<open>
  \<^verbatim>\<open>sort.Sort\<close> of the standard library returns the elements in an order where no
  later one is \<open>Less\<close> than an earlier one. Lemma \<open>sort_unique\<close> shows that the order is
  unique as soon as no two objects share timestamp and name.
\<close>

definition sort_jobs :: "JobObject list \<Rightarrow> JobObject list" where
  "sort_jobs xs = sort_key age_key xs"

section \<open>Schedule definitions\<close>

definition IsNonStandard :: "ScheduleDefinition \<Rightarrow> bool" where
  "IsNonStandard s \<longleftrightarrow> HasPrefix s ''@''"

definition IsRandom :: "ScheduleDefinition \<Rightarrow> bool" where
  "IsRandom s \<longleftrightarrow> IsNonStandard s \<and> HasSuffix s ''-random''"

section \<open>The interface of job objects\<close>

text \<open>
  What every implementation of \<^verbatim>\<open>JobObject\<close> promises its clients: a status that
  is set is the status that is read back, as far as the conditions go, and setting it changes
  neither the type nor the metadata.
\<close>

locale status_object =
  fixes get :: "'o \<Rightarrow> Status" and put :: "Status \<Rightarrow> 'o \<Rightarrow> 'o"
    and kind_of :: "'o \<Rightarrow> JobType" and meta_of :: "'o \<Rightarrow> object_meta"
  assumes get_put_conditions: "st_Conditions (get (put s x)) = st_Conditions s"
    and put_put: "put s (put s' x) = put s x"
    and kind_put: "kind_of (put s x) = kind_of x"
    and meta_put: "meta_of (put s x) = meta_of x"
begin

lemma queries_get_put:
  "HasFailed M (get (put s x)) = HasFailed M s"
  "HasSucceeded M (get (put s x)) = HasSucceeded M s"
  "HasFinished M (get (put s x)) = HasFinished M s"
  "HasStarted M (get (put s x)) = HasStarted M s"
  "HasFailedPreBackup M (get (put s x)) = HasFailedPreBackup M s"
  "IsWaitingForPreBackup M (get (put s x)) = IsWaitingForPreBackup M s"
  by (simp_all add: status_queries get_put_conditions)

lemma find_get_put:
  "FindStatusCondition M (st_Conditions (get (put s x))) t = FindStatusCondition M (st_Conditions s) t"
  by (simp add: get_put_conditions)

end

lemma job_get_put: "st_Conditions (GetStatus (SetStatus s x)) = st_Conditions s"
  by (cases x) simp_all

interpretation job_object: status_object GetStatus SetStatus GetType obj_meta
proof
  show "st_Conditions (GetStatus (SetStatus s x)) = st_Conditions s" for s x
    by (rule job_get_put)
  show "SetStatus s (SetStatus s' x) = SetStatus s x" for s s' x
    by (cases x) simp_all
  show "GetType (SetStatus s x) = GetType x" for s x
    by (cases x) simp_all
  show "obj_meta (SetStatus s x) = obj_meta x" for s x
    by (cases x) simp_all
qed

declare job_object.queries_get_put [simp] job_object.find_get_put [simp]
  job_object.kind_put [simp] job_object.meta_put [simp] job_object.put_put [simp]

section \<open>Lemmas on the order\<close>

lemma Less_key: "Less a b \<longleftrightarrow> age_key a < age_key b"
  by (auto simp: Less_def age_key_def less_prod_def)

lemma sort_jobs_sorted: "sorted_wrt (\<lambda>a b. \<not> Less b a) (sort_jobs xs)"
proof -
  have "sorted (map age_key (sort_jobs xs))"
    by (simp add: sort_jobs_def)
  then show ?thesis
    by (simp add: sorted_map Less_key not_less)
qed

lemma sort_jobs_set [simp]: "set (sort_jobs xs) = set xs" "length (sort_jobs xs) = length xs"
  by (simp_all add: sort_jobs_def)

lemma sort_jobs_mset: "mset (sort_jobs xs) = mset xs"
  by (simp add: sort_jobs_def)

lemma sort_unique:
  assumes "mset ys = mset xs" "sorted_wrt (\<lambda>a b. \<not> Less b a) ys" "inj_on age_key (set xs)"
  shows "ys = sort_jobs xs"
proof -
  have "sorted (map age_key ys)"
    using assms(2) by (simp add: sorted_map Less_key not_less)
  then show ?thesis
    unfolding sort_jobs_def
    using sort_key_inj_key_eq [of xs ys age_key] assms(1,3) by simp
qed

end
