(* ===== verification/Env_Vars.thy ===== *)
theory Env_Vars
  imports Api_Types
begin

text \<open>
  \<^verbatim>\<open>operator/executor/envvarconverter.go\<close> and
  \<^verbatim>\<open>operator/utils/utils.go\<close>: the environment of a job's container, its
  volumes, mounts and TLS arguments. The order in which Go enumerates the variables is an
  argument of \<open>Convert\<close>; the \<^verbatim>\<open>mergo\<close> library is an argument of
  \<open>Merge\<close>, with its documented behaviour in the locale \<open>mergo_laws\<close>.
\<close>

section \<open>EnvVarConverter\<close>

record envVarEntry =
  ee_stringEnv :: "string option"
  ee_envVarSource :: "env_var_source option"

type_synonym Vars = "string \<rightharpoonup> envVarEntry"

definition NewEnvVarConverter :: Vars where
  "NewEnvVarConverter = Map.empty"

definition setEntry :: "string \<Rightarrow> envVarEntry \<Rightarrow> Vars \<Rightarrow> Vars" where
  "setEntry key value e = e(key \<mapsto> value)"

definition SetString :: "string \<Rightarrow> string \<Rightarrow> Vars \<Rightarrow> Vars" where
  "SetString key value = setEntry key \<lparr>ee_stringEnv = Some value, ee_envVarSource = None\<rparr>"

definition SetStringOrDefault :: "string \<Rightarrow> string \<Rightarrow> string \<Rightarrow> Vars \<Rightarrow> Vars" where
  "SetStringOrDefault key value def =
     (let value = (if value = [] then def else value)
      in setEntry key \<lparr>ee_stringEnv = Some value, ee_envVarSource = None\<rparr>)"

definition SetEnvVarSource :: "string \<Rightarrow> env_var_source option \<Rightarrow> Vars \<Rightarrow> Vars" where
  "SetEnvVarSource key value = setEntry key \<lparr>ee_stringEnv = None, ee_envVarSource = value\<rparr>"

text \<open>The variable that one entry becomes.\<close>

definition entry_env_var :: "string \<Rightarrow> envVarEntry \<Rightarrow> env_var" where
  "entry_env_var key value =
     (case ee_envVarSource value of
        Some src \<Rightarrow> \<lparr>ev_Name = key, ev_Value = [], ev_ValueFrom = Some src\<rparr>
      | None \<Rightarrow> (case ee_stringEnv value of
          Some s \<Rightarrow> \<lparr>ev_Name = key, ev_Value = s, ev_ValueFrom = None\<rparr>
        | None \<Rightarrow> \<lparr>ev_Name = key, ev_Value = [], ev_ValueFrom = None\<rparr>))"

text \<open>The loop of \<^verbatim>\<open>Convert\<close>: the list so far and the repository variable.\<close>

fun convert_loop :: "Vars \<Rightarrow> string list \<Rightarrow> env_var list \<Rightarrow> env_var option \<Rightarrow> env_var list \<times> env_var option" where
  "convert_loop e [] vars repo = (vars, repo)"
| "convert_loop e (key # ks) vars repo =
     (case e key of
        None \<Rightarrow> convert_loop e ks vars repo
      | Some value \<Rightarrow>
         (let envVar = entry_env_var key value
          in if key = ResticRepositoryEnvName then convert_loop e ks vars (Some envVar)
             else convert_loop e ks (vars @ [envVar]) repo))"

definition Convert :: "string list \<Rightarrow> Vars \<Rightarrow> env_var list" where
  "Convert ord e =
     (case convert_loop e ord [] None of
        (vars, Some repositoryVar) \<Rightarrow> vars @ [repositoryVar]
      | (vars, None) \<Rightarrow> vars)"

definition Merge ::
  "(Vars \<Rightarrow> Vars \<Rightarrow> gerr option \<times> Vars) \<Rightarrow> Vars \<Rightarrow> Vars \<Rightarrow> gerr option \<times> Vars" where
  "Merge mergo e source = mergo e source"

definition DefaultEnv :: "Configuration \<Rightarrow> string \<Rightarrow> Vars" where
  "DefaultEnv cfg namespace =
     (let defaults = NewEnvVarConverter;
          defaults = SetString ''STATS_URL'' (cfg_GlobalStatsURL cfg) defaults;
          defaults = SetString ResticRepositoryEnvName
            (''s3:'' @ cfg_GlobalS3Endpoint cfg @ ''/'' @ cfg_GlobalS3Bucket cfg) defaults;
          defaults = SetString ResticPasswordEnvName (cfg_GlobalRepoPassword cfg) defaults;
          defaults = SetString AwsAccessKeyIDEnvName (cfg_GlobalAccessKey cfg) defaults;
          defaults = SetString AwsSecretAccessKeyEnvName (cfg_GlobalSecretAccessKey cfg) defaults;
          defaults = SetString ''HOSTNAME'' namespace defaults
      in if cfg_ResticOptions cfg \<noteq> [] then SetString ResticOptionsEnvName (cfg_ResticOptions cfg) defaults
         else defaults)"

fun BuildListArgs :: "string \<Rightarrow> string list \<Rightarrow> string list" where
  "BuildListArgs cliArg [] = []"
| "BuildListArgs cliArg (v # vs) = cliArg # v # BuildListArgs cliArg vs"

text \<open>
  The variables of a backend: the loop over \<^verbatim>\<open>GetCredentialEnv\<close> and the repository
  string, as all five \<^verbatim>\<open>setupEnvVars\<close> do.
\<close>

definition set_backend_vars :: "Configuration \<Rightarrow> Backend option \<Rightarrow> Vars \<Rightarrow> Vars" where
  "set_backend_vars cfg backend vars =
     (case backend of
        None \<Rightarrow> vars
      | Some b \<Rightarrow>
          SetString ResticRepositoryEnvName (Backend_String cfg b)
            (range_assign (GetCredentialEnv b)
               (\<lambda>v. \<lparr>ee_stringEnv = None, ee_envVarSource = Some v\<rparr>) vars))"

text \<open>The loop over \<^verbatim>\<open>RestoreEnvVars\<close> in the restore and archive executors.\<close>

definition set_restore_vars :: "(string \<rightharpoonup> env_var) \<Rightarrow> Vars \<Rightarrow> Vars" where
  "set_restore_vars rvars vars =
     range_assign rvars
       (\<lambda>v. if ev_Value v \<noteq> [] then \<lparr>ee_stringEnv = Some (ev_Value v), ee_envVarSource = None\<rparr>
            else \<lparr>ee_stringEnv = None, ee_envVarSource = ev_ValueFrom v\<rparr>) vars"

section \<open>utils\<close>

definition dataDirName :: string where [k8up_consts]: "dataDirName = ''k8up-dir''"
definition resticTmpDirName :: string where [k8up_consts]: "resticTmpDirName = ''restic-tmp-dir''"
definition resticCacheDirName :: string where [k8up_consts]: "resticCacheDirName = ''restic-cache-dir''"

text \<open>The characters of \<^verbatim>\<open>RandomStringGenerator\<close>; \<open>intn i\<close> is the \<open>i\<close>-th
  number drawn from \<^verbatim>\<open>rand.Intn(36)\<close>.\<close>

definition random_characters :: string where
  "random_characters = ''abcdefghijklmnopqrstuvwxyz1234567890''"

definition RandomStringGenerator :: "(nat \<Rightarrow> nat) \<Rightarrow> nat \<Rightarrow> string" where
  "RandomStringGenerator intn n = map (\<lambda>i. random_characters ! intn i) [0..<n]"

text \<open>\<^verbatim>\<open>ZeroLen\<close> on a pointer to a slice, the only kind of value it is given.\<close>

definition ZeroLen :: "'a list option \<Rightarrow> bool" where
  "ZeroLen v = (case v of None \<Rightarrow> True | Some xs \<Rightarrow> length xs = 0)"

definition AppendTLSOptionsArgs :: "TLSOptions option \<Rightarrow> string list \<Rightarrow> string list" where
  "AppendTLSOptionsArgs opts prefixArgName =
     (case opts of
        None \<Rightarrow> []
      | Some opts \<Rightarrow>
         (let prefix = (if prefixArgName = [] then [] else last prefixArgName);
              caCertArg = (if prefix \<noteq> [] then ''-'' @ prefix @ ''CaCert'' else ''-caCert'');
              clientCertArg = (if prefix \<noteq> [] then ''-'' @ prefix @ ''ClientCert'' else ''-clientCert'');
              clientKeyArg = (if prefix \<noteq> [] then ''-'' @ prefix @ ''ClientKey'' else ''-clientKey'');
              args = (if tls_CACert opts \<noteq> [] then [caCertArg, tls_CACert opts] else [])
          in if tls_ClientCert opts \<noteq> [] \<and> tls_ClientKey opts \<noteq> []
             then args @ [clientCertArg, tls_ClientCert opts, clientKeyArg, tls_ClientKey opts]
             else args))"

definition empty_dir_volumes :: "volume list" where
  "empty_dir_volumes =
     [\<lparr>vol_Name = dataDirName, vol_Source = EmptyDirSource\<rparr>,
      \<lparr>vol_Name = resticTmpDirName, vol_Source = EmptyDirSource\<rparr>,
      \<lparr>vol_Name = resticCacheDirName, vol_Source = EmptyDirSource\<rparr>]"

fun attach_volumes_loop :: "RunnableVolumeSpec list \<Rightarrow> volume list \<Rightarrow> volume list" where
  "attach_volumes_loop [] acc = acc"
| "attach_volumes_loop (v # vs) acc =
     (case rv_PersistentVolumeClaim v of
        Some p \<Rightarrow> attach_volumes_loop vs (acc @ [\<lparr>vol_Name = rv_Name v, vol_Source = PvcSource p\<rparr>])
      | None \<Rightarrow> (case rv_Secret v of
          Some s \<Rightarrow> attach_volumes_loop vs (acc @ [\<lparr>vol_Name = rv_Name v, vol_Source = SecretSource s\<rparr>])
        | None \<Rightarrow> (case rv_ConfigMap v of
            Some c \<Rightarrow> attach_volumes_loop vs (acc @ [\<lparr>vol_Name = rv_Name v, vol_Source = ConfigMapSource c\<rparr>])
          | None \<Rightarrow> attach_volumes_loop vs acc)))"

definition AttachEmptyDirVolumes :: "RunnableVolumeSpec list option \<Rightarrow> volume list" where
  "AttachEmptyDirVolumes volumes =
     (case volumes of
        None \<Rightarrow> empty_dir_volumes
      | Some vs \<Rightarrow> attach_volumes_loop vs empty_dir_volumes)"

definition empty_dir_mounts :: "string \<Rightarrow> volume_mount list" where
  "empty_dir_mounts k8upPodVarDir =
     [\<lparr>vm_Name = dataDirName, vm_MountPath = k8upPodVarDir, vm_ReadOnly = False\<rparr>,
      \<lparr>vm_Name = resticTmpDirName, vm_MountPath = ''/tmp'', vm_ReadOnly = False\<rparr>,
      \<lparr>vm_Name = resticCacheDirName, vm_MountPath = ''/.cache'', vm_ReadOnly = False\<rparr>]"

fun mount_exists :: "volume_mount \<Rightarrow> volume_mount list \<Rightarrow> bool" where
  "mount_exists vm1 [] = False"
| "mount_exists vm1 (vm2 # vms) =
     (if vm_Name vm1 = vm_Name vm2 \<and> vm_MountPath vm1 = vm_MountPath vm2 then True
      else mount_exists vm1 vms)"

fun attach_mounts_loop :: "volume_mount list \<Rightarrow> volume_mount list \<Rightarrow> volume_mount list" where
  "attach_mounts_loop [] acc = acc"
| "attach_mounts_loop (vm1 # vms) acc =
     (if mount_exists vm1 acc then attach_mounts_loop vms acc
      else attach_mounts_loop vms (acc @ [vm1]))"

fun attach_all_mounts :: "volume_mount list option list \<Rightarrow> volume_mount list \<Rightarrow> volume_mount list" where
  "attach_all_mounts [] acc = acc"
| "attach_all_mounts (None # vs) acc = attach_all_mounts vs acc"
| "attach_all_mounts (Some vm # vs) acc = attach_all_mounts vs (attach_mounts_loop vm acc)"

definition AttachEmptyDirVolumeMounts ::
  "string \<Rightarrow> volume_mount list option list \<Rightarrow> volume_mount list" where
  "AttachEmptyDirVolumeMounts k8upPodVarDir volumeMounts =
     (if length volumeMounts = 0 then empty_dir_mounts k8upPodVarDir
      else attach_all_mounts volumeMounts (empty_dir_mounts k8upPodVarDir))"

text \<open>
  \<^verbatim>\<open>JsonArgsArray.UnmarshalJSON\<close> over the value that \<^verbatim>\<open>json.Unmarshal\<close>
  returns for the text.
\<close>

datatype json = JString string | JArray "json list" | JOther

fun json_strings :: "json list \<Rightarrow> string list result" where
  "json_strings [] = Inr []"
| "json_strings (JString s # vs) =
     (case json_strings vs of Inl e \<Rightarrow> Inl e | Inr ss \<Rightarrow> Inr (s # ss))"
| "json_strings (_ # vs) = Inl (PlainError ''unexpected arg item, string expected'')"

definition UnmarshalJSON :: "(string \<Rightarrow> json result) \<Rightarrow> string \<Rightarrow> string list result" where
  "UnmarshalJSON decode data =
     (case decode data of
        Inl e \<Rightarrow> Inl e
      | Inr (JString s) \<Rightarrow> Inr [s]
      | Inr (JArray vs) \<Rightarrow> json_strings vs
      | Inr JOther \<Rightarrow> Inl (PlainError ''unexpected args array''))"

section \<open>What mergo promises\<close>

text \<open>
  \<^verbatim>\<open>mergo.Merge(&dst, src)\<close> without options fills the keys the destination does not
  have and keeps the entries that are set; it does not invent keys.
\<close>

locale mergo_laws =
  fixes mergo :: "Vars \<Rightarrow> Vars \<Rightarrow> gerr option \<times> Vars"
  assumes merged_names: "mergo dst src = (None, out) \<Longrightarrow> dom out = dom dst \<union> dom src"
    and destination_wins: "mergo dst src = (None, out) \<Longrightarrow> dst k = Some v \<Longrightarrow>
      v \<noteq> \<lparr>ee_stringEnv = None, ee_envVarSource = None\<rparr> \<Longrightarrow> out k = Some v"
    and source_fills: "mergo dst src = (None, out) \<Longrightarrow> dst k = None \<Longrightarrow> out k = src k"

lemma mergo_lawsD:
  assumes "mergo_laws mergo" "mergo dst src = (None, out)"
  shows "dom out = dom dst \<union> dom src"
    "dst k = Some v \<Longrightarrow> v \<noteq> \<lparr>ee_stringEnv = None, ee_envVarSource = None\<rparr> \<Longrightarrow> out k = Some v"
    "dst k = None \<Longrightarrow> out k = src k"
  using mergo_laws.merged_names [OF assms] mergo_laws.destination_wins [OF assms] mergo_laws.source_fills [OF assms] by blast+

text \<open>One instance: a map union in which the destination wins.\<close>

definition mergo_ref :: "Vars \<Rightarrow> Vars \<Rightarrow> gerr option \<times> Vars" where
  "mergo_ref dst src = (None, src ++ dst)"

interpretation mergo_ref: mergo_laws mergo_ref
  by unfold_locales (auto simp: mergo_ref_def map_add_def split: option.splits)

lemma mergo_ref_laws: "mergo_laws mergo_ref"
  by (rule mergo_ref.mergo_laws_axioms)

section \<open>Lemmas\<close>

lemma set_string_apply:
  "SetString k v e k' = (if k' = k then Some \<lparr>ee_stringEnv = Some v, ee_envVarSource = None\<rparr> else e k')"
  by (simp add: SetString_def setEntry_def)

lemma entry_env_var_name [simp]: "ev_Name (entry_env_var k v) = k"
  by (simp add: entry_env_var_def split: option.splits)

definition var_list :: "Vars \<Rightarrow> string list \<Rightarrow> env_var list" where
  "var_list e ks = [entry_env_var k (the (e k)). k \<leftarrow> ks, k \<in> dom e \<and> k \<noteq> ResticRepositoryEnvName]"

lemma convert_loop_eq:
  "convert_loop e ks vars repo =
     (vars @ var_list e ks,
      if ResticRepositoryEnvName \<in> set ks \<and> ResticRepositoryEnvName \<in> dom e
      then Some (entry_env_var ResticRepositoryEnvName (the (e ResticRepositoryEnvName))) else repo)"
  by (induction ks arbitrary: vars repo) (auto simp: var_list_def Let_def split: option.splits)

lemma Convert_eq:
  assumes "range_order e ord"
  shows "Convert ord e = var_list e ord @
     (case e ResticRepositoryEnvName of
        Some v \<Rightarrow> [entry_env_var ResticRepositoryEnvName v] | None \<Rightarrow> [])"
  using assms by (auto simp: Convert_def convert_loop_eq range_order_def split: option.splits)

lemma var_list_names:
  "range_order e ord \<Longrightarrow> map ev_Name (var_list e ord) = filter (\<lambda>k. k \<noteq> ResticRepositoryEnvName) ord"
proof -
  assume "range_order e ord"
  then have "\<forall>k\<in>set ord. k \<in> dom e" by (simp add: range_order_def)
  then show ?thesis by (induction ord) (auto simp: var_list_def)
qed

lemma mount_exists_iff:
  "mount_exists v ms \<longleftrightarrow> (vm_Name v, vm_MountPath v) \<in> (\<lambda>m. (vm_Name m, vm_MountPath m)) ` set ms"
  by (induction v ms rule: mount_exists.induct) auto

abbreviation mount_keys :: "volume_mount list \<Rightarrow> (string \<times> string) list" where
  "mount_keys ms \<equiv> map (\<lambda>m. (vm_Name m, vm_MountPath m)) ms"

lemma attach_mounts_loop_props:
  "distinct (mount_keys acc) \<Longrightarrow> distinct (mount_keys (attach_mounts_loop ms acc))"
  "set (mount_keys (attach_mounts_loop ms acc)) = set (mount_keys ms) \<union> set (mount_keys acc)"
  "\<exists>ys. attach_mounts_loop ms acc = acc @ ys"
proof (induction ms arbitrary: acc)
  case (Cons v ms)
  {
    case 1
    then show ?case using Cons.IH(1) by (auto simp: mount_exists_iff)
  next
    case 2
    show ?case using Cons.IH(2) by (auto simp: mount_exists_iff image_iff)
  next
    case 3
    show ?case using Cons.IH(3) by (metis append_assoc attach_mounts_loop.simps(2))
  }
qed simp_all

lemma attach_all_mounts_props:
  "distinct (mount_keys acc) \<Longrightarrow> distinct (mount_keys (attach_all_mounts vs acc))"
  "set (mount_keys (attach_all_mounts vs acc)) =
     (\<Union>v\<in>set vs. case v of None \<Rightarrow> {} | Some ms \<Rightarrow> set (mount_keys ms)) \<union> set (mount_keys acc)"
  "\<exists>ys. attach_all_mounts vs acc = acc @ ys"
proof (induction vs acc rule: attach_all_mounts.induct)
  case (3 vm vs acc)
  {
    case 1
    then show ?case using "3.IH"(1) attach_mounts_loop_props(1) by simp
  next
    case 2
    show ?case using "3.IH"(2) attach_mounts_loop_props(2) [of vm acc] by auto
  next
    case 3
    show ?case using "3.IH"(3) attach_mounts_loop_props(3) by (metis append_assoc attach_all_mounts.simps(3))
  }
qed simp_all

lemma length_BuildListArgs: "length (BuildListArgs a vs) = 2 * length vs"
  by (induction vs) auto

end
