(* ===== verification/Monitoring.thy ===== *)
theory Monitoring
  imports Api_Status
begin

text \<open>
  \<^verbatim>\<open>operator/monitoring/prometheus.go\<close>: the operator's counters and gauges, as the
  values they hold per label tuple. Registration with the Prometheus registry is not modelled.
\<close>

record Metrics =
  mt_FailureCounter :: "string \<times> JobType \<Rightarrow> nat"
  mt_SuccessCounter :: "string \<times> JobType \<Rightarrow> nat"
  mt_TotalCounter :: "string \<times> JobType \<Rightarrow> nat"
  mt_ScheduleGauge :: "string \<Rightarrow> int"
  mt_LastJobSucceeded :: "string \<times> string \<times> JobType \<rightharpoonup> bool"

definition empty_metrics :: Metrics where
  "empty_metrics = \<lparr>mt_FailureCounter = (\<lambda>_. 0), mt_SuccessCounter = (\<lambda>_. 0),
     mt_TotalCounter = (\<lambda>_. 0), mt_ScheduleGauge = (\<lambda>_. 0), mt_LastJobSucceeded = Map.empty\<rparr>"

definition inc_at :: "'k \<Rightarrow> ('k \<Rightarrow> nat) \<Rightarrow> ('k \<Rightarrow> nat)" where
  "inc_at k f = f(k := Suc (f k))"

definition IncFailureCounters :: "string \<Rightarrow> JobType \<Rightarrow> Metrics \<Rightarrow> Metrics" where
  "IncFailureCounters ns jt m =
     m\<lparr>mt_FailureCounter := inc_at (ns, jt) (mt_FailureCounter m),
       mt_TotalCounter := inc_at (ns, jt) (mt_TotalCounter m)\<rparr>"

definition IncSuccessCounters :: "string \<Rightarrow> JobType \<Rightarrow> Metrics \<Rightarrow> Metrics" where
  "IncSuccessCounters ns jt m =
     m\<lparr>mt_SuccessCounter := inc_at (ns, jt) (mt_SuccessCounter m),
       mt_TotalCounter := inc_at (ns, jt) (mt_TotalCounter m)\<rparr>"

definition IncRegisteredSchedulesGauge :: "string \<Rightarrow> Metrics \<Rightarrow> Metrics" where
  "IncRegisteredSchedulesGauge ns m =
     m\<lparr>mt_ScheduleGauge := (mt_ScheduleGauge m)(ns := mt_ScheduleGauge m ns + 1)\<rparr>"

definition DecRegisteredSchedulesGauge :: "string \<Rightarrow> Metrics \<Rightarrow> Metrics" where
  "DecRegisteredSchedulesGauge ns m =
     m\<lparr>mt_ScheduleGauge := (mt_ScheduleGauge m)(ns := mt_ScheduleGauge m ns - 1)\<rparr>"

definition SetScheduleLastJobStatus :: "string \<Rightarrow> string \<Rightarrow> JobType \<Rightarrow> bool \<Rightarrow> Metrics \<Rightarrow> Metrics" where
  "SetScheduleLastJobStatus ns sched jt succeeded m =
     m\<lparr>mt_LastJobSucceeded := (mt_LastJobSucceeded m)((ns, sched, jt) \<mapsto> succeeded)\<rparr>"

text \<open>The total counter is the sum of the other two.\<close>

definition metrics_ok :: "Metrics \<Rightarrow> bool" where
  "metrics_ok m \<longleftrightarrow> (\<forall>k. mt_TotalCounter m k = mt_SuccessCounter m k + mt_FailureCounter m k)"

lemmas metrics_defs = IncFailureCounters_def IncSuccessCounters_def inc_at_def
  IncRegisteredSchedulesGauge_def DecRegisteredSchedulesGauge_def SetScheduleLastJobStatus_def

lemma metrics_ok_updates [intro]:
  "metrics_ok m \<Longrightarrow> metrics_ok (IncFailureCounters ns jt m)"
  "metrics_ok m \<Longrightarrow> metrics_ok (IncSuccessCounters ns jt m)"
  "metrics_ok m \<Longrightarrow> metrics_ok (IncRegisteredSchedulesGauge ns m)"
  "metrics_ok m \<Longrightarrow> metrics_ok (DecRegisteredSchedulesGauge ns m)"
  "metrics_ok m \<Longrightarrow> metrics_ok (SetScheduleLastJobStatus ns s jt b m)"
  by (auto simp: metrics_ok_def metrics_defs)

end
