(* ===== verification/Scheduler.thy ===== *)
theory Scheduler
  imports Api_Types
begin

text \<open>
  \<^verbatim>\<open>operator/scheduler/scheduler.go\<close>: the registry of cron schedules. The cron
  library (\<^verbatim>\<open>github.com/robfig/cron\<close>) is the parameter \<open>cron_api\<close>: its
  state is part of the outside world \<open>'w\<close>, a callback is an opaque value \<open>'f\<close>.
  \<open>cr_Entries\<close> and \<open>cr_Used\<close> are observers (the active entries, and the ids handed
  out so far) that the program does not call; the laws are stated with them.
\<close>

record ('w, 'f) cron_api =
  cr_AddFunc :: "string \<Rightarrow> 'f \<Rightarrow> 'w \<Rightarrow> nat result \<times> 'w"
  cr_Remove :: "nat \<Rightarrow> 'w \<Rightarrow> 'w"
  cr_Entries :: "'w \<Rightarrow> (nat \<rightharpoonup> string \<times> 'f)"
  cr_Used :: "'w \<Rightarrow> nat set"

record 'f scheduleRef =
  sr_EntryID :: nat
  sr_Schedule :: ScheduleDefinition
  sr_Runnable :: 'f

type_synonym 'f schedules = "string \<rightharpoonup> 'f scheduleRef"

definition HasSchedule :: "'f schedules \<Rightarrow> string \<Rightarrow> bool" where
  "HasSchedule m key = (case m key of Some _ \<Rightarrow> True | None \<Rightarrow> False)"

definition SetSchedule ::
  "('w, 'f) cron_api \<Rightarrow> string \<Rightarrow> ScheduleDefinition \<Rightarrow> 'f \<Rightarrow> 'f schedules \<Rightarrow> 'w
   \<Rightarrow> gerr option \<times> 'f schedules \<times> 'w" where
  "SetSchedule A key schedule fn m w =
     (let w = (case m key of Some r \<Rightarrow> cr_Remove A (sr_EntryID r) w | None \<Rightarrow> w)
      in case cr_AddFunc A schedule fn w of
           (Inl e, w) \<Rightarrow> (Some (Wrapped ''cannot set schedule'' e), m, w)
         | (Inr i, w) \<Rightarrow>
             (None, m(key \<mapsto> \<lparr>sr_EntryID = i, sr_Schedule = schedule, sr_Runnable = fn\<rparr>), w))"

definition RemoveSchedule ::
  "('w, 'f) cron_api \<Rightarrow> string \<Rightarrow> 'f schedules \<Rightarrow> 'w \<Rightarrow> 'f schedules \<times> 'w" where
  "RemoveSchedule A key m w =
     (case m key of
        None \<Rightarrow> (m, w)
      | Some r \<Rightarrow> (m(key := None), cr_Remove A (sr_EntryID r) w))"

section \<open>What the registry promises\<close>

text \<open>
  The registry agrees with the cron library: the references have different ids, and the active
  entries are exactly those of the references, with their schedules and callbacks.
\<close>

definition refs_distinct :: "('w, 'f) cron_api \<Rightarrow> 'f schedules \<Rightarrow> 'w \<Rightarrow> bool" where
  "refs_distinct A m w \<longleftrightarrow>
     (\<forall>k r. m k = Some r \<longrightarrow> sr_EntryID r \<in> cr_Used A w) \<and>
     (\<forall>k k' r r'. m k = Some r \<longrightarrow> m k' = Some r' \<longrightarrow> sr_EntryID r = sr_EntryID r' \<longrightarrow> k = k')"

definition no_leaks :: "('w, 'f) cron_api \<Rightarrow> 'f schedules \<Rightarrow> 'w \<Rightarrow> bool" where
  "no_leaks A m w \<longleftrightarrow>
     (\<forall>i s f. cr_Entries A w i = Some (s, f) \<longrightarrow>
        (\<exists>k. m k = Some \<lparr>sr_EntryID = i, sr_Schedule = s, sr_Runnable = f\<rparr>))"

definition all_active :: "('w, 'f) cron_api \<Rightarrow> 'f schedules \<Rightarrow> 'w \<Rightarrow> bool" where
  "all_active A m w \<longleftrightarrow>
     (\<forall>k r. m k = Some r \<longrightarrow> cr_Entries A w (sr_EntryID r) = Some (sr_Schedule r, sr_Runnable r))"

definition sched_inv :: "('w, 'f) cron_api \<Rightarrow> 'f schedules \<Rightarrow> 'w \<Rightarrow> bool" where
  "sched_inv A m w \<longleftrightarrow> refs_distinct A m w \<and> no_leaks A m w \<and> all_active A m w"

text \<open>
  The interface the schedule controller uses, as laws on the registry map alone: setting a key
  either fails and leaves the registry as it was, or registers the key; other keys are untouched.
\<close>

locale schedule_registry =
  fixes has :: "'m \<Rightarrow> string \<Rightarrow> bool"
    and set_sched :: "string \<Rightarrow> string \<Rightarrow> 'f \<Rightarrow> 'm \<Rightarrow> 'w \<Rightarrow> gerr option \<times> 'm \<times> 'w"
    and remove_sched :: "string \<Rightarrow> 'm \<Rightarrow> 'w \<Rightarrow> 'm \<times> 'w"
  assumes set_ok: "set_sched k s f m w = (None, m', w') \<Longrightarrow> has m' k' \<longleftrightarrow> k' = k \<or> has m k'"
    and set_err: "set_sched k s f m w = (Some e, m', w') \<Longrightarrow> m' = m"
    and remove_has: "remove_sched k m w = (m', w') \<Longrightarrow> has m' k' \<longleftrightarrow> k' \<noteq> k \<and> has m k'"
begin

fun remove_all :: "string list \<Rightarrow> 'm \<Rightarrow> 'w \<Rightarrow> 'm \<times> 'w" where
  "remove_all [] m w = (m, w)"
| "remove_all (k # ks) m w = (case remove_sched k m w of (m, w) \<Rightarrow> remove_all ks m w)"

lemma remove_all_has: "remove_all ks m w = (m', w') \<Longrightarrow> has m' k \<longleftrightarrow> k \<notin> set ks \<and> has m k"
  by (induction ks arbitrary: m w) (auto split: prod.splits dest: remove_has)

end

locale cron_laws =
  fixes A :: "('w, 'f) cron_api"
  assumes add_ok: "cr_AddFunc A s f w = (Inr i, w') \<Longrightarrow>
      cr_Entries A w' = (cr_Entries A w)(i \<mapsto> (s, f)) \<and> cr_Used A w' = insert i (cr_Used A w) \<and>
      i \<notin> cr_Used A w"
    and add_err: "cr_AddFunc A s f w = (Inl e, w') \<Longrightarrow>
      cr_Entries A w' = cr_Entries A w \<and> cr_Used A w' = cr_Used A w"
    and remove_entries: "cr_Entries A (cr_Remove A i w) = (cr_Entries A w)(i := None)"
    and remove_used: "cr_Used A (cr_Remove A i w) = cr_Used A w"
begin

lemma set_schedule_inv:
  assumes inv: "sched_inv A m w" and ok: "SetSchedule A k s f m w = (None, m', w')"
  shows "sched_inv A m' w'"
proof -
  define w1 where "w1 = (case m k of Some r \<Rightarrow> cr_Remove A (sr_EntryID r) w | None \<Rightarrow> w)"
  obtain i where add: "cr_AddFunc A s f w1 = (Inr i, w')"
    and m': "m' = m(k \<mapsto> \<lparr>sr_EntryID = i, sr_Schedule = s, sr_Runnable = f\<rparr>)"
    using ok by (auto simp: SetSchedule_def w1_def Let_def split: prod.splits sum.splits option.splits)
  have used1: "cr_Used A w1 = cr_Used A w"
    by (simp add: w1_def remove_used split: option.splits)
  have ent1: "cr_Entries A w1 j = (if \<exists>r. m k = Some r \<and> sr_EntryID r = j then None else cr_Entries A w j)"
    for j by (auto simp: w1_def remove_entries split: option.splits)
  note add' = add_ok [OF add, unfolded used1]
  have d: "refs_distinct A m w" and l: "no_leaks A m w" and a: "all_active A m w"
    using inv by (simp_all add: sched_inv_def)
  have "refs_distinct A m' w'"
    using d add' unfolding refs_distinct_def m' by (auto split: if_splits)
  moreover have "no_leaks A m' w'"
    unfolding no_leaks_def
  proof (intro allI impI)
    fix j t g
    assume e: "cr_Entries A w' j = Some (t, g)"
    show "\<exists>k. m' k = Some \<lparr>sr_EntryID = j, sr_Schedule = t, sr_Runnable = g\<rparr>"
    proof (cases "j = i")
      case True
      then show ?thesis using e add' by (intro exI [of _ k]) (auto simp: m')
    next
      case False
      then have e1: "cr_Entries A w1 j = Some (t, g)" using e add' by simp
      then have "cr_Entries A w j = Some (t, g)" and nk: "\<nexists>r. m k = Some r \<and> sr_EntryID r = j"
        by (auto simp: ent1 split: if_splits)
      then obtain k' where k': "m k' = Some \<lparr>sr_EntryID = j, sr_Schedule = t, sr_Runnable = g\<rparr>"
        using l unfolding no_leaks_def by blast
      moreover have "k' \<noteq> k" using k' nk by auto
      ultimately show ?thesis by (intro exI [of _ k']) (simp add: m')
    qed
  qed
  moreover have "all_active A m' w'"
    unfolding all_active_def
  proof (intro allI impI)
    fix k' r assume r: "m' k' = Some r"
    show "cr_Entries A w' (sr_EntryID r) = Some (sr_Schedule r, sr_Runnable r)"
    proof (cases "k' = k")
      case True
      then show ?thesis using r add' by (auto simp: m')
    next
      case False
      then have mr: "m k' = Some r" using r by (simp add: m')
      then have "sr_EntryID r \<noteq> i" using d add' by (auto simp: refs_distinct_def)
      moreover have "cr_Entries A w1 (sr_EntryID r) = cr_Entries A w (sr_EntryID r)"
        using mr False d by (auto simp: ent1 refs_distinct_def)
      ultimately show ?thesis using a mr add' by (simp add: all_active_def)
    qed
  qed
  ultimately show ?thesis by (simp add: sched_inv_def)
qed

lemma remove_schedule_inv:
  assumes "sched_inv A m w" "RemoveSchedule A k m w = (m', w')"
  shows "sched_inv A m' w'"
proof (cases "m k")
  case None
  then show ?thesis using assms by (simp add: RemoveSchedule_def)
next
  case (Some r)
  then have m': "m' = m(k := None)" "w' = cr_Remove A (sr_EntryID r) w"
    using assms by (simp_all add: RemoveSchedule_def)
  have d: "refs_distinct A m w" and l: "no_leaks A m w" and a: "all_active A m w"
    using assms by (simp_all add: sched_inv_def)
  have "refs_distinct A m' w'" using d by (auto simp: refs_distinct_def m' remove_used)
  moreover have "no_leaks A m' w'"
    unfolding no_leaks_def
  proof (intro allI impI)
    fix i s f
    assume e: "cr_Entries A w' i = Some (s, f)"
    then have i: "i \<noteq> sr_EntryID r" and "cr_Entries A w i = Some (s, f)"
      by (auto simp: m' remove_entries split: if_splits)
    then obtain k' where k': "m k' = Some \<lparr>sr_EntryID = i, sr_Schedule = s, sr_Runnable = f\<rparr>"
      using l unfolding no_leaks_def by blast
    then have "k' \<noteq> k" using Some i by auto
    with k' show "\<exists>k. m' k = Some \<lparr>sr_EntryID = i, sr_Schedule = s, sr_Runnable = f\<rparr>"
      by (intro exI [of _ k']) (simp add: m')
  qed
  moreover have "all_active A m' w'"
    using a d Some unfolding all_active_def refs_distinct_def m' remove_entries
    by (auto split: if_splits)
  ultimately show ?thesis by (simp add: sched_inv_def)
qed

text \<open>
  A rejected cron expression leaves no entry for the key in the cron library, while the registry
  still holds the old reference.
\<close>

lemma set_schedule_err:
  assumes "sched_inv A m w" "m k = Some r" "SetSchedule A k s f m w = (Some e, m', w')"
  shows "HasSchedule m' k" "cr_Entries A w' (sr_EntryID r) = None" "no_leaks A m' w'"
    "refs_distinct A m' w'"
proof -
  have m': "m' = m" and ent: "cr_Entries A w' = (cr_Entries A w)(sr_EntryID r := None)"
    and used: "cr_Used A w' = cr_Used A w"
    using assms(2,3) add_err remove_entries remove_used
    by (auto simp: SetSchedule_def Let_def split: prod.splits sum.splits)
  show "HasSchedule m' k" using assms(2) m' by (simp add: HasSchedule_def)
  show "cr_Entries A w' (sr_EntryID r) = None" using ent by simp
  show "no_leaks A m' w'"
    using assms(1) ent unfolding m' sched_inv_def no_leaks_def by (auto split: if_splits)
  show "refs_distinct A m' w'"
    using assms(1) used unfolding m' sched_inv_def refs_distinct_def by auto
qed

end

interpretation registry: schedule_registry HasSchedule "SetSchedule A" "RemoveSchedule A" for A
proof
  fix k s f m w m' w' k' e
  show "SetSchedule A k s f m w = (None, m', w') \<Longrightarrow> HasSchedule m' k' \<longleftrightarrow> k' = k \<or> HasSchedule m k'"
    by (auto simp: SetSchedule_def HasSchedule_def Let_def split: prod.splits sum.splits option.splits if_splits)
  show "SetSchedule A k s f m w = (Some e, m', w') \<Longrightarrow> m' = m"
    by (auto simp: SetSchedule_def Let_def split: prod.splits sum.splits option.splits)
  show "RemoveSchedule A k m w = (m', w') \<Longrightarrow> HasSchedule m' k' \<longleftrightarrow> k' \<noteq> k \<and> HasSchedule m k'"
    by (auto simp: RemoveSchedule_def HasSchedule_def split: option.splits if_splits)
qed

section \<open>An instance of the cron parameter\<close>

text \<open>
  One concrete cron table: the next id and the entries. It accepts the expressions of a given
  predicate. It serves to show that the laws can hold.
\<close>

definition cron_ref :: "(string \<Rightarrow> bool) \<Rightarrow> (nat \<times> (nat \<rightharpoonup> string \<times> 'f), 'f) cron_api" where
  "cron_ref valid = \<lparr>
     cr_AddFunc = (\<lambda>s f (n, es). if valid s then (Inr n, (Suc n, es(n \<mapsto> (s, f))))
                                 else (Inl (PlainError ''parse error''), (n, es))),
     cr_Remove = (\<lambda>i (n, es). (n, es(i := None))),
     cr_Entries = snd, cr_Used = (\<lambda>(n, _). {..<n})\<rparr>"

interpretation cron_ref: cron_laws "cron_ref valid" for valid
  by unfold_locales (auto simp: cron_ref_def split: if_splits)

section \<open>Properties\<close>

text \<open>
  C24. The registry and the cron library agree: after setting or removing a schedule the references
  have different ids and the active cron entries are exactly the registered ones, with their
  expressions and callbacks. When an expression is rejected for a registered key, the old entry is
  gone from cron while the reference stays: the key is reported as scheduled but nothing runs.
\<close>

theorem registry_agrees_with_cron:
  assumes "cron_laws A" "sched_inv A m w"
  shows "(\<forall>key s f m' w'. SetSchedule A key s f m w = (None, m', w') \<longrightarrow>
        sched_inv A m' w' \<and> HasSchedule m' key) \<and>
    (\<forall>key m' w'. RemoveSchedule A key m w = (m', w') \<longrightarrow> sched_inv A m' w' \<and> \<not> HasSchedule m' key) \<and>
    (\<forall>key s f e m' w' r. SetSchedule A key s f m w = (Some e, m', w') \<and> m key = Some r \<longrightarrow>
        HasSchedule m' key \<and> cr_Entries A w' (sr_EntryID r) = None)"
proof (intro conjI allI impI)
  show "sched_inv A m' w'" if "SetSchedule A key s f m w = (None, m', w')" for key s f m' w'
    using cron_laws.set_schedule_inv [OF assms that] .
  show "HasSchedule m' key" if "SetSchedule A key s f m w = (None, m', w')" for key s f m' w'
    using registry.set_ok [OF that] by simp
  show "sched_inv A m' w'" if "RemoveSchedule A key m w = (m', w')" for key m' w'
    using cron_laws.remove_schedule_inv [OF assms that] .
  show "\<not> HasSchedule m' key" if "RemoveSchedule A key m w = (m', w')" for key m' w'
    using registry.remove_has [OF that] by simp
  fix key s f e m' w' r
  assume "SetSchedule A key s f m w = (Some e, m', w') \<and> m key = Some r"
  then show "HasSchedule m' key" "cr_Entries A w' (sr_EntryID r) = None"
    using cron_laws.set_schedule_err [OF assms] by blast+
qed

theorem registry_agrees_with_cron_witness:
  "\<exists>m' w'. SetSchedule (cron_ref (\<lambda>s. s \<noteq> [])) ''k'' ''@daily'' () Map.empty (1, Map.empty) = (None, m', w') \<and>
     sched_inv (cron_ref (\<lambda>s. s \<noteq> [])) m' w' \<and> HasSchedule m' ''k''"
proof -
  let ?A = "cron_ref (\<lambda>s. s \<noteq> []) :: (nat \<times> (nat \<rightharpoonup> string \<times> unit), unit) cron_api"
  have inv: "sched_inv ?A Map.empty (1, Map.empty)"
    by (simp add: sched_inv_def refs_distinct_def no_leaks_def all_active_def cron_ref_def)
  obtain m' w' where s: "SetSchedule ?A ''k'' ''@daily'' () Map.empty (1, Map.empty) = (None, m', w')"
    by (simp add: SetSchedule_def cron_ref_def)
  then show ?thesis
    using registry_agrees_with_cron [OF cron_ref.cron_laws_axioms inv] by blast
qed

end
