(* ===== verification/Operator_Env.thy ===== *)
theory Operator_Env
  imports Env_Vars Monitoring Scheduler
begin

text \<open>
  What the operator runs in. The outside world (the API server with everything in it, and the
  cron table) is an arbitrary type \<open>'w\<close>; every call of the Kubernetes client is a field of
  the parameter \<open>'w kube\<close>, a function that may change the world and may fail. \<open>lib\<close>
  collects the library functions that have no state. The operator's own state is the record
  \<open>env\<close>: metrics, registered schedules and repository lockers, next to the world.
\<close>

section \<open>Objects of the cluster\<close>

record pod =
  pod_Meta :: object_meta
  pod_Spec :: pod_spec
  pod_Phase :: string

record persistent_volume_claim =
  pvc_Meta :: object_meta
  pvc_AccessModes :: "string list"
  pvc_VolumeName :: string
  pvc_Phase :: string

record node_selector_requirement =
  nsr_Key :: string
  nsr_Operator :: string
  nsr_Values :: "string list"

record persistent_volume =
  pv_NodeAffinity :: "node_selector_requirement list list option"
    \<comment> \<open>the terms of \<^verbatim>\<open>Spec.NodeAffinity.Required\<close>, \<open>None\<close> when either pointer is nil\<close>

record deployment_condition =
  dc_Type :: string
  dc_Status :: condition_status
  dc_Reason :: string
  dc_Message :: string

record deployment =
  dep_Meta :: object_meta
  dep_Replicas :: int
  dep_Template :: pod_template
  dep_Selector :: labels
  dep_AvailableReplicas :: int
  dep_Conditions :: "deployment_condition list"

record PreBackupPod =
  pbp_Meta :: object_meta
  pbp_BackupCommand :: string
  pbp_FileExtension :: string
  pbp_Pod :: "pod_template option"

record PodConfig =
  pc_Meta :: object_meta
  pc_Template :: pod_template

text \<open>How pods are selected in a list call: all, those without a label, or by a selector.\<close>

datatype pod_query = AllPods | PodsWithoutLabel string | PodsMatching string

section \<open>Parameters\<close>

text \<open>
  \<open>lib_Order e\<close> is the order in which the runtime enumerates the map \<open>e\<close>.
  \<open>lib_Sha256Hex\<close> and \<open>lib_Sha1Int\<close> are the digests as hexadecimal text and as a
  number.
\<close>

record lib =
  lib_Meta :: meta_api
  lib_MergoPodSpec :: "pod_spec \<Rightarrow> pod_spec \<Rightarrow> pod_spec result"
  lib_MergoLabels :: "labels \<Rightarrow> labels \<Rightarrow> labels result"
  lib_MergoVars :: "Vars \<Rightarrow> Vars \<Rightarrow> gerr option \<times> Vars"
  lib_MergoResources :: "resource_requirements \<Rightarrow> resource_requirements \<Rightarrow> gerr option \<times> resource_requirements"
  lib_MergoBackend :: "Backend \<Rightarrow> Backend option \<Rightarrow> gerr option \<times> Backend"
  lib_MergoPSC :: "pod_security_context \<Rightarrow> pod_security_context \<Rightarrow> gerr option \<times> pod_security_context"
  lib_Order :: "Vars \<Rightarrow> string list"
  lib_Sha256Hex :: "string \<Rightarrow> string"
  lib_Sha1Int :: "string \<Rightarrow> nat"
  lib_SetControllerReference :: "JobObject \<Rightarrow> object_meta \<Rightarrow> object_meta result"
  lib_SetOwnerReference :: "JobObject \<Rightarrow> object_meta \<Rightarrow> object_meta result"
  lib_LabelSelectorAsSelector :: "string \<Rightarrow> string result"
  lib_MergeLabels :: "labels \<Rightarrow> labels \<Rightarrow> labels"
  lib_AddFinalizer :: "string \<Rightarrow> string list \<Rightarrow> string list"
  lib_RemoveFinalizer :: "string \<Rightarrow> string list \<Rightarrow> string list"
  lib_ShortenString :: "string \<Rightarrow> int \<Rightarrow> string"
  lib_ParseQuantity :: "string \<Rightarrow> quantity option"
  lib_JsonDecode :: "string \<Rightarrow> json result"

text \<open>
  The callback of a cron entry: the handler's schedule and the object it will create, as they are when
  the entry is made. The Go closure holds pointers to them; of the schedule it reads the name, the
  namespace and the identity, which a reconciliation does not change, and of the object it overwrites
  what a call before it has set.
\<close>

record cron_job =
  cj_Schedule :: Schedule
  cj_Obj :: JobObject

record 'w kube =
  k_Cron :: "('w, cron_job) cron_api"
  k_GetObject :: "JobType \<Rightarrow> namespaced_name \<Rightarrow> 'w \<Rightarrow> JobObject result \<times> 'w"
  k_ListObjects :: "JobType \<Rightarrow> string \<Rightarrow> 'w \<Rightarrow> JobObject list result \<times> 'w"
  k_CreateObject :: "JobObject \<Rightarrow> 'w \<Rightarrow> gerr option \<times> 'w"
  k_DeleteObject :: "JobObject \<Rightarrow> 'w \<Rightarrow> gerr option \<times> 'w"
  k_UpdateObject :: "JobObject \<Rightarrow> 'w \<Rightarrow> (gerr option \<times> JobObject) \<times> 'w"
  k_CreateOrUpdateObject :: "JobObject \<Rightarrow> (JobObject \<Rightarrow> JobObject) \<Rightarrow> 'w \<Rightarrow> (gerr option \<times> JobObject) \<times> 'w"
  k_StatusUpdate :: "JobObject \<Rightarrow> 'w \<Rightarrow> (gerr option \<times> JobObject) \<times> 'w"
  k_StatusPatch :: "JobObject \<Rightarrow> JobObject \<Rightarrow> 'w \<Rightarrow> (gerr option \<times> JobObject) \<times> 'w"
    \<comment> \<open>the base of \<^verbatim>\<open>client.MergeFrom\<close>, then the object\<close>
  k_GetPodConfig :: "namespaced_name \<Rightarrow> 'w \<Rightarrow> PodConfig result \<times> 'w"
  k_GetJob :: "namespaced_name \<Rightarrow> 'w \<Rightarrow> batch_job result \<times> 'w"
  k_ListJobs :: "labels \<Rightarrow> string option \<Rightarrow> 'w \<Rightarrow> batch_job list result \<times> 'w"
  k_CreateOrUpdateJob :: "batch_job \<Rightarrow> (batch_job \<Rightarrow> 'w \<Rightarrow> batch_job result \<times> 'w) \<Rightarrow> 'w
     \<Rightarrow> (gerr option \<times> batch_job) \<times> 'w"
  k_ListPreBackupPods :: "string \<Rightarrow> string option \<Rightarrow> 'w \<Rightarrow> PreBackupPod list result \<times> 'w"
  k_GetDeployment :: "namespaced_name \<Rightarrow> 'w \<Rightarrow> deployment result \<times> 'w"
  k_CreateDeployment :: "deployment \<Rightarrow> 'w \<Rightarrow> deployment result \<times> 'w"
  k_DeleteDeployment :: "deployment \<Rightarrow> 'w \<Rightarrow> gerr option \<times> 'w"
  k_ListPods :: "string \<Rightarrow> pod_query \<Rightarrow> 'w \<Rightarrow> pod list result \<times> 'w"
  k_ListPVCs :: "string \<Rightarrow> string option \<Rightarrow> 'w \<Rightarrow> persistent_volume_claim list result \<times> 'w"
  k_GetPV :: "string \<Rightarrow> 'w \<Rightarrow> persistent_volume result \<times> 'w"
  k_CreateOrUpdateServiceAccount :: "namespaced_name \<Rightarrow> 'w \<Rightarrow> gerr option \<times> 'w"
  k_CreateOrUpdateRoleBinding :: "namespaced_name \<Rightarrow> string \<Rightarrow> string \<Rightarrow> 'w \<Rightarrow> gerr option \<times> 'w"
    \<comment> \<open>the binding, the name of the bound service account, the name of the cluster role\<close>

section \<open>State\<close>

text \<open>
  \<^verbatim>\<open>lockerImpl\<close> of \<^verbatim>\<open>operator/locker/locker.go\<close>;
  \<open>lk_addr\<close> is its identity, the pointer stored in \<^verbatim>\<open>repositoryLockers\<close>.
\<close>

record lockerImpl =
  lk_addr :: nat
  lk_repository :: string

record 'w env =
  env_World :: 'w
  env_Metrics :: Metrics
  env_Schedules :: "cron_job schedules"
  env_Lockers :: "(string \<times> lockerImpl) list" \<comment> \<open>\<^verbatim>\<open>repositoryLockers\<close>\<close>

definition in_world :: "('w \<Rightarrow> 'a \<times> 'w) \<Rightarrow> 'w env \<Rightarrow> 'a \<times> 'w env" where
  "in_world f e = (case f (env_World e) of (a, w) \<Rightarrow> (a, e\<lparr>env_World := w\<rparr>))"

definition on_metrics :: "(Metrics \<Rightarrow> Metrics) \<Rightarrow> 'w env \<Rightarrow> 'w env" where
  "on_metrics f e = e\<lparr>env_Metrics := f (env_Metrics e)\<rparr>"

text \<open>The environment variables of a job: the merge with the defaults, in the runtime's order.\<close>

definition rbind :: "'a result \<Rightarrow> ('a \<Rightarrow> 'b result) \<Rightarrow> 'b result" where
  "rbind r f = (case r of Inl e \<Rightarrow> Inl e | Inr a \<Rightarrow> f a)"

lemma rbind_simps [simp]: "rbind (Inl e) f = Inl e" "rbind (Inr a) f = f a"
  by (simp_all add: rbind_def)

lemma rbind_Inr: "rbind r f = Inr b \<longleftrightarrow> (\<exists>a. r = Inr a \<and> f a = Inr b)"
  by (cases r) auto

lemma rbind_Inl: "rbind r f = Inl e \<longleftrightarrow> r = Inl e \<or> (\<exists>a. r = Inr a \<and> f a = Inl e)"
  by (cases r) auto

lemma in_world_frame:
  "in_world f e = (a, e') \<Longrightarrow> env_Metrics e' = env_Metrics e"
  "in_world f e = (a, e') \<Longrightarrow> env_Schedules e' = env_Schedules e"
  "in_world f e = (a, e') \<Longrightarrow> env_Lockers e' = env_Lockers e"
  by (auto simp: in_world_def split: prod.splits)

lemma in_world_Pair: "in_world f e = (a, e') \<longleftrightarrow>
    (\<exists>w. f (env_World e) = (a, w) \<and> e' = e\<lparr>env_World := w\<rparr>)"
  by (auto simp: in_world_def split: prod.splits)

lemma on_metrics_simps [simp]:
  "env_World (on_metrics f e) = env_World e"
  "env_Metrics (on_metrics f e) = f (env_Metrics e)"
  "env_Schedules (on_metrics f e) = env_Schedules e"
  "env_Lockers (on_metrics f e) = env_Lockers e"
  by (simp_all add: on_metrics_def)

end
