(* ===== verification/Kube_Ref.thy ===== *)
theory Kube_Ref
  imports Operator_Env
begin

text \<open>
  What the operator relies on of the API server and of the pure library functions, as locales
  over the parameters \<open>kube\<close> and \<open>lib\<close>, and one instance of each. The instance is a
  small in-memory cluster; it models nothing of the repository and serves to show that the laws
  can hold and to apply theorems to concrete inputs.
\<close>

section \<open>Laws\<close>

text \<open>
  An observer of the world that records the requests to delete objects, in the order the server
  receives them.
\<close>

locale delete_log =
  fixes K :: "'w kube" and log :: "'w \<Rightarrow> JobObject list"
  assumes log_delete: "k_DeleteObject K obj w = (r, w') \<Longrightarrow> log w' = log w @ [obj]"
    and log_list: "k_ListObjects K t ns w = (rs, w') \<Longrightarrow> log w' = log w"
    and log_status: "k_StatusUpdate K obj w = (ru, w') \<Longrightarrow> log w' = log w"

text \<open>
  An observer that records the objects the server was asked to create.
\<close>

locale create_log =
  fixes K :: "'w kube" and created :: "'w \<Rightarrow> JobObject list"
  assumes log_create: "k_CreateObject K obj w = (r, w') \<Longrightarrow> created w' = created w @ [obj]"

text \<open>A call that an observer of the world does not notice.\<close>

definition keeps :: "('w \<Rightarrow> 'b) \<Rightarrow> ('w \<Rightarrow> 'a \<times> 'w) \<Rightarrow> bool" where
  "keeps obs f \<longleftrightarrow> (\<forall>w. obs (snd (f w)) = obs w)"

lemma keepsD: "keeps obs f \<Longrightarrow> f w = (r, w') \<Longrightarrow> obs w' = obs w"
  by (auto simp: keeps_def dest: spec [of _ w])

lemma keepsI: "(\<And>w r w'. f w = (r, w') \<Longrightarrow> obs w' = obs w) \<Longrightarrow> keeps obs f"
  by (auto simp: keeps_def) (metis surjective_pairing)

lemma keeps_return [simp, intro]: "keeps obs (\<lambda>w. (a, w))"
  by (simp add: keeps_def)

lemma keeps_bind:
  "keeps obs f \<Longrightarrow> (\<And>a. keeps obs (g a)) \<Longrightarrow> keeps obs (\<lambda>w. case f w of (a, w') \<Rightarrow> g a w')"
  by (simp add: keeps_def split: prod.splits) (metis snd_conv)

text \<open>
  An observer that records the batch jobs handed to \<^verbatim>\<open>CreateOrUpdate\<close>, by their keys,
  and notices no other call. The mutation function is run by the call and may itself call the
  server.
\<close>

locale job_log =
  fixes K :: "'w kube" and submitted :: "'w \<Rightarrow> namespaced_name list"
  assumes submit: "(\<And>j. keeps submitted (f j)) \<Longrightarrow> k_CreateOrUpdateJob K j f w = (r, w') \<Longrightarrow>
      submitted w' = submitted w @ [job_key j]"
    and keeps_reads: "keeps submitted (k_GetPodConfig K key)" "keeps submitted (k_GetJob K key)"
      "keeps submitted (k_ListJobs K sel ns)" "keeps submitted (k_ListObjects K t ns')"
      "keeps submitted (k_ListPods K ns' q)" "keeps submitted (k_ListPVCs K ns' sel')"
      "keeps submitted (k_GetPV K name)" "keeps submitted (k_ListPreBackupPods K ns' sel')"
      "keeps submitted (k_GetDeployment K key)"
    and keeps_writes: "keeps submitted (k_StatusUpdate K obj)" "keeps submitted (k_StatusPatch K base obj)"
      "keeps submitted (k_DeleteObject K obj)" "keeps submitted (k_CreateDeployment K d)"
      "keeps submitted (k_DeleteDeployment K d)" "keeps submitted (k_CreateOrUpdateServiceAccount K key)"
      "keeps submitted (k_CreateOrUpdateRoleBinding K key sa role)"

text \<open>
  \<^verbatim>\<open>SetControllerReference\<close> makes the object the controller, by an owner reference,
  and leaves the rest of the metadata alone; \<^verbatim>\<open>%x\<close> of a SHA-256 digest has 64 characters;
  in \<^verbatim>\<open>labels.Merge\<close> the second set wins; finalizers are a set; a shortened string
  has at most the given length. The laws of
  the condition helpers are part of it.
\<close>

locale lib_laws = meta_laws "lib_Meta L" for L :: lib +
  assumes controller_ref: "lib_SetControllerReference L obj m = Inr m' \<Longrightarrow>
      m' = m\<lparr>om_OwnerReferences := om_OwnerReferences m'\<rparr> \<and>
      (\<exists>r. GetControllerOf (lib_Meta L) m' = Some r \<and> or_UID r = om_UID (obj_meta obj))"
    and merge_labels: "lib_MergeLabels L l1 l2 = l1 ++ l2"
    and add_finalizer: "set (lib_AddFinalizer L f fs) = insert f (set fs)"
    and remove_finalizer: "set (lib_RemoveFinalizer L f fs) = set fs - {f}"
    and shorten: "0 \<le> n \<Longrightarrow> int (length (lib_ShortenString L s n)) \<le> n"
    and sha256_length: "length (lib_Sha256Hex L s) = 64"
begin

lemma controller_frame:
  assumes "lib_SetControllerReference L obj m = Inr m'"
  shows "om_Name m' = om_Name m" "om_Namespace m' = om_Namespace m" "om_Labels m' = om_Labels m"
proof -
  have e: "m' = m\<lparr>om_OwnerReferences := om_OwnerReferences m'\<rparr>" using controller_ref [OF assms] by simp
  show "om_Name m' = om_Name m" by (subst e) simp
  show "om_Namespace m' = om_Namespace m" by (subst e) simp
  show "om_Labels m' = om_Labels m" by (subst e) simp
qed

end

section \<open>A cluster in memory\<close>

record cluster =
  cl_Objects :: "JobObject list"
  cl_Jobs :: "batch_job list"
  cl_PodConfigs :: "PodConfig list"
  cl_PreBackupPods :: "PreBackupPod list"
  cl_Deployments :: "deployment list"
  cl_Pods :: "pod list"
  cl_PVCs :: "persistent_volume_claim list"
  cl_PVs :: "(string \<times> persistent_volume) list"
  cl_Cron :: "nat \<times> (nat \<rightharpoonup> string \<times> cron_job)"
  cl_Deleted :: "JobObject list"
  cl_Created :: "JobObject list"
  cl_Submitted :: "namespaced_name list"

definition empty_cluster :: cluster where
  "empty_cluster = \<lparr>cl_Objects = [], cl_Jobs = [], cl_PodConfigs = [], cl_PreBackupPods = [],
     cl_Deployments = [], cl_Pods = [], cl_PVCs = [], cl_PVs = [], cl_Cron = (1, Map.empty),
     cl_Deleted = [], cl_Created = [], cl_Submitted = []\<rparr>"

definition same_object :: "JobObject \<Rightarrow> JobObject \<Rightarrow> bool" where
  "same_object a b \<longleftrightarrow> GetType a = GetType b \<and>
     MapToNamespacedName (obj_meta a) = MapToNamespacedName (obj_meta b)"

definition ref_missing :: gerr where
  "ref_missing = ApiError NotFoundReason ''not found''"

definition ref_get :: "('a \<Rightarrow> bool) \<Rightarrow> 'a list \<Rightarrow> 'a result" where
  "ref_get P xs = (case find P xs of Some x \<Rightarrow> Inr x | None \<Rightarrow> Inl ref_missing)"

definition ref_put :: "JobObject \<Rightarrow> cluster \<Rightarrow> (gerr option \<times> JobObject) \<times> cluster" where
  "ref_put obj w =
     (if \<exists>x \<in> set (cl_Objects w). same_object x obj
      then ((None, obj), w\<lparr>cl_Objects := map (\<lambda>x. if same_object x obj then obj else x) (cl_Objects w)\<rparr>)
      else ((Some ref_missing, obj), w))"

definition ref_matches :: "labels \<Rightarrow> labels \<Rightarrow> bool" where
  "ref_matches sel l =
     list_all (\<lambda>k. sel k = None \<or> l k = sel k)
       [''k8upjob'', LabelK8upType, LabelK8upOwnedBy, LabelRepositoryHash]"

definition ref_put_job :: "batch_job \<Rightarrow> (batch_job \<Rightarrow> cluster \<Rightarrow> batch_job result \<times> cluster) \<Rightarrow> cluster
    \<Rightarrow> (gerr option \<times> batch_job) \<times> cluster" where
  "ref_put_job j f w =
     (let w = w\<lparr>cl_Submitted := cl_Submitted w @ [job_key j]\<rparr>;
          j0 = (case find (\<lambda>x. job_key x = job_key j) (cl_Jobs w) of Some x \<Rightarrow> x | None \<Rightarrow> j)
      in case f j0 w of
           (Inl err, w) \<Rightarrow> ((Some err, j0), w)
         | (Inr j', w) \<Rightarrow>
             ((None, j'), w\<lparr>cl_Jobs := filter (\<lambda>x. job_key x \<noteq> job_key j) (cl_Jobs w) @ [j']\<rparr>))"

definition lift_cron :: "('c, 'f) cron_api \<Rightarrow> ('w \<Rightarrow> 'c) \<Rightarrow> ('c \<Rightarrow> 'w \<Rightarrow> 'w) \<Rightarrow> ('w, 'f) cron_api" where
  "lift_cron A get put = \<lparr>
     cr_AddFunc = (\<lambda>s f w. case cr_AddFunc A s f (get w) of (r, c) \<Rightarrow> (r, put c w)),
     cr_Remove = (\<lambda>i w. put (cr_Remove A i (get w)) w),
     cr_Entries = (\<lambda>w. cr_Entries A (get w)), cr_Used = (\<lambda>w. cr_Used A (get w))\<rparr>"

definition kube_ref :: "cluster kube" where
  "kube_ref = \<lparr>
     k_Cron = lift_cron (cron_ref (\<lambda>s. \<not> IsRandom s)) cl_Cron (\<lambda>c w. w\<lparr>cl_Cron := c\<rparr>),
     k_GetObject = (\<lambda>t key w. (ref_get (\<lambda>x. GetType x = t \<and> MapToNamespacedName (obj_meta x) = key) (cl_Objects w), w)),
     k_ListObjects = (\<lambda>t ns w. (Inr (filter (\<lambda>x. GetType x = t \<and> om_Namespace (obj_meta x) = ns) (cl_Objects w)), w)),
     k_CreateObject = (\<lambda>obj w. (None, w\<lparr>cl_Objects := cl_Objects w @ [obj], cl_Created := cl_Created w @ [obj]\<rparr>)),
     k_DeleteObject = (\<lambda>obj w. (None, w\<lparr>cl_Objects := filter (\<lambda>x. \<not> same_object x obj) (cl_Objects w),
        cl_Deleted := cl_Deleted w @ [obj]\<rparr>)),
     k_UpdateObject = ref_put,
     k_CreateOrUpdateObject = (\<lambda>obj f w. case find (\<lambda>x. same_object x obj) (cl_Objects w) of
        Some x \<Rightarrow> ref_put (f x) w
      | None \<Rightarrow> ((None, f obj), w\<lparr>cl_Objects := cl_Objects w @ [f obj]\<rparr>)),
     k_StatusUpdate = ref_put,
     k_StatusPatch = (\<lambda>base obj w. ((None, obj), w)),
     k_GetPodConfig = (\<lambda>key w. (ref_get (\<lambda>x. MapToNamespacedName (pc_Meta x) = key) (cl_PodConfigs w), w)),
     k_GetJob = (\<lambda>key w. (ref_get (\<lambda>x. job_key x = key) (cl_Jobs w), w)),
     k_ListJobs = (\<lambda>sel ns w. (Inr (filter (\<lambda>j. ref_matches sel (job_labels j) \<and>
        (ns = None \<or> ns = Some (om_Namespace (j_Meta j)))) (cl_Jobs w)), w)),
     k_CreateOrUpdateJob = ref_put_job,
     k_ListPreBackupPods = (\<lambda>ns sel w. (Inr (filter (\<lambda>p. om_Namespace (pbp_Meta p) = ns) (cl_PreBackupPods w)), w)),
     k_GetDeployment = (\<lambda>key w. (ref_get (\<lambda>x. MapToNamespacedName (dep_Meta x) = key) (cl_Deployments w), w)),
     k_CreateDeployment = (\<lambda>d w. (Inr d, w\<lparr>cl_Deployments := cl_Deployments w @ [d]\<rparr>)),
     k_DeleteDeployment = (\<lambda>d w. (None, w\<lparr>cl_Deployments := filter (\<lambda>x.
        MapToNamespacedName (dep_Meta x) \<noteq> MapToNamespacedName (dep_Meta d)) (cl_Deployments w)\<rparr>)),
     k_ListPods = (\<lambda>ns q w. (Inr (filter (\<lambda>p. om_Namespace (pod_Meta p) = ns) (cl_Pods w)), w)),
     k_ListPVCs = (\<lambda>ns sel w. (Inr (filter (\<lambda>p. om_Namespace (pvc_Meta p) = ns) (cl_PVCs w)), w)),
     k_GetPV = (\<lambda>name w. (case map_of (cl_PVs w) name of Some pv \<Rightarrow> Inr pv | None \<Rightarrow> Inl ref_missing, w)),
     k_CreateOrUpdateServiceAccount = (\<lambda>_ w. (None, w)),
     k_CreateOrUpdateRoleBinding = (\<lambda>_ _ _ w. (None, w))\<rparr>"

interpretation kube_ref: delete_log kube_ref cl_Deleted
  by unfold_locales (auto simp: kube_ref_def ref_put_def split: if_splits)

interpretation kube_ref: create_log kube_ref cl_Created
  by unfold_locales (auto simp: kube_ref_def)

lemma ref_put_keeps: "keeps cl_Submitted (ref_put obj)"
  by (auto simp: keeps_def ref_put_def)

interpretation kube_ref: job_log kube_ref cl_Submitted
proof
  fix f j w r w'
  assume f: "\<And>j. keeps cl_Submitted (f j)" and c: "k_CreateOrUpdateJob kube_ref j f w = (r, w')"
  then show "cl_Submitted w' = cl_Submitted w @ [job_key j]"
    by (auto simp: kube_ref_def ref_put_job_def Let_def split: prod.splits sum.splits option.splits dest!: keepsD [OF f])
qed (auto simp: kube_ref_def keeps_def ref_put_keeps [unfolded keeps_def, simplified])

interpretation cluster_cron: cron_laws "k_Cron kube_ref"
  by unfold_locales
    (auto simp: kube_ref_def lift_cron_def cron_ref_def split: if_splits prod.splits)

section \<open>An instance of the library functions\<close>

definition ref_owner :: "JobObject \<Rightarrow> owner_ref" where
  "ref_owner obj = \<lparr>or_APIVersion = ''k8up.io/v1'', or_Kind = GetType obj, or_Name = om_Name (obj_meta obj),
     or_UID = om_UID (obj_meta obj), or_Controller = Some True\<rparr>"

text \<open>Any text of 64 characters will do in the place of a digest.\<close>

definition ref_digest :: "string \<Rightarrow> string" where
  "ref_digest s = take 64 (s @ replicate 64 (CHR ''0''))"

definition ref_order :: "Vars \<Rightarrow> string list" where
  "ref_order e = filter (\<lambda>k. e k \<noteq> None)
     [''STATS_URL'', ResticRepositoryEnvName, ResticPasswordEnvName, AwsAccessKeyIDEnvName,
      AwsSecretAccessKeyEnvName, ''HOSTNAME'', ResticOptionsEnvName]"

definition lib_ref :: lib where
  "lib_ref = \<lparr>lib_Meta = meta_ref,
     lib_MergoPodSpec = (\<lambda>dst src. Inr (if ps_Containers src = [] then dst\<lparr>ps_NodeSelector := ps_NodeSelector src\<rparr> else src)),
     lib_MergoLabels = (\<lambda>dst src. Inr (src ++ dst)),
     lib_MergoVars = mergo_ref,
     lib_MergoResources = (\<lambda>dst src. (None, \<lparr>rr_Limits = rr_Limits src ++ rr_Limits dst,
        rr_Requests = rr_Requests src ++ rr_Requests dst\<rparr>)),
     lib_MergoBackend = (\<lambda>dst src. (None, dst)),
     lib_MergoPSC = (\<lambda>dst src. (None, dst)),
     lib_Order = ref_order,
     lib_Sha256Hex = ref_digest,
     lib_Sha1Int = (\<lambda>s. sum_list (map of_char s)),
     lib_SetControllerReference = (\<lambda>obj m.
        if \<exists>r \<in> set (om_OwnerReferences m). or_Controller r = Some True \<and> or_UID r \<noteq> om_UID (obj_meta obj)
        then Inl (PlainError ''already owned'')
        else Inr (m\<lparr>om_OwnerReferences :=
          filter (\<lambda>r. or_Controller r \<noteq> Some True) (om_OwnerReferences m) @ [ref_owner obj]\<rparr>)),
     lib_SetOwnerReference = (\<lambda>obj m. Inr (m\<lparr>om_OwnerReferences := om_OwnerReferences m @ [ref_owner obj]\<rparr>)),
     lib_LabelSelectorAsSelector = Inr,
     lib_MergeLabels = (\<lambda>l1 l2. l1 ++ l2),
     lib_AddFinalizer = (\<lambda>f fs. if f \<in> set fs then fs else fs @ [f]),
     lib_RemoveFinalizer = (\<lambda>f fs. filter (\<lambda>x. x \<noteq> f) fs),
     lib_ShortenString = (\<lambda>s n. take (nat n) s),
     lib_ParseQuantity = Some,
     lib_JsonDecode = (\<lambda>s. Inl (PlainError ''no JSON''))\<rparr>"

lemma find_append: "find P (xs @ ys) = (case find P xs of Some x \<Rightarrow> Some x | None \<Rightarrow> find P ys)"
  by (induction xs) auto

lemma find_filter_not: "find P (filter (\<lambda>x. \<not> P x) xs) = None"
  by (simp add: find_None_iff)

interpretation lib_ref: lib_laws lib_ref
proof (rule lib_laws.intro)
  show "meta_laws (lib_Meta lib_ref)" by (simp add: lib_ref_def meta_ref.meta_laws_axioms)
  show "lib_laws_axioms lib_ref"
    by (rule lib_laws_axioms.intro) (auto simp: lib_ref_def ref_owner_def ref_digest_def
        meta_ref_def find_append find_filter_not split: if_splits)
qed

text \<open>An initial state of the operator over a cluster.\<close>

definition ref_env :: "cluster \<Rightarrow> cluster env" where
  "ref_env w = \<lparr>env_World = w, env_Metrics = empty_metrics, env_Schedules = Map.empty, env_Lockers = []\<rparr>"

section \<open>Sample objects\<close>

definition ex_meta :: "string \<Rightarrow> int \<Rightarrow> object_meta" where
  "ex_meta name ts = empty_meta\<lparr>om_Name := name, om_Namespace := ''ns'', om_UID := name @ ''-uid'',
     om_CreationTimestamp := ts\<rparr>"

definition ex_backup_spec :: BackupSpec where
  "ex_backup_spec = \<lparr>bs_RunnableSpec = empty_runnable, bs_KeepJobs = None,
     bs_FailedJobsHistoryLimit = None, bs_SuccessfulJobsHistoryLimit = None, bs_PromURL = [],
     bs_ClusterName = [], bs_StatsURL = [], bs_Tags = [], bs_LabelSelectors = None\<rparr>"

definition ex_backup :: "string \<Rightarrow> int \<Rightarrow> condition list \<Rightarrow> JobObject" where
  "ex_backup name ts conds = BackupObj \<lparr>b_Meta = ex_meta name ts, b_Spec = ex_backup_spec,
     b_Status = empty_status\<lparr>st_Conditions := conds\<rparr>\<rparr>"

definition ex_condition :: "ConditionType \<Rightarrow> condition_status \<Rightarrow> ConditionReason \<Rightarrow> condition" where
  "ex_condition t s r = \<lparr>cond_Type = t, cond_Status = s, cond_Reason = r, cond_Message = []\<rparr>"

definition ex_job :: "string \<Rightarrow> labels \<Rightarrow> int \<Rightarrow> job_condition list \<Rightarrow> batch_job" where
  "ex_job name l active conds = empty_job\<lparr>j_Meta := (ex_meta name 0)\<lparr>om_Labels := l\<rparr>,
     j_Status := \<lparr>js_Active = active, js_Succeeded = 0, js_Failed = 0, js_Conditions = conds\<rparr>\<rparr>"

definition ex_schedule_spec :: ScheduleSpec where
  "ex_schedule_spec = \<lparr>ss_Restore = None, ss_Backup = None, ss_Archive = None, ss_Check = None,
     ss_Prune = None, ss_Backend = None, ss_KeepJobs = None, ss_FailedJobsHistoryLimit = None,
     ss_SuccessfulJobsHistoryLimit = None, ss_ResourceRequirementsTemplate = empty_resources,
     ss_PodSecurityContext = None, ss_PodConfigRef = None\<rparr>"

definition ex_schedule :: "string \<Rightarrow> ScheduleSpec \<Rightarrow> Schedule" where
  "ex_schedule name spec = \<lparr>s_Meta = ex_meta name 0, s_Spec = spec,
     s_Status = \<lparr>sst_Conditions = [], sst_EffectiveSchedules = []\<rparr>\<rparr>"

lemmas ex_defs = ex_meta_def ex_backup_spec_def ex_backup_def ex_condition_def ex_job_def

end
