(* ===== verification/Job_Pkg.thy ===== *)
theory Job_Pkg
  imports Kube_Ref
begin

text \<open>
  \<^verbatim>\<open>operator/job/job.go\<close>, \<^verbatim>\<open>operator/job/status.go\<close> and
  \<^verbatim>\<open>NewPodConfig\<close> of \<^verbatim>\<open>api/v1/podconfig_types.go\<close>: what all
  jobs share. The object that Go holds by pointer is threaded through: a function that changes it
  returns the new one.
\<close>

definition K8uplabel :: string where [k8up_consts]: "K8uplabel = ''k8upjob''"
definition K8upExclusive :: string where [k8up_consts]: "K8upExclusive = ''k8upjob/exclusive''"

record Config =
  cf_Obj :: JobObject
  cf_Repository :: string

definition NewConfig :: "JobObject \<Rightarrow> string \<Rightarrow> Config" where
  "NewConfig obj repository = \<lparr>cf_Obj = obj, cf_Repository = repository\<rparr>"

definition Sha256Hash :: "lib \<Rightarrow> string \<Rightarrow> string" where
  "Sha256Hash L v = (if v = [] then [] else take 63 (lib_Sha256Hex L v))"

section \<open>Pod configuration\<close>

definition NewPodConfig :: "'w kube \<Rightarrow> string \<Rightarrow> string \<Rightarrow> 'w \<Rightarrow> PodConfig option result \<times> 'w" where
  "NewPodConfig K name namespace w =
     (case k_GetPodConfig K \<lparr>nn_Namespace = namespace, nn_Name = name\<rparr> w of
        (Inl err, w) \<Rightarrow> (if IsNotFound err then Inr None else Inl err, w)
      | (Inr config, w) \<Rightarrow> (Inr (Some config), w))"

definition Backup_GetPodConfig :: "'w kube \<Rightarrow> Backup \<Rightarrow> 'w \<Rightarrow> PodConfig option result \<times> 'w" where
  "Backup_GetPodConfig K b w =
     (case rs_PodConfigRef (bs_RunnableSpec (b_Spec b)) of
        None \<Rightarrow> (Inr None, w)
      | Some name \<Rightarrow> NewPodConfig K name (om_Namespace (b_Meta b)) w)"

definition Check_GetPodConfig :: "'w kube \<Rightarrow> Check \<Rightarrow> 'w \<Rightarrow> PodConfig option result \<times> 'w" where
  "Check_GetPodConfig K c w =
     (case rs_PodConfigRef (cs_RunnableSpec (c_Spec c)) of
        None \<Rightarrow> (Inr None, w)
      | Some name \<Rightarrow> NewPodConfig K name (om_Namespace (c_Meta c)) w)"

definition Archive_GetPodConfig :: "'w kube \<Rightarrow> Archive \<Rightarrow> 'w \<Rightarrow> PodConfig option result \<times> 'w" where
  "Archive_GetPodConfig K a w =
     (case archive_spec a of
        Inl err \<Rightarrow> (Inl err, w)
      | Inr spec \<Rightarrow>
         (case rs_PodConfigRef (res_RunnableSpec spec) of
            None \<Rightarrow> (Inr None, w)
          | Some name \<Rightarrow> NewPodConfig K name (om_Namespace (a_Meta a)) w))"

definition Restore_GetPodConfig :: "'w kube \<Rightarrow> Restore \<Rightarrow> 'w \<Rightarrow> PodConfig option result \<times> 'w" where
  "Restore_GetPodConfig K r w =
     (case rs_PodConfigRef (res_RunnableSpec (r_Spec r)) of
        None \<Rightarrow> (Inr None, w)
      | Some name \<Rightarrow> NewPodConfig K name (om_Namespace (r_Meta r)) w)"

definition Prune_GetPodConfig :: "'w kube \<Rightarrow> Prune \<Rightarrow> 'w \<Rightarrow> PodConfig option result \<times> 'w" where
  "Prune_GetPodConfig K p w =
     (case rs_PodConfigRef (prs_RunnableSpec (p_Spec p)) of
        None \<Rightarrow> (Inr None, w)
      | Some name \<Rightarrow> NewPodConfig K name (om_Namespace (p_Meta p)) w)"

definition Schedule_GetPodConfig :: "'w kube \<Rightarrow> Schedule \<Rightarrow> 'w \<Rightarrow> PodConfig option result \<times> 'w" where
  "Schedule_GetPodConfig K s w =
     (case ss_PodConfigRef (s_Spec s) of
        None \<Rightarrow> (Inr None, w)
      | Some name \<Rightarrow> NewPodConfig K name (om_Namespace (s_Meta s)) w)"

fun GetPodConfig :: "'w kube \<Rightarrow> JobObject \<Rightarrow> 'w \<Rightarrow> PodConfig option result \<times> 'w" where
  "GetPodConfig K (BackupObj b) w = Backup_GetPodConfig K b w"
| "GetPodConfig K (CheckObj c) w = Check_GetPodConfig K c w"
| "GetPodConfig K (ArchiveObj a) w = Archive_GetPodConfig K a w"
| "GetPodConfig K (RestoreObj r) w = Restore_GetPodConfig K r w"
| "GetPodConfig K (PruneObj p) w = Prune_GetPodConfig K p w"
| "GetPodConfig K (ScheduleObj s) w = Schedule_GetPodConfig K s w"

lemmas pod_config_defs = Backup_GetPodConfig_def Check_GetPodConfig_def Archive_GetPodConfig_def Restore_GetPodConfig_def Prune_GetPodConfig_def Schedule_GetPodConfig_def

lemma GetPodConfig_ref:
  "GetPodConfig K obj w =
     (case pod_config_ref obj of
        Inl p \<Rightarrow> (Inl p, w)
      | Inr None \<Rightarrow> (Inr None, w)
      | Inr (Some name) \<Rightarrow> NewPodConfig K name (om_Namespace (obj_meta obj)) w)"
  by (cases obj) (simp_all add: pod_config_defs split: sum.splits option.splits)

section \<open>MutateBatchJob\<close>

definition k8up_job_labels :: "lib \<Rightarrow> JobObject \<Rightarrow> Config \<Rightarrow> labels" where
  "k8up_job_labels L jobObj config =
     [K8uplabel \<mapsto> ''true'',
      LabelK8upType \<mapsto> GetType jobObj,
      LabelK8upOwnedBy \<mapsto> GetType jobObj @ ''_'' @ om_Name (obj_meta jobObj),
      LabelRepositoryHash \<mapsto> Sha256Hash L (cf_Repository config)]"

text \<open>The part before the pod configuration is read.\<close>

definition mutate_base :: "lib \<Rightarrow> batch_job \<Rightarrow> JobObject \<Rightarrow> Config \<Rightarrow> batch_job result" where
  "mutate_base L batchJob jobObj config =
     (let batchJob = batchJob\<lparr>j_Meta := (j_Meta batchJob)\<lparr>om_Labels :=
            lib_MergeLabels L (om_Labels (j_Meta batchJob)) (k8up_job_labels L jobObj config)\<rparr>\<rparr>
      in rbind (GetActiveDeadlineSeconds (cf_Obj config)) (\<lambda>deadline.
         rbind (GetPodSecurityContext jobObj) (\<lambda>psc.
         (let t = j_Template batchJob;
              batchJob = batchJob\<lparr>j_ActiveDeadlineSeconds := deadline,
                j_Template := t\<lparr>pt_Labels := lib_MergeLabels L (pt_Labels t) [K8uplabel \<mapsto> ''true'']\<rparr>\<rparr>;
              batchJob = upd_pod_spec (\<lambda>s. s\<lparr>ps_RestartPolicy := ''OnFailure''\<rparr>) batchJob;
              batchJob = upd_pod_spec (\<lambda>s. s\<lparr>ps_SecurityContext := psc\<rparr>) batchJob;
              batchJob = upd_pod_spec (\<lambda>s. if length (ps_Containers s) = 0
                           then s\<lparr>ps_Containers := [empty_container]\<rparr> else s) batchJob
          in rbind (GetResources (cf_Obj config)) (\<lambda>res.
             upd_container0 (\<lambda>c. c\<lparr>ctr_Resources := res\<rparr>) batchJob)))))"

text \<open>The three merges with the pod configuration.\<close>

definition merge_pod_config :: "lib \<Rightarrow> PodConfig option \<Rightarrow> batch_job \<Rightarrow> batch_job result" where
  "merge_pod_config L podConfig batchJob =
     (case podConfig of
        None \<Rightarrow> Inr batchJob
      | Some pc \<Rightarrow>
         (case lib_MergoPodSpec L (pt_Spec (j_Template batchJob)) (pt_Spec (pc_Template pc)) of
            Inl err \<Rightarrow> Inl (Wrapped ''cannot merge podConfig with defaults'' err)
          | Inr spec \<Rightarrow>
             rbind (lib_MergoLabels L (pt_Annotations (j_Template batchJob)) (om_Annotations (pc_Meta pc))) (\<lambda>ann.
             rbind (lib_MergoLabels L (pt_Labels (j_Template batchJob)) (om_Labels (pc_Meta pc))) (\<lambda>lbl.
             Inr (batchJob\<lparr>j_Template := \<lparr>pt_Labels = lbl, pt_Annotations = ann, pt_Spec = spec\<rparr>\<rparr>)))))"

text \<open>The fields that are overridden after the merge, and the owner reference.\<close>

definition mutate_override :: "lib \<Rightarrow> Configuration \<Rightarrow> batch_job \<Rightarrow> JobObject \<Rightarrow> Config \<Rightarrow> batch_job result" where
  "mutate_override L cfg batchJob jobObj config =
     rbind (upd_container0 (\<lambda>c. c\<lparr>ctr_Name := GetType (cf_Obj config), ctr_Image := cfg_BackupImage cfg,
              ctr_Command := cfg_BackupCommandRestic cfg\<rparr>) batchJob) (\<lambda>batchJob.
     (let batchJob = (if cfg_BackupImagePullSecret cfg \<noteq> []
            then upd_pod_spec (\<lambda>s. s\<lparr>ps_ImagePullSecrets := [cfg_BackupImagePullSecret cfg]\<rparr>) batchJob
            else batchJob)
      in rbind (lib_SetControllerReference L jobObj (j_Meta batchJob)) (\<lambda>m.
         Inr (batchJob\<lparr>j_Meta := m\<rparr>))))"

definition MutateBatchJob ::
  "lib \<Rightarrow> 'w kube \<Rightarrow> Configuration \<Rightarrow> batch_job \<Rightarrow> JobObject \<Rightarrow> Config \<Rightarrow> 'w \<Rightarrow> batch_job result \<times> 'w" where
  "MutateBatchJob L K cfg batchJob jobObj config w =
     (case mutate_base L batchJob jobObj config of
        Inl p \<Rightarrow> (Inl p, w)
      | Inr batchJob \<Rightarrow>
         (case GetPodConfig K jobObj w of
            (Inl err, w) \<Rightarrow> (Inl (Wrapped ''cannot get pod config'' err), w)
          | (Inr podConfig, w) \<Rightarrow>
             (rbind (merge_pod_config L podConfig batchJob) (\<lambda>batchJob.
                mutate_override L cfg batchJob jobObj config), w)))"

section \<open>The status of a batch job\<close>

fun FindJobCondition :: "job_condition list \<Rightarrow> job_condition_type \<Rightarrow> job_condition option" where
  "FindJobCondition [] t = None"
| "FindJobCondition (c # cs) t = (if jc_Type c = t then Some c else FindJobCondition cs t)"

definition JobHasSucceeded :: "job_condition list \<Rightarrow> bool" where
  "JobHasSucceeded cs = (case FindJobCondition cs JobComplete of
     Some c \<Rightarrow> jc_Status c = ConditionTrue | None \<Rightarrow> False)"

definition JobHasFailed :: "job_condition list \<Rightarrow> bool" where
  "JobHasFailed cs = (case FindJobCondition cs JobFailed of
     Some c \<Rightarrow> jc_Status c = ConditionTrue | None \<Rightarrow> False)"

definition JobHasStarted :: "job_condition list \<Rightarrow> bool" where
  "JobHasStarted cs \<longleftrightarrow> FindJobCondition cs JobComplete = None \<and> FindJobCondition cs JobFailed = None"

definition JobSetSucceeded ::
  "meta_api \<Rightarrow> string \<Rightarrow> string \<Rightarrow> JobType \<Rightarrow> string \<Rightarrow> Status \<Rightarrow> Metrics \<Rightarrow> Status \<times> Metrics" where
  "JobSetSucceeded M name ns jt message objStatus m =
     (let m = (if \<not> HasSucceeded M objStatus then IncSuccessCounters ns jt m else m);
          objStatus = SetSucceeded M message objStatus;
          objStatus = SetFinished M (''job '' @ [CHR 0x27] @ name @ [CHR 0x27] @ '' completed successfully'') objStatus
      in (objStatus, m))"

definition JobSetFailed ::
  "meta_api \<Rightarrow> string \<Rightarrow> string \<Rightarrow> JobType \<Rightarrow> string \<Rightarrow> Status \<Rightarrow> Metrics \<Rightarrow> Status \<times> Metrics" where
  "JobSetFailed M name ns jt message objStatus m =
     (let m = (if \<not> HasFailed M objStatus then IncFailureCounters ns jt m else m);
          objStatus = SetFailed M message objStatus;
          objStatus = SetFinished M (''job '' @ [CHR 0x27] @ name @ [CHR 0x27] @ '' has failed'') objStatus
      in (objStatus, m))"

definition status_message :: "batch_job \<Rightarrow> string" where
  "status_message j = ''job '' @ [CHR 0x27] @ om_Name (j_Meta j) @ [CHR 0x27] @ '' has '' @
     Itoa (js_Active (j_Status j)) @ '' active, '' @ Itoa (js_Succeeded (j_Status j)) @
     '' succeeded and '' @ Itoa (js_Failed (j_Status j)) @ '' failed pods''"

definition set_last_status :: "batch_job \<Rightarrow> JobObject \<Rightarrow> bool \<Rightarrow> Metrics \<Rightarrow> Metrics" where
  "set_last_status j obj succeeded m =
     (case om_Labels (obj_meta obj) LabelK8upScheduleName of
        Some scheduleName \<Rightarrow>
          SetScheduleLastJobStatus (om_Namespace (j_Meta j)) scheduleName (GetType obj) succeeded m
      | None \<Rightarrow> m)"

definition UpdateStatus :: "meta_api \<Rightarrow> batch_job \<Rightarrow> JobObject \<Rightarrow> Metrics \<Rightarrow> JobObject \<times> Metrics" where
  "UpdateStatus M batchJob obj m =
     (let objStatus = GetStatus obj;
          message = status_message batchJob;
          conds = js_Conditions (j_Status batchJob);
          (objStatus, m) =
            (if JobHasSucceeded conds then
               (case JobSetSucceeded M (om_Name (j_Meta batchJob)) (om_Namespace (j_Meta batchJob))
                       (GetType obj) message objStatus m of
                  (s, m) \<Rightarrow> (s, set_last_status batchJob obj True m))
             else (objStatus, m));
          (objStatus, m) =
            (if JobHasFailed conds then
               (case JobSetFailed M (om_Name (j_Meta batchJob)) (om_Namespace (j_Meta batchJob))
                       (GetType obj) message objStatus m of
                  (s, m) \<Rightarrow> (s, set_last_status batchJob obj False m))
             else (objStatus, m));
          objStatus = (if JobHasStarted conds then SetStarted M message objStatus else objStatus)
      in (SetStatus objStatus obj, m))"

definition ReconcileJobStatus ::
  "lib \<Rightarrow> 'w kube \<Rightarrow> namespaced_name \<Rightarrow> JobObject \<Rightarrow> 'w env \<Rightarrow> (gerr option \<times> JobObject) \<times> 'w env" where
  "ReconcileJobStatus L K key obj e =
     (case in_world (k_GetJob K key) e of
        (Inl err, e) \<Rightarrow>
          (if \<not> IsNotFound err then ((Some (Wrapped ''unable to get job'' err), obj), e)
           else ((None, obj), e))
      | (Inr batchJob, e) \<Rightarrow>
         (case UpdateStatus (lib_Meta L) batchJob obj (env_Metrics e) of (obj, m) \<Rightarrow>
            (case in_world (k_StatusUpdate K obj) (e\<lparr>env_Metrics := m\<rparr>) of
               ((Some err, obj), e) \<Rightarrow> ((Some (Wrapped ''obj status update failed'' err), obj), e)
             | ((None, obj), e) \<Rightarrow> ((None, obj), e))))"

section \<open>Conditions on the object\<close>

text \<open>
  A failed status update is only logged. \<open>patchConditions\<close> returns the object as the client
  leaves it.
\<close>

definition patchConditions ::
  "lib \<Rightarrow> 'w kube \<Rightarrow> condition_status \<Rightarrow> ConditionReason \<Rightarrow> string \<Rightarrow> ConditionType \<Rightarrow> JobObject \<Rightarrow> 'w
   \<Rightarrow> JobObject \<times> 'w" where
  "patchConditions L K conditionStatus reason message condition obj w =
     (let status = GetStatus obj;
          status = status\<lparr>st_Conditions := SetStatusCondition (lib_Meta L) (st_Conditions status)
            \<lparr>cond_Type = condition, cond_Status = conditionStatus, cond_Reason = reason,
             cond_Message = message\<rparr>\<rparr>;
          obj = SetStatus status obj
      in case k_StatusUpdate K obj w of ((_, obj), w) \<Rightarrow> (obj, w))"

definition SetConditionTrue ::
  "lib \<Rightarrow> 'w kube \<Rightarrow> ConditionType \<Rightarrow> ConditionReason \<Rightarrow> JobObject \<Rightarrow> 'w \<Rightarrow> JobObject \<times> 'w" where
  "SetConditionTrue L K c r obj w = patchConditions L K ConditionTrue r ''The resource is ready'' c obj w"

definition SetConditionUnknownWithMessage ::
  "lib \<Rightarrow> 'w kube \<Rightarrow> ConditionType \<Rightarrow> ConditionReason \<Rightarrow> string \<Rightarrow> JobObject \<Rightarrow> 'w \<Rightarrow> JobObject \<times> 'w" where
  "SetConditionUnknownWithMessage L K c r msg obj w = patchConditions L K ConditionUnknown r msg c obj w"

definition SetConditionTrueWithMessage ::
  "lib \<Rightarrow> 'w kube \<Rightarrow> ConditionType \<Rightarrow> ConditionReason \<Rightarrow> string \<Rightarrow> JobObject \<Rightarrow> 'w \<Rightarrow> JobObject \<times> 'w" where
  "SetConditionTrueWithMessage L K c r msg obj w = patchConditions L K ConditionTrue r msg c obj w"

definition SetConditionFalseWithMessage ::
  "lib \<Rightarrow> 'w kube \<Rightarrow> ConditionType \<Rightarrow> ConditionReason \<Rightarrow> string \<Rightarrow> JobObject \<Rightarrow> 'w \<Rightarrow> JobObject \<times> 'w" where
  "SetConditionFalseWithMessage L K c r msg obj w = patchConditions L K ConditionFalse r msg c obj w"

text \<open>
  \<^verbatim>\<open>Config.SetStarted\<close> takes the base of its patch after it has changed the object.
\<close>

definition Config_SetStarted :: "lib \<Rightarrow> 'w kube \<Rightarrow> string \<Rightarrow> JobObject \<Rightarrow> 'w \<Rightarrow> JobObject \<times> 'w" where
  "Config_SetStarted L K message obj w =
     (let status = SetStarted (lib_Meta L) message (GetStatus obj);
          obj = SetStatus status obj;
          base = obj
      in case k_StatusPatch K base obj w of ((_, obj), w) \<Rightarrow> (obj, w))"

definition Config_SetFinished :: "lib \<Rightarrow> 'w kube \<Rightarrow> string \<Rightarrow> string \<Rightarrow> JobObject \<Rightarrow> 'w \<Rightarrow> JobObject \<times> 'w" where
  "Config_SetFinished L K namespace name obj w =
     (let status = SetFinished (lib_Meta L)
            (''the Job '' @ [CHR 0x27] @ namespace @ ''/'' @ name @ [CHR 0x27] @ '' ended'') (GetStatus obj);
          obj = SetStatus status obj;
          base = obj
      in case k_StatusPatch K base obj w of ((_, obj), w) \<Rightarrow> (obj, w))"

section \<open>Lemmas\<close>

lemma Sha256Hash_length:
  assumes "lib_laws L" "v \<noteq> []"
  shows "length (Sha256Hash L v) = 63"
  using assms by (simp add: Sha256Hash_def lib_laws.sha256_length)

lemma upd_container0_Inr:
  assumes "upd_container0 f j = Inr j'"
  obtains c cs where "ps_Containers (pt_Spec (j_Template j)) = c # cs"
    "ps_Containers (pt_Spec (j_Template j')) = f c # cs" "j_Meta j' = j_Meta j"
  using assms by (cases "ps_Containers (pt_Spec (j_Template j))") (auto simp: upd_container0_def)

lemma mutate_base_labels:
  assumes "lib_laws L" "mutate_base L j obj config = Inr j'"
  shows "job_labels j' = job_labels j ++ k8up_job_labels L obj config"
    "om_Name (j_Meta j') = om_Name (j_Meta j)" "om_Namespace (j_Meta j') = om_Namespace (j_Meta j)"
  using assms(2) lib_laws.merge_labels [OF assms(1)]
  by (auto simp: mutate_base_def rbind_Inr Let_def job_labels_def
      dest!: upd_container0_labels)

lemma merge_pod_config_meta:
  "merge_pod_config L pc j = Inr j' \<Longrightarrow> j_Meta j' = j_Meta j"
  by (auto simp: merge_pod_config_def rbind_Inr split: option.splits sum.splits)

lemma mutate_override_Inr:
  assumes "mutate_override L cfg j obj config = Inr j'"
  shows "\<exists>c cs. ps_Containers (pt_Spec (j_Template j')) = c # cs \<and>
      ctr_Name c = GetType (cf_Obj config) \<and> ctr_Image c = cfg_BackupImage cfg \<and>
      ctr_Command c = cfg_BackupCommandRestic cfg"
    "lib_SetControllerReference L obj (j_Meta j) = Inr (j_Meta j')"
proof -
  define f where "f = (\<lambda>c :: container. c\<lparr>ctr_Name := GetType (cf_Obj config), ctr_Image := cfg_BackupImage cfg,
     ctr_Command := cfg_BackupCommandRestic cfg\<rparr>)"
  obtain j1 where j1: "upd_container0 f j = Inr j1"
    using assms by (auto simp: mutate_override_def rbind_Inr f_def)
  then obtain c cs where c: "ps_Containers (pt_Spec (j_Template j1)) = f c # cs" "j_Meta j1 = j_Meta j"
    by (rule upd_container0_Inr)
  define j2 where "j2 = (if cfg_BackupImagePullSecret cfg \<noteq> []
     then upd_pod_spec (\<lambda>s. s\<lparr>ps_ImagePullSecrets := [cfg_BackupImagePullSecret cfg]\<rparr>) j1 else j1)"
  have j2: "ps_Containers (pt_Spec (j_Template j2)) = f c # cs" "j_Meta j2 = j_Meta j"
    using c by (simp_all add: j2_def upd_pod_spec_def)
  obtain m where m: "lib_SetControllerReference L obj (j_Meta j2) = Inr m" "j' = j2\<lparr>j_Meta := m\<rparr>"
    using assms j1 by (auto simp: mutate_override_def rbind_Inr Let_def f_def [symmetric] j2_def)
  show "lib_SetControllerReference L obj (j_Meta j) = Inr (j_Meta j')" using m j2 by simp
  show "\<exists>c cs. ps_Containers (pt_Spec (j_Template j')) = c # cs \<and>
      ctr_Name c = GetType (cf_Obj config) \<and> ctr_Image c = cfg_BackupImage cfg \<and>
      ctr_Command c = cfg_BackupCommandRestic cfg"
    using m j2 by (intro exI [of _ "f c"] exI [of _ cs]) (simp add: f_def)
qed

lemma MutateBatchJob_Inr:
  assumes "MutateBatchJob L K cfg j obj config w = (Inr j', w')"
  obtains j1 j2 pc where "mutate_base L j obj config = Inr j1" "merge_pod_config L pc j1 = Inr j2"
    "mutate_override L cfg j2 obj config = Inr j'"
  using assms by (auto simp: MutateBatchJob_def rbind_Inr split: sum.splits prod.splits)

lemma MutateBatchJob_labels:
  assumes "lib_laws L" "MutateBatchJob L K cfg j obj config w = (Inr j', w')"
  shows "job_labels j' = job_labels j ++ k8up_job_labels L obj config"
proof -
  obtain j1 j2 pc where j: "mutate_base L j obj config = Inr j1" "merge_pod_config L pc j1 = Inr j2"
    "mutate_override L cfg j2 obj config = Inr j'"
    using assms(2) by (rule MutateBatchJob_Inr)
  have "om_Labels (j_Meta j') = om_Labels (j_Meta j2)"
    by (rule lib_laws.controller_frame(3) [OF assms(1) mutate_override_Inr(2) [OF j(3)]])
  then have "job_labels j' = job_labels j1"
    by (simp add: job_labels_def merge_pod_config_meta [OF j(2)])
  then show ?thesis using mutate_base_labels(1) [OF assms(1) j(1)] by simp
qed

text \<open>The only call of \<open>MutateBatchJob\<close> is for the pod configuration.\<close>

lemma MutateBatchJob_keeps:
  assumes "\<And>key. keeps obs (k_GetPodConfig K key)"
  shows "keeps obs (MutateBatchJob L K cfg j obj config)"
proof (rule keepsI)
  fix w r w'
  assume "MutateBatchJob L K cfg j obj config w = (r, w')"
  then show "obs w' = obs w"
    using keepsD [OF assms]
    by (auto simp: MutateBatchJob_def GetPodConfig_ref NewPodConfig_def split: sum.splits option.splits prod.splits)
qed

text \<open>The three outcomes of a batch job; the API server reports at most one of the first two.\<close>

abbreviation conds_of :: "batch_job \<Rightarrow> job_condition list" where
  "conds_of j \<equiv> js_Conditions (j_Status j)"

lemma started_not_ended:
  "JobHasSucceeded cs \<Longrightarrow> \<not> JobHasStarted cs" "JobHasFailed cs \<Longrightarrow> \<not> JobHasStarted cs"
  by (auto simp: JobHasSucceeded_def JobHasFailed_def JobHasStarted_def split: option.splits)

definition succeeded_update :: "meta_api \<Rightarrow> batch_job \<Rightarrow> JobObject \<Rightarrow> Metrics \<Rightarrow> Status \<times> Metrics" where
  "succeeded_update M j obj m = JobSetSucceeded M (om_Name (j_Meta j)) (om_Namespace (j_Meta j))
     (GetType obj) (status_message j) (GetStatus obj) m"

definition failed_update :: "meta_api \<Rightarrow> batch_job \<Rightarrow> JobObject \<Rightarrow> Metrics \<Rightarrow> Status \<times> Metrics" where
  "failed_update M j obj m = JobSetFailed M (om_Name (j_Meta j)) (om_Namespace (j_Meta j))
     (GetType obj) (status_message j) (GetStatus obj) m"

lemma UpdateStatus_succeeded:
  assumes "JobHasSucceeded (conds_of j)" "\<not> JobHasFailed (conds_of j)"
  shows "UpdateStatus M j obj m = (SetStatus (fst (succeeded_update M j obj m)) obj,
     set_last_status j obj True (snd (succeeded_update M j obj m)))"
  using assms started_not_ended(1) [OF assms(1)]
  by (simp add: UpdateStatus_def succeeded_update_def Let_def split: prod.splits)

lemma UpdateStatus_failed:
  assumes "JobHasFailed (conds_of j)" "\<not> JobHasSucceeded (conds_of j)"
  shows "UpdateStatus M j obj m = (SetStatus (fst (failed_update M j obj m)) obj,
     set_last_status j obj False (snd (failed_update M j obj m)))"
  using assms started_not_ended(2) [OF assms(1)]
  by (simp add: UpdateStatus_def failed_update_def Let_def split: prod.splits)

lemma UpdateStatus_running:
  assumes "\<not> JobHasFailed (conds_of j)" "\<not> JobHasSucceeded (conds_of j)"
  shows "UpdateStatus M j obj m =
    (SetStatus (if JobHasStarted (conds_of j) then SetStarted M (status_message j) (GetStatus obj)
                else GetStatus obj) obj, m)"
  using assms by (simp add: UpdateStatus_def Let_def)

lemma succeeded_update_status:
  assumes "meta_laws M"
  shows "HasSucceeded M (fst (succeeded_update M j obj m)) \<longleftrightarrow> \<not> HasFailedPreBackup M (GetStatus obj)"
    "HasFinished M (fst (succeeded_update M j obj m))"
    "\<not> HasStarted M (fst (succeeded_update M j obj m))"
    "HasFailedPreBackup M (fst (succeeded_update M j obj m)) = HasFailedPreBackup M (GetStatus obj)"
proof -
  note l = meta_laws.set_finished_frame [OF assms] meta_laws.set_succeeded_succeeded [OF assms]
    meta_laws.set_finished_not_started [OF assms] meta_laws.set_succeeded_prebackup [OF assms]
  show "HasSucceeded M (fst (succeeded_update M j obj m)) \<longleftrightarrow> \<not> HasFailedPreBackup M (GetStatus obj)"
    "\<not> HasStarted M (fst (succeeded_update M j obj m))"
    "HasFailedPreBackup M (fst (succeeded_update M j obj m)) = HasFailedPreBackup M (GetStatus obj)"
    by (simp_all add: succeeded_update_def JobSetSucceeded_def Let_def l)
  then show "HasFinished M (fst (succeeded_update M j obj m))"
    by (auto simp: HasFinished_def HasFailed_def)
qed

lemma failed_update_status:
  assumes "meta_laws M"
  shows "HasFailed M (fst (failed_update M j obj m))" "\<not> HasStarted M (fst (failed_update M j obj m))"
  by (simp_all add: failed_update_def JobSetFailed_def Let_def meta_laws.set_finished_frame [OF assms]
      meta_laws.set_failed_failed [OF assms] meta_laws.set_finished_not_started [OF assms])

lemma succeeded_update_metrics:
  "snd (succeeded_update M j obj m) = (if HasSucceeded M (GetStatus obj) then m
     else IncSuccessCounters (om_Namespace (j_Meta j)) (GetType obj) m)"
  by (simp add: succeeded_update_def JobSetSucceeded_def Let_def)

lemma failed_update_metrics:
  "snd (failed_update M j obj m) = (if HasFailed M (GetStatus obj) then m
     else IncFailureCounters (om_Namespace (j_Meta j)) (GetType obj) m)"
  by (simp add: failed_update_def JobSetFailed_def Let_def)

lemma set_last_status_idem:
  "set_last_status j obj b (set_last_status j obj b m) = set_last_status j obj b m"
  by (auto simp: set_last_status_def SetScheduleLastJobStatus_def split: option.splits)

lemma set_last_status_SetStatus [simp]: "set_last_status j (SetStatus s obj) = set_last_status j obj"
  by (rule ext, rule ext) (simp add: set_last_status_def split: option.split)

lemma set_last_status_counters [simp]:
  "mt_SuccessCounter (set_last_status j obj b m) = mt_SuccessCounter m"
  "mt_FailureCounter (set_last_status j obj b m) = mt_FailureCounter m"
  "mt_TotalCounter (set_last_status j obj b m) = mt_TotalCounter m"
  "metrics_ok (set_last_status j obj b m) = metrics_ok m"
  by (simp_all add: set_last_status_def SetScheduleLastJobStatus_def metrics_ok_def split: option.splits)

lemma UpdateStatus_metrics:
  assumes "\<not> (JobHasSucceeded (conds_of j) \<and> JobHasFailed (conds_of j))" "UpdateStatus M j obj m = (obj', m')"
  shows "JobHasSucceeded (conds_of j) \<Longrightarrow> m' = set_last_status j obj True
      (if HasSucceeded M (GetStatus obj) then m else IncSuccessCounters (om_Namespace (j_Meta j)) (GetType obj) m)"
    "JobHasFailed (conds_of j) \<Longrightarrow> m' = set_last_status j obj False
      (if HasFailed M (GetStatus obj) then m else IncFailureCounters (om_Namespace (j_Meta j)) (GetType obj) m)"
    "\<not> JobHasSucceeded (conds_of j) \<Longrightarrow> \<not> JobHasFailed (conds_of j) \<Longrightarrow> m' = m"
  using assms
  by (simp_all add: UpdateStatus_succeeded UpdateStatus_failed UpdateStatus_running
      succeeded_update_metrics failed_update_metrics split del: if_split)

lemma UpdateStatus_again:
  assumes "meta_laws M" "\<not> (JobHasSucceeded (conds_of j) \<and> JobHasFailed (conds_of j))"
    "\<not> HasFailedPreBackup M (GetStatus obj)" "UpdateStatus M j obj m = (obj', m')"
  shows "snd (UpdateStatus M j obj' m') = m' \<and>
    (JobHasSucceeded (conds_of j) \<longrightarrow> HasSucceeded M (GetStatus obj')) \<and>
    (JobHasFailed (conds_of j) \<longrightarrow> HasFailed M (GetStatus obj')) \<and>
    (JobHasStarted (conds_of j) \<longrightarrow> HasStarted M (GetStatus obj'))"
proof -
  consider (ok) "JobHasSucceeded (conds_of j)" "\<not> JobHasFailed (conds_of j)"
    | (failed) "JobHasFailed (conds_of j)" "\<not> JobHasSucceeded (conds_of j)"
    | (running) "\<not> JobHasFailed (conds_of j)" "\<not> JobHasSucceeded (conds_of j)"
    using assms(2) by blast
  then show ?thesis
  proof cases
    case ok
    note u = UpdateStatus_succeeded [OF ok]
    have o: "obj' = SetStatus (fst (succeeded_update M j obj m)) obj"
      "m' = set_last_status j obj True (snd (succeeded_update M j obj m))"
      using assms(4) u by simp_all
    have h: "HasSucceeded M (GetStatus obj')"
      using succeeded_update_status(1) [OF assms(1)] assms(3) by (simp add: o(1))
    have "snd (UpdateStatus M j obj' m') = m'"
      using h by (simp add: u succeeded_update_metrics) (simp add: o set_last_status_idem)
    with h ok started_not_ended(1) show ?thesis by blast
  next
    case failed
    note u = UpdateStatus_failed [OF failed]
    have o: "obj' = SetStatus (fst (failed_update M j obj m)) obj"
      "m' = set_last_status j obj False (snd (failed_update M j obj m))"
      using assms(4) u by simp_all
    have h: "HasFailed M (GetStatus obj')"
      using failed_update_status(1) [OF assms(1)] by (simp add: o(1))
    have "snd (UpdateStatus M j obj' m') = m'"
      using h by (simp add: u failed_update_metrics) (simp add: o set_last_status_idem)
    with h failed started_not_ended(2) show ?thesis by blast
  next
    case running
    then show ?thesis
      using assms(4) by (auto simp: UpdateStatus_running meta_laws.set_started_started [OF assms(1)])
  qed
qed

section \<open>Properties\<close>

text \<open>
  C3. Every batch job that \<^verbatim>\<open>MutateBatchJob\<close> prepares carries the labels the locker
  and the lookups select by (the k8up marker, the type, the owner and the hash of the repository),
  whatever the pod configuration merged in; it keeps its other labels; its first container runs
  the configured image and command under the name of the job type; and the k8up object is its
  controller.
\<close>

theorem MutateBatchJob_spec:
  assumes "lib_laws L" "MutateBatchJob L K cfg j obj config w = (Inr j', w')"
  shows "job_labels j' = job_labels j ++
      [K8uplabel \<mapsto> ''true'', LabelK8upType \<mapsto> GetType obj,
       LabelK8upOwnedBy \<mapsto> GetType obj @ ''_'' @ om_Name (obj_meta obj),
       LabelRepositoryHash \<mapsto> Sha256Hash L (cf_Repository config)] \<and>
     (\<exists>c cs. ps_Containers (pt_Spec (j_Template j')) = c # cs \<and>
        ctr_Name c = GetType (cf_Obj config) \<and> ctr_Image c = cfg_BackupImage cfg \<and>
        ctr_Command c = cfg_BackupCommandRestic cfg) \<and>
     (\<exists>r. GetControllerOf (lib_Meta L) (j_Meta j') = Some r \<and> or_UID r = om_UID (obj_meta obj))"
proof -
  obtain j1 j2 pc where j: "mutate_base L j obj config = Inr j1" "merge_pod_config L pc j1 = Inr j2"
    "mutate_override L cfg j2 obj config = Inr j'"
    using assms(2) by (rule MutateBatchJob_Inr)
  note ov = mutate_override_Inr [OF j(3)]
  note cr = lib_laws.controller_ref [OF assms(1) ov(2)]
  show ?thesis
    using MutateBatchJob_labels [OF assms] ov(1) cr by (simp add: k8up_job_labels_def)
qed

theorem MutateBatchJob_spec_witness:
  "\<exists>j'. MutateBatchJob lib_ref kube_ref (default_config ''k8up'') empty_job (ex_backup ''b'' 0 [])
       (NewConfig (ex_backup ''b'' 0 []) ''s3:repo'') empty_cluster = (Inr j', empty_cluster) \<and>
     job_labels j' LabelK8upOwnedBy = Some ''backup_b''"
proof -
  obtain j' where j': "MutateBatchJob lib_ref kube_ref (default_config ''k8up'') empty_job (ex_backup ''b'' 0 [])
       (NewConfig (ex_backup ''b'' 0 []) ''s3:repo'') empty_cluster = (Inr j', empty_cluster)"
    by (simp add: MutateBatchJob_def mutate_base_def merge_pod_config_def mutate_override_def
        upd_pod_spec_def upd_container0_def GetPodConfig_ref NewConfig_def ex_defs empty_runnable_def
        empty_job_def empty_template_def empty_pod_spec_def empty_meta_def lib_ref_def default_config_def Let_def)
  then show ?thesis
    using MutateBatchJob_spec [OF lib_ref.lib_laws_axioms j']
    by (intro exI [of _ j']) (simp add: ex_backup_def ex_meta_def k8up_consts)
qed

definition ex_check :: Check where
  "ex_check = \<lparr>c_Meta = ex_meta ''c'' 0, c_Spec = \<lparr>cs_RunnableSpec = empty_runnable, cs_PromURL = [], cs_ClusterName = [],
     cs_KeepJobs = None, cs_FailedJobsHistoryLimit = None, cs_SuccessfulJobsHistoryLimit = None\<rparr>, c_Status = empty_status\<rparr>"

text \<open>
  C4. A finished batch job is counted once. The first reconciliation that sees it succeeded adds one
  to the success and the total counter of the namespace of the job and the type of the object, and
  to no other; the first that sees it failed adds one to the failure and the total counter likewise;
  a job that still runs changes no counter and no gauge. The object then reads as succeeded, failed
  or started, and reconciling the same job again changes no counter and no gauge. The hypotheses
  are that the job does not report both outcomes, and that the object has no failed pre-backup
  condition, which only backups have and these do not come through \<^verbatim>\<open>UpdateStatus\<close>.
\<close>

theorem UpdateStatus_counts_once:
  assumes "meta_laws M" "\<not> (JobHasSucceeded (conds_of j) \<and> JobHasFailed (conds_of j))"
    "\<not> HasFailedPreBackup M (GetStatus obj)" "UpdateStatus M j obj m = (obj', m')"
    "k = (om_Namespace (j_Meta j), GetType obj)"
  shows "(JobHasSucceeded (conds_of j) \<longrightarrow> HasSucceeded M (GetStatus obj') \<and>
      mt_FailureCounter m' = mt_FailureCounter m \<and>
      (if HasSucceeded M (GetStatus obj)
       then mt_SuccessCounter m' = mt_SuccessCounter m \<and> mt_TotalCounter m' = mt_TotalCounter m
       else mt_SuccessCounter m' = (mt_SuccessCounter m)(k := mt_SuccessCounter m k + 1) \<and>
         mt_TotalCounter m' = (mt_TotalCounter m)(k := mt_TotalCounter m k + 1))) \<and>
    (JobHasFailed (conds_of j) \<longrightarrow> HasFailed M (GetStatus obj') \<and>
      mt_SuccessCounter m' = mt_SuccessCounter m \<and>
      (if HasFailed M (GetStatus obj)
       then mt_FailureCounter m' = mt_FailureCounter m \<and> mt_TotalCounter m' = mt_TotalCounter m
       else mt_FailureCounter m' = (mt_FailureCounter m)(k := mt_FailureCounter m k + 1) \<and>
         mt_TotalCounter m' = (mt_TotalCounter m)(k := mt_TotalCounter m k + 1))) \<and>
    (\<not> JobHasSucceeded (conds_of j) \<and> \<not> JobHasFailed (conds_of j) \<longrightarrow> m' = m) \<and>
    (JobHasStarted (conds_of j) \<longrightarrow> HasStarted M (GetStatus obj')) \<and>
    snd (UpdateStatus M j obj' m') = m'"
  using UpdateStatus_again [OF assms(1-4)] UpdateStatus_metrics [OF assms(2,4)]
  by (simp add: metrics_defs assms(5))

theorem UpdateStatus_counts_once_witness:
  "\<exists>obj' m'. UpdateStatus meta_ref (ex_job ''j'' Map.empty 0 [\<lparr>jc_Type = JobComplete, jc_Status = ConditionTrue\<rparr>])
       (CheckObj ex_check) empty_metrics = (obj', m') \<and>
     mt_SuccessCounter m' (''ns'', CheckType) = 1 \<and> mt_TotalCounter m' (''ns'', CheckType) = 1 \<and>
     mt_SuccessCounter m' (''ns'', PruneType) = 0 \<and>
     snd (UpdateStatus meta_ref (ex_job ''j'' Map.empty 0 [\<lparr>jc_Type = JobComplete, jc_Status = ConditionTrue\<rparr>])
       obj' m') = m'"
proof -
  let ?j = "ex_job ''j'' Map.empty 0 [\<lparr>jc_Type = JobComplete, jc_Status = ConditionTrue\<rparr>]"
  obtain obj' m' where u: "UpdateStatus meta_ref ?j (CheckObj ex_check) empty_metrics = (obj', m')" by fastforce
  have s: "JobHasSucceeded (conds_of ?j)" and f: "\<not> (JobHasSucceeded (conds_of ?j) \<and> JobHasFailed (conds_of ?j))"
    by (simp_all add: JobHasSucceeded_def JobHasFailed_def ex_job_def)
  have p: "\<not> HasFailedPreBackup meta_ref (GetStatus (CheckObj ex_check))" "\<not> HasSucceeded meta_ref (GetStatus (CheckObj ex_check))"
    by (simp_all add: status_queries ex_check_def empty_status_def meta_ref_def ref_find_def)
  have k: "(''ns'', CheckType) = (om_Namespace (j_Meta ?j), GetType (CheckObj ex_check))"
    by (simp add: ex_job_def ex_meta_def)
  from UpdateStatus_counts_once [OF meta_ref.meta_laws_axioms f p(1) u k] s p(2) u show ?thesis
    by (auto simp: empty_metrics_def k8up_consts)
qed

text \<open>
  \<^verbatim>\<open>Config.SetStarted\<close> and \<^verbatim>\<open>Config.SetFinished\<close> never
  change the cluster: the base of their merge patch is taken after the object was changed, so the
  patch is empty. The hypothesis says what an empty merge patch does.
\<close>

theorem SetStarted_patches_nothing:
  assumes "\<And>obj w. snd (k_StatusPatch K obj obj w) = w"
  shows "snd (Config_SetStarted L K message obj w) = w \<and>
    snd (Config_SetFinished L K namespace name obj w) = w"
proof -
  have "snd (case k_StatusPatch K x x w of ((_, obj), w) \<Rightarrow> (obj, w)) = w" for x
    using assms [of x w] by (auto split: prod.splits)
  then show ?thesis by (simp add: Config_SetStarted_def Config_SetFinished_def Let_def)
qed

theorem SetStarted_patches_nothing_witness:
  "snd (Config_SetStarted lib_ref kube_ref ''started'' (ex_backup ''b'' 0 []) empty_cluster) = empty_cluster \<and>
   snd (Config_SetFinished lib_ref kube_ref ''ns'' ''b'' (ex_backup ''b'' 0 []) empty_cluster) = empty_cluster"
  by (rule SetStarted_patches_nothing) (simp add: kube_ref_def)

end
