(* ===== verification/Locker.thy ===== *)
theory Locker
  imports Job_Pkg
begin

text \<open>
  \<^verbatim>\<open>operator/locker/locker.go\<close>: the per-repository lockers and the two ways to run
  something under them. The body of \<open>TryRun\<close> and \<open>TryRunExclusively\<close> runs with the
  locker's mutex held, so here it is one transition; theory \<open>Locker_Steps\<close> has the
  interleavings. What the runnable captures by reference is the argument \<open>a\<close>, which the
  runnable returns changed.
\<close>

definition GetForRepository :: "string \<Rightarrow> 'w env \<Rightarrow> lockerImpl \<times> 'w env" where
  "GetForRepository repository e =
     (case map_of (env_Lockers e) repository of
        Some l \<Rightarrow> (l, e)
      | None \<Rightarrow>
         (let l = \<lparr>lk_addr = length (env_Lockers e), lk_repository = repository\<rparr>
          in (l, e\<lparr>env_Lockers := (repository, l) # env_Lockers e\<rparr>)))"

definition fetchRunningJobs :: "lib \<Rightarrow> 'w kube \<Rightarrow> lockerImpl \<Rightarrow> 'w \<Rightarrow> batch_job list result \<times> 'w" where
  "fetchRunningJobs L K l w =
     (case k_ListJobs K [K8uplabel \<mapsto> ''true'', LabelRepositoryHash \<mapsto> Sha256Hash L (lk_repository l)] None w of
        (Inl err, w) \<Rightarrow> (Inl (Wrapped ''cannot get list of jobs'' err), w)
      | (Inr items, w) \<Rightarrow> (Inr (filter (\<lambda>j. js_Active (j_Status j) > 0) items), w))"

fun isExclusiveJobRunning :: "batch_job list \<Rightarrow> bool" where
  "isExclusiveJobRunning [] = False"
| "isExclusiveJobRunning (j # jobs) =
     (if js_Active (j_Status j) > 0 \<and> job_labels j K8upExclusive = Some ''true'' then True
      else isExclusiveJobRunning jobs)"

text \<open>Indexing a Go map with a missing key yields the empty string.\<close>

definition label_value :: "labels \<Rightarrow> string \<Rightarrow> string" where
  "label_value l k = (case l k of Some v \<Rightarrow> v | None \<Rightarrow> [])"

fun limit_loop :: "JobType \<Rightarrow> int \<Rightarrow> int \<Rightarrow> batch_job list \<Rightarrow> bool" where
  "limit_loop jobType jobLimit n [] = False"
| "limit_loop jobType jobLimit n (j # jobs) =
     (if label_value (job_labels j) LabelK8upType \<noteq> jobType then limit_loop jobType jobLimit n jobs
      else let n = n + js_Active (j_Status j)
           in if n \<ge> jobLimit then True else limit_loop jobType jobLimit n jobs)"

definition isConcurrencyLimitReached :: "batch_job list \<Rightarrow> JobType \<Rightarrow> int \<Rightarrow> bool" where
  "isConcurrencyLimitReached jobs jobType jobLimit =
     (if jobLimit = 0 then False else limit_loop jobType jobLimit 0 jobs)"

type_synonym ('w, 'a) runnable = "'a \<Rightarrow> 'w env \<Rightarrow> (gerr option \<times> 'a) \<times> 'w env"

definition TryRun ::
  "lib \<Rightarrow> 'w kube \<Rightarrow> lockerImpl \<Rightarrow> Config \<Rightarrow> int \<Rightarrow> ('w, 'a) runnable \<Rightarrow> 'a \<Rightarrow> 'w env
   \<Rightarrow> ((bool \<times> gerr option) \<times> 'a) \<times> 'w env" where
  "TryRun L K l config concurrencyLimit runnable a e =
     (case in_world (fetchRunningJobs L K l) e of
        (Inl err, e) \<Rightarrow> (((False, Some (Wrapped ''cannot determine if jobs are running'' err)), a), e)
      | (Inr runningJobs, e) \<Rightarrow>
         (let reached = isConcurrencyLimitReached runningJobs (GetType (cf_Obj config)) concurrencyLimit;
              shouldRun = (\<not> isExclusiveJobRunning runningJobs \<and> \<not> reached)
          in if shouldRun then (case runnable a e of ((err, a), e) \<Rightarrow> (((True, err), a), e))
             else (((False, None), a), e)))"

definition TryRunExclusively ::
  "lib \<Rightarrow> 'w kube \<Rightarrow> lockerImpl \<Rightarrow> ('w, 'a) runnable \<Rightarrow> 'a \<Rightarrow> 'w env
   \<Rightarrow> ((bool \<times> gerr option) \<times> 'a) \<times> 'w env" where
  "TryRunExclusively L K l runnable a e =
     (case in_world (fetchRunningJobs L K l) e of
        (Inl err, e) \<Rightarrow> (((False, Some err), a), e)
      | (Inr running, e) \<Rightarrow>
         (if length running = 0 then (case runnable a e of ((err, a), e) \<Rightarrow> (((True, err), a), e))
          else (((False, None), a), e)))"

section \<open>What the loops compute\<close>

lemma isExclusiveJobRunning_iff:
  "isExclusiveJobRunning jobs \<longleftrightarrow>
     (\<exists>j \<in> set jobs. js_Active (j_Status j) > 0 \<and> job_labels j K8upExclusive = Some ''true'')"
  by (induction jobs) auto

text \<open>The active pods of all jobs of a type.\<close>

definition active_pods :: "JobType \<Rightarrow> batch_job list \<Rightarrow> int" where
  "active_pods jt jobs =
     sum_list (map (\<lambda>j. js_Active (j_Status j)) (filter (\<lambda>j. label_value (job_labels j) LabelK8upType = jt) jobs))"

lemma active_pods_Cons:
  "active_pods jt (j # jobs) =
     (if label_value (job_labels j) LabelK8upType = jt then js_Active (j_Status j) else 0) + active_pods jt jobs"
  by (simp add: active_pods_def)

lemma active_pods_nonneg: "\<forall>j \<in> set jobs. js_Active (j_Status j) > 0 \<Longrightarrow> active_pods jt jobs \<ge> 0"
  by (induction jobs) (auto simp: active_pods_Cons active_pods_def)

lemma limit_loop_iff:
  assumes "\<forall>j \<in> set jobs. js_Active (j_Status j) > 0" "n < jobLimit"
  shows "limit_loop jt jobLimit n jobs \<longleftrightarrow> n + active_pods jt jobs \<ge> jobLimit"
  using assms
proof (induction jobs arbitrary: n)
  case Nil
  then show ?case by (simp add: active_pods_def)
next
  case (Cons j jobs)
  have "active_pods jt jobs \<ge> 0" using Cons.prems(1) by (simp add: active_pods_nonneg)
  then show ?case using Cons by (auto simp: active_pods_Cons Let_def)
qed

text \<open>With a negative limit the first job of the type reaches it.\<close>

lemma limit_loop_negative:
  assumes "\<forall>j \<in> set jobs. js_Active (j_Status j) > 0" "jobLimit < 0" "n \<ge> 0"
  shows "limit_loop jt jobLimit n jobs \<longleftrightarrow> active_pods jt jobs > 0"
  using assms
proof (induction jobs arbitrary: n)
  case Nil
  then show ?case by (simp add: active_pods_def)
next
  case (Cons j jobs)
  have "active_pods jt jobs \<ge> 0" using Cons.prems(1) by (simp add: active_pods_nonneg)
  then show ?case using Cons by (auto simp: active_pods_Cons Let_def)
qed

text \<open>With a positive limit the early exit of the loop does not change its result.\<close>

lemma limit_reached_iff:
  assumes "\<forall>j \<in> set jobs. js_Active (j_Status j) > 0" "jobLimit \<noteq> 0"
  shows "isConcurrencyLimitReached jobs jt jobLimit \<longleftrightarrow> active_pods jt jobs > 0 \<and> active_pods jt jobs \<ge> jobLimit"
  using limit_loop_iff [OF assms(1), of 0 jobLimit] limit_loop_negative [OF assms(1), of jobLimit 0 jt] assms(2)
  by (cases "jobLimit > 0") (auto simp: isConcurrencyLimitReached_def)

section \<open>The interface of the locker\<close>

text \<open>
  What the controllers rely on: a call that reports \<open>False\<close> has not run the runnable, the
  captured value is unchanged and nothing but the world has moved; a call that reports
  \<open>True\<close> has run it once, and returns its error.
\<close>

locale run_guard =
  fixes try_run :: "('w, 'a) runnable \<Rightarrow> 'a \<Rightarrow> 'w env \<Rightarrow> ((bool \<times> gerr option) \<times> 'a) \<times> 'w env"
  assumes not_run: "try_run r a e = (((False, err), a'), e') \<Longrightarrow>
      a' = a \<and> (\<exists>w. e' = e\<lparr>env_World := w\<rparr>)"
    and run: "try_run r a e = (((True, err), a'), e') \<Longrightarrow>
      \<exists>w. r a (e\<lparr>env_World := w\<rparr>) = ((err, a'), e')"
begin

lemma captured_invariant:
  assumes "try_run r a e = (((b, err), a'), e')" "P a"
    and "\<And>a e err a' e'. r a e = ((err, a'), e') \<Longrightarrow> P a \<Longrightarrow> P a'"
  shows "P a'"
  using assms by (cases b) (auto dest!: not_run run)

lemma metrics_invariant:
  assumes "try_run r a e = (((b, err), a'), e')"
    and "\<And>a e err a' e'. r a e = ((err, a'), e') \<Longrightarrow> env_Metrics e' = env_Metrics e"
  shows "env_Metrics e' = env_Metrics e"
proof (cases b)
  case True
  then obtain w where "r a (e\<lparr>env_World := w\<rparr>) = ((err, a'), e')"
    using assms(1) run [of r a e err a' e'] by auto
  then show ?thesis using assms(2) by fastforce
next
  case False
  then show ?thesis using assms(1) not_run [of r a e err a' e'] by auto
qed

end

interpretation shared: run_guard "TryRun L K l config limit" for L K l config limit
  by unfold_locales
    (auto simp: TryRun_def Let_def in_world_Pair split: prod.splits sum.splits if_splits)

interpretation exclusive: run_guard "TryRunExclusively L K l" for L K l
  by unfold_locales
    (auto simp: TryRunExclusively_def in_world_Pair split: prod.splits sum.splits if_splits)

lemma fetchRunningJobs_active:
  "fetchRunningJobs L K l w = (Inr jobs, w') \<Longrightarrow> \<forall>j \<in> set jobs. js_Active (j_Status j) > 0"
  by (auto simp: fetchRunningJobs_def split: prod.splits sum.splits)


section \<open>Properties\<close>

text \<open>The guards of the two entry points, over the jobs the API server lists.\<close>

definition active_jobs :: "batch_job list \<Rightarrow> batch_job list" where
  "active_jobs items = filter (\<lambda>j. js_Active (j_Status j) > 0) items"

definition exclusive_running :: "batch_job list \<Rightarrow> bool" where
  "exclusive_running items \<longleftrightarrow>
     (\<exists>j \<in> set items. js_Active (j_Status j) > 0 \<and> job_labels j K8upExclusive = Some ''true'')"

definition repo_selector :: "lib \<Rightarrow> lockerImpl \<Rightarrow> labels" where
  "repo_selector L l =
     [K8uplabel \<mapsto> ''true'', LabelRepositoryHash \<mapsto> Sha256Hash L (lk_repository l)]"

lemma fetchRunningJobs_ok:
  "k_ListJobs K (repo_selector L l) None w = (Inr items, w') \<Longrightarrow>
   fetchRunningJobs L K l w = (Inr (active_jobs items), w')"
  by (simp add: fetchRunningJobs_def repo_selector_def active_jobs_def)

lemma active_jobs_active: "\<forall>j \<in> set (active_jobs items). js_Active (j_Status j) > 0"
  by (simp add: active_jobs_def)

lemma shared_guard:
  "(\<not> isExclusiveJobRunning (active_jobs items) \<and> \<not> isConcurrencyLimitReached (active_jobs items) jt limit) \<longleftrightarrow>
   \<not> exclusive_running items \<and>
   (limit = 0 \<or> active_pods jt (active_jobs items) = 0 \<or> active_pods jt (active_jobs items) < limit)"
proof (cases "limit = 0")
  case True
  then show ?thesis
    by (auto simp: isExclusiveJobRunning_iff exclusive_running_def active_jobs_def isConcurrencyLimitReached_def)
next
  case False
  have "isExclusiveJobRunning (active_jobs items) \<longleftrightarrow> exclusive_running items"
    by (auto simp: isExclusiveJobRunning_iff exclusive_running_def active_jobs_def)
  then show ?thesis
    using False limit_reached_iff [OF active_jobs_active False, of items jt] active_pods_nonneg [OF active_jobs_active, of jt items]
    by auto
qed

text \<open>
  C1. \<^verbatim>\<open>TryRun\<close> executes its runnable exactly when no exclusive job of the
  repository has active pods and the active pods of the jobs of the same type are none or below the
  limit (a limit of 0 is no limit, and with a negative one a single active pod is too many); it then
  returns true with the runnable's error. Otherwise it returns false without an error and changes
  nothing. The jobs considered are those the API server lists for the hash of this repository: the
  limit is one per repository and type, not one of the whole cluster as the comment at the function
  and the names of the flags have it.
\<close>

theorem TryRun_spec:
  assumes "k_ListJobs K (repo_selector L l) None (env_World e) = (Inr items, w)"
  shows "TryRun L K l config limit runnable a e =
    (if \<not> exclusive_running items \<and>
        (limit = 0 \<or> active_pods (GetType (cf_Obj config)) (active_jobs items) = 0 \<or>
         active_pods (GetType (cf_Obj config)) (active_jobs items) < limit)
     then (case runnable a (e\<lparr>env_World := w\<rparr>) of ((err, a'), e') \<Rightarrow> (((True, err), a'), e'))
     else (((False, None), a), e\<lparr>env_World := w\<rparr>))"
  using shared_guard [of items "GetType (cf_Obj config)" limit]
  by (simp add: TryRun_def in_world_def fetchRunningJobs_ok [OF assms] Let_def)

theorem TryRun_spec_witness:
  "TryRun lib_ref kube_ref \<lparr>lk_addr = 0, lk_repository = ''r''\<rparr> (NewConfig (ex_backup ''b'' 0 []) ''r'') 2
      (\<lambda>a e. ((None, Suc a), e)) 0
      (ref_env (empty_cluster\<lparr>cl_Jobs := [ex_job ''j'' [K8uplabel \<mapsto> ''true'', LabelK8upType \<mapsto> BackupType,
          LabelRepositoryHash \<mapsto> Sha256Hash lib_ref ''r''] 1 []]\<rparr>)) =
    (((True, None), 1),
      ref_env (empty_cluster\<lparr>cl_Jobs := [ex_job ''j'' [K8uplabel \<mapsto> ''true'', LabelK8upType \<mapsto> BackupType,
          LabelRepositoryHash \<mapsto> Sha256Hash lib_ref ''r''] 1 []]\<rparr>))"
  by (subst TryRun_spec [where items = "[ex_job ''j'' [K8uplabel \<mapsto> ''true'', LabelK8upType \<mapsto> BackupType,
          LabelRepositoryHash \<mapsto> Sha256Hash lib_ref ''r''] 1 []]"
        and w = "empty_cluster\<lparr>cl_Jobs := [ex_job ''j'' [K8uplabel \<mapsto> ''true'', LabelK8upType \<mapsto> BackupType,
          LabelRepositoryHash \<mapsto> Sha256Hash lib_ref ''r''] 1 []]\<rparr>"])
    (simp_all add: ref_env_def kube_ref_def repo_selector_def ref_matches_def ex_job_def job_labels_def
      exclusive_running_def active_pods_def active_jobs_def label_value_def NewConfig_def ex_backup_def
      empty_job_def k8up_consts)

text \<open>
  C2. \<^verbatim>\<open>TryRunExclusively\<close> executes its runnable exactly when no job of the
  repository has active pods, exclusive or not, of any type.
\<close>

theorem TryRunExclusively_spec:
  assumes "k_ListJobs K (repo_selector L l) None (env_World e) = (Inr items, w)"
  shows "TryRunExclusively L K l runnable a e =
    (if \<exists>j \<in> set items. js_Active (j_Status j) > 0
     then (((False, None), a), e\<lparr>env_World := w\<rparr>)
     else (case runnable a (e\<lparr>env_World := w\<rparr>) of ((err, a'), e') \<Rightarrow> (((True, err), a'), e')))"
  by (auto simp: TryRunExclusively_def in_world_def fetchRunningJobs_ok [OF assms] active_jobs_def
      filter_empty_conv split: prod.splits)

theorem TryRunExclusively_spec_witness:
  "TryRunExclusively lib_ref kube_ref \<lparr>lk_addr = 0, lk_repository = ''r''\<rparr> (\<lambda>a e. ((None, Suc a), e)) 0
      (ref_env empty_cluster) = (((True, None), 1), ref_env empty_cluster)"
  by (subst TryRunExclusively_spec [where items = "[]" and w = empty_cluster])
    (simp_all add: ref_env_def kube_ref_def empty_cluster_def)

end
