(* ===== verification/Cleaner.thy ===== *)
theory Cleaner
  imports Job_Pkg
begin

text \<open>
  \<^verbatim>\<open>operator/executor/cleaner/cleaner.go\<close> and
  \<^verbatim>\<open>operator/executor/generic.go\<close>: deleting old finished jobs down to the history
  limits, among the jobs that share the running job's owner.
\<close>

section \<open>Limits and groups\<close>

definition getOrDefault :: "int option \<Rightarrow> int \<Rightarrow> int" where
  "getOrDefault n defaultN =
     (case n of None \<Rightarrow> defaultN | Some n \<Rightarrow> if n < 0 then 0 else n)"

definition historyLimits :: "Configuration \<Rightarrow> JobObject option \<Rightarrow> (int \<times> int) result" where
  "historyLimits cfg l =
     (let successful = GetGlobalSuccessfulJobsHistoryLimit cfg;
          failed = GetGlobalFailedJobsHistoryLimit cfg
      in case l of
           None \<Rightarrow> Inr (successful, failed)
         | Some obj \<Rightarrow>
             rbind (GetSuccessfulJobsHistoryLimit obj) (\<lambda>s.
             rbind (GetFailedJobsHistoryLimit obj) (\<lambda>f.
             Inr (getOrDefault s successful, getOrDefault f failed))))"

text \<open>The three slices of \<^verbatim>\<open>groupByStatus\<close>: running, failed, successful.\<close>

fun group_loop :: "meta_api \<Rightarrow> JobObject list \<Rightarrow> JobObject list \<times> JobObject list \<times> JobObject list
    \<Rightarrow> JobObject list \<times> JobObject list \<times> JobObject list" where
  "group_loop M [] acc = acc"
| "group_loop M (job # jobs) (running, failed, successful) =
     (if HasSucceeded M (GetStatus job) then group_loop M jobs (running, failed, successful @ [job])
      else if HasFailed M (GetStatus job) then group_loop M jobs (running, failed @ [job], successful)
      else group_loop M jobs (running @ [job], failed, successful))"

definition groupByStatus ::
  "meta_api \<Rightarrow> JobObject list \<Rightarrow> JobObject list \<times> JobObject list \<times> JobObject list" where
  "groupByStatus M jobs = group_loop M jobs ([], [], [])"

section \<open>Deletion\<close>

definition deleteJob :: "'w kube \<Rightarrow> JobObject \<Rightarrow> 'w \<Rightarrow> gerr option \<times> 'w" where
  "deleteJob K job w =
     (case k_DeleteObject K job w of
        (Some err, w) \<Rightarrow> (if \<not> IsNotFound err then Some err else None, w)
      | (None, w) \<Rightarrow> (None, w))"

text \<open>\<open>delete_loop K objs i n\<close>: the loop at index \<open>i\<close> with \<open>n\<close> rounds to go.\<close>

fun delete_loop :: "'w kube \<Rightarrow> JobObject list \<Rightarrow> nat \<Rightarrow> nat \<Rightarrow> 'w \<Rightarrow> (int \<times> gerr option) \<times> 'w" where
  "delete_loop K objs i 0 w = ((int i, None), w)"
| "delete_loop K objs i (Suc n) w =
     (if i \<ge> length objs then ((int i, Some (Panic ''index out of range'')), w)
      else case deleteJob K (objs ! i) w of
             (Some err, w) \<Rightarrow>
               ((int i, Some (Wrapped (''could not delete old '' @ GetType (objs ! i)) err)), w)
           | (None, w) \<Rightarrow> delete_loop K objs (Suc i) n w)"

definition cleanOldObjects :: "'w kube \<Rightarrow> JobObject list \<Rightarrow> int \<Rightarrow> 'w \<Rightarrow> (int \<times> gerr option) \<times> 'w" where
  "cleanOldObjects K jobObjects maxObjects w =
     (let numToDelete = int (length jobObjects) - maxObjects
      in if numToDelete \<le> 0 then ((0, None), w)
         else delete_loop K (sort_jobs jobObjects) 0 (nat numToDelete) w)"

definition CleanOldObjects ::
  "lib \<Rightarrow> 'w kube \<Rightarrow> Configuration \<Rightarrow> JobObject option \<Rightarrow> JobObject list \<Rightarrow> 'w \<Rightarrow> (int \<times> gerr option) \<times> 'w" where
  "CleanOldObjects L K cfg limits jobObjects w =
     (case historyLimits cfg limits of
        Inl p \<Rightarrow> ((0, Some p), w)
      | Inr (maxSuccessfulObjects, maxFailedObjects) \<Rightarrow>
         (case groupByStatus (lib_Meta L) jobObjects of (_, failedJobs, successfulJobs) \<Rightarrow>
            (case cleanOldObjects K successfulJobs maxSuccessfulObjects w of
               ((successDel, Some err), w) \<Rightarrow> ((successDel, Some err), w)
             | ((successDel, None), w) \<Rightarrow>
                 (case cleanOldObjects K failedJobs maxFailedObjects w of
                    ((failedDel, err), w) \<Rightarrow> ((successDel + failedDel, err), w)))))"

section \<open>Siblings\<close>

definition Group :: string where [k8up_consts]: "Group = ''k8up.io''"

fun legacy_owner :: "owner_ref list \<Rightarrow> string" where
  "legacy_owner [] = []"
| "legacy_owner (ref # refs) =
     (if or_Kind ref = ''Schedule'' \<and> HasPrefix (or_APIVersion ref) (Group @ ''/'') then or_UID ref
      else legacy_owner refs)"

definition controllerUID :: "meta_api \<Rightarrow> object_meta \<Rightarrow> string" where
  "controllerUID M obj =
     (case GetControllerOf M obj of
        Some ref \<Rightarrow> or_UID ref
      | None \<Rightarrow> legacy_owner (om_OwnerReferences obj))"

definition filterByController :: "meta_api \<Rightarrow> JobObject list \<Rightarrow> JobObject \<Rightarrow> JobObject list" where
  "filterByController M jobs runningJob =
     (let ownerUID = controllerUID M (obj_meta runningJob)
      in filter (\<lambda>j. controllerUID M (obj_meta j) = ownerUID) jobs)"

section \<open>CleanupOldResources\<close>

text \<open>
  The object of the configuration and the running job are one object, \<open>obj\<close>; the result is
  the object after its conditions were set.
\<close>

definition listOldResources ::
  "lib \<Rightarrow> 'w kube \<Rightarrow> string \<Rightarrow> JobObject \<Rightarrow> 'w \<Rightarrow> (JobObject list result \<times> JobObject) \<times> 'w" where
  "listOldResources L K namespace obj w =
     (case k_ListObjects K (GetType obj) namespace w of
        (Inl err, w) \<Rightarrow>
          (case SetConditionFalseWithMessage L K ConditionScrubbed ReasonRetrievalFailed
                  (''could not list objects to cleanup old resources: '' @ err_text err) obj w of
             (obj, w) \<Rightarrow> ((Inl err, obj), w))
      | (Inr items, w) \<Rightarrow> ((Inr items, obj), w))"

definition CleanupOldResources ::
  "lib \<Rightarrow> 'w kube \<Rightarrow> Configuration \<Rightarrow> JobObject \<Rightarrow> 'w \<Rightarrow> JobObject \<times> 'w" where
  "CleanupOldResources L K cfg obj w =
     (case listOldResources L K (om_Namespace (obj_meta obj)) obj w of
        ((Inl _, obj), w) \<Rightarrow> (obj, w)
      | ((Inr items, obj), w) \<Rightarrow>
         (let siblings = filterByController (lib_Meta L) items obj
          in case CleanOldObjects L K cfg (Some obj) siblings w of
               ((_, Some err), w) \<Rightarrow>
                 SetConditionFalseWithMessage L K ConditionScrubbed ReasonDeletionFailed
                   (''could not cleanup old resources: '' @ err_text err) obj w
             | ((deleted, None), w) \<Rightarrow>
                 SetConditionTrueWithMessage L K ConditionScrubbed ReasonSucceeded
                   (''Deleted '' @ Itoa deleted @ '' resources'') obj w))"

section \<open>Lemmas\<close>

lemma group_loop_eq:
  "group_loop M jobs (r, f, s) =
     (r @ filter (\<lambda>j. \<not> HasFinished M (GetStatus j)) jobs,
      f @ filter (\<lambda>j. HasFailed M (GetStatus j)) jobs,
      s @ filter (\<lambda>j. HasSucceeded M (GetStatus j)) jobs)"
  by (induction jobs arbitrary: r f s) (auto simp: HasFinished_def dest: failed_not_succeeded)

lemma groupByStatus_eq:
  "groupByStatus M jobs = (filter (\<lambda>j. \<not> HasFinished M (GetStatus j)) jobs,
     filter (\<lambda>j. HasFailed M (GetStatus j)) jobs, filter (\<lambda>j. HasSucceeded M (GetStatus j)) jobs)"
  by (simp add: groupByStatus_def group_loop_eq)

lemma getOrDefault_nonneg: "d \<ge> 0 \<Longrightarrow> getOrDefault n d \<ge> 0"
  by (auto simp: getOrDefault_def split: option.splits)

lemma historyLimits_nonneg: "historyLimits cfg l = Inr (s, f) \<Longrightarrow> s \<ge> 0 \<and> f \<ge> 0"
  using global_limits_nonneg [of cfg]
  by (auto simp: historyLimits_def Let_def rbind_Inr getOrDefault_nonneg split: option.splits)

text \<open>What is planned for deletion: the oldest ones beyond the limit.\<close>

definition excess :: "JobObject list \<Rightarrow> int \<Rightarrow> JobObject list" where
  "excess objs limit = take (length objs - nat limit) (sort_jobs objs)"

context delete_log
begin

lemma log_deleteJob: "deleteJob K job w = (r, w') \<Longrightarrow> log w' = log w @ [job]"
  by (auto simp: deleteJob_def split: prod.splits option.splits dest: log_delete)

text \<open>
  The loop requests the deletion of the objects from \<open>i\<close> on; it stops at the first failure,
  and never runs past the end.
\<close>

lemma delete_loop_log:
  assumes "delete_loop K objs i n w = ((d, err), w')" "i + n \<le> length objs"
  shows "(err = None \<longrightarrow> d = int (i + n) \<and> log w' = log w @ take n (drop i objs)) \<and>
    (err \<noteq> None \<longrightarrow> (\<exists>k < n. d = int (i + k) \<and> log w' = log w @ take (Suc k) (drop i objs)))"
  using assms
proof (induction n arbitrary: i w)
  case (Suc n)
  obtain r w1 where d: "deleteJob K (objs ! i) w = (r, w1)" by fastforce
  have l1: "log w1 = log w @ [objs ! i]" using d by (rule log_deleteJob)
  have hd: "drop i objs = objs ! i # drop (Suc i) objs"
    using Suc.prems(2) by (simp add: Cons_nth_drop_Suc)
  show ?case
  proof (cases r)
    case (Some e)
    then show ?thesis using Suc.prems d l1 hd by (auto intro!: exI [of _ 0])
  next
    case None
    then have "delete_loop K objs (Suc i) n w1 = ((d, err), w')" using Suc.prems d by simp
    note ih = Suc.IH [OF this]
    show ?thesis
    proof (cases err)
      case None
      then show ?thesis using ih Suc.prems(2) l1 hd by simp
    next
      case (Some x)
      then obtain k where "k < n" "d = int (Suc i + k)"
        "log w' = log w1 @ take (Suc k) (drop (Suc i) objs)"
        using ih Suc.prems(2) by auto
      then show ?thesis using Some l1 hd by (intro conjI impI exI [of _ "Suc k"]) auto
    qed
  qed
qed simp

lemma cleanOldObjects_log:
  assumes "cleanOldObjects K objs limit w = ((d, err), w')" "limit \<ge> 0"
  shows "(err = None \<longrightarrow> d = int (length (excess objs limit)) \<and> log w' = log w @ excess objs limit) \<and>
    (err \<noteq> None \<longrightarrow> (\<exists>k < length (excess objs limit). d = int k \<and>
       log w' = log w @ take (Suc k) (excess objs limit)))"
proof (cases "int (length objs) \<le> limit")
  case True
  then show ?thesis using assms by (auto simp: cleanOldObjects_def excess_def)
next
  case False
  let ?n = "nat (int (length objs) - limit)"
  have n: "?n = length objs - nat limit" "?n \<le> length objs" using assms(2) False by auto
  have l: "delete_loop K (sort_jobs objs) 0 ?n w = ((d, err), w')"
    using assms(1) False by (simp add: cleanOldObjects_def)
  have e: "excess objs limit = take ?n (sort_jobs objs)" by (simp add: excess_def n(1))
  have len: "length (excess objs limit) = ?n" using n by (simp add: e)
  show ?thesis
    using delete_loop_log [OF l] n(2) by (auto simp: len) (auto simp: e min_def)
qed

end

text \<open>The whole plan of a clean-up: successful jobs first, then failed ones.\<close>

definition successful_of :: "meta_api \<Rightarrow> JobObject list \<Rightarrow> JobObject list" where
  "successful_of M jobs = filter (\<lambda>j. HasSucceeded M (GetStatus j)) jobs"

definition failed_of :: "meta_api \<Rightarrow> JobObject list \<Rightarrow> JobObject list" where
  "failed_of M jobs = filter (\<lambda>j. HasFailed M (GetStatus j)) jobs"

definition clean_plan :: "meta_api \<Rightarrow> int \<Rightarrow> int \<Rightarrow> JobObject list \<Rightarrow> JobObject list" where
  "clean_plan M s f jobs = excess (successful_of M jobs) s @ excess (failed_of M jobs) f"

lemma excess_subset: "set (excess objs limit) \<subseteq> set objs"
  by (metis excess_def set_take_subset sort_jobs_set(1))

lemma length_excess: "limit \<ge> 0 \<Longrightarrow> length objs - length (excess objs limit) \<le> nat limit"
  by (simp add: excess_def)

text \<open>Nothing that is kept is older than something planned.\<close>

lemma excess_oldest:
  assumes "a \<in> set (excess objs limit)" "b \<in> set (drop (length (excess objs limit)) (sort_jobs objs))"
  shows "\<not> Less b a"
proof -
  let ?n = "length objs - nat limit"
  have n: "length (excess objs limit) = ?n" by (simp add: excess_def)
  have "sorted_wrt (\<lambda>a b. \<not> Less b a) (take ?n (sort_jobs objs) @ drop ?n (sort_jobs objs))"
    by (simp add: sort_jobs_sorted)
  then show ?thesis using assms unfolding sorted_wrt_append n by (simp add: excess_def)
qed

lemma excess_mset:
  "mset (excess objs limit) \<subseteq># mset objs"
  "length (excess objs limit) = length objs - nat limit"
  "\<forall>a \<in># mset (excess objs limit). \<forall>b \<in># mset objs - mset (excess objs limit). \<not> Less b a"
proof -
  let ?n = "length objs - nat limit"
  have m: "mset objs = mset (excess objs limit) + mset (drop ?n (sort_jobs objs))"
    unfolding excess_def by (metis append_take_drop_id mset_append sort_jobs_mset)
  show "mset (excess objs limit) \<subseteq># mset objs" by (simp add: m)
  show l: "length (excess objs limit) = ?n" by (simp add: excess_def)
  have "mset objs - mset (excess objs limit) = mset (drop ?n (sort_jobs objs))" by (simp add: m)
  then show "\<forall>a \<in># mset (excess objs limit). \<forall>b \<in># mset objs - mset (excess objs limit). \<not> Less b a"
    using excess_oldest [of _ objs limit] by (simp add: l)
qed

context delete_log
begin

lemma CleanOldObjects_log:
  assumes "historyLimits cfg limits = Inr (s, f)"
    "CleanOldObjects L K cfg limits jobs w = ((n, err), w')"
  shows "(err = None \<longrightarrow> log w' = log w @ clean_plan (lib_Meta L) s f jobs \<and>
      n = int (length (clean_plan (lib_Meta L) s f jobs))) \<and>
    (err \<noteq> None \<longrightarrow> (\<exists>k < length (clean_plan (lib_Meta L) s f jobs). n = int k \<and>
      log w' = log w @ take (Suc k) (clean_plan (lib_Meta L) s f jobs)))"
proof -
  let ?S = "successful_of (lib_Meta L) jobs" and ?F = "failed_of (lib_Meta L) jobs"
  have lim: "s \<ge> 0" "f \<ge> 0" using historyLimits_nonneg [OF assms(1)] by simp_all
  obtain n1 e1 w1 where c1: "cleanOldObjects K ?S s w = ((n1, e1), w1)" by (metis surj_pair)
  obtain n2 e2 w2 where c2: "cleanOldObjects K ?F f w1 = ((n2, e2), w2)" by (metis surj_pair)
  note l1 = cleanOldObjects_log [OF c1 lim(1)] and l2 = cleanOldObjects_log [OF c2 lim(2)]
  have all: "CleanOldObjects L K cfg limits jobs w =
      (case e1 of Some e \<Rightarrow> ((n1, Some e), w1) | None \<Rightarrow> ((n1 + n2, e2), w2))"
    using c1 c2 by (simp add: CleanOldObjects_def assms(1) groupByStatus_eq
        successful_of_def [symmetric] failed_of_def [symmetric] split: option.splits)
  show ?thesis
  proof (cases e1)
    case None
    with all assms(2) have r: "n = n1 + n2" "err = e2" "w' = w2" by simp_all
    have a: "n1 = int (length (excess ?S s))" "log w1 = log w @ excess ?S s" using l1 None by simp_all
    show ?thesis
    proof (cases e2)
      case None
      then show ?thesis using l2 a r by (simp add: clean_plan_def)
    next
      case (Some x)
      then obtain k where "k < length (excess ?F f)" "n2 = int k"
        "log w2 = log w1 @ take (Suc k) (excess ?F f)" using l2 by auto
      then show ?thesis using a r Some
        by (intro conjI impI exI [of _ "length (excess ?S s) + k"]) (auto simp: clean_plan_def)
    qed
  next
    case (Some x)
    with all assms(2) have r: "n = n1" "err = Some x" "w' = w1" by simp_all
    obtain k where "k < length (excess ?S s)" "n1 = int k"
      "log w1 = log w @ take (Suc k) (excess ?S s)" using l1 Some by auto
    then show ?thesis using r
      by (intro conjI impI exI [of _ k]) (auto simp: clean_plan_def)
  qed
qed

lemma log_patchConditions:
  "patchConditions L K st r msg c obj w = (obj', w') \<Longrightarrow> log w' = log w"
  by (auto simp: patchConditions_def Let_def split: prod.splits dest: log_status)

lemma CleanOldObjects_within:
  assumes "CleanOldObjects L K cfg limits jobs w = ((n, err), w')"
  shows "\<exists>ds. log w' = log w @ ds \<and>
    (\<forall>d \<in> set ds. d \<in> set jobs \<and> HasFinished (lib_Meta L) (GetStatus d))"
proof (cases "historyLimits cfg limits")
  case (Inl p)
  then show ?thesis using assms by (simp add: CleanOldObjects_def)
next
  case (Inr sf)
  then obtain s f where sf: "historyLimits cfg limits = Inr (s, f)" by (cases sf) simp
  note l = CleanOldObjects_log [OF sf assms]
  obtain k where "log w' = log w @ take k (clean_plan (lib_Meta L) s f jobs)"
  proof (cases err)
    case None
    then show thesis using l by (intro that [of "length (clean_plan (lib_Meta L) s f jobs)"]) simp
  next
    case (Some x)
    then show thesis using l that by blast
  qed
  moreover have "\<forall>d \<in> set (clean_plan (lib_Meta L) s f jobs). d \<in> set jobs \<and>
      HasFinished (lib_Meta L) (GetStatus d)"
    using excess_subset unfolding clean_plan_def successful_of_def failed_of_def HasFinished_def
    by fastforce
  ultimately show ?thesis by (blast dest: in_set_takeD)
qed

lemma CleanupOldResources_within:
  assumes "k_ListObjects K (GetType obj) (om_Namespace (obj_meta obj)) w = (Inr items, w1)"
    "CleanupOldResources L K cfg obj w = (obj', w')"
  shows "\<exists>ds. log w' = log w @ ds \<and> (\<forall>d \<in> set ds. d \<in> set items \<and>
    HasFinished (lib_Meta L) (GetStatus d) \<and>
    controllerUID (lib_Meta L) (obj_meta d) = controllerUID (lib_Meta L) (obj_meta obj))"
proof -
  let ?sib = "filterByController (lib_Meta L) items obj"
  obtain n err w2 where c: "CleanOldObjects L K cfg (Some obj) ?sib w1 = ((n, err), w2)"
    by (metis surj_pair)
  obtain ds where ds: "log w2 = log w1 @ ds"
    "\<forall>d \<in> set ds. d \<in> set ?sib \<and> HasFinished (lib_Meta L) (GetStatus d)"
    using CleanOldObjects_within [OF c] by blast
  have "log w' = log w2"
    using assms c by (auto simp: CleanupOldResources_def listOldResources_def Let_def
        SetConditionFalseWithMessage_def SetConditionTrueWithMessage_def
        split: option.splits dest: log_patchConditions)
  then show ?thesis
    using ds log_list [OF assms(1)] by (auto simp: filterByController_def Let_def)
qed

end

section \<open>Properties\<close>

text \<open>
  C6. A clean-up deletes exactly the excess: the oldest successful jobs beyond the limit for
  successful jobs and the oldest failed jobs beyond the limit for failed jobs, and nothing that
  remains in either group is older than something deleted from it. \<open>log\<close> observes the delete
  requests.
\<close>

theorem CleanOldObjects_keeps_newest:
  assumes "delete_log K log" "historyLimits cfg limits = Inr (s, f)"
    "CleanOldObjects L K cfg limits jobs w = ((n, None), w')"
  shows "\<exists>dS dF. log w' = log w @ dS @ dF \<and> n = int (length dS + length dF) \<and>
    mset dS \<subseteq># mset (successful_of (lib_Meta L) jobs) \<and>
    length dS = length (successful_of (lib_Meta L) jobs) - nat s \<and>
    (\<forall>a \<in># mset dS. \<forall>b \<in># mset (successful_of (lib_Meta L) jobs) - mset dS. \<not> Less b a) \<and>
    mset dF \<subseteq># mset (failed_of (lib_Meta L) jobs) \<and>
    length dF = length (failed_of (lib_Meta L) jobs) - nat f \<and>
    (\<forall>a \<in># mset dF. \<forall>b \<in># mset (failed_of (lib_Meta L) jobs) - mset dF. \<not> Less b a)"
proof -
  have "log w' = log w @ excess (successful_of (lib_Meta L) jobs) s @ excess (failed_of (lib_Meta L) jobs) f"
    "n = int (length (excess (successful_of (lib_Meta L) jobs) s) + length (excess (failed_of (lib_Meta L) jobs) f))"
    using delete_log.CleanOldObjects_log [OF assms] by (simp_all add: clean_plan_def)
  then show ?thesis using excess_mset by (intro exI conjI) (assumption | blast)+
qed

theorem CleanOldObjects_keeps_newest_witness:
  "\<exists>w' dS dF. CleanOldObjects lib_ref kube_ref ((default_config ''k8up'')\<lparr>cfg_GlobalSuccessfulJobsHistoryLimit := 1\<rparr>) None
      [ex_backup ''new'' 2 [ex_condition ConditionCompleted ConditionTrue ReasonSucceeded],
       ex_backup ''old'' 1 [ex_condition ConditionCompleted ConditionTrue ReasonSucceeded]]
      empty_cluster = ((1, None), w') \<and>
    cl_Deleted w' = dS @ dF \<and> length dS = 1 \<and> dF = []"
proof -
  let ?jobs = "[ex_backup ''new'' 2 [ex_condition ConditionCompleted ConditionTrue ReasonSucceeded],
       ex_backup ''old'' 1 [ex_condition ConditionCompleted ConditionTrue ReasonSucceeded]]"
  let ?cfg = "(default_config ''k8up'')\<lparr>cfg_GlobalSuccessfulJobsHistoryLimit := 1\<rparr>"
  have h: "historyLimits ?cfg None = Inr (1, 3)"
    by (simp add: historyLimits_def GetGlobalSuccessfulJobsHistoryLimit_def
        GetGlobalFailedJobsHistoryLimit_def default_config_def maxInt_def)
  have g: "successful_of (lib_Meta lib_ref) ?jobs = ?jobs" "failed_of (lib_Meta lib_ref) ?jobs = []"
    by (simp_all add: successful_of_def failed_of_def ex_defs status_queries lib_ref_def meta_ref_def
        ref_find_def k8up_consts)
  obtain n err w' where c: "CleanOldObjects lib_ref kube_ref ?cfg None ?jobs empty_cluster = ((n, err), w')"
    by (metis surj_pair)
  have del: "deleteJob kube_ref j w = (None, w\<lparr>cl_Objects := filter (\<lambda>x. \<not> same_object x j) (cl_Objects w),
        cl_Deleted := cl_Deleted w @ [j]\<rparr>)" for j w
    by (simp add: deleteJob_def kube_ref_def)
  have "err = None"
    using c by (simp add: CleanOldObjects_def h groupByStatus_eq successful_of_def [symmetric]
        failed_of_def [symmetric] g cleanOldObjects_def del)
  then show ?thesis
    using CleanOldObjects_keeps_newest [OF kube_ref.delete_log_axioms h, of lib_ref ?jobs empty_cluster n w'] c
    by (auto simp: g empty_cluster_def)
qed

text \<open>
  C7. A clean-up never touches anything but finished siblings: every delete request it sends, also
  when it aborts on an error, is for an object of the same kind and namespace that the server
  listed, that has finished, and that has the running job's owner. Running jobs and the jobs of
  other schedules are safe.
\<close>

theorem CleanupOldResources_only_siblings:
  assumes "delete_log K log"
    "k_ListObjects K (GetType obj) (om_Namespace (obj_meta obj)) w = (Inr items, w1)"
    "CleanupOldResources L K cfg obj w = (obj', w')"
  shows "\<exists>ds. log w' = log w @ ds \<and> (\<forall>d \<in> set ds. d \<in> set items \<and>
    HasFinished (lib_Meta L) (GetStatus d) \<and>
    controllerUID (lib_Meta L) (obj_meta d) = controllerUID (lib_Meta L) (obj_meta obj))"
  using assms by (rule delete_log.CleanupOldResources_within)

theorem CleanupOldResources_only_siblings_witness:
  "\<exists>obj' w' ds. CleanupOldResources lib_ref kube_ref (default_config ''k8up'') (ex_backup ''b'' 0 [])
      (empty_cluster\<lparr>cl_Objects := [ex_backup ''b'' 0 []]\<rparr>) = (obj', w') \<and> cl_Deleted w' = ds \<and>
    (\<forall>d \<in> set ds. d = ex_backup ''b'' 0 [] \<and> HasFinished meta_ref (GetStatus d))"
proof -
  let ?b = "ex_backup ''b'' 0 []"
  let ?w = "empty_cluster\<lparr>cl_Objects := [?b]\<rparr>"
  obtain obj' w' where c: "CleanupOldResources lib_ref kube_ref (default_config ''k8up'') ?b ?w = (obj', w')"
    by fastforce
  have l: "k_ListObjects kube_ref (GetType ?b) (om_Namespace (obj_meta ?b)) ?w = (Inr [?b], ?w)"
    by (simp add: kube_ref_def)
  show ?thesis
    using CleanupOldResources_only_siblings [OF kube_ref.delete_log_axioms l c] c
    by (auto simp: empty_cluster_def lib_ref_def)
qed

end
