(* ===== verification/Randomizer.thy ===== *)
theory Randomizer
  imports Job_Pkg
begin

text \<open>
  \<^verbatim>\<open>operator/schedulecontroller/randomizer.go\<close> and
  \<^verbatim>\<open>effectiveschedule.go\<close>: the \<^verbatim>\<open>@x-random\<close> schedules and the
  list of effective schedules in the status of a \<^verbatim>\<open>Schedule\<close>. The SHA-1 checksum is
  the parameter \<open>lib_Sha1Int\<close>.
\<close>

section \<open>randomizer.go\<close>

definition ScheduleHourlyRandom :: ScheduleDefinition where
  [k8up_consts]: "ScheduleHourlyRandom = ''@hourly-random''"
definition ScheduleDailyRandom :: ScheduleDefinition where
  [k8up_consts]: "ScheduleDailyRandom = ''@daily-random''"
definition ScheduleYearlyRandom :: ScheduleDefinition where
  [k8up_consts]: "ScheduleYearlyRandom = ''@yearly-random''"
definition ScheduleAnnuallyRandom :: ScheduleDefinition where
  [k8up_consts]: "ScheduleAnnuallyRandom = ''@annually-random''"
definition ScheduleMonthlyRandom :: ScheduleDefinition where
  [k8up_consts]: "ScheduleMonthlyRandom = ''@monthly-random''"
definition ScheduleWeeklyRandom :: ScheduleDefinition where
  [k8up_consts]: "ScheduleWeeklyRandom = ''@weekly-random''"

definition createSeed :: "Schedule \<Rightarrow> JobType \<Rightarrow> string" where
  "createSeed schedule jobType =
     om_Namespace (s_Meta schedule) @ ''/'' @ om_Name (s_Meta schedule) @ ''@'' @ jobType"

definition calculateChecksumFromSeed :: "lib \<Rightarrow> string \<Rightarrow> nat" where
  "calculateChecksumFromSeed L seed = lib_Sha1Int L seed"

definition remainderFromModulo :: "nat \<Rightarrow> nat \<Rightarrow> nat \<Rightarrow> nat" where
  "remainderFromModulo dividend divisor offset = offset + dividend mod divisor"

text \<open>
  In Go a \<^verbatim>\<open>case\<close> without statements does not fall through: the annual schedule
  leaves the switch and is returned as it is.
\<close>

definition randomizeSchedule ::
  "lib \<Rightarrow> string \<Rightarrow> ScheduleDefinition \<Rightarrow> ScheduleDefinition \<times> gerr option" where
  "randomizeSchedule L seed originalSchedule =
     (let checksum = calculateChecksumFromSeed L seed;
          minute = remainderFromModulo checksum 60 0;
          hour = remainderFromModulo checksum 24 0;
          dayOfMonth = remainderFromModulo checksum 27 1
      in if originalSchedule = ScheduleHourlyRandom then
           (nat_numeral minute @ '' * * * *'', None)
         else if originalSchedule = ScheduleDailyRandom then
           (nat_numeral minute @ '' '' @ nat_numeral hour @ '' * * *'', None)
         else if originalSchedule = ScheduleMonthlyRandom then
           (nat_numeral minute @ '' '' @ nat_numeral hour @ '' '' @ nat_numeral dayOfMonth @ '' * *'', None)
         else if originalSchedule = ScheduleAnnuallyRandom then (originalSchedule, None)
         else if originalSchedule = ScheduleYearlyRandom then
           (let month = remainderFromModulo checksum 12 1
            in (nat_numeral minute @ '' '' @ nat_numeral hour @ '' '' @ nat_numeral dayOfMonth @ '' '' @
                nat_numeral month @ '' *'', None))
         else if originalSchedule = ScheduleWeeklyRandom then
           (let weekday = remainderFromModulo checksum 6 0
            in (nat_numeral minute @ '' '' @ nat_numeral hour @ '' * * '' @ nat_numeral weekday, None))
         else (originalSchedule, Some (PlainError
           (''unrecognized random schedule: '' @ [CHR 0x27] @ originalSchedule @ [CHR 0x27]))))"

section \<open>effectiveschedule.go\<close>

definition createRandomSchedule ::
  "lib \<Rightarrow> Schedule \<Rightarrow> JobType \<Rightarrow> ScheduleDefinition \<Rightarrow> ScheduleDefinition \<times> gerr option" where
  "createRandomSchedule L s jobType originalSchedule =
     (let seed = createSeed s jobType
      in case randomizeSchedule L seed originalSchedule of
           (_, Some err) \<Rightarrow> (originalSchedule, Some err)
         | (randomizedSchedule, None) \<Rightarrow> (randomizedSchedule, None))"

fun set_effective_loop :: "JobType \<Rightarrow> ScheduleDefinition \<Rightarrow> EffectiveSchedule list
    \<Rightarrow> EffectiveSchedule list \<Rightarrow> bool \<Rightarrow> EffectiveSchedule list \<times> bool" where
  "set_effective_loop jobType schedule [] newList found = (newList, found)"
| "set_effective_loop jobType schedule (es # ess) newList found =
     (if es_JobType es = jobType
      then set_effective_loop jobType schedule ess (newList @ [es\<lparr>es_GeneratedSchedule := schedule\<rparr>]) True
      else set_effective_loop jobType schedule ess (newList @ [es]) found)"

definition setEffectiveSchedule :: "JobType \<Rightarrow> ScheduleDefinition \<Rightarrow> Schedule \<Rightarrow> Schedule" where
  "setEffectiveSchedule jobType schedule s =
     (case set_effective_loop jobType schedule (sst_EffectiveSchedules (s_Status s)) [] False of
        (newList, found) \<Rightarrow>
          s\<lparr>s_Status := (s_Status s)\<lparr>sst_EffectiveSchedules :=
             (if \<not> found then newList @ [\<lparr>es_JobType = jobType, es_GeneratedSchedule = schedule\<rparr>]
              else newList)\<rparr>\<rparr>)"

fun cleanup_loop :: "JobType \<Rightarrow> ScheduleDefinition \<Rightarrow> EffectiveSchedule list
    \<Rightarrow> EffectiveSchedule list \<Rightarrow> EffectiveSchedule list" where
  "cleanup_loop jobType newSchedule [] newList = newList"
| "cleanup_loop jobType newSchedule (es # ess) newList =
     (if es_JobType es \<noteq> jobType then cleanup_loop jobType newSchedule ess (newList @ [es])
      else if IsRandom newSchedule then cleanup_loop jobType newSchedule ess (newList @ [es])
      else cleanup_loop jobType newSchedule ess newList)"

definition cleanupEffectiveSchedules :: "JobType \<Rightarrow> ScheduleDefinition \<Rightarrow> Schedule \<Rightarrow> Schedule" where
  "cleanupEffectiveSchedules jobType newSchedule s =
     s\<lparr>s_Status := (s_Status s)\<lparr>sst_EffectiveSchedules :=
        cleanup_loop jobType newSchedule (sst_EffectiveSchedules (s_Status s)) []\<rparr>\<rparr>"

definition getEffectiveSchedule ::
  "lib \<Rightarrow> JobType \<Rightarrow> ScheduleDefinition \<Rightarrow> Schedule \<Rightarrow> ScheduleDefinition \<times> Schedule" where
  "getEffectiveSchedule L jobType originalSchedule s =
     (let isStandardOrNotRandom = (\<not> IsNonStandard originalSchedule \<or> \<not> IsRandom originalSchedule)
      in if isStandardOrNotRandom then (originalSchedule, s)
         else case createRandomSchedule L s jobType originalSchedule of
                (_, Some err) \<Rightarrow> (originalSchedule, s)
              | (randomizedSchedule, None) \<Rightarrow>
                  (randomizedSchedule, setEffectiveSchedule jobType randomizedSchedule s))"

section \<open>Lemmas\<close>

text \<open>The table in the status, as a map from job types.\<close>

fun es_map :: "EffectiveSchedule list \<Rightarrow> JobType \<rightharpoonup> ScheduleDefinition" where
  "es_map [] = Map.empty"
| "es_map (es # ess) = (es_map ess)(es_JobType es \<mapsto> es_GeneratedSchedule es)"

definition effective :: "Schedule \<Rightarrow> JobType \<rightharpoonup> ScheduleDefinition" where
  "effective s = es_map (sst_EffectiveSchedules (s_Status s))"

definition effective_ok :: "Schedule \<Rightarrow> bool" where
  "effective_ok s \<longleftrightarrow> distinct (map es_JobType (sst_EffectiveSchedules (s_Status s)))"

definition es_replace :: "JobType \<Rightarrow> ScheduleDefinition \<Rightarrow> EffectiveSchedule list \<Rightarrow> EffectiveSchedule list" where
  "es_replace jt sch ess = map (\<lambda>es. if es_JobType es = jt then es\<lparr>es_GeneratedSchedule := sch\<rparr> else es) ess"

lemma set_effective_loop_eq:
  "set_effective_loop jt sch ess nl found = (nl @ es_replace jt sch ess, found \<or> jt \<in> es_JobType ` set ess)"
  by (induction ess arbitrary: nl found) (auto simp: es_replace_def)

lemma cleanup_loop_eq:
  "cleanup_loop jt new ess nl =
     nl @ (if IsRandom new then ess else filter (\<lambda>es. es_JobType es \<noteq> jt) ess)"
  by (induction ess arbitrary: nl) auto

lemma es_map_replace:
  "es_map (es_replace jt sch ess) = (if jt \<in> es_JobType ` set ess then (es_map ess)(jt \<mapsto> sch) else es_map ess)"
  by (induction ess) (auto simp: es_replace_def)

lemma es_map_snoc:
  "es_map (ess @ [e]) =
     (if es_JobType e \<in> es_JobType ` set ess then es_map ess else (es_map ess)(es_JobType e \<mapsto> es_GeneratedSchedule e))"
  by (induction ess) auto

lemma es_map_filter: "es_map (filter (\<lambda>es. es_JobType es \<noteq> jt) ess) = (es_map ess)(jt := None)"
  by (induction ess) auto

lemma es_replace_types [simp]:
  "map es_JobType (es_replace jt sch ess) = map es_JobType ess"
  "es_JobType ` set (es_replace jt sch ess) = es_JobType ` set ess"
proof -
  show m: "map es_JobType (es_replace jt sch ess) = map es_JobType ess"
    by (induction ess) (auto simp: es_replace_def)
  show "es_JobType ` set (es_replace jt sch ess) = es_JobType ` set ess"
    using arg_cong [OF m, of set] by simp
qed

lemma setEffectiveSchedule_effective:
  "effective (setEffectiveSchedule jt sch s) = (effective s)(jt \<mapsto> sch)"
  by (auto simp: effective_def setEffectiveSchedule_def set_effective_loop_eq es_map_snoc es_map_replace)

lemma setEffectiveSchedule_ok: "effective_ok s \<Longrightarrow> effective_ok (setEffectiveSchedule jt sch s)"
  by (auto simp: effective_ok_def setEffectiveSchedule_def set_effective_loop_eq)

lemma cleanupEffectiveSchedules_effective:
  "effective (cleanupEffectiveSchedules jt new s) =
     (if IsRandom new then effective s else (effective s)(jt := None))"
  by (auto simp: effective_def cleanupEffectiveSchedules_def cleanup_loop_eq es_map_filter)

lemma cleanupEffectiveSchedules_ok: "effective_ok s \<Longrightarrow> effective_ok (cleanupEffectiveSchedules jt new s)"
  by (auto simp: effective_ok_def cleanupEffectiveSchedules_def cleanup_loop_eq distinct_map_filter)

lemma effective_schedule_frame [simp]:
  "s_Meta (setEffectiveSchedule jt sch s) = s_Meta s" "s_Spec (setEffectiveSchedule jt sch s) = s_Spec s"
  "s_Meta (cleanupEffectiveSchedules jt sch s) = s_Meta s"
  "s_Spec (cleanupEffectiveSchedules jt sch s) = s_Spec s"
  by (simp_all add: setEffectiveSchedule_def cleanupEffectiveSchedules_def split: prod.splits)

lemma getEffectiveSchedule_frame:
  "getEffectiveSchedule L jt sch s = (r, s') \<Longrightarrow> s_Meta s' = s_Meta s \<and> s_Spec s' = s_Spec s"
  by (auto simp: getEffectiveSchedule_def Let_def split: if_splits prod.splits option.splits)

lemma setEffectiveSchedule_idem:
  "setEffectiveSchedule jt sch (setEffectiveSchedule jt sch s) = setEffectiveSchedule jt sch s"
proof -
  have r: "es_replace jt sch (es_replace jt sch ess) = es_replace jt sch ess" for ess
    by (auto simp: es_replace_def)
  have a: "es_replace jt sch (ess @ [e]) = es_replace jt sch ess @ es_replace jt sch [e]" for ess e
    by (simp add: es_replace_def)
  have n: "jt \<notin> es_JobType ` set ess \<Longrightarrow> es_replace jt sch ess = ess" for ess
    by (induction ess) (auto simp: es_replace_def)
  show ?thesis
    by (auto simp: setEffectiveSchedule_def set_effective_loop_eq r a) (auto simp: es_replace_def)
qed

lemma createSeed_cong: "s_Meta s = s_Meta s' \<Longrightarrow> createSeed s jt = createSeed s' jt"
  by (simp add: createSeed_def)

section \<open>Properties\<close>

text \<open>A cron field is the asterisk or a number in its range.\<close>

definition cron_field :: "nat \<Rightarrow> nat \<Rightarrow> string \<Rightarrow> bool" where
  "cron_field lo hi f \<longleftrightarrow> f = ''*'' \<or> (\<exists>n. lo \<le> n \<and> n \<le> hi \<and> f = nat_numeral n)"

lemma cron_field_star [simp]: "cron_field lo hi ''*''"
  by (simp add: cron_field_def)

lemma cron_field_mod:
  assumes "d > 0" "lo = ofs" "ofs + d \<le> Suc hi"
  shows "cron_field lo hi (nat_numeral (remainderFromModulo n d ofs))"
proof -
  have "n mod d < d" using assms(1) by simp
  then have "lo \<le> ofs + n mod d" "ofs + n mod d \<le> hi" using assms by linarith+
  then show ?thesis unfolding cron_field_def remainderFromModulo_def by blast
qed

lemma numeral_not_special: "\<not> IsNonStandard (nat_numeral n @ rest)"
proof -
  have "hd (nat_numeral n) \<noteq> CHR ''@''"
    using nat_numeral_digits [of "hd (nat_numeral n)" n] by (auto simp: hd_in_set dest: sym)
  then show ?thesis
    by (cases "nat_numeral n") (auto simp: IsNonStandard_def HasPrefix_def)
qed

text \<open>
  C8. Each of the five supported random schedules becomes a standard cron expression of five fields
  within their ranges: minutes below 60, hours below 24, a day of the month of at most 27, so that
  every month has it, a month from 1 to 12, and a weekday from 0 to 5. The result is no longer a
  special definition.
\<close>

theorem randomizeSchedule_cron:
  assumes "sch \<in> {ScheduleHourlyRandom, ScheduleDailyRandom, ScheduleWeeklyRandom,
    ScheduleMonthlyRandom, ScheduleYearlyRandom}"
  shows "\<exists>minute hour day month weekday.
    randomizeSchedule L seed sch = (Join [minute, hour, day, month, weekday] '' '', None) \<and>
    cron_field 0 59 minute \<and> cron_field 0 23 hour \<and> cron_field 1 27 day \<and>
    cron_field 1 12 month \<and> cron_field 0 5 weekday \<and>
    \<not> IsNonStandard (Join [minute, hour, day, month, weekday] '' '')"
proof -
  define c where "c = calculateChecksumFromSeed L seed"
  let ?m = "nat_numeral (remainderFromModulo c 60 0)" and ?h = "nat_numeral (remainderFromModulo c 24 0)"
  let ?d = "nat_numeral (remainderFromModulo c 27 1)" and ?mo = "nat_numeral (remainderFromModulo c 12 1)"
  let ?w = "nat_numeral (remainderFromModulo c 6 0)"
  note f = cron_field_mod numeral_not_special
  from assms consider "sch = ScheduleHourlyRandom" | "sch = ScheduleDailyRandom"
    | "sch = ScheduleWeeklyRandom" | "sch = ScheduleMonthlyRandom" | "sch = ScheduleYearlyRandom" by blast
  then show ?thesis
  proof cases
    case 1
    then show ?thesis
      by (intro exI [of _ ?m] exI [of _ "''*''"]) (simp add: randomizeSchedule_def c_def Let_def f)
  next
    case 2
    then show ?thesis
      by (intro exI [of _ ?m] exI [of _ ?h] exI [of _ "''*''"])
        (simp add: randomizeSchedule_def c_def Let_def f k8up_consts)
  next
    case 3
    then show ?thesis
      by (intro exI [of _ ?m] exI [of _ ?h] exI [of _ "''*''"] exI [of _ ?w])
        (simp add: randomizeSchedule_def c_def Let_def f k8up_consts)
  next
    case 4
    then show ?thesis
      by (intro exI [of _ ?m] exI [of _ ?h] exI [of _ ?d] exI [of _ "''*''"])
        (simp add: randomizeSchedule_def c_def Let_def f k8up_consts)
  next
    case 5
    then show ?thesis
      by (intro exI [of _ ?m] exI [of _ ?h] exI [of _ ?d] exI [of _ ?mo] exI [of _ "''*''"])
        (simp add: randomizeSchedule_def c_def Let_def f k8up_consts)
  qed
qed

theorem randomizeSchedule_cron_witness:
  "\<exists>minute hour day month weekday.
    randomizeSchedule lib_ref ''ns/s@backup'' ScheduleWeeklyRandom = (Join [minute, hour, day, month, weekday] '' '', None) \<and>
    cron_field 0 5 weekday"
  using randomizeSchedule_cron [of ScheduleWeeklyRandom lib_ref "''ns/s@backup''"] by blast

text \<open>
  The annual alias is not randomized: \<^verbatim>\<open>@annually-random\<close> comes back unchanged and
  without an error, so the schedule handler registers and records a definition that is still random.
\<close>

theorem annually_random_unchanged:
  "randomizeSchedule L seed ScheduleAnnuallyRandom = (ScheduleAnnuallyRandom, None) \<and>
   IsRandom ScheduleAnnuallyRandom \<and>
   fst (getEffectiveSchedule L jobType ScheduleAnnuallyRandom s) = ScheduleAnnuallyRandom \<and>
   effective (snd (getEffectiveSchedule L jobType ScheduleAnnuallyRandom s)) jobType = Some ScheduleAnnuallyRandom"
proof -
  have r: "randomizeSchedule L sd ScheduleAnnuallyRandom = (ScheduleAnnuallyRandom, None)" for sd
    by (simp add: randomizeSchedule_def k8up_consts)
  have i: "IsRandom ScheduleAnnuallyRandom" "IsNonStandard ScheduleAnnuallyRandom"
    by (simp_all add: IsRandom_def IsNonStandard_def HasPrefix_def HasSuffix_def k8up_consts)
  show ?thesis
    by (simp add: r i getEffectiveSchedule_def createRandomSchedule_def setEffectiveSchedule_effective)
qed

text \<open>
  The effective schedules in the status stay a table with one entry per job type. Asking for the
  effective schedule of a job type changes no other entry; a definition that is not random is
  returned as it is and leaves the table alone, a random one is recorded, and asking again gives the
  same answer and changes nothing.
\<close>

theorem getEffectiveSchedule_spec:
  assumes "getEffectiveSchedule L jobType sch s = (r, s')" "effective_ok s"
  shows "effective_ok s' \<and> getEffectiveSchedule L jobType sch s' = (r, s') \<and>
    (\<forall>t. t \<noteq> jobType \<longrightarrow> effective s' t = effective s t) \<and>
    (if IsRandom sch \<and> snd (randomizeSchedule L (createSeed s jobType) sch) = None
     then r = fst (randomizeSchedule L (createSeed s jobType) sch) \<and> effective s' jobType = Some r
     else r = sch \<and> s' = s)"
proof (cases "IsRandom sch \<and> snd (randomizeSchedule L (createSeed s jobType) sch) = None")
  case True
  then have n: "IsNonStandard sch" by (simp add: IsRandom_def)
  obtain x where x: "randomizeSchedule L (createSeed s jobType) sch = (x, None)"
    using True by (metis prod.collapse)
  have g: "getEffectiveSchedule L jobType sch t = (x, setEffectiveSchedule jobType x t)"
    if "createSeed t jobType = createSeed s jobType" for t
    using True n x by (simp add: getEffectiveSchedule_def createRandomSchedule_def that)
  have s': "r = x" "s' = setEffectiveSchedule jobType x s" using assms(1) g [OF refl] by auto
  have "createSeed s' jobType = createSeed s jobType" by (rule createSeed_cong) (simp add: s'(2))
  then have "getEffectiveSchedule L jobType sch s' = (x, setEffectiveSchedule jobType x s')" by (rule g)
  then show ?thesis
    using True x setEffectiveSchedule_ok [OF assms(2), of jobType x]
    by (simp add: s' setEffectiveSchedule_effective setEffectiveSchedule_idem)
next
  case False
  have "getEffectiveSchedule L jobType sch s = (sch, s)"
  proof (cases "IsRandom sch")
    case True
    then obtain x err where "randomizeSchedule L (createSeed s jobType) sch = (x, Some err)"
      using False by (metis not_None_eq prod.collapse)
    then show ?thesis by (simp add: getEffectiveSchedule_def createRandomSchedule_def)
  qed (simp add: getEffectiveSchedule_def)
  then have "r = sch" "s' = s" using assms(1) by simp_all
  then show ?thesis
    using False assms by auto
qed

theorem getEffectiveSchedule_spec_witness:
  "\<exists>r s'. getEffectiveSchedule lib_ref BackupType ScheduleDailyRandom
      (ex_schedule ''s'' ex_schedule_spec) = (r, s') \<and>
    effective s' BackupType = Some r \<and>
    getEffectiveSchedule lib_ref BackupType ScheduleDailyRandom s' = (r, s')"
proof -
  let ?s = "ex_schedule ''s'' ex_schedule_spec"
  obtain r s' where g: "getEffectiveSchedule lib_ref BackupType ScheduleDailyRandom ?s = (r, s')" by fastforce
  have "IsRandom ScheduleDailyRandom"
    by (simp add: IsRandom_def IsNonStandard_def HasPrefix_def HasSuffix_def k8up_consts)
  moreover have "snd (randomizeSchedule lib_ref (createSeed ?s BackupType) ScheduleDailyRandom) = None"
    by (simp add: randomizeSchedule_def Let_def k8up_consts)
  ultimately show ?thesis
    using getEffectiveSchedule_spec [OF g] g by (auto simp: effective_ok_def ex_schedule_def)
qed

end
