(* ===== verification/Schedule_Controller.thy ===== *)
theory Schedule_Controller
  imports Randomizer
begin

text \<open>
  \<^verbatim>\<open>operator/schedulecontroller/handler.go\<close> and \<^verbatim>\<open>controller.go\<close>:
  registering the jobs of a \<^verbatim>\<open>Schedule\<close> with the cron library, and what a cron entry
  does when it fires. The handler's schedule is threaded through; the order in which Go enumerates
  the map of job types is the argument \<open>ord\<close>.
\<close>

section \<open>The interface of scheduled specs\<close>

datatype ScheduleSpecInterface =
    PruneSched PruneSchedule
  | BackupSched BackupSchedule
  | CheckSched CheckSchedule
  | RestoreSched RestoreSchedule
  | ArchiveSched ArchiveSchedule

definition nil_deref :: gerr where
  "nil_deref = Panic ''nil pointer dereference''"

text \<open>\<^verbatim>\<open>GetSchedule\<close> reads through the embedded \<^verbatim>\<open>*ScheduleCommon\<close>.\<close>

definition common_schedule :: "ScheduleCommon option \<Rightarrow> ScheduleDefinition result" where
  "common_schedule c = (case c of Some c \<Rightarrow> Inr (sc_Schedule c) | None \<Rightarrow> Inl nil_deref)"

definition PruneSchedule_GetSchedule :: "PruneSchedule \<Rightarrow> ScheduleDefinition result" where
  [simp]: "PruneSchedule_GetSchedule x = common_schedule (psch_Common x)"

definition BackupSchedule_GetSchedule :: "BackupSchedule \<Rightarrow> ScheduleDefinition result" where
  [simp]: "BackupSchedule_GetSchedule x = common_schedule (bsch_Common x)"

definition CheckSchedule_GetSchedule :: "CheckSchedule \<Rightarrow> ScheduleDefinition result" where
  [simp]: "CheckSchedule_GetSchedule x = common_schedule (csch_Common x)"

definition RestoreSchedule_GetSchedule :: "RestoreSchedule \<Rightarrow> ScheduleDefinition result" where
  [simp]: "RestoreSchedule_GetSchedule x = common_schedule (rsch_Common x)"

definition ArchiveSchedule_GetSchedule :: "ArchiveSchedule \<Rightarrow> ScheduleDefinition result" where
  [simp]: "ArchiveSchedule_GetSchedule x = common_schedule (asch_Common x)"

fun GetSchedule :: "ScheduleSpecInterface \<Rightarrow> ScheduleDefinition result" where
  "GetSchedule (PruneSched x) = PruneSchedule_GetSchedule x"
| "GetSchedule (BackupSched x) = BackupSchedule_GetSchedule x"
| "GetSchedule (CheckSched x) = CheckSchedule_GetSchedule x"
| "GetSchedule (RestoreSched x) = RestoreSchedule_GetSchedule x"
| "GetSchedule (ArchiveSched x) = ArchiveSchedule_GetSchedule x"

text \<open>
  \<^verbatim>\<open>GetRunnableSpec\<close> returns a pointer into the template; here the update it is used
  for is applied to the field it points to.
\<close>

definition PruneSchedule_GetRunnableSpec :: "(RunnableSpec \<Rightarrow> RunnableSpec) \<Rightarrow> PruneSchedule \<Rightarrow> PruneSchedule" where
  [simp]: "PruneSchedule_GetRunnableSpec f x = x\<lparr>psch_Spec := (psch_Spec x)\<lparr>prs_RunnableSpec := f (prs_RunnableSpec (psch_Spec x))\<rparr>\<rparr>"

definition BackupSchedule_GetRunnableSpec :: "(RunnableSpec \<Rightarrow> RunnableSpec) \<Rightarrow> BackupSchedule \<Rightarrow> BackupSchedule" where
  [simp]: "BackupSchedule_GetRunnableSpec f x = x\<lparr>bsch_Spec := (bsch_Spec x)\<lparr>bs_RunnableSpec := f (bs_RunnableSpec (bsch_Spec x))\<rparr>\<rparr>"

definition CheckSchedule_GetRunnableSpec :: "(RunnableSpec \<Rightarrow> RunnableSpec) \<Rightarrow> CheckSchedule \<Rightarrow> CheckSchedule" where
  [simp]: "CheckSchedule_GetRunnableSpec f x = x\<lparr>csch_Spec := (csch_Spec x)\<lparr>cs_RunnableSpec := f (cs_RunnableSpec (csch_Spec x))\<rparr>\<rparr>"

definition RestoreSchedule_GetRunnableSpec :: "(RunnableSpec \<Rightarrow> RunnableSpec) \<Rightarrow> RestoreSchedule \<Rightarrow> RestoreSchedule" where
  [simp]: "RestoreSchedule_GetRunnableSpec f x = x\<lparr>rsch_Spec := (rsch_Spec x)\<lparr>res_RunnableSpec := f (res_RunnableSpec (rsch_Spec x))\<rparr>\<rparr>"

definition ArchiveSchedule_GetRunnableSpec :: "(RunnableSpec \<Rightarrow> RunnableSpec) \<Rightarrow> ArchiveSchedule \<Rightarrow> ArchiveSchedule result" where
  "ArchiveSchedule_GetRunnableSpec f x =
     (case as_RestoreSpec (asch_Spec x) of
        None \<Rightarrow> Inl nil_deref
      | Some r \<Rightarrow> Inr (x\<lparr>asch_Spec := (asch_Spec x)
          \<lparr>as_RestoreSpec := Some (r\<lparr>res_RunnableSpec := f (res_RunnableSpec r)\<rparr>)\<rparr>\<rparr>))"

fun upd_runnable :: "(RunnableSpec \<Rightarrow> RunnableSpec) \<Rightarrow> ScheduleSpecInterface \<Rightarrow> ScheduleSpecInterface result" where
  "upd_runnable f (PruneSched x) = Inr (PruneSched (PruneSchedule_GetRunnableSpec f x))"
| "upd_runnable f (BackupSched x) = Inr (BackupSched (BackupSchedule_GetRunnableSpec f x))"
| "upd_runnable f (CheckSched x) = Inr (CheckSched (CheckSchedule_GetRunnableSpec f x))"
| "upd_runnable f (RestoreSched x) = Inr (RestoreSched (RestoreSchedule_GetRunnableSpec f x))"
| "upd_runnable f (ArchiveSched x) = map_sum id ArchiveSched (ArchiveSchedule_GetRunnableSpec f x)"

section \<open>Merging with the defaults\<close>

definition mergeResourcesWithDefaults :: "lib \<Rightarrow> Configuration \<Rightarrow> Schedule \<Rightarrow> RunnableSpec \<Rightarrow> RunnableSpec" where
  "mergeResourcesWithDefaults L cfg s specInstance =
     (let resources = snd (lib_MergoResources L (rs_Resources specInstance) (ss_ResourceRequirementsTemplate (s_Spec s)));
          resources = snd (lib_MergoResources L resources (GetGlobalDefaultResources (lib_ParseQuantity L) cfg))
      in specInstance\<lparr>rs_Resources := resources\<rparr>)"

definition mergeBackendWithDefaults :: "lib \<Rightarrow> Schedule \<Rightarrow> RunnableSpec \<Rightarrow> RunnableSpec" where
  "mergeBackendWithDefaults L s specInstance =
     (case rs_Backend specInstance of
        None \<Rightarrow> specInstance\<lparr>rs_Backend := ss_Backend (s_Spec s)\<rparr>
      | Some b \<Rightarrow> specInstance\<lparr>rs_Backend := Some (snd (lib_MergoBackend L b (ss_Backend (s_Spec s))))\<rparr>)"

definition mergeSecurityContextWithDefaults :: "lib \<Rightarrow> Schedule \<Rightarrow> RunnableSpec \<Rightarrow> RunnableSpec" where
  "mergeSecurityContextWithDefaults L s specInstance =
     (case rs_PodSecurityContext specInstance of
        None \<Rightarrow> specInstance\<lparr>rs_PodSecurityContext := ss_PodSecurityContext (s_Spec s)\<rparr>
      | Some c \<Rightarrow>
         (case ss_PodSecurityContext (s_Spec s) of
            None \<Rightarrow> specInstance
          | Some d \<Rightarrow> specInstance\<lparr>rs_PodSecurityContext := Some (snd (lib_MergoPSC L c d))\<rparr>))"

definition mergeWithDefaults :: "lib \<Rightarrow> Configuration \<Rightarrow> Schedule \<Rightarrow> RunnableSpec \<Rightarrow> RunnableSpec" where
  "mergeWithDefaults L cfg s specInstance =
     mergeSecurityContextWithDefaults L s (mergeBackendWithDefaults L s (mergeResourcesWithDefaults L cfg s specInstance))"

section \<open>createJobList\<close>

text \<open>The map literal: the spec of each job type, and its constructor.\<close>

definition spec_of :: "Schedule \<Rightarrow> JobType \<Rightarrow> ScheduleSpecInterface option" where
  "spec_of s jobType =
     (if jobType = PruneType then map_option PruneSched (ss_Prune (s_Spec s))
      else if jobType = BackupType then map_option BackupSched (ss_Backup (s_Spec s))
      else if jobType = CheckType then map_option CheckSched (ss_Check (s_Spec s))
      else if jobType = RestoreType then map_option RestoreSched (ss_Restore (s_Spec s))
      else if jobType = ArchiveType then map_option ArchiveSched (ss_Archive (s_Spec s))
      else None)"

definition default_pod_config :: "Schedule \<Rightarrow> RunnableSpec \<Rightarrow> RunnableSpec" where
  "default_pod_config s r =
     (if rs_PodConfigRef r = None \<and> ss_PodConfigRef (s_Spec s) \<noteq> None
      then r\<lparr>rs_PodConfigRef := ss_PodConfigRef (s_Spec s)\<rparr> else r)"

fun ctor :: "Schedule \<Rightarrow> ScheduleSpecInterface \<Rightarrow> JobObject result" where
  "ctor s (PruneSched x) = Inr (PruneObj \<lparr>p_Meta = empty_meta,
     p_Spec = (psch_Spec x)\<lparr>prs_RunnableSpec := default_pod_config s (prs_RunnableSpec (psch_Spec x))\<rparr>,
     p_Status = empty_status\<rparr>)"
| "ctor s (BackupSched x) = Inr (BackupObj \<lparr>b_Meta = empty_meta,
     b_Spec = (bsch_Spec x)\<lparr>bs_RunnableSpec := default_pod_config s (bs_RunnableSpec (bsch_Spec x))\<rparr>,
     b_Status = empty_status\<rparr>)"
| "ctor s (CheckSched x) = Inr (CheckObj \<lparr>c_Meta = empty_meta,
     c_Spec = (csch_Spec x)\<lparr>cs_RunnableSpec := default_pod_config s (cs_RunnableSpec (csch_Spec x))\<rparr>,
     c_Status = empty_status\<rparr>)"
| "ctor s (RestoreSched x) = Inr (RestoreObj \<lparr>r_Meta = empty_meta,
     r_Spec = (rsch_Spec x)\<lparr>res_RunnableSpec := default_pod_config s (res_RunnableSpec (rsch_Spec x))\<rparr>,
     r_Status = empty_status\<rparr>)"
| "ctor s (ArchiveSched x) =
     (case as_RestoreSpec (asch_Spec x) of
        None \<Rightarrow> Inl nil_deref
      | Some r \<Rightarrow> Inr (ArchiveObj \<lparr>a_Meta = empty_meta,
          a_Spec = \<lparr>as_RestoreSpec = Some (r\<lparr>res_RunnableSpec := default_pod_config s (res_RunnableSpec r)\<rparr>)\<rparr>,
          a_Status = empty_status\<rparr>))"

definition keyOf :: "Schedule \<Rightarrow> JobType \<Rightarrow> string" where
  "keyOf schedule jobType =
     om_Namespace (s_Meta schedule) @ ''/'' @ om_Name (s_Meta schedule) @ ''/'' @ jobType"

definition env_RemoveSchedule :: "'w kube \<Rightarrow> string \<Rightarrow> 'w env \<Rightarrow> 'w env" where
  "env_RemoveSchedule K key e =
     (case RemoveSchedule (k_Cron K) key (env_Schedules e) (env_World e) of
        (m, w) \<Rightarrow> e\<lparr>env_Schedules := m, env_World := w\<rparr>)"

definition env_SetSchedule ::
  "'w kube \<Rightarrow> string \<Rightarrow> ScheduleDefinition \<Rightarrow> cron_job \<Rightarrow> 'w env \<Rightarrow> gerr option \<times> 'w env" where
  "env_SetSchedule K key schedule fn e =
     (case SetSchedule (k_Cron K) key schedule fn (env_Schedules e) (env_World e) of
        (err, m, w) \<Rightarrow> (err, e\<lparr>env_Schedules := m, env_World := w\<rparr>))"

text \<open>The template after the merge, with the object built from it and its schedule.\<close>

definition build_template ::
  "lib \<Rightarrow> Configuration \<Rightarrow> Schedule \<Rightarrow> ScheduleSpecInterface \<Rightarrow> (JobObject \<times> ScheduleDefinition) result" where
  "build_template L cfg s spec =
     rbind (upd_runnable (mergeWithDefaults L cfg s) spec) (\<lambda>template.
     rbind (ctor s template) (\<lambda>obj.
     rbind (GetSchedule template) (\<lambda>sch. Inr (obj, sch))))"

text \<open>One round of the loop.\<close>

definition create_job ::
  "lib \<Rightarrow> 'w kube \<Rightarrow> Configuration \<Rightarrow> JobType \<Rightarrow> Schedule \<Rightarrow> 'w env \<Rightarrow> (gerr option \<times> Schedule) \<times> 'w env" where
  "create_job L K cfg jobType s e =
     (let key = keyOf s jobType;
          hasSchedule = HasSchedule (env_Schedules e) key;
          ns = om_Namespace (s_Meta s)
      in case spec_of s jobType of
           None \<Rightarrow>
             (let e = (if hasSchedule then on_metrics (DecRegisteredSchedulesGauge ns) e else e);
                  e = env_RemoveSchedule K key e
              in ((None, cleanupEffectiveSchedules jobType [] s), e))
         | Some spec \<Rightarrow>
             (let e = (if \<not> hasSchedule then on_metrics (IncRegisteredSchedulesGauge ns) e else e)
              in case build_template L cfg s spec of
                   Inl p \<Rightarrow> ((Some p, s), e)
                 | Inr (obj, sch) \<Rightarrow>
                     (let s = cleanupEffectiveSchedules jobType sch s
                      in case getEffectiveSchedule L jobType sch s of (effectiveSchedule, s) \<Rightarrow>
                           (case env_SetSchedule K key effectiveSchedule \<lparr>cj_Schedule = s, cj_Obj = obj\<rparr> e of
                              (err, e) \<Rightarrow> ((err, s), e)))))"

fun createJobList ::
  "lib \<Rightarrow> 'w kube \<Rightarrow> Configuration \<Rightarrow> JobType list \<Rightarrow> Schedule \<Rightarrow> 'w env \<Rightarrow> (gerr option \<times> Schedule) \<times> 'w env" where
  "createJobList L K cfg [] s e = ((None, s), e)"
| "createJobList L K cfg (jobType # ord) s e =
     (case create_job L K cfg jobType s e of
        ((Some err, s), e) \<Rightarrow> ((Some err, s), e)
      | ((None, s), e) \<Rightarrow> createJobList L K cfg ord s e)"

section \<open>Firing\<close>

text \<open>\<open>rnd\<close> is the text that \<^verbatim>\<open>rand.String(5)\<close> returns.\<close>

definition generateName :: "lib \<Rightarrow> string \<Rightarrow> JobType \<Rightarrow> string \<Rightarrow> string" where
  "generateName L rnd jobType prefix =
     (let lenRandom = 5;
          remainingLength = 63 - lenRandom - int (length jobType) - 2;
          shortPrefix = lib_ShortenString L prefix remainingLength
      in shortPrefix @ ''-'' @ jobType @ ''-'' @ rnd)"

definition executeCronSchedule :: "lib \<Rightarrow> 'w kube \<Rightarrow> string \<Rightarrow> cron_job \<Rightarrow> 'w \<Rightarrow> 'w" where
  "executeCronSchedule L K rnd cj w =
     (let s = cj_Schedule cj; obj = cj_Obj cj;
          m = (obj_meta obj)\<lparr>om_Namespace := om_Namespace (s_Meta s)\<rparr>;
          m = m\<lparr>om_Name := generateName L rnd (GetType obj) (om_Name (s_Meta s))\<rparr>
      in case lib_SetControllerReference L (ScheduleObj s) m of
           Inl err \<Rightarrow> w
         | Inr m \<Rightarrow>
             (let m = m\<lparr>om_Labels := (om_Labels m)(LabelK8upScheduleName \<mapsto> om_Name (s_Meta s))\<rparr>
              in snd (k_CreateObject K (set_obj_meta m obj) w)))"

section \<open>Handle, Provision, Deprovision\<close>

text \<open>The client fills the object it is given, so its constructor never changes.\<close>

definition as_schedule :: "JobObject \<Rightarrow> Schedule \<Rightarrow> Schedule" where
  "as_schedule obj s = (case obj of ScheduleObj s' \<Rightarrow> s' | _ \<Rightarrow> s)"

definition upd_finalizers :: "(string list \<Rightarrow> string list) \<Rightarrow> JobObject \<Rightarrow> JobObject" where
  "upd_finalizers f obj = set_obj_meta ((obj_meta obj)\<lparr>om_Finalizers := f (om_Finalizers (obj_meta obj))\<rparr>) obj"

definition Handle ::
  "lib \<Rightarrow> 'w kube \<Rightarrow> Configuration \<Rightarrow> JobType list \<Rightarrow> Schedule \<Rightarrow> 'w env \<Rightarrow> (gerr option \<times> Schedule) \<times> 'w env" where
  "Handle L K cfg ord s e =
     (case createJobList L K cfg ord s e of
        ((Some err, s), e) \<Rightarrow>
          (case in_world (SetConditionFalseWithMessage L K ConditionReady ReasonFailed
                  (''cannot add to cron: '' @ err_text err) (ScheduleObj s)) e of
             (obj, e) \<Rightarrow> ((Some err, as_schedule obj s), e))
      | ((None, s), e) \<Rightarrow>
          (case in_world (k_StatusUpdate K (ScheduleObj s)) e of
             ((Some err, obj), e) \<Rightarrow> ((Some err, as_schedule obj s), e)
           | ((None, obj), e) \<Rightarrow>
               (case in_world (SetConditionTrue L K ConditionReady ReasonReady obj) e of (obj, e) \<Rightarrow>
                  (case in_world (k_CreateOrUpdateObject K obj (\<lambda>o'. upd_finalizers (\<lambda>fs.
                          lib_RemoveFinalizer L LegacyScheduleFinalizerName
                            (lib_AddFinalizer L ScheduleFinalizerName fs)) o')) e of
                     ((err, obj), e) \<Rightarrow> ((err, as_schedule obj s), e)))))"

text \<open>\<^verbatim>\<open>controllerruntime.Result\<close>: the delay in seconds, 0 for none.\<close>

record Result =
  RequeueAfter :: int

definition no_result :: Result where
  "no_result = \<lparr>RequeueAfter = 0\<rparr>"

definition ScheduleProvision ::
  "lib \<Rightarrow> 'w kube \<Rightarrow> Configuration \<Rightarrow> JobType list \<Rightarrow> Schedule \<Rightarrow> 'w env
   \<Rightarrow> ((Result \<times> gerr option) \<times> Schedule) \<times> 'w env" where
  "ScheduleProvision L K cfg ord schedule e =
     (let schedule = (case ss_Archive (s_Spec schedule) of
            Some a \<Rightarrow> if as_RestoreSpec (asch_Spec a) = None
              then schedule\<lparr>s_Spec := (s_Spec schedule)\<lparr>ss_Archive :=
                Some (a\<lparr>asch_Spec := \<lparr>as_RestoreSpec = Some empty_restore_spec\<rparr>\<rparr>)\<rparr>\<rparr>
              else schedule
          | None \<Rightarrow> schedule)
      in case Handle L K cfg ord schedule e of
           ((err, schedule), e) \<Rightarrow> (((no_result, err), schedule), e))"

fun remove_schedules :: "'w kube \<Rightarrow> Schedule \<Rightarrow> JobType list \<Rightarrow> 'w env \<Rightarrow> 'w env" where
  "remove_schedules K s [] e = e"
| "remove_schedules K s (jobType # ts) e = remove_schedules K s ts (env_RemoveSchedule K (keyOf s jobType) e)"

definition ScheduleDeprovision ::
  "lib \<Rightarrow> 'w kube \<Rightarrow> Schedule \<Rightarrow> 'w env \<Rightarrow> ((Result \<times> gerr option) \<times> Schedule) \<times> 'w env" where
  "ScheduleDeprovision L K obj e =
     (let e = remove_schedules K obj [PruneType, ArchiveType, RestoreType, BackupType, CheckType] e
      in case in_world (k_UpdateObject K (upd_finalizers (lib_RemoveFinalizer L ScheduleFinalizerName) (ScheduleObj obj))) e of
           ((err, o'), e) \<Rightarrow> (((no_result, err), as_schedule o' obj), e))"

section \<open>Lemmas\<close>

lemma keyOf_inj [simp]: "keyOf s t = keyOf s t' \<longleftrightarrow> t = t'"
  by (simp add: keyOf_def)

lemma keyOf_meta: "s_Meta s = s_Meta s' \<Longrightarrow> keyOf s t = keyOf s' t"
  by (simp add: keyOf_def)

lemma spec_of_spec: "s_Spec s = s_Spec s' \<Longrightarrow> spec_of s t = spec_of s' t"
  by (simp add: spec_of_def)

lemma env_RemoveSchedule_has:
  "HasSchedule (env_Schedules (env_RemoveSchedule K key e)) k \<longleftrightarrow> k \<noteq> key \<and> HasSchedule (env_Schedules e) k"
  "env_Metrics (env_RemoveSchedule K key e) = env_Metrics e"
  "env_Lockers (env_RemoveSchedule K key e) = env_Lockers e"
  by (auto simp: env_RemoveSchedule_def split: prod.splits dest: registry.remove_has)

lemma env_SetSchedule_has:
  assumes "env_SetSchedule K key sch fn e = (err, e')"
  shows "HasSchedule (env_Schedules e') k \<longleftrightarrow> (err = None \<and> k = key) \<or> HasSchedule (env_Schedules e) k"
    "env_Metrics e' = env_Metrics e"
proof -
  obtain m w where v: "SetSchedule (k_Cron K) key sch fn (env_Schedules e) (env_World e) = (err, m, w)"
    "e' = e\<lparr>env_Schedules := m, env_World := w\<rparr>"
    using assms by (auto simp: env_SetSchedule_def split: prod.splits)
  show "HasSchedule (env_Schedules e') k \<longleftrightarrow> (err = None \<and> k = key) \<or> HasSchedule (env_Schedules e) k"
  proof (cases err)
    case None
    then show ?thesis using registry.set_ok [of "k_Cron K" key sch fn "env_Schedules e" "env_World e" m w k] v by simp
  next
    case (Some x)
    then show ?thesis using registry.set_err [of "k_Cron K" key sch fn "env_Schedules e" "env_World e" x m w] v by simp
  qed
  show "env_Metrics e' = env_Metrics e" using v(2) by simp
qed

text \<open>The three ways a round can go, and what it does to the registry, the gauge and the schedule.\<close>

abbreviation gauge_env :: "bool \<Rightarrow> (Metrics \<Rightarrow> Metrics) \<Rightarrow> 'w env \<Rightarrow> 'w env" where
  "gauge_env b f e \<equiv> (if b then on_metrics f e else e)"

lemma create_job_cases:
  assumes "create_job L K cfg t s e = ((err, s'), e')"
  obtains (removed) "spec_of s t = None" "err = None" "s' = cleanupEffectiveSchedules t [] s"
      "e' = env_RemoveSchedule K (keyOf s t) (gauge_env (HasSchedule (env_Schedules e) (keyOf s t))
         (DecRegisteredSchedulesGauge (om_Namespace (s_Meta s))) e)"
    | (panic) spec p where "spec_of s t = Some spec" "err = Some p" "s' = s"
      "e' = gauge_env (\<not> HasSchedule (env_Schedules e) (keyOf s t))
         (IncRegisteredSchedulesGauge (om_Namespace (s_Meta s))) e"
    | (set) spec obj sch eff where "spec_of s t = Some spec"
      "getEffectiveSchedule L t sch (cleanupEffectiveSchedules t sch s) = (eff, s')"
      "env_SetSchedule K (keyOf s t) eff \<lparr>cj_Schedule = s', cj_Obj = obj\<rparr>
         (gauge_env (\<not> HasSchedule (env_Schedules e) (keyOf s t))
           (IncRegisteredSchedulesGauge (om_Namespace (s_Meta s))) e) = (err, e')"
proof (cases "spec_of s t")
  case None
  then show thesis using assms by (intro removed) (simp_all add: create_job_def Let_def)
next
  case (Some spec)
  show thesis
  proof (cases "build_template L cfg s spec")
    case (Inl p)
    then show thesis using assms Some by (intro panic [of spec p]) (auto simp: create_job_def Let_def)
  next
    case (Inr os)
    then obtain obj sch where os: "build_template L cfg s spec = Inr (obj, sch)" by (cases os) simp
    obtain eff s2 where g: "getEffectiveSchedule L t sch (cleanupEffectiveSchedules t sch s) = (eff, s2)"
      by fastforce
    obtain err2 e2 where v: "env_SetSchedule K (keyOf s t) eff \<lparr>cj_Schedule = s2, cj_Obj = obj\<rparr>
         (gauge_env (\<not> HasSchedule (env_Schedules e) (keyOf s t))
           (IncRegisteredSchedulesGauge (om_Namespace (s_Meta s))) e) = (err2, e2)" by fastforce
    have "create_job L K cfg t s e = ((err2, s2), e2)"
      using Some os g v by (simp add: create_job_def Let_def split del: if_split)
    then show thesis using assms Some g v by (intro set [of spec sch eff obj]) simp_all
  qed
qed

lemma create_job_frame:
  assumes "create_job L K cfg t s e = ((err, s'), e')"
  shows "s_Meta s' = s_Meta s" "s_Spec s' = s_Spec s"
  using assms by (cases rule: create_job_cases; force dest: getEffectiveSchedule_frame)+

lemma create_job_has:
  assumes "create_job L K cfg t s e = ((None, s'), e')"
  shows "HasSchedule (env_Schedules e') k \<longleftrightarrow>
     (if k = keyOf s t then spec_of s t \<noteq> None else HasSchedule (env_Schedules e) k)"
  using assms
proof (cases rule: create_job_cases)
  case removed
  then show ?thesis by (simp add: env_RemoveSchedule_has)
next
  case (set spec obj sch eff)
  then show ?thesis using env_SetSchedule_has(1) [OF set(3), of k] by (auto split: if_splits)
qed simp

definition gauge_step :: "bool \<Rightarrow> bool \<Rightarrow> int" where
  "gauge_step before after = (if after then 1 else 0) - (if before then 1 else 0)"

lemma create_job_metrics:
  assumes "create_job L K cfg t s e = ((err, s'), e')"
  shows "env_Metrics e' = (if spec_of s t = None
      then (if HasSchedule (env_Schedules e) (keyOf s t)
            then DecRegisteredSchedulesGauge (om_Namespace (s_Meta s)) (env_Metrics e) else env_Metrics e)
      else (if HasSchedule (env_Schedules e) (keyOf s t) then env_Metrics e
            else IncRegisteredSchedulesGauge (om_Namespace (s_Meta s)) (env_Metrics e)))"
  using assms
proof (cases rule: create_job_cases)
  case removed
  then show ?thesis by (simp add: env_RemoveSchedule_has)
next
  case (panic spec p)
  then show ?thesis by simp
next
  case (set spec obj sch eff)
  then show ?thesis using env_SetSchedule_has(2) [OF set(3)] by simp
qed

lemma create_job_gauge:
  assumes "create_job L K cfg t s e = ((err, s'), e')"
  shows "mt_ScheduleGauge (env_Metrics e') (om_Namespace (s_Meta s)) =
     mt_ScheduleGauge (env_Metrics e) (om_Namespace (s_Meta s)) +
       gauge_step (HasSchedule (env_Schedules e) (keyOf s t)) (spec_of s t \<noteq> None)"
  unfolding create_job_metrics [OF assms] by (simp add: gauge_step_def metrics_defs)

lemma createJobList_step:
  assumes "createJobList L K cfg (t # ord) s e = ((None, s'), e')"
  obtains s1 e1 where "create_job L K cfg t s e = ((None, s1), e1)"
    "createJobList L K cfg ord s1 e1 = ((None, s'), e')"
  using assms by (auto split: prod.splits option.splits)

lemma createJobList_has:
  assumes "createJobList L K cfg ord s e = ((None, s'), e')" "distinct ord"
  shows "HasSchedule (env_Schedules e') k \<longleftrightarrow>
     (if \<exists>t \<in> set ord. k = keyOf s t then \<exists>t \<in> set ord. k = keyOf s t \<and> spec_of s t \<noteq> None
      else HasSchedule (env_Schedules e) k)"
  using assms
proof (induction ord arbitrary: s e)
  case (Cons t ord)
  from Cons.prems(1) obtain s1 e1 where c: "create_job L K cfg t s e = ((None, s1), e1)"
    "createJobList L K cfg ord s1 e1 = ((None, s'), e')" by (rule createJobList_step)
  have eq: "keyOf s1 = keyOf s" "spec_of s1 = spec_of s"
    using create_job_frame [OF c(1)] by (auto simp: fun_eq_iff keyOf_def spec_of_def)
  show ?case
    using Cons.IH [OF c(2)] Cons.prems(2) create_job_has [OF c(1), of k] by (auto simp: eq)
qed simp

text \<open>How many of the given job types of a schedule are registered.\<close>

definition registered :: "Schedule \<Rightarrow> JobType list \<Rightarrow> 'w env \<Rightarrow> int" where
  "registered s ts e = int (length (filter (\<lambda>t. HasSchedule (env_Schedules e) (keyOf s t)) ts))"

lemma registered_Cons:
  "registered s (t # ts) e = (if HasSchedule (env_Schedules e) (keyOf s t) then 1 else 0) + registered s ts e"
  by (simp add: registered_def)

lemma registered_cong:
  "(\<And>t. t \<in> set ts \<Longrightarrow> HasSchedule (env_Schedules e) (keyOf s t) = HasSchedule (env_Schedules e') (keyOf s t))
   \<Longrightarrow> registered s ts e = registered s ts e'"
  unfolding registered_def by (metis (mono_tags, lifting) filter_cong)

lemma createJobList_gauge:
  assumes "createJobList L K cfg ord s e = ((None, s'), e')" "distinct ord"
  shows "mt_ScheduleGauge (env_Metrics e') (om_Namespace (s_Meta s)) - mt_ScheduleGauge (env_Metrics e) (om_Namespace (s_Meta s)) =
    registered s ord e' - registered s ord e"
  using assms
proof (induction ord arbitrary: s e)
  case Nil
  then show ?case by (simp add: registered_def)
next
  case (Cons t ord)
  from Cons.prems(1) obtain s1 e1 where c: "create_job L K cfg t s e = ((None, s1), e1)"
    "createJobList L K cfg ord s1 e1 = ((None, s'), e')" by (rule createJobList_step)
  have eq: "keyOf s1 = keyOf s" "spec_of s1 = spec_of s" "s_Meta s1 = s_Meta s"
    using create_job_frame [OF c(1)] by (auto simp: fun_eq_iff keyOf_def spec_of_def)
  have r: "registered s1 ord x = registered s ord x" for x :: "'a env"
    by (simp add: registered_def eq)
  have e1: "registered s ord e1 = registered s ord e"
    using Cons.prems(2) by (intro registered_cong) (auto simp: create_job_has [OF c(1)])
  have t: "HasSchedule (env_Schedules e') (keyOf s t) \<longleftrightarrow> spec_of s t \<noteq> None"
    using createJobList_has [OF Cons.prems] by auto
  show ?case
    using Cons.IH [OF c(2)] Cons.prems(2) create_job_gauge [OF c(1)] e1 t
    by (simp add: eq r gauge_step_def registered_Cons)
qed

text \<open>The registry and the cron library stay in agreement as long as nothing fails.\<close>

definition cron_agrees :: "'w kube \<Rightarrow> 'w env \<Rightarrow> bool" where
  "cron_agrees K e = sched_inv (k_Cron K) (env_Schedules e) (env_World e)"

lemma cron_agrees_metrics [simp]: "cron_agrees K (on_metrics f e) = cron_agrees K e"
  by (simp add: cron_agrees_def)

lemma env_RemoveSchedule_agrees:
  assumes "cron_laws (k_Cron K)" "cron_agrees K e"
  shows "cron_agrees K (env_RemoveSchedule K key e)"
  using assms cron_laws.remove_schedule_inv [OF assms(1)]
  by (auto simp: cron_agrees_def env_RemoveSchedule_def split: prod.splits)

lemma create_job_agrees:
  assumes "cron_laws (k_Cron K)" "cron_agrees K e" "create_job L K cfg t s e = ((None, s'), e')"
  shows "cron_agrees K e'"
  using assms(3)
proof (cases rule: create_job_cases)
  case removed
  then show ?thesis using env_RemoveSchedule_agrees [OF assms(1)] assms(2) by simp
next
  case (set spec obj sch eff)
  then show ?thesis
    using cron_laws.set_schedule_inv [OF assms(1)] assms(2)
    by (fastforce simp: cron_agrees_def env_SetSchedule_def on_metrics_def split: prod.splits if_splits)
qed simp

lemma createJobList_agrees:
  assumes "cron_laws (k_Cron K)" "cron_agrees K e" "createJobList L K cfg ord s e = ((None, s'), e')"
  shows "cron_agrees K e'"
  using assms(2,3)
proof (induction ord arbitrary: s e)
  case (Cons t ord)
  from Cons.prems(2) obtain s1 e1 where "create_job L K cfg t s e = ((None, s1), e1)"
    "createJobList L K cfg ord s1 e1 = ((None, s'), e')" by (rule createJobList_step)
  then show ?case using Cons.IH create_job_agrees [OF assms(1)] Cons.prems(1) by blast
qed simp

lemma remove_schedules_has:
  "HasSchedule (env_Schedules (remove_schedules K s ts e)) k \<longleftrightarrow>
     k \<notin> keyOf s ` set ts \<and> HasSchedule (env_Schedules e) k"
  "env_Metrics (remove_schedules K s ts e) = env_Metrics e"
  by (induction ts arbitrary: e) (auto simp: env_RemoveSchedule_has)

definition all_types :: "JobType list" where
  "all_types = [PruneType, ArchiveType, RestoreType, BackupType, CheckType]"

lemma all_types_distinct: "distinct all_types"
  by (simp add: all_types_def k8up_consts)

definition ex_scheduled_backup :: Schedule where
  "ex_scheduled_backup = ex_schedule ''s'' (ex_schedule_spec\<lparr>ss_Backup := Some \<lparr>bsch_Spec = ex_backup_spec,
     bsch_Common = Some \<lparr>sc_Schedule = ''@daily-random'', sc_ConcurrentRunsAllowed = False\<rparr>\<rparr>\<rparr>)"

lemma ex_createJobList_ok:
  "fst (fst (createJobList lib_ref kube_ref (default_config ''k8up'') all_types ex_scheduled_backup (ref_env empty_cluster))) = None"
  by code_simp

lemma ex_agrees: "cron_agrees kube_ref (ref_env empty_cluster)"
  by (simp add: cron_agrees_def sched_inv_def refs_distinct_def no_leaks_def all_active_def ref_env_def
      empty_cluster_def kube_ref_def lift_cron_def cron_ref_def)

section \<open>Properties\<close>

text \<open>
  C9. When the handler goes through the job types without an error, in whatever order the runtime
  enumerates them, exactly the job types with a spec are registered under the schedule's keys, the
  keys of other schedules are untouched, the gauge of the namespace moves by the change in the number
  of registered entries, and the cron library agrees with the registry if it did before.
\<close>

theorem createJobList_registers:
  assumes "cron_laws (k_Cron K)" "mset ord = mset all_types" "cron_agrees K e"
    "createJobList L K cfg ord s e = ((None, s'), e')"
  shows "(\<forall>t \<in> set all_types. HasSchedule (env_Schedules e') (keyOf s t) \<longleftrightarrow> spec_of s t \<noteq> None) \<and>
    (\<forall>k. k \<notin> keyOf s ` set all_types \<longrightarrow> HasSchedule (env_Schedules e') k = HasSchedule (env_Schedules e) k) \<and>
    mt_ScheduleGauge (env_Metrics e') (om_Namespace (s_Meta s)) =
      mt_ScheduleGauge (env_Metrics e) (om_Namespace (s_Meta s)) + registered s all_types e' - registered s all_types e \<and>
    cron_agrees K e'"
proof -
  have d: "distinct ord" "set ord = set all_types"
    using assms(2) all_types_distinct mset_eq_imp_distinct_iff mset_eq_setD by blast+
  have r: "registered s ord x = registered s all_types x" for x :: "'a env"
    unfolding registered_def using assms(2) by (metis mset_filter size_mset)
  show ?thesis
    using createJobList_has [OF assms(4) d(1)] createJobList_gauge [OF assms(4) d(1)]
      createJobList_agrees [OF assms(1,3,4)]
    by (auto simp: d(2) r)
qed

theorem createJobList_registers_witness:
  "\<exists>s' e'. createJobList lib_ref kube_ref (default_config ''k8up'') all_types ex_scheduled_backup
      (ref_env empty_cluster) = ((None, s'), e') \<and>
    HasSchedule (env_Schedules e') ''ns/s/backup'' \<and> \<not> HasSchedule (env_Schedules e') ''ns/s/check''"
proof -
  obtain s' e' where c: "createJobList lib_ref kube_ref (default_config ''k8up'') all_types ex_scheduled_backup
      (ref_env empty_cluster) = ((None, s'), e')"
    using ex_createJobList_ok by (metis prod.collapse)
  have k: "keyOf ex_scheduled_backup BackupType = ''ns/s/backup''" "keyOf ex_scheduled_backup CheckType = ''ns/s/check''"
    "spec_of ex_scheduled_backup BackupType \<noteq> None" "spec_of ex_scheduled_backup CheckType = None"
    by (simp_all add: keyOf_def spec_of_def ex_scheduled_backup_def ex_schedule_def ex_schedule_spec_def
        ex_meta_def k8up_consts)
  have t: "BackupType \<in> set all_types" "CheckType \<in> set all_types" by (simp_all add: all_types_def)
  show ?thesis
    using createJobList_registers [OF cluster_cron.cron_laws_axioms refl ex_agrees c] c k t by metis
qed

text \<open>
  Deleting a schedule removes all its entries from the registry and touches no other, but it
  leaves the gauge of registered schedules as it was: entries that were registered stay counted.
\<close>

theorem ScheduleDeprovision_gauge_drift:
  assumes "ScheduleDeprovision L K s e = ((r, s'), e')"
  shows "(\<forall>k. HasSchedule (env_Schedules e') k \<longleftrightarrow> k \<notin> keyOf s ` set all_types \<and> HasSchedule (env_Schedules e) k) \<and>
    registered s all_types e' = 0 \<and> mt_ScheduleGauge (env_Metrics e') = mt_ScheduleGauge (env_Metrics e)"
proof -
  let ?e = "remove_schedules K s all_types e"
  have "env_Schedules e' = env_Schedules ?e" "env_Metrics e' = env_Metrics ?e"
    using assms by (auto simp: ScheduleDeprovision_def in_world_def all_types_def Let_def split: prod.splits)
  then show ?thesis
    using remove_schedules_has [of K s all_types e] by (auto simp: registered_def filter_empty_conv)
qed

theorem ScheduleDeprovision_gauge_drift_witness:
  "\<exists>s1 e1 r s2 e2. createJobList lib_ref kube_ref (default_config ''k8up'') all_types ex_scheduled_backup
      (ref_env empty_cluster) = ((None, s1), e1) \<and>
    ScheduleDeprovision lib_ref kube_ref ex_scheduled_backup e1 = ((r, s2), e2) \<and>
    registered ex_scheduled_backup all_types e2 = 0 \<and> mt_ScheduleGauge (env_Metrics e2) ''ns'' = 1"
proof -
  obtain s1 e1 where c: "createJobList lib_ref kube_ref (default_config ''k8up'') all_types ex_scheduled_backup
      (ref_env empty_cluster) = ((None, s1), e1)"
    using ex_createJobList_ok by (metis prod.collapse)
  obtain r s2 e2 where d: "ScheduleDeprovision lib_ref kube_ref ex_scheduled_backup e1 = ((r, s2), e2)"
    by (metis prod.collapse)
  have "mt_ScheduleGauge (env_Metrics (snd (createJobList lib_ref kube_ref (default_config ''k8up'') all_types
      ex_scheduled_backup (ref_env empty_cluster)))) ''ns'' = 1"
    by code_simp
  then show ?thesis using ScheduleDeprovision_gauge_drift [OF d] c d by auto
qed

text \<open>
  C10. The names of scheduled objects fit into a label and a DNS label: at most 63 characters, with
  the job type and the random suffix intact.
\<close>

theorem generateName_bounded:
  assumes "lib_laws L" "jobType \<in> set all_types" "length rnd = 5"
  shows "length (generateName L rnd jobType prefix) \<le> 63 \<and>
    HasSuffix (generateName L rnd jobType prefix) (''-'' @ jobType @ ''-'' @ rnd)"
proof -
  have n: "length jobType \<le> 7" using assms(2) by (auto simp: all_types_def k8up_consts)
  then have "int (length (lib_ShortenString L prefix (56 - int (length jobType)))) \<le> 56 - int (length jobType)"
    by (intro lib_laws.shorten [OF assms(1)]) simp
  then show ?thesis
    using assms(3) by (auto simp: generateName_def HasSuffix_iff)
qed

theorem generateName_bounded_witness:
  "length (generateName lib_ref ''x7k2q'' BackupType (replicate 100 (CHR ''a''))) \<le> 63"
  using generateName_bounded [OF lib_ref.lib_laws_axioms, of BackupType "''x7k2q''" "replicate 100 (CHR ''a'')"]
  by (simp add: all_types_def)

text \<open>
  Every object a cron entry creates is in the schedule's namespace, carries the schedule's name
  as a label, and has the schedule as its controller, so that the clean-up groups it with the other
  jobs of the same schedule.
\<close>

theorem executeCronSchedule_creates:
  assumes "lib_laws L" "create_log K created" "lib_SetControllerReference L (ScheduleObj (cj_Schedule cj))
      ((obj_meta (cj_Obj cj))\<lparr>om_Namespace := om_Namespace (s_Meta (cj_Schedule cj)),
        om_Name := generateName L rnd (GetType (cj_Obj cj)) (om_Name (s_Meta (cj_Schedule cj)))\<rparr>) = Inr m"
  shows "\<exists>obj. created (executeCronSchedule L K rnd cj w) = created w @ [obj] \<and>
    GetType obj = GetType (cj_Obj cj) \<and>
    om_Namespace (obj_meta obj) = om_Namespace (s_Meta (cj_Schedule cj)) \<and>
    om_Name (obj_meta obj) = generateName L rnd (GetType (cj_Obj cj)) (om_Name (s_Meta (cj_Schedule cj))) \<and>
    om_Labels (obj_meta obj) LabelK8upScheduleName = Some (om_Name (s_Meta (cj_Schedule cj))) \<and>
    (\<exists>r. GetControllerOf (lib_Meta L) m = Some r \<and> or_UID r = om_UID (s_Meta (cj_Schedule cj))) \<and>
    om_OwnerReferences (obj_meta obj) = om_OwnerReferences m"
proof -
  let ?s = "cj_Schedule cj"
  let ?obj = "set_obj_meta (m\<lparr>om_Labels := (om_Labels m)(LabelK8upScheduleName \<mapsto> om_Name (s_Meta ?s))\<rparr>) (cj_Obj cj)"
  note c = lib_laws.controller_ref [OF assms(1,3)]
  have m: "om_Namespace m = om_Namespace (s_Meta ?s)"
    "om_Name m = generateName L rnd (GetType (cj_Obj cj)) (om_Name (s_Meta ?s))"
    using lib_laws.controller_frame [OF assms(1,3)] by simp_all
  have x: "obj_meta (set_obj_meta m' y) = m'" "GetType (set_obj_meta m' y) = GetType y" for m' y
    by (cases y; simp)+
  have "executeCronSchedule L K rnd cj w = snd (k_CreateObject K ?obj w)"
    using assms(3) by (simp add: executeCronSchedule_def Let_def)
  then have "created (executeCronSchedule L K rnd cj w) = created w @ [?obj]"
    using create_log.log_create [OF assms(2)] by (metis prod.collapse)
  then show ?thesis using c m by (intro exI [of _ ?obj]) (simp add: x)
qed

theorem executeCronSchedule_creates_witness:
  "\<exists>obj. cl_Created (executeCronSchedule lib_ref kube_ref ''x7k2q''
      \<lparr>cj_Schedule = ex_scheduled_backup, cj_Obj = ex_backup [] 0 []\<rparr> empty_cluster) = [obj] \<and>
    om_Labels (obj_meta obj) LabelK8upScheduleName = Some ''s''"
proof -
  let ?cj = "\<lparr>cj_Schedule = ex_scheduled_backup, cj_Obj = ex_backup [] 0 []\<rparr>"
  obtain m where m: "lib_SetControllerReference lib_ref (ScheduleObj (cj_Schedule ?cj))
      ((obj_meta (cj_Obj ?cj))\<lparr>om_Namespace := om_Namespace (s_Meta (cj_Schedule ?cj)),
        om_Name := generateName lib_ref ''x7k2q'' (GetType (cj_Obj ?cj)) (om_Name (s_Meta (cj_Schedule ?cj)))\<rparr>) = Inr m"
    by (simp add: lib_ref_def ex_backup_def ex_meta_def empty_meta_def)
  show ?thesis
    using executeCronSchedule_creates [OF lib_ref.lib_laws_axioms kube_ref.create_log_axioms m, of empty_cluster]
    by (auto simp: empty_cluster_def ex_scheduled_backup_def ex_schedule_def ex_meta_def)
qed

end
