(* ===== verification/Executors.thy ===== *)
theory Executors
  imports Locker Cleaner Schedule_Controller
begin

text \<open>
  The check, prune, archive and restore controllers (\<^verbatim>\<open>operator/*controller/executor.go\<close>
  and \<^verbatim>\<open>controller.go\<close>). An executor's \<^verbatim>\<open>Execute\<close> creates or updates
  one batch job with a mutation function; \<^verbatim>\<open>Provision\<close> reconciles the status first
  and runs \<^verbatim>\<open>Execute\<close> under the repository's locker.
\<close>

section \<open>Shared pieces\<close>

text \<open>A panic unwinds the stack: none of the code after the call runs.\<close>

fun is_panic :: "gerr \<Rightarrow> bool" where
  "is_panic (Panic _) = True"
| "is_panic _ = False"

text \<open>The end of every \<^verbatim>\<open>setupEnvVars\<close>; an error of the merge is only logged.\<close>

definition merged_vars :: "lib \<Rightarrow> Configuration \<Rightarrow> string \<Rightarrow> Vars \<Rightarrow> Vars" where
  "merged_vars L cfg namespace vars = snd (Merge (lib_MergoVars L) vars (DefaultEnv cfg namespace))"

definition finish_env :: "lib \<Rightarrow> Configuration \<Rightarrow> string \<Rightarrow> Vars \<Rightarrow> env_var list" where
  "finish_env L cfg namespace vars =
     Convert (lib_Order L (merged_vars L cfg namespace vars)) (merged_vars L cfg namespace vars)"

definition backend_mounts :: "Backend option \<Rightarrow> volume_mount list" where
  "backend_mounts backend =
     (case backend of
        Some b \<Rightarrow> if \<not> ZeroLen (be_VolumeMounts b) then the (be_VolumeMounts b) else []
      | None \<Rightarrow> [])"

definition method_mounts :: "RestoreMethod option \<Rightarrow> volume_mount list" where
  "method_mounts m =
     (case m of
        Some r \<Rightarrow> if \<not> ZeroLen (rm_VolumeMounts r) then the (rm_VolumeMounts r) else []
      | None \<Rightarrow> [])"

definition append_env :: "env_var list \<Rightarrow> container \<Rightarrow> container" where
  "append_env vars c = c\<lparr>ctr_Env := ctr_Env c @ vars\<rparr>"

definition append_mounts :: "volume_mount list \<Rightarrow> container \<Rightarrow> container" where
  "append_mounts ms c = c\<lparr>ctr_VolumeMounts := ctr_VolumeMounts c @ ms\<rparr>"

definition set_args :: "string list \<Rightarrow> container \<Rightarrow> container" where
  "set_args args c = c\<lparr>ctr_Args := args\<rparr>"

definition append_volumes :: "volume list \<Rightarrow> batch_job \<Rightarrow> batch_job" where
  "append_volumes vs j = upd_pod_spec (\<lambda>s. s\<lparr>ps_Volumes := ps_Volumes s @ vs\<rparr>) j"

definition set_job_label :: "string \<Rightarrow> string \<Rightarrow> batch_job \<Rightarrow> batch_job" where
  "set_job_label k v j = j\<lparr>j_Meta := (j_Meta j)\<lparr>om_Labels := (om_Labels (j_Meta j))(k \<mapsto> v)\<rparr>\<rparr>"

definition default_service_account :: "Configuration \<Rightarrow> batch_job \<Rightarrow> batch_job" where
  "default_service_account cfg j =
     upd_pod_spec (\<lambda>s. if ps_ServiceAccountName s = [] then s\<lparr>ps_ServiceAccountName := cfg_ServiceAccount cfg\<rparr> else s) j"

definition new_job :: "string \<Rightarrow> string \<Rightarrow> batch_job" where
  "new_job namespace name = empty_job\<lparr>j_Meta := empty_meta\<lparr>om_Name := name, om_Namespace := namespace\<rparr>\<rparr>"

text \<open>
  The tail of the three \<^verbatim>\<open>Execute\<close> methods: the condition on an error, or
  \<^verbatim>\<open>SetStarted\<close>.
\<close>

definition finish_execute ::
  "lib \<Rightarrow> 'w kube \<Rightarrow> gerr option \<times> batch_job \<Rightarrow> JobObject \<Rightarrow> 'w env \<Rightarrow> (gerr option \<times> JobObject) \<times> 'w env" where
  "finish_execute L K r obj e =
     (case r of
        (Some err, batchJob) \<Rightarrow>
          (if is_panic err then ((Some err, obj), e)
           else case in_world (SetConditionFalseWithMessage L K ConditionReady ReasonCreationFailed
                        (''could not create job: '' @ err_text err) obj) e of
                  (obj, e) \<Rightarrow> ((Some err, obj), e))
      | (None, batchJob) \<Rightarrow>
          (case in_world (Config_SetStarted L K (''the job '' @ [CHR 0x27] @ om_Namespace (j_Meta batchJob) @ ''/'' @
                        om_Name (j_Meta batchJob) @ [CHR 0x27] @ '' was created'') obj) e of
             (obj, e) \<Rightarrow> ((None, obj), e)))"

text \<open>The body all four \<^verbatim>\<open>Provision\<close> methods share after the job key is known.\<close>

definition provision_flow ::
  "lib \<Rightarrow> 'w kube \<Rightarrow> Configuration \<Rightarrow> namespaced_name \<Rightarrow> int
   \<Rightarrow> (JobObject \<Rightarrow> 'w env \<Rightarrow> ((bool \<times> gerr option) \<times> JobObject) \<times> 'w env) \<Rightarrow> JobObject \<Rightarrow> 'w env
   \<Rightarrow> ((Result \<times> gerr option) \<times> JobObject) \<times> 'w env" where
  "provision_flow L K cfg jobKey requeue try_run obj e =
     (case ReconcileJobStatus L K jobKey obj e of
        ((Some err, obj), e) \<Rightarrow> (((no_result, Some err), obj), e)
      | ((None, obj), e) \<Rightarrow>
          (if HasStarted (lib_Meta L) (GetStatus obj) then (((\<lparr>RequeueAfter = 5\<rparr>, None), obj), e)
           else if HasFinished (lib_Meta L) (GetStatus obj) then
             (case in_world (CleanupOldResources L K cfg obj) e of (obj, e) \<Rightarrow> (((no_result, None), obj), e))
           else
             (case try_run obj e of
                (((didRun, err), obj), e) \<Rightarrow> (((\<lparr>RequeueAfter = requeue\<rparr>, err), obj), e))))"

definition locked_run ::
  "lib \<Rightarrow> 'w kube \<Rightarrow> string \<Rightarrow> Config \<Rightarrow> int \<Rightarrow> ('w, JobObject) runnable \<Rightarrow> JobObject \<Rightarrow> 'w env
   \<Rightarrow> ((bool \<times> gerr option) \<times> JobObject) \<times> 'w env" where
  "locked_run L K repository config limit runnable obj e =
     (case GetForRepository repository e of (l, e) \<Rightarrow> TryRun L K l config limit runnable obj e)"

definition locked_run_exclusively ::
  "lib \<Rightarrow> 'w kube \<Rightarrow> string \<Rightarrow> ('w, JobObject) runnable \<Rightarrow> JobObject \<Rightarrow> 'w env
   \<Rightarrow> ((bool \<times> gerr option) \<times> JobObject) \<times> 'w env" where
  "locked_run_exclusively L K repository runnable obj e =
     (case GetForRepository repository e of (l, e) \<Rightarrow> TryRunExclusively L K l runnable obj e)"

section \<open>Check\<close>

definition check_jobName :: "Check \<Rightarrow> string" where
  "check_jobName c = CheckType @ ''-'' @ om_Name (c_Meta c)"

definition check_setupArgs :: "Configuration \<Rightarrow> Check \<Rightarrow> string list" where
  "check_setupArgs cfg c =
     [''-varDir'', cfg_PodVarDir cfg, ''-check''] @
     (case rs_Backend (cs_RunnableSpec (c_Spec c)) of
        Some b \<Rightarrow> AppendTLSOptionsArgs (be_TLSOptions b) []
      | None \<Rightarrow> [])"

definition check_setupEnvVars :: "lib \<Rightarrow> Configuration \<Rightarrow> Check \<Rightarrow> env_var list" where
  "check_setupEnvVars L cfg c =
     (let vars = set_backend_vars cfg (rs_Backend (cs_RunnableSpec (c_Spec c))) NewEnvVarConverter;
          vars = SetString ''PROM_URL'' (cfg_PromURL cfg) vars;
          vars = SetString ''CLUSTER_NAME'' (cfg_ClusterName cfg) vars
      in finish_env L cfg (om_Namespace (c_Meta c)) vars)"

definition check_attachTLSVolumeMounts :: "Configuration \<Rightarrow> Check \<Rightarrow> volume_mount list" where
  "check_attachTLSVolumeMounts cfg c =
     AttachEmptyDirVolumeMounts (cfg_PodVarDir cfg) [Some (backend_mounts (rs_Backend (cs_RunnableSpec (c_Spec c))))]"

definition check_mutate ::
  "lib \<Rightarrow> 'w kube \<Rightarrow> Configuration \<Rightarrow> Config \<Rightarrow> Check \<Rightarrow> batch_job \<Rightarrow> 'w \<Rightarrow> batch_job result \<times> 'w" where
  "check_mutate L K cfg config c batchJob w =
     (case MutateBatchJob L K cfg batchJob (CheckObj c) config w of (r, w) \<Rightarrow>
        (rbind r (\<lambda>batchJob.
         rbind (upd_container0 (append_env (check_setupEnvVars L cfg c)) batchJob) (\<lambda>batchJob.
         rbind (upd_container0 (AppendEnvFromToContainer (cs_RunnableSpec (c_Spec c))) batchJob) (\<lambda>batchJob.
         rbind (upd_container0 (append_mounts (check_attachTLSVolumeMounts cfg c)) batchJob) (\<lambda>batchJob.
         (let batchJob = append_volumes (AttachEmptyDirVolumes (rs_Volumes (cs_RunnableSpec (c_Spec c)))) batchJob;
              batchJob = set_job_label K8upExclusive ''true'' batchJob
          in upd_container0 (set_args (check_setupArgs cfg c)) batchJob))))), w))"

definition check_Execute ::
  "lib \<Rightarrow> 'w kube \<Rightarrow> Configuration \<Rightarrow> Config \<Rightarrow> Check \<Rightarrow> ('w, JobObject) runnable" where
  "check_Execute L K cfg config c obj e =
     (case in_world (k_CreateOrUpdateJob K (new_job (om_Namespace (c_Meta c)) (check_jobName c))
              (check_mutate L K cfg config c)) e of
        (r, e) \<Rightarrow> finish_execute L K r obj e)"

text \<open>The object behind the pointer; its kind does not change.\<close>

definition as_check :: "JobObject \<Rightarrow> Check \<Rightarrow> Check" where
  "as_check obj c = (case obj of CheckObj c' \<Rightarrow> c' | _ \<Rightarrow> c)"

definition CheckProvision ::
  "lib \<Rightarrow> 'w kube \<Rightarrow> Configuration \<Rightarrow> Check \<Rightarrow> 'w env \<Rightarrow> ((Result \<times> gerr option) \<times> JobObject) \<times> 'w env" where
  "CheckProvision L K cfg c e =
     (let repository = repository_of cfg (rs_Backend (cs_RunnableSpec (c_Spec c)));
          jobKey = \<lparr>nn_Namespace = om_Namespace (c_Meta c), nn_Name = check_jobName c\<rparr>
      in provision_flow L K cfg jobKey 30
           (locked_run_exclusively L K repository (\<lambda>obj. check_Execute L K cfg (NewConfig obj repository) (as_check obj c) obj))
           (CheckObj c) e)"

section \<open>Prune\<close>

definition prune_jobName :: "Prune \<Rightarrow> string" where
  "prune_jobName p = PruneType @ ''-'' @ om_Name (p_Meta p)"

definition prune_setupArgs :: "Configuration \<Rightarrow> Prune \<Rightarrow> string list" where
  "prune_setupArgs cfg p =
     [''-varDir'', cfg_PodVarDir cfg, ''-prune''] @
     (if length (rp_Tags (prs_Retention (p_Spec p))) > 0
      then BuildListArgs ''--tag'' (rp_Tags (prs_Retention (p_Spec p))) else []) @
     (case rs_Backend (prs_RunnableSpec (p_Spec p)) of
        Some b \<Rightarrow> AppendTLSOptionsArgs (be_TLSOptions b) []
      | None \<Rightarrow> [])"

definition keep_var :: "string \<Rightarrow> int \<Rightarrow> Vars \<Rightarrow> Vars" where
  "keep_var key n vars = (if n > 0 then SetString key (Itoa n) vars else vars)"

definition prune_setupEnvVars :: "lib \<Rightarrow> Configuration \<Rightarrow> Prune \<Rightarrow> env_var list" where
  "prune_setupEnvVars L cfg p =
     (let ret = prs_Retention (p_Spec p);
          vars = NewEnvVarConverter;
          vars = keep_var ''KEEP_LAST'' (rp_KeepLast ret) vars;
          vars = keep_var ''KEEP_HOURLY'' (rp_KeepHourly ret) vars;
          vars = (if rp_KeepDaily ret > 0 then SetString ''KEEP_DAILY'' (Itoa (rp_KeepDaily ret)) vars
                  else SetString ''KEEP_DAILY'' ''14'' vars);
          vars = keep_var ''KEEP_WEEKLY'' (rp_KeepWeekly ret) vars;
          vars = keep_var ''KEEP_MONTHLY'' (rp_KeepMonthly ret) vars;
          vars = keep_var ''KEEP_YEARLY'' (rp_KeepYearly ret) vars;
          vars = (if length (rp_KeepTags ret) > 0 then SetString ''KEEP_TAGS'' (Join (rp_KeepTags ret) '','') vars else vars);
          vars = set_backend_vars cfg (rs_Backend (prs_RunnableSpec (p_Spec p))) vars;
          vars = SetString ''PROM_URL'' (cfg_PromURL cfg) vars;
          vars = (if cfg_SkipSnapshotSync cfg then SetString ''BACKUP_SKIP_SNAPSHOT_SYNC'' ''true'' vars else vars)
      in finish_env L cfg (om_Namespace (p_Meta p)) vars)"

definition prune_attachTLSVolumeMounts :: "Configuration \<Rightarrow> Prune \<Rightarrow> volume_mount list" where
  "prune_attachTLSVolumeMounts cfg p =
     AttachEmptyDirVolumeMounts (cfg_PodVarDir cfg) [Some (backend_mounts (rs_Backend (prs_RunnableSpec (p_Spec p))))]"

definition prune_mutate ::
  "lib \<Rightarrow> 'w kube \<Rightarrow> Configuration \<Rightarrow> Config \<Rightarrow> Prune \<Rightarrow> batch_job \<Rightarrow> 'w \<Rightarrow> batch_job result \<times> 'w" where
  "prune_mutate L K cfg config p batchJob w =
     (case MutateBatchJob L K cfg batchJob (PruneObj p) config w of (r, w) \<Rightarrow>
        (rbind r (\<lambda>batchJob.
         rbind (upd_container0 (append_env (prune_setupEnvVars L cfg p)) batchJob) (\<lambda>batchJob.
         rbind (upd_container0 (AppendEnvFromToContainer (prs_RunnableSpec (p_Spec p))) batchJob) (\<lambda>batchJob.
         rbind (upd_container0 (append_mounts (prune_attachTLSVolumeMounts cfg p)) batchJob) (\<lambda>batchJob.
         (let batchJob = append_volumes (AttachEmptyDirVolumes (rs_Volumes (prs_RunnableSpec (p_Spec p)))) batchJob;
              batchJob = set_job_label K8upExclusive ''true'' batchJob;
              batchJob = default_service_account cfg batchJob
          in upd_container0 (set_args (prune_setupArgs cfg p)) batchJob))))), w))"

definition prune_Execute ::
  "lib \<Rightarrow> 'w kube \<Rightarrow> Configuration \<Rightarrow> Config \<Rightarrow> Prune \<Rightarrow> ('w, JobObject) runnable" where
  "prune_Execute L K cfg config p obj e =
     (case in_world (k_CreateOrUpdateJob K (new_job (om_Namespace (p_Meta p)) (prune_jobName p))
              (prune_mutate L K cfg config p)) e of
        (r, e) \<Rightarrow> finish_execute L K r obj e)"

definition as_prune :: "JobObject \<Rightarrow> Prune \<Rightarrow> Prune" where
  "as_prune obj p = (case obj of PruneObj p' \<Rightarrow> p' | _ \<Rightarrow> p)"

definition PruneProvision ::
  "lib \<Rightarrow> 'w kube \<Rightarrow> Configuration \<Rightarrow> Prune \<Rightarrow> 'w env \<Rightarrow> ((Result \<times> gerr option) \<times> JobObject) \<times> 'w env" where
  "PruneProvision L K cfg p e =
     (let repository = repository_of cfg (rs_Backend (prs_RunnableSpec (p_Spec p)));
          jobKey = \<lparr>nn_Namespace = om_Namespace (p_Meta p), nn_Name = prune_jobName p\<rparr>
      in provision_flow L K cfg jobKey 8
           (locked_run_exclusively L K repository (\<lambda>obj. prune_Execute L K cfg (NewConfig obj repository) (as_prune obj p) obj))
           (PruneObj p) e)"

section \<open>Archive\<close>

definition archivePath :: string where [k8up_consts]: "archivePath = ''/archive''"
definition certPrefixName :: string where [k8up_consts]: "certPrefixName = ''restore''"

definition archive_jobName :: "JobObject \<Rightarrow> string" where
  "archive_jobName obj = ArchiveType @ ''-'' @ om_Name (obj_meta obj)"

text \<open>The promoted fields are read through \<^verbatim>\<open>*RestoreSpec\<close>; without it the read of
  \<^verbatim>\<open>Backend\<close> panics.\<close>

definition archive_setupArgs :: "Configuration \<Rightarrow> RestoreSpec \<Rightarrow> string list" where
  "archive_setupArgs cfg r =
     [''-varDir'', cfg_PodVarDir cfg, ''-archive'', ''-restoreType'', ''s3''] @
     (if length (res_Tags r) > 0 then BuildListArgs ''--tag'' (res_Tags r) else []) @
     (case rs_Backend (res_RunnableSpec r) of Some b \<Rightarrow> AppendTLSOptionsArgs (be_TLSOptions b) [] | None \<Rightarrow> []) @
     (case res_RestoreMethod r of Some m \<Rightarrow> AppendTLSOptionsArgs (rm_TLSOptions m) [certPrefixName] | None \<Rightarrow> [])"

definition archive_setupEnvVars :: "lib \<Rightarrow> Configuration \<Rightarrow> string \<Rightarrow> RestoreSpec \<Rightarrow> env_var list" where
  "archive_setupEnvVars L cfg namespace r =
     (let vars = NewEnvVarConverter;
          vars = (case res_RestoreMethod r of
                    Some m \<Rightarrow> set_restore_vars (RestoreEnvVars cfg (rm_S3 m)) vars
                  | None \<Rightarrow> vars);
          vars = (case res_RestoreMethod r of
                    Some m \<Rightarrow> if rm_Folder m \<noteq> None then SetString ''RESTORE_DIR'' archivePath vars else vars
                  | None \<Rightarrow> vars);
          vars = set_backend_vars cfg (rs_Backend (res_RunnableSpec r)) vars
      in finish_env L cfg namespace vars)"

definition archive_attachTLSVolumeMounts :: "Configuration \<Rightarrow> RestoreSpec \<Rightarrow> volume_mount list" where
  "archive_attachTLSVolumeMounts cfg r =
     AttachEmptyDirVolumeMounts (cfg_PodVarDir cfg)
       [Some (backend_mounts (rs_Backend (res_RunnableSpec r)) @ method_mounts (res_RestoreMethod r))]"

definition archive_mutate ::
  "lib \<Rightarrow> 'w kube \<Rightarrow> Configuration \<Rightarrow> Config \<Rightarrow> Archive \<Rightarrow> batch_job \<Rightarrow> 'w \<Rightarrow> batch_job result \<times> 'w" where
  "archive_mutate L K cfg config a batchJob w =
     (case MutateBatchJob L K cfg batchJob (ArchiveObj a) config w of (r, w) \<Rightarrow>
        (rbind r (\<lambda>batchJob.
         rbind (archive_spec a) (\<lambda>spec.
         rbind (upd_container0 (append_env (archive_setupEnvVars L cfg (om_Namespace (a_Meta a)) spec)) batchJob) (\<lambda>batchJob.
         rbind (upd_container0 (AppendEnvFromToContainer (res_RunnableSpec spec)) batchJob) (\<lambda>batchJob.
         rbind (upd_container0 (append_mounts (archive_attachTLSVolumeMounts cfg spec)) batchJob) (\<lambda>batchJob.
         (let batchJob = append_volumes (AttachEmptyDirVolumes (rs_Volumes (res_RunnableSpec spec))) batchJob
          in upd_container0 (set_args (archive_setupArgs cfg spec)) batchJob)))))), w))"

definition archive_Execute ::
  "lib \<Rightarrow> 'w kube \<Rightarrow> Configuration \<Rightarrow> Config \<Rightarrow> Archive \<Rightarrow> ('w, JobObject) runnable" where
  "archive_Execute L K cfg config a obj e =
     (case in_world (k_CreateOrUpdateJob K (new_job (om_Namespace (a_Meta a)) (archive_jobName (cf_Obj config)))
              (archive_mutate L K cfg config a)) e of
        (r, e) \<Rightarrow> finish_execute L K r obj e)"

definition as_archive :: "JobObject \<Rightarrow> Archive \<Rightarrow> Archive" where
  "as_archive obj a = (case obj of ArchiveObj a' \<Rightarrow> a' | _ \<Rightarrow> a)"

text \<open>
  The backend is read before the check for a nil \<^verbatim>\<open>RestoreSpec\<close>.
\<close>

definition ArchiveProvision ::
  "lib \<Rightarrow> 'w kube \<Rightarrow> Configuration \<Rightarrow> Archive \<Rightarrow> 'w env \<Rightarrow> ((Result \<times> gerr option) \<times> JobObject) \<times> 'w env" where
  "ArchiveProvision L K cfg a e =
     (case archive_spec a of
        Inl p \<Rightarrow> (((no_result, Some p), ArchiveObj a), e)
      | Inr spec \<Rightarrow>
         (let repository = repository_of cfg (rs_Backend (res_RunnableSpec spec));
              a = (if as_RestoreSpec (a_Spec a) = None
                   then a\<lparr>a_Spec := \<lparr>as_RestoreSpec = Some empty_restore_spec\<rparr>\<rparr> else a);
              jobKey = \<lparr>nn_Namespace = om_Namespace (a_Meta a), nn_Name = archive_jobName (ArchiveObj a)\<rparr>
          in provision_flow L K cfg jobKey 30
               (\<lambda>obj. locked_run L K repository (NewConfig obj repository) (cfg_GlobalConcurrentArchiveJobsLimit cfg)
                  (\<lambda>obj. archive_Execute L K cfg (NewConfig obj repository) (as_archive obj a) obj) obj)
               (ArchiveObj a) e))"

section \<open>Restore\<close>

definition restorePath :: string where [k8up_consts]: "restorePath = ''/restore''"

definition restore_jobName :: "JobObject \<Rightarrow> string" where
  "restore_jobName obj = RestoreType @ ''-'' @ om_Name (obj_meta obj)"

definition restore_setupArgs :: "Configuration \<Rightarrow> Restore \<Rightarrow> string list result" where
  "restore_setupArgs cfg r =
     (let spec = r_Spec r;
          args = [''-varDir'', cfg_PodVarDir cfg, ''-restore''];
          args = (if length (res_Tags spec) > 0 then args @ BuildListArgs ''--tag'' (res_Tags spec) else args);
          args = (if length (res_Paths spec) > 0 then args @ BuildListArgs ''--path'' (res_Paths spec) else args);
          args = (if res_RestoreFilter spec \<noteq> [] then args @ [''-restoreFilter'', res_RestoreFilter spec] else args);
          args = (if res_Delete spec then args @ [''--delete''] else args);
          args = (if res_Snapshot spec \<noteq> [] then args @ [''-restoreSnap'', res_Snapshot spec] else args);
          args = (if res_RestoreTimeFilter spec \<noteq> [] then args @ [''-restoreTimeFilter'', res_RestoreTimeFilter spec] else args)
      in case res_RestoreMethod spec of
           None \<Rightarrow> Inl nil_deref
         | Some m \<Rightarrow>
             rbind (if rm_Folder m \<noteq> None then Inr (args @ [''-restoreType'', ''folder''])
                    else if rm_S3 m \<noteq> None then Inr (args @ [''-restoreType'', ''s3''])
                    else Inl (PlainError (''undefined restore method (-restoreType) on '' @ [CHR 0x27] @
                      om_Namespace (r_Meta r) @ ''/'' @ om_Name (r_Meta r) @ [CHR 0x27]))) (\<lambda>args.
             Inr (args @
               (case rs_Backend (res_RunnableSpec spec) of Some b \<Rightarrow> AppendTLSOptionsArgs (be_TLSOptions b) [] | None \<Rightarrow> []) @
               AppendTLSOptionsArgs (rm_TLSOptions m) [certPrefixName])))"

definition volumeConfig :: "Restore \<Rightarrow> (volume list \<times> volume_mount list) result" where
  "volumeConfig r =
     (case res_RestoreMethod (r_Spec r) of
        None \<Rightarrow> Inl nil_deref
      | Some m \<Rightarrow>
         rbind (if rm_S3 m = None
                then (case rm_Folder m of
                        None \<Rightarrow> Inl nil_deref
                      | Some f \<Rightarrow>
                         (case fr_PersistentVolumeClaim f of
                            None \<Rightarrow> Inl nil_deref
                          | Some pvc \<Rightarrow> Inr [\<lparr>vol_Name = pvs_ClaimName pvc, vol_Source = PvcSource pvc\<rparr>]))
                else Inr []) (\<lambda>volumes.
         Inr (volumes, map (\<lambda>v. \<lparr>vm_Name = vol_Name v, vm_MountPath = restorePath, vm_ReadOnly = False\<rparr>) volumes)))"

definition restore_setupEnvVars :: "lib \<Rightarrow> Configuration \<Rightarrow> Restore \<Rightarrow> env_var list result" where
  "restore_setupEnvVars L cfg r =
     (case res_RestoreMethod (r_Spec r) of
        None \<Rightarrow> Inl nil_deref
      | Some m \<Rightarrow>
         (let vars = NewEnvVarConverter;
              vars = (if rm_S3 m \<noteq> None then set_restore_vars (RestoreEnvVars cfg (rm_S3 m)) vars else vars);
              vars = (if rm_Folder m \<noteq> None then SetString ''RESTORE_DIR'' restorePath vars else vars);
              vars = set_backend_vars cfg (rs_Backend (res_RunnableSpec (r_Spec r))) vars
          in Inr (finish_env L cfg (om_Namespace (r_Meta r)) vars)))"

definition restore_attachTLSVolumeMounts :: "Configuration \<Rightarrow> Restore \<Rightarrow> volume_mount list" where
  "restore_attachTLSVolumeMounts cfg r =
     AttachEmptyDirVolumeMounts (cfg_PodVarDir cfg)
       [Some (backend_mounts (rs_Backend (res_RunnableSpec (r_Spec r))) @ method_mounts (res_RestoreMethod (r_Spec r)))]"

definition restore_mutate ::
  "lib \<Rightarrow> 'w kube \<Rightarrow> Configuration \<Rightarrow> Config \<Rightarrow> Restore \<Rightarrow> batch_job \<Rightarrow> 'w \<Rightarrow> batch_job result \<times> 'w" where
  "restore_mutate L K cfg config r batchJob w =
     (case MutateBatchJob L K cfg batchJob (RestoreObj r) config w of (res, w) \<Rightarrow>
        (rbind res (\<lambda>batchJob.
         (let batchJob = set_job_label K8upExclusive ''true'' batchJob
          in rbind (restore_setupEnvVars L cfg r) (\<lambda>vars.
             rbind (upd_container0 (append_env vars) batchJob) (\<lambda>batchJob.
             rbind (upd_container0 (AppendEnvFromToContainer (res_RunnableSpec (r_Spec r))) batchJob) (\<lambda>batchJob.
             rbind (volumeConfig r) (\<lambda>(volumes, volumeMounts).
             (let batchJob = append_volumes volumes batchJob;
                  batchJob = append_volumes (AttachEmptyDirVolumes (rs_Volumes (res_RunnableSpec (r_Spec r)))) batchJob
              in rbind (upd_container0 (append_mounts volumeMounts) batchJob) (\<lambda>batchJob.
                 rbind (upd_container0 (append_mounts (restore_attachTLSVolumeMounts cfg r)) batchJob) (\<lambda>batchJob.
                 rbind (restore_setupArgs cfg r) (\<lambda>args.
                 upd_container0 (set_args args) batchJob)))))))))), w))"

text \<open>\<^verbatim>\<open>Execute\<close> returns no error when the job could not be created.\<close>

definition restore_Execute ::
  "lib \<Rightarrow> 'w kube \<Rightarrow> Configuration \<Rightarrow> Config \<Rightarrow> Restore \<Rightarrow> ('w, JobObject) runnable" where
  "restore_Execute L K cfg config r obj e =
     (case in_world (k_CreateOrUpdateJob K (new_job (om_Namespace (r_Meta r)) (restore_jobName (cf_Obj config)))
              (restore_mutate L K cfg config r)) e of
        ((Some err, _), e) \<Rightarrow>
          (if is_panic err then ((Some err, obj), e)
           else case in_world (SetConditionFalseWithMessage L K ConditionReady ReasonCreationFailed
                        (''unable to create restore object: '' @ err_text err) obj) e of
                  (obj, e) \<Rightarrow> ((None, obj), e))
      | ((None, batchJob), e) \<Rightarrow>
          (case in_world (Config_SetStarted L K (''the job '' @ [CHR 0x27] @ om_Namespace (j_Meta batchJob) @ ''/'' @
                        om_Name (j_Meta batchJob) @ [CHR 0x27] @ '' was created'') obj) e of
             (obj, e) \<Rightarrow> ((None, obj), e)))"

definition as_restore :: "JobObject \<Rightarrow> Restore \<Rightarrow> Restore" where
  "as_restore obj r = (case obj of RestoreObj r' \<Rightarrow> r' | _ \<Rightarrow> r)"

definition RestoreProvision ::
  "lib \<Rightarrow> 'w kube \<Rightarrow> Configuration \<Rightarrow> Restore \<Rightarrow> 'w env \<Rightarrow> ((Result \<times> gerr option) \<times> JobObject) \<times> 'w env" where
  "RestoreProvision L K cfg r e =
     (let repository = repository_of cfg (rs_Backend (res_RunnableSpec (r_Spec r)));
          jobKey = \<lparr>nn_Namespace = om_Namespace (r_Meta r), nn_Name = restore_jobName (RestoreObj r)\<rparr>
      in provision_flow L K cfg jobKey 30
           (\<lambda>obj. locked_run L K repository (NewConfig obj repository) (cfg_GlobalConcurrentRestoreJobsLimit cfg)
              (\<lambda>obj. restore_Execute L K cfg (NewConfig obj repository) (as_restore obj r) obj) obj)
           (RestoreObj r) e)"

end
