(* ===== verification/Pod_List.thy ===== *)
theory Pod_List
  imports Kube_Ref
begin

text \<open>
  \<^verbatim>\<open>restic/kubernetes/pod_list.go\<close>: finding the pods with a backup command, one per
  owner. The operator and the restic module both use it.
\<close>

record PodLister =
  pl_backupCommandAnnotation :: string
  pl_backupContainerAnnotation :: string
  pl_fileExtensionAnnotation :: string
  pl_err :: "gerr option"
  pl_namespace :: string
  pl_targetPods :: "string list" \<comment> \<open>the keys of a set\<close>
  pl_skipPreBackup :: bool

record BackupPod =
  bp_Command :: string
  bp_PodName :: string
  bp_ContainerName :: string
  bp_Namespace :: string
  bp_FileExtension :: string

definition NewPodLister :: "string \<Rightarrow> string \<Rightarrow> string \<Rightarrow> string \<Rightarrow> string list \<Rightarrow> bool \<Rightarrow> PodLister" where
  "NewPodLister backupCommandAnnotation fileExtensionAnnotation backupContainerAnnotation namespace targetPods skipPreBackup =
     \<lparr>pl_backupCommandAnnotation = backupCommandAnnotation,
      pl_backupContainerAnnotation = backupContainerAnnotation,
      pl_fileExtensionAnnotation = fileExtensionAnnotation, pl_err = None,
      pl_namespace = namespace, pl_targetPods = remdups targetPods, pl_skipPreBackup = skipPreBackup\<rparr>"

definition PodRunning :: string where [k8up_consts]: "PodRunning = ''Running''"

definition firstOwnerID :: "pod \<Rightarrow> string" where
  "firstOwnerID p =
     (case om_OwnerReferences (pod_Meta p) of
        [] \<Rightarrow> om_UID (pod_Meta p)
      | r # _ \<Rightarrow> or_UID r)"

definition map_value :: "labels \<Rightarrow> string \<Rightarrow> string" where
  "map_value m k = (case m k of Some v \<Rightarrow> v | None \<Rightarrow> [])"

definition execInContainer :: "PodLister \<Rightarrow> pod \<Rightarrow> string \<Rightarrow> string" where
  "execInContainer p pod first =
     (case om_Annotations (pod_Meta pod) (pl_backupContainerAnnotation p) of Some name \<Rightarrow> name | None \<Rightarrow> first)"

text \<open>A pod without containers makes the index expression panic.\<close>

fun list_pods_loop :: "PodLister \<Rightarrow> pod list \<Rightarrow> string set \<Rightarrow> BackupPod list \<Rightarrow> BackupPod list result" where
  "list_pods_loop p [] sameOwner foundPods = Inr foundPods"
| "list_pods_loop p (pod # pods) sameOwner foundPods =
     (case ps_Containers (pod_Spec pod) of
        [] \<Rightarrow> Inl (Panic ''index out of range'')
      | c # _ \<Rightarrow>
         (if pod_Phase pod \<noteq> PodRunning then list_pods_loop p pods sameOwner foundPods
          else if length (pl_targetPods p) > 0 \<and> om_Name (pod_Meta pod) \<notin> set (pl_targetPods p)
          then list_pods_loop p pods sameOwner foundPods
          else case om_Annotations (pod_Meta pod) (pl_backupCommandAnnotation p) of
                 None \<Rightarrow> list_pods_loop p pods sameOwner foundPods
               | Some command \<Rightarrow>
                   (if firstOwnerID pod \<in> sameOwner then list_pods_loop p pods sameOwner foundPods
                    else list_pods_loop p pods (insert (firstOwnerID pod) sameOwner)
                      (foundPods @ [\<lparr>bp_Command = command, bp_PodName = om_Name (pod_Meta pod),
                         bp_ContainerName = execInContainer p pod (ctr_Name c),
                         bp_Namespace = pl_namespace p,
                         bp_FileExtension = map_value (om_Annotations (pod_Meta pod)) (pl_fileExtensionAnnotation p)\<rparr>]))))"

definition ListPods :: "'w kube \<Rightarrow> PodLister \<Rightarrow> 'w \<Rightarrow> BackupPod list result \<times> 'w" where
  "ListPods K p w =
     (case pl_err p of
        Some err \<Rightarrow> (Inl err, w)
      | None \<Rightarrow>
         (if pl_skipPreBackup p then (Inr [], w)
          else case k_ListPods K (pl_namespace p) AllPods w of
                 (Inl err, w) \<Rightarrow> (Inl (PlainError (''can't list pods: '' @ err_text err)), w)
               | (Inr pods, w) \<Rightarrow> (list_pods_loop p pods {} [], w)))"

section \<open>Lemmas\<close>

text \<open>A pod is eligible when it runs, is targeted and has the command annotation.\<close>

definition eligible :: "PodLister \<Rightarrow> pod \<Rightarrow> bool" where
  "eligible p pod \<longleftrightarrow> pod_Phase pod = PodRunning \<and>
     (pl_targetPods p = [] \<or> om_Name (pod_Meta pod) \<in> set (pl_targetPods p)) \<and>
     om_Annotations (pod_Meta pod) (pl_backupCommandAnnotation p) \<noteq> None"

text \<open>The first eligible pod of every owner, in list order.\<close>

fun first_per_owner :: "PodLister \<Rightarrow> string set \<Rightarrow> pod list \<Rightarrow> pod list" where
  "first_per_owner p seen [] = []"
| "first_per_owner p seen (pod # pods) =
     (if eligible p pod \<and> firstOwnerID pod \<notin> seen
      then pod # first_per_owner p (insert (firstOwnerID pod) seen) pods
      else first_per_owner p seen pods)"

definition to_backup_pod :: "PodLister \<Rightarrow> pod \<Rightarrow> BackupPod" where
  "to_backup_pod p pod =
     \<lparr>bp_Command = map_value (om_Annotations (pod_Meta pod)) (pl_backupCommandAnnotation p),
      bp_PodName = om_Name (pod_Meta pod),
      bp_ContainerName = execInContainer p pod (ctr_Name (hd (ps_Containers (pod_Spec pod)))),
      bp_Namespace = pl_namespace p,
      bp_FileExtension = map_value (om_Annotations (pod_Meta pod)) (pl_fileExtensionAnnotation p)\<rparr>"

lemma list_pods_loop_eq:
  assumes "\<forall>pod \<in> set pods. ps_Containers (pod_Spec pod) \<noteq> []"
  shows "list_pods_loop p pods seen found = Inr (found @ map (to_backup_pod p) (first_per_owner p seen pods))"
  using assms
proof (induction pods arbitrary: seen found)
  case (Cons pod pods)
  then obtain c cs where c: "ps_Containers (pod_Spec pod) = c # cs"
    by (meson list.set_intros(1) neq_Nil_conv)
  show ?case
    using Cons c by (auto simp: eligible_def to_backup_pod_def map_value_def split: option.splits)
qed simp

lemma first_per_owner_owners:
  "distinct (map firstOwnerID (first_per_owner p seen pods)) \<and>
   set (map firstOwnerID (first_per_owner p seen pods)) = firstOwnerID ` {pod \<in> set pods. eligible p pod} - seen"
  by (induction pods arbitrary: seen) auto

lemma first_per_owner_eligible:
  "pod \<in> set (first_per_owner p seen pods) \<Longrightarrow> pod \<in> set pods \<and> eligible p pod"
  by (induction pods arbitrary: seen) (auto split: if_splits)

lemma first_per_owner_nth:
  "first_per_owner p seen pods = map ((!) pods) (filter (\<lambda>i. eligible p (pods ! i) \<and> firstOwnerID (pods ! i) \<notin> seen \<and>
     (\<forall>k < i. eligible p (pods ! k) \<longrightarrow> firstOwnerID (pods ! k) \<noteq> firstOwnerID (pods ! i))) [0..<length pods])"
proof (induction pods arbitrary: seen)
  case (Cons pod pods)
  have upt: "[0..<length (pod # pods)] = 0 # map Suc [0..<length pods]" by (simp add: map_Suc_upt upt_conv_Cons del: upt_Suc)
  show ?case
    unfolding upt first_per_owner.simps Cons
    by (auto simp: filter_map o_def All_less_Suc2 intro!: arg_cong [of _ _ "map ((!) pods)"] filter_cong)
qed simp

section \<open>Properties\<close>

text \<open>
  C11. The pods that get a backup command executed are running, targeted and annotated; every owner
  (the first owner reference, or the pod itself) with such a pod is represented, by exactly one pod,
  which is the first of them in the list; the entries are in list order and carry the pod's command
  and namespace. The hypotheses are that the list could be read and every listed pod has a container.
\<close>

theorem ListPods_one_per_owner:
  assumes "k_ListPods K (pl_namespace p) AllPods w = (Inr pods, w')" "pl_err p = None" "\<not> pl_skipPreBackup p"
    "\<forall>pod \<in> set pods. ps_Containers (pod_Spec pod) \<noteq> []"
  shows "\<exists>chosen. ListPods K p w = (Inr (map (to_backup_pod p) chosen), w') \<and>
    chosen = map ((!) pods) (filter (\<lambda>i. eligible p (pods ! i) \<and>
      (\<forall>k < i. eligible p (pods ! k) \<longrightarrow> firstOwnerID (pods ! k) \<noteq> firstOwnerID (pods ! i))) [0..<length pods]) \<and>
    set chosen \<subseteq> {pod \<in> set pods. eligible p pod} \<and> distinct (map firstOwnerID chosen) \<and>
    firstOwnerID ` set chosen = firstOwnerID ` {pod \<in> set pods. eligible p pod}"
proof (intro exI conjI)
  show "ListPods K p w = (Inr (map (to_backup_pod p) (first_per_owner p {} pods)), w')"
    using assms by (simp add: ListPods_def list_pods_loop_eq)
  show "first_per_owner p {} pods = map ((!) pods) (filter (\<lambda>i. eligible p (pods ! i) \<and>
      (\<forall>k < i. eligible p (pods ! k) \<longrightarrow> firstOwnerID (pods ! k) \<noteq> firstOwnerID (pods ! i))) [0..<length pods])"
    by (simp add: first_per_owner_nth)
  show "set (first_per_owner p {} pods) \<subseteq> {pod \<in> set pods. eligible p pod}"
    using first_per_owner_eligible by blast
  show "distinct (map firstOwnerID (first_per_owner p {} pods))"
    "firstOwnerID ` set (first_per_owner p {} pods) = firstOwnerID ` {pod \<in> set pods. eligible p pod}"
    using first_per_owner_owners [of p "{}" pods] by simp_all
qed

definition ex_pod :: "string \<Rightarrow> string \<Rightarrow> pod" where
  "ex_pod name owner = \<lparr>pod_Meta = (ex_meta name 0)\<lparr>om_Annotations := [''k8up.io/backupcommand'' \<mapsto> ''dump''],
     om_OwnerReferences := [\<lparr>or_APIVersion = ''apps/v1'', or_Kind = ''ReplicaSet'', or_Name = owner, or_UID = owner,
       or_Controller = Some True\<rparr>]\<rparr>,
     pod_Spec = empty_pod_spec\<lparr>ps_Containers := [empty_container]\<rparr>, pod_Phase = PodRunning\<rparr>"

theorem ListPods_one_per_owner_witness:
  "ListPods kube_ref (NewPodLister ''k8up.io/backupcommand'' [] [] ''ns'' [] False)
      (empty_cluster\<lparr>cl_Pods := [ex_pod ''a'' ''r1'', ex_pod ''b'' ''r1'', ex_pod ''c'' ''r2'']\<rparr>) =
    (Inr (map (to_backup_pod (NewPodLister ''k8up.io/backupcommand'' [] [] ''ns'' [] False)) [ex_pod ''a'' ''r1'', ex_pod ''c'' ''r2'']),
     empty_cluster\<lparr>cl_Pods := [ex_pod ''a'' ''r1'', ex_pod ''b'' ''r1'', ex_pod ''c'' ''r2'']\<rparr>)"
proof -
  let ?p = "NewPodLister ''k8up.io/backupcommand'' [] [] ''ns'' [] False"
  let ?pods = "[ex_pod ''a'' ''r1'', ex_pod ''b'' ''r1'', ex_pod ''c'' ''r2'']"
  let ?w = "empty_cluster\<lparr>cl_Pods := ?pods\<rparr>"
  have k: "k_ListPods kube_ref (pl_namespace ?p) AllPods ?w = (Inr ?pods, ?w)"
    by (simp add: kube_ref_def NewPodLister_def ex_pod_def ex_meta_def)
  have el: "eligible ?p (ex_pod n r)" and ow: "firstOwnerID (ex_pod n r) = r" for n r
    by (simp_all add: eligible_def NewPodLister_def ex_pod_def firstOwnerID_def)
  have c: "pl_err ?p = None" "\<not> pl_skipPreBackup ?p" "\<forall>pod \<in> set ?pods. ps_Containers (pod_Spec pod) \<noteq> []"
    by (simp_all add: NewPodLister_def ex_pod_def)
  have u: "[0..<length ?pods] = [0, 1, 2]" by (simp add: upt_conv_Cons)
  let ?P = "\<lambda>i. eligible ?p (?pods ! i) \<and>
      (\<forall>k < i. eligible ?p (?pods ! k) \<longrightarrow> firstOwnerID (?pods ! k) \<noteq> firstOwnerID (?pods ! i))"
  have "?P 0" by (simp add: el)
  moreover have "\<not> ?P 1" using el [of "''a''" "''r1''"] ow by (auto intro!: exI [of _ 0])
  moreover have "?P 2"
  proof (intro conjI allI impI)
    show "eligible ?p (?pods ! 2)" by (simp add: el)
    show "firstOwnerID (?pods ! k) \<noteq> firstOwnerID (?pods ! 2)" if "k < 2" for k
    proof -
      have "k = 0 \<or> k = 1" using that by arith
      then show ?thesis by (elim disjE) (simp_all add: ow)
    qed
  qed
  ultimately have ch: "map ((!) ?pods) (filter ?P [0..<length ?pods]) = [ex_pod ''a'' ''r1'', ex_pod ''c'' ''r2'']"
    unfolding u filter.simps by simp
  from ListPods_one_per_owner [OF k c] obtain chosen where
    "ListPods kube_ref ?p ?w = (Inr (map (to_backup_pod ?p) chosen), ?w)"
    "chosen = map ((!) ?pods) (filter (\<lambda>i. eligible ?p (?pods ! i) \<and>
      (\<forall>k < i. eligible ?p (?pods ! k) \<longrightarrow> firstOwnerID (?pods ! k) \<noteq> firstOwnerID (?pods ! i))) [0..<length ?pods])"
    by (elim exE conjE)
  then show ?thesis by (simp only: ch)
qed

end
