(* ===== verification/Backup_PreBackup.thy ===== *)
theory Backup_PreBackup
  imports Executors Pod_List "HOL-Library.AList"
begin

text \<open>
  \<^verbatim>\<open>operator/backupcontroller/prebackup.go\<close>, \<^verbatim>\<open>prebackup_utils.go\<close>
  and the selecting list functions of \<^verbatim>\<open>backup_utils.go\<close>. The backup that the
  executor holds by pointer is threaded through. \<open>ord\<close> is the order in which the runtime
  enumerates a map, given its keys.
\<close>

definition as_backup :: "JobObject \<Rightarrow> Backup \<Rightarrow> Backup" where
  "as_backup obj b = (case obj of BackupObj b' \<Rightarrow> b' | _ \<Rightarrow> b)"

definition on_backup :: "(JobObject \<Rightarrow> 'w \<Rightarrow> JobObject \<times> 'w) \<Rightarrow> Backup \<Rightarrow> 'w \<Rightarrow> Backup \<times> 'w" where
  "on_backup f b w = (case f (BackupObj b) w of (obj, w) \<Rightarrow> (as_backup obj b, w))"

section \<open>Listing by label selectors\<close>

text \<open>
  The shape that \<^verbatim>\<open>fetchPVCs\<close>, \<^verbatim>\<open>fetchCandidatePods\<close> and
  \<^verbatim>\<open>fetchPreBackupPodTemplates\<close> share: list once per selector and collect the items
  in a map by name. A map is an association list in insertion order.
\<close>

fun collect :: "('a \<Rightarrow> string) \<Rightarrow> 'a list \<Rightarrow> (string \<times> 'a) list \<Rightarrow> (string \<times> 'a) list" where
  "collect name [] unique = unique"
| "collect name (x # xs) unique = collect name xs (AList.update (name x) x unique)"

fun select_loop :: "(string \<Rightarrow> string result) \<Rightarrow> (string \<Rightarrow> 'w \<Rightarrow> 'a list result \<times> 'w) \<Rightarrow> ('a \<Rightarrow> string) \<Rightarrow> string
    \<Rightarrow> string list \<Rightarrow> (string \<times> 'a) list \<Rightarrow> 'w \<Rightarrow> (string \<times> 'a) list result \<times> 'w" where
  "select_loop convert list name what [] unique w = (Inr unique, w)"
| "select_loop convert list name what (labelSelector # sels) unique w =
     (case convert labelSelector of
        Inl err \<Rightarrow> (Inl (Wrapped (''cannot convert labelSelector '' @ labelSelector @ '' to selector'') err), w)
      | Inr selector \<Rightarrow>
         (case list selector w of
            (Inl err, w) \<Rightarrow> (Inl (Wrapped (''cannot list '' @ what @ '' using labelSelector '' @ labelSelector) err), w)
          | (Inr items, w) \<Rightarrow> select_loop convert list name what sels (collect name items unique) w))"

definition map_values :: "(string list \<Rightarrow> string list) \<Rightarrow> (string \<times> 'a) list \<Rightarrow> 'a list" where
  "map_values ord m = map (\<lambda>k. the (map_of m k)) (ord (map fst m))"

definition fetchPVCs ::
  "lib \<Rightarrow> 'w kube \<Rightarrow> (string list \<Rightarrow> string list) \<Rightarrow> Backup \<Rightarrow> 'w \<Rightarrow> persistent_volume_claim list result \<times> 'w" where
  "fetchPVCs L K ord b w =
     (case bs_LabelSelectors (b_Spec b) of
        None \<Rightarrow> k_ListPVCs K (om_Namespace (b_Meta b)) None w
      | Some labelSelectors \<Rightarrow>
         (case select_loop (lib_LabelSelectorAsSelector L) (\<lambda>s. k_ListPVCs K (om_Namespace (b_Meta b)) (Some s))
                 (\<lambda>p. om_Name (pvc_Meta p)) ''PVCs'' labelSelectors [] w of
            (r, w) \<Rightarrow> (map_sum id (map_values ord) r, w)))"

definition ownerSelector :: "Backup \<Rightarrow> string" where
  "ownerSelector b = ''k8up.io/ownerBackupUID in ('' @ om_UID (b_Meta b) @ '')''"

definition fetchCandidatePods ::
  "lib \<Rightarrow> 'w kube \<Rightarrow> (string list \<Rightarrow> string list) \<Rightarrow> Backup \<Rightarrow> 'w \<Rightarrow> pod list result \<times> 'w" where
  "fetchCandidatePods L K ord b w =
     (case bs_LabelSelectors (b_Spec b) of
        None \<Rightarrow> k_ListPods K (om_Namespace (b_Meta b)) AllPods w
      | Some labelSelectors \<Rightarrow>
         (case select_loop (lib_LabelSelectorAsSelector L) (\<lambda>s. k_ListPods K (om_Namespace (b_Meta b)) (PodsMatching s))
                 (\<lambda>p. om_Name (pod_Meta p)) ''Pods'' (labelSelectors @ [ownerSelector b]) [] w of
            (r, w) \<Rightarrow> (map_sum id (map_values ord) r, w)))"

definition fetchPreBackupPodTemplates ::
  "lib \<Rightarrow> 'w kube \<Rightarrow> (string list \<Rightarrow> string list) \<Rightarrow> Backup \<Rightarrow> 'w \<Rightarrow> PreBackupPod list result \<times> 'w" where
  "fetchPreBackupPodTemplates L K ord b w =
     (case bs_LabelSelectors (b_Spec b) of
        None \<Rightarrow>
          (case k_ListPreBackupPods K (om_Namespace (b_Meta b)) None w of
             (Inl err, w) \<Rightarrow> (Inl (Wrapped ''could not list pod templates'' err), w)
           | (Inr items, w) \<Rightarrow> (Inr items, w))
      | Some labelSelectors \<Rightarrow>
         (case select_loop (lib_LabelSelectorAsSelector L) (\<lambda>s. k_ListPreBackupPods K (om_Namespace (b_Meta b)) (Some s))
                 (\<lambda>p. om_Name (pbp_Meta p)) ''pod templates'' labelSelectors [] w of
            (r, w) \<Rightarrow> (map_sum id (map_values ord) r, w)))"

section \<open>Deployments\<close>

definition pre_backup_labels :: "Backup \<Rightarrow> PreBackupPod \<Rightarrow> labels" where
  "pre_backup_labels b template =
     [''k8up.io/backupCommandPod'' \<mapsto> ''true'', ''k8up.io/preBackupPod'' \<mapsto> om_Name (pbp_Meta template),
      ''k8up.io/ownerBackupUID'' \<mapsto> om_UID (b_Meta b)]"

definition generate_deployment :: "lib \<Rightarrow> Configuration \<Rightarrow> Backup \<Rightarrow> PreBackupPod \<Rightarrow> deployment result" where
  "generate_deployment L cfg b template =
     (case pbp_Pod template of
        None \<Rightarrow> Inl nil_deref
      | Some pod \<Rightarrow>
         (let podLabels = pre_backup_labels b template;
              pod = pod\<lparr>pt_Annotations := [cfg_BackupCommandAnnotation cfg \<mapsto> pbp_BackupCommand template,
                      cfg_FileExtensionAnnotation cfg \<mapsto> pbp_FileExtension template]\<rparr>;
              pod = pod\<lparr>pt_Labels := podLabels\<rparr>;
              m = empty_meta\<lparr>om_Name := om_Name (pbp_Meta template), om_Namespace := om_Namespace (b_Meta b),
                    om_Labels := [''k8up.io/preBackupPod'' \<mapsto> om_Name (pbp_Meta template)]\<rparr>;
              m = (case lib_SetOwnerReference L (BackupObj b) m of Inr m' \<Rightarrow> m' | Inl _ \<Rightarrow> m)
          in Inr \<lparr>dep_Meta = m, dep_Replicas = 1, dep_Template = pod, dep_Selector = podLabels,
                  dep_AvailableReplicas = 0, dep_Conditions = []\<rparr>))"

fun generateDeployments :: "lib \<Rightarrow> Configuration \<Rightarrow> Backup \<Rightarrow> PreBackupPod list \<Rightarrow> deployment list result" where
  "generateDeployments L cfg b [] = Inr []"
| "generateDeployments L cfg b (template # templates) =
     rbind (generate_deployment L cfg b template) (\<lambda>d.
     rbind (generateDeployments L cfg b templates) (\<lambda>ds. Inr (d # ds)))"

definition nn_text :: "namespaced_name \<Rightarrow> string" where
  "nn_text n = nn_Namespace n @ ''/'' @ nn_Name n"

text \<open>The deployment is filled with what the server has, or with what it created.\<close>

definition fetchOrCreatePreBackupDeployment ::
  "lib \<Rightarrow> 'w kube \<Rightarrow> deployment \<Rightarrow> Backup \<Rightarrow> 'w \<Rightarrow> (deployment result \<times> Backup) \<times> 'w" where
  "fetchOrCreatePreBackupDeployment L K d b w =
     (let name = MapToNamespacedName (dep_Meta d)
      in case k_GetDeployment K name w of
           (Inr d, w) \<Rightarrow> ((Inr d, b), w)
         | (Inl fetchErr, w) \<Rightarrow>
             (if \<not> IsNotFound fetchErr then
                (let err = Wrapped (''error getting pre backup pod '' @ [CHR 0x27] @ nn_text name @ [CHR 0x27]) fetchErr
                 in case on_backup (SetConditionFalseWithMessage L K ConditionPreBackupPodReady ReasonRetrievalFailed (err_text err)) b w of
                      (b, w) \<Rightarrow> ((Inl err, b), w))
              else case k_CreateDeployment K d w of
                     (Inl createErr, w) \<Rightarrow>
                       (let err = Wrapped (''error creating pre backup pod '' @ [CHR 0x27] @ nn_text name @ [CHR 0x27]) createErr
                        in case on_backup (SetConditionFalseWithMessage L K ConditionPreBackupPodReady ReasonCreationFailed (err_text err)) b w of
                             (b, w) \<Rightarrow> ((Inl err, b), w))
                   | (Inr d, w) \<Rightarrow> ((Inr d, b), w)))"

fun getProgressingCondition :: "deployment_condition list \<Rightarrow> deployment_condition option" where
  "getProgressingCondition [] = None"
| "getProgressingCondition (c # cs) = (if dc_Type c = ''Progressing'' then Some c else getProgressingCondition cs)"

definition isDeadlineExceeded :: "deployment_condition \<Rightarrow> bool" where
  "isDeadlineExceeded c \<longleftrightarrow> dc_Status c = ConditionFalse \<and> dc_Reason c = ''ProgressDeadlineExceeded''"

definition hasAvailableReplica :: "deployment \<Rightarrow> bool" where
  "hasAvailableReplica d \<longleftrightarrow> dep_AvailableReplicas d > 0"

definition isPreBackupDeploymentReady :: "deployment \<Rightarrow> bool \<times> gerr option" where
  "isPreBackupDeploymentReady d =
     (let not_exceeded = (if hasAvailableReplica d then (True, None) else (False, None))
      in case getProgressingCondition (dep_Conditions d) of
           Some c \<Rightarrow>
             (if isDeadlineExceeded c
              then (False, Some (PlainError (''error starting pre backup pod '' @ om_Name (dep_Meta d) @ '': '' @ dc_Message c)))
              else not_exceeded)
         | None \<Rightarrow> not_exceeded)"

definition isPrebackupFailed :: "meta_api \<Rightarrow> Status \<Rightarrow> bool" where
  "isPrebackupFailed M s =
     (case FindStatusCondition M (st_Conditions s) ConditionPreBackupPodReady of
        None \<Rightarrow> False
      | Some c \<Rightarrow> cond_Reason c = ReasonFailed \<or> cond_Reason c = ReasonRetrievalFailed)"

definition deletePreBackupDeployment :: "lib \<Rightarrow> 'w kube \<Rightarrow> deployment \<Rightarrow> Backup \<Rightarrow> 'w \<Rightarrow> Backup \<times> 'w" where
  "deletePreBackupDeployment L K d b w =
     (case k_DeleteDeployment K d w of
        (Some err, w) \<Rightarrow>
          (if \<not> IsNotFound err
           then on_backup (SetConditionFalseWithMessage L K ConditionPreBackupPodReady ReasonDeletionFailed
                  (''could not delete deployment: '' @ err_text err)) b w
           else (b, w))
      | (None, w) \<Rightarrow> (b, w))"

section \<open>Starting and stopping\<close>

fun allDeploymentsAreReady ::
  "lib \<Rightarrow> 'w kube \<Rightarrow> deployment list \<Rightarrow> Backup \<Rightarrow> 'w \<Rightarrow> ((bool \<times> gerr option) \<times> Backup) \<times> 'w" where
  "allDeploymentsAreReady L K [] b w = (((True, None), b), w)"
| "allDeploymentsAreReady L K (d # ds) b w =
     (case isPreBackupDeploymentReady d of
        (_, Some err) \<Rightarrow>
          (case on_backup (SetConditionFalseWithMessage L K ConditionPreBackupPodReady ReasonFailed (err_text err)) b w of (b, w) \<Rightarrow>
             (case on_backup (SetConditionTrueWithMessage L K ConditionReady ReasonFailed (err_text err)) b w of (b, w) \<Rightarrow>
                (case deletePreBackupDeployment L K d b w of (b, w) \<Rightarrow> (((False, Some err), b), w))))
      | (ready, None) \<Rightarrow>
          (if \<not> ready then (((False, None), b), w) else allDeploymentsAreReady L K ds b w))"

fun fetch_all :: "lib \<Rightarrow> 'w kube \<Rightarrow> deployment list \<Rightarrow> Backup \<Rightarrow> 'w \<Rightarrow> (deployment list result \<times> Backup) \<times> 'w" where
  "fetch_all L K [] b w = ((Inr [], b), w)"
| "fetch_all L K (d # ds) b w =
     (case fetchOrCreatePreBackupDeployment L K d b w of
        ((Inl err, b), w) \<Rightarrow> ((Inl err, b), w)
      | ((Inr d, b), w) \<Rightarrow>
          (case fetch_all L K ds b w of ((r, b), w) \<Rightarrow> ((map_sum id (\<lambda>ds. d # ds) r, b), w)))"

definition startAllPreBackupDeployments ::
  "lib \<Rightarrow> 'w kube \<Rightarrow> deployment list \<Rightarrow> Backup \<Rightarrow> 'w \<Rightarrow> ((bool \<times> gerr option) \<times> Backup) \<times> 'w" where
  "startAllPreBackupDeployments L K deployments b w =
     (case fetch_all L K deployments b w of
        ((Inl err, b), w) \<Rightarrow> (((False, Some err), b), w)
      | ((Inr deployments, b), w) \<Rightarrow>
          (case allDeploymentsAreReady L K deployments b w of
             (((_, Some err), b), w) \<Rightarrow> (((False, None), b), w)
           | (((ready, None), b), w) \<Rightarrow>
               (if ready
                then (case on_backup (SetConditionTrue L K ConditionPreBackupPodReady ReasonReady) b w of
                        (b, w) \<Rightarrow> (((ready, None), b), w))
                else (case on_backup (SetConditionUnknownWithMessage L K ConditionPreBackupPodReady ReasonWaiting
                        (''waiting for '' @ Itoa (int (length deployments)) @ '' PreBackupPods to become ready'')) b w of
                        (b, w) \<Rightarrow> (((ready, None), b), w)))))"

definition StartPreBackup ::
  "lib \<Rightarrow> 'w kube \<Rightarrow> Configuration \<Rightarrow> (string list \<Rightarrow> string list) \<Rightarrow> Backup \<Rightarrow> 'w
   \<Rightarrow> ((bool \<times> gerr option) \<times> Backup) \<times> 'w" where
  "StartPreBackup L K cfg ord b w =
     (case fetchPreBackupPodTemplates L K ord b w of
        (Inl err, w) \<Rightarrow>
          (case on_backup (SetConditionFalseWithMessage L K ConditionPreBackupPodReady ReasonRetrievalFailed
                  (''error while retrieving container definitions: '' @ err_text err)) b w of
             (b, w) \<Rightarrow> (((False, Some err), b), w))
      | (Inr templates, w) \<Rightarrow>
          (if length templates = 0
           then (case on_backup (SetConditionTrueWithMessage L K ConditionPreBackupPodReady ReasonNoPreBackupPodsFound
                    ''no container definitions found'') b w of
                   (b, w) \<Rightarrow> (((True, None), b), w))
           else case generateDeployments L cfg b templates of
                  Inl p \<Rightarrow> (((False, Some p), b), w)
                | Inr deployments \<Rightarrow> startAllPreBackupDeployments L K deployments b w))"

fun delete_all :: "lib \<Rightarrow> 'w kube \<Rightarrow> deployment list \<Rightarrow> Backup \<Rightarrow> 'w \<Rightarrow> Backup \<times> 'w" where
  "delete_all L K [] b w = (b, w)"
| "delete_all L K (d # ds) b w =
     (case deletePreBackupDeployment L K d b w of (b, w) \<Rightarrow> delete_all L K ds b w)"

text \<open>The result is \<open>Some\<close> only for a panic.\<close>

definition StopPreBackupDeployments ::
  "lib \<Rightarrow> 'w kube \<Rightarrow> Configuration \<Rightarrow> (string list \<Rightarrow> string list) \<Rightarrow> Backup \<Rightarrow> 'w \<Rightarrow> (gerr option \<times> Backup) \<times> 'w" where
  "StopPreBackupDeployments L K cfg ord b w =
     (case fetchPreBackupPodTemplates L K ord b w of
        (Inl err, w) \<Rightarrow>
          (case on_backup (SetConditionFalseWithMessage L K ConditionPreBackupPodReady ReasonRetrievalFailed
                  (''could not fetch pod templates: '' @ err_text err)) b w of
             (b, w) \<Rightarrow> ((None, b), w))
      | (Inr templates, w) \<Rightarrow>
          (if length templates = 0
           then (case on_backup (SetConditionTrue L K ConditionPreBackupPodReady ReasonNoPreBackupPodsFound) b w of
                   (b, w) \<Rightarrow> ((None, b), w))
           else case generateDeployments L cfg b templates of
                  Inl p \<Rightarrow> ((Some p, b), w)
                | Inr deployments \<Rightarrow>
                    (case delete_all L K deployments b w of (b, w) \<Rightarrow>
                       (case on_backup (SetConditionTrue L K ConditionPreBackupPodReady ReasonFinished) b w of
                          (b, w) \<Rightarrow> ((None, b), w)))))"

end
