(* ===== verification/Backup_Items.thy ===== *)
theory Backup_Items
  imports Backup_PreBackup "HOL-Library.Sublist"
begin

text \<open>
  \<^verbatim>\<open>operator/backupcontroller/executor.go\<close>, first part: which claims are backed up, on
  which node, and how they are grouped into batch jobs.
\<close>

section \<open>Standard library\<close>

text \<open>\<^verbatim>\<open>strconv.ParseBool\<close>, with \<open>False\<close> also for what it rejects.\<close>

definition ParseBool :: "string \<Rightarrow> bool" where
  "ParseBool s \<longleftrightarrow> s \<in> {''1'', ''t'', ''T'', ''TRUE'', ''true'', ''True''}"

text \<open>\<^verbatim>\<open>path.Clean\<close> and \<^verbatim>\<open>path.Join\<close> of two elements.\<close>

fun clean_components :: "bool \<Rightarrow> string list \<Rightarrow> string list \<Rightarrow> string list" where
  "clean_components rooted [] stack = rev stack"
| "clean_components rooted (c # cs) stack =
     (if c = [] \<or> c = ''.'' then clean_components rooted cs stack
      else if c = ''..'' then
        (case stack of
           [] \<Rightarrow> clean_components rooted cs (if rooted then [] else [c])
         | t # ts \<Rightarrow> if t = ''..'' then clean_components rooted cs (c # stack) else clean_components rooted cs ts)
      else clean_components rooted cs (c # stack))"

definition path_Clean :: "string \<Rightarrow> string" where
  "path_Clean p =
     (let rooted = HasPrefix p ''/'';
          body = Join (clean_components rooted (Split p (CHR ''/'')) []) ''/'';
          out = (if rooted then ''/'' @ body else body)
      in if out = [] then ''.'' else out)"

definition path_Join :: "string \<Rightarrow> string \<Rightarrow> string" where
  "path_Join a b =
     (let nonempty = filter (\<lambda>s. s \<noteq> []) [a, b]
      in if nonempty = [] then [] else path_Clean (Join nonempty ''/''))"

text \<open>\<^verbatim>\<open>Duration.String\<close> of a whole number of seconds.\<close>

definition duration_string :: "nat \<Rightarrow> string" where
  "duration_string secs =
     (let s = secs mod 60; m = secs div 60 mod 60; h = secs div 3600
      in if secs < 60 then nat_numeral s @ ''s''
         else if secs < 3600 then nat_numeral m @ ''m'' @ nat_numeral s @ ''s''
         else nat_numeral h @ ''h'' @ nat_numeral m @ ''m'' @ nat_numeral s @ ''s'')"

section \<open>Items\<close>

record backupItem =
  bi_volume :: volume
  bi_node :: string
  bi_tolerations :: "toleration list"
  bi_targetPod :: string
  bi_resticArgs :: "string list"

fun containsAccessMode :: "string list \<Rightarrow> string \<Rightarrow> bool" where
  "containsAccessMode [] e = False"
| "containsAccessMode (a # s) e = (if a = e then True else containsAccessMode s e)"

fun volumes_loop :: "pod \<Rightarrow> volume list \<Rightarrow> (string \<rightharpoonup> pod) \<Rightarrow> (string \<rightharpoonup> pod)" where
  "volumes_loop pod [] m = m"
| "volumes_loop pod (v # vs) m =
     (case vol_Source v of
        PvcSource pvc \<Rightarrow> volumes_loop pod vs (m(pvs_ClaimName pvc \<mapsto> pod))
      | _ \<Rightarrow> volumes_loop pod vs m)"

fun pvcPodMap :: "pod list \<Rightarrow> (string \<rightharpoonup> pod) \<Rightarrow> (string \<rightharpoonup> pod)" where
  "pvcPodMap [] m = m"
| "pvcPodMap (pod # pods) m =
     (if pod_Phase pod \<noteq> PodRunning then pvcPodMap pods m
      else pvcPodMap pods (volumes_loop pod (ps_Volumes (pod_Spec pod)) m))"

definition LabelHostname :: string where [k8up_consts]: "LabelHostname = ''kubernetes.io/hostname''"

text \<open>\<open>None\<close> when no expression matches; an expression without values panics.\<close>

fun find_expr :: "node_selector_requirement list \<Rightarrow> string option result" where
  "find_expr [] = Inr None"
| "find_expr (x # xs) =
     (if nsr_Key x = LabelHostname \<and> nsr_Operator x = ''In''
      then (case nsr_Values x of [] \<Rightarrow> Inl (Panic ''index out of range'') | v # _ \<Rightarrow> Inr (Some v))
      else find_expr xs)"

fun find_term :: "node_selector_requirement list list \<Rightarrow> string option result" where
  "find_term [] = Inr None"
| "find_term (t # ts) =
     (case find_expr t of Inl p \<Rightarrow> Inl p | Inr (Some v) \<Rightarrow> Inr (Some v) | Inr None \<Rightarrow> find_term ts)"

definition findNode :: "persistent_volume \<Rightarrow> persistent_volume_claim \<Rightarrow> string result" where
  "findNode pv pvc =
     (let hostnameAnnotation = map_value (om_Annotations (pvc_Meta pvc)) AnnotationK8upHostname
      in case pv_NodeAffinity pv of
           None \<Rightarrow> Inr hostnameAnnotation
         | Some terms \<Rightarrow>
             (case find_term terms of
                Inl p \<Rightarrow> Inl p
              | Inr (Some v) \<Rightarrow> Inr v
              | Inr None \<Rightarrow> Inr hostnameAnnotation))"

definition ClaimBound :: string where [k8up_consts]: "ClaimBound = ''Bound''"
definition ReadWriteOnce :: string where [k8up_consts]: "ReadWriteOnce = ''ReadWriteOnce''"
definition ReadWriteMany :: string where [k8up_consts]: "ReadWriteMany = ''ReadWriteMany''"

definition is_rwo :: "persistent_volume_claim \<Rightarrow> bool" where
  "is_rwo pvc = containsAccessMode (pvc_AccessModes pvc) ReadWriteOnce"

text \<open>The guards at the head of the loop: whether a claim is skipped before an item is built.\<close>

definition pvc_skipped :: "Configuration \<Rightarrow> string \<Rightarrow> persistent_volume_claim \<Rightarrow> bool" where
  "pvc_skipped cfg annotation pvc =
     (if pvc_Phase pvc \<noteq> ClaimBound then True
      else let backupAnnotation = om_Annotations (pvc_Meta pvc) annotation;
               hasBackupAnnotation = (backupAnnotation \<noteq> None)
           in if \<not> containsAccessMode (pvc_AccessModes pvc) ReadWriteMany \<and> \<not> is_rwo pvc \<and> \<not> hasBackupAnnotation then True
              else if \<not> hasBackupAnnotation then cfg_SkipWithoutAnnotation cfg
              else \<not> ParseBool (the backupAnnotation))"

definition new_item :: "persistent_volume_claim \<Rightarrow> string list \<Rightarrow> backupItem" where
  "new_item pvc args =
     \<lparr>bi_volume = \<lparr>vol_Name = om_Name (pvc_Meta pvc),
        vol_Source = PvcSource \<lparr>pvs_ClaimName = om_Name (pvc_Meta pvc), pvs_ReadOnly = False\<rparr>\<rparr>,
      bi_node = [], bi_tolerations = [], bi_targetPod = [], bi_resticArgs = args\<rparr>"

text \<open>The restic arguments of a claim; \<open>None\<close> when the annotation does not parse.\<close>

definition restic_args :: "lib \<Rightarrow> Configuration \<Rightarrow> persistent_volume_claim \<Rightarrow> string list option" where
  "restic_args L cfg pvc =
     (case om_Annotations (pvc_Meta pvc) (cfg_BackupResticArgsAnnotation cfg) of
        None \<Rightarrow> Some []
      | Some v \<Rightarrow> (case UnmarshalJSON (lib_JsonDecode L) v of Inl _ \<Rightarrow> None | Inr args \<Rightarrow> Some args))"

definition hostname_override :: "persistent_volume_claim \<Rightarrow> backupItem \<Rightarrow> backupItem" where
  "hostname_override pvc bi =
     (case om_Annotations (pvc_Meta pvc) AnnotationK8upHostname of
        Some h \<Rightarrow> bi\<lparr>bi_node := h\<rparr>
      | None \<Rightarrow> bi)"

text \<open>
  One round of the loop: \<open>Inr None\<close> when the claim is skipped, \<open>Inl\<close> for a panic.
\<close>

definition pvc_item ::
  "lib \<Rightarrow> 'w kube \<Rightarrow> Configuration \<Rightarrow> string \<Rightarrow> (string \<rightharpoonup> pod) \<Rightarrow> persistent_volume_claim \<Rightarrow> 'w
   \<Rightarrow> backupItem option result \<times> 'w" where
  "pvc_item L K cfg annotation podMap pvc w =
     (if pvc_skipped cfg annotation pvc then (Inr None, w)
      else case restic_args L cfg pvc of
             None \<Rightarrow> (Inr None, w)
           | Some args \<Rightarrow>
               (let bi = new_item pvc args
                in case podMap (om_Name (pvc_Meta pvc)) of
                     Some pod \<Rightarrow>
                       (let bi = bi\<lparr>bi_tolerations := ps_Tolerations (pod_Spec pod), bi_targetPod := om_Name (pod_Meta pod)\<rparr>;
                            bi = (if is_rwo pvc \<or> \<not> cfg_EnableRelaxedScheduling cfg
                                  then bi\<lparr>bi_node := ps_NodeName (pod_Spec pod)\<rparr> else bi)
                        in (Inr (Some (hostname_override pvc bi)), w))
                   | None \<Rightarrow>
                       (if \<not> cfg_EnableRelaxedScheduling cfg \<and> is_rwo pvc
                        then (case k_GetPV K (pvc_VolumeName pvc) w of
                                (Inl err, w) \<Rightarrow> (Inr None, w)
                              | (Inr pv, w) \<Rightarrow>
                                  (case findNode pv pvc of
                                     Inl p \<Rightarrow> (Inl p, w)
                                   | Inr node \<Rightarrow> (Inr (Some (hostname_override pvc (bi\<lparr>bi_node := node\<rparr>))), w)))
                        else (Inr (Some (hostname_override pvc bi)), w))))"

fun pvc_loop ::
  "lib \<Rightarrow> 'w kube \<Rightarrow> Configuration \<Rightarrow> string \<Rightarrow> (string \<rightharpoonup> pod) \<Rightarrow> persistent_volume_claim list
   \<Rightarrow> backupItem list \<Rightarrow> 'w \<Rightarrow> backupItem list result \<times> 'w" where
  "pvc_loop L K cfg annotation podMap [] items w = (Inr items, w)"
| "pvc_loop L K cfg annotation podMap (pvc # pvcs) items w =
     (case pvc_item L K cfg annotation podMap pvc w of
        (Inl p, w) \<Rightarrow> (Inl p, w)
      | (Inr None, w) \<Rightarrow> pvc_loop L K cfg annotation podMap pvcs items w
      | (Inr (Some bi), w) \<Rightarrow> pvc_loop L K cfg annotation podMap pvcs (items @ [bi]) w)"

definition listAndFilterPVCs ::
  "lib \<Rightarrow> 'w kube \<Rightarrow> Configuration \<Rightarrow> (string list \<Rightarrow> string list) \<Rightarrow> string \<Rightarrow> Backup \<Rightarrow> 'w
   \<Rightarrow> backupItem list result \<times> 'w" where
  "listAndFilterPVCs L K cfg ord annotation b w =
     (case k_ListPods K (om_Namespace (b_Meta b)) (PodsWithoutLabel K8uplabel) w of
        (Inl err, w) \<Rightarrow> (Inl (Wrapped ''list pods'' err), w)
      | (Inr pods, w) \<Rightarrow>
          (case fetchPVCs L K ord b w of
             (Inl err, w) \<Rightarrow> (Inl err, w)
           | (Inr claims, w) \<Rightarrow> pvc_loop L K cfg annotation (pvcPodMap pods Map.empty) claims [] w))"

section \<open>Grouping into jobs\<close>

record jobItem =
  ji_job :: batch_job
  ji_targetPods :: "string list"
  ji_volumes :: "volume list"
  ji_resticArgs :: "string list"
  ji_skipPreBackup :: bool

definition backup_jobName :: "Backup \<Rightarrow> string \<Rightarrow> string" where
  "backup_jobName b name = BackupType @ ''-'' @ om_Name (b_Meta b) @ ''-'' @ name"

definition createJob :: "Backup \<Rightarrow> string \<Rightarrow> string \<Rightarrow> toleration list \<Rightarrow> batch_job" where
  "createJob b name node tolerations =
     upd_pod_spec (\<lambda>s. s\<lparr>ps_Volumes := [],
         ps_NodeSelector := (if node \<noteq> [] then [LabelHostname \<mapsto> node] else ps_NodeSelector s),
         ps_Tolerations := tolerations\<rparr>)
       (new_job (om_Namespace (b_Meta b)) (backup_jobName b name))"

definition new_jobItem :: "Backup \<Rightarrow> nat \<Rightarrow> backupItem \<Rightarrow> jobItem" where
  "new_jobItem b index item =
     \<lparr>ji_job = createJob b (Itoa (int index)) (bi_node item) (bi_tolerations item),
      ji_targetPods = [], ji_volumes = [], ji_resticArgs = bi_resticArgs item, ji_skipPreBackup = True\<rparr>"

definition add_target :: "backupItem \<Rightarrow> jobItem \<Rightarrow> jobItem" where
  "add_target item j =
     (if bi_targetPod item \<noteq> [] then j\<lparr>ji_targetPods := ji_targetPods j @ [bi_targetPod item]\<rparr> else j)"

definition relaxed_key :: "nat \<Rightarrow> backupItem \<Rightarrow> string" where
  "relaxed_key index item = Itoa (int index) @ Join (bi_resticArgs item) '',''"

definition classic_key :: "backupItem \<Rightarrow> string" where
  "classic_key item = bi_node item @ Join (bi_resticArgs item) '',''"

definition group_item ::
  "Configuration \<Rightarrow> Backup \<Rightarrow> nat \<Rightarrow> backupItem \<Rightarrow> (string \<times> jobItem) list \<Rightarrow> (string \<times> jobItem) list" where
  "group_item cfg b index item jobs =
     (if cfg_EnableRelaxedScheduling cfg
      then (let j = add_target item (new_jobItem b index item);
                j = (if vol_Name (bi_volume item) \<noteq> [] then j\<lparr>ji_volumes := ji_volumes j @ [bi_volume item]\<rparr> else j)
            in AList.update (relaxed_key index item) j jobs)
      else (let jobName = classic_key item;
                jobs = (case map_of jobs jobName of
                          Some _ \<Rightarrow> jobs
                        | None \<Rightarrow> AList.update jobName (new_jobItem b index item) jobs);
                j = add_target item (the (map_of jobs jobName));
                j = j\<lparr>ji_volumes := ji_volumes j @ [bi_volume item]\<rparr>
            in AList.update jobName j jobs))"

fun group_loop_items ::
  "Configuration \<Rightarrow> Backup \<Rightarrow> nat \<Rightarrow> backupItem list \<Rightarrow> (string \<times> jobItem) list \<Rightarrow> (string \<times> jobItem) list" where
  "group_loop_items cfg b index [] jobs = jobs"
| "group_loop_items cfg b index (item # items) jobs =
     group_loop_items cfg b (Suc index) items (group_item cfg b index item jobs)"

section \<open>Lemmas on the selection\<close>

lemma containsAccessMode_iff [simp]: "containsAccessMode s e \<longleftrightarrow> e \<in> set s"
  by (induction s) auto

lemma volumes_loop_None:
  "volumes_loop pod vs m k = None \<longleftrightarrow> m k = None \<and> (\<forall>v \<in> set vs. \<forall>c. vol_Source v = PvcSource c \<longrightarrow> pvs_ClaimName c \<noteq> k)"
  by (induction vs arbitrary: m) (auto split: volume_source.splits)

lemma volumes_loop_Some:
  "volumes_loop pod vs m k = Some q \<Longrightarrow> m k = Some q \<or> q = pod \<and> (\<exists>v \<in> set vs. \<exists>c. vol_Source v = PvcSource c \<and> pvs_ClaimName c = k)"
proof (induction vs arbitrary: m)
  case (Cons v vs)
  show ?case
  proof (cases "vol_Source v")
    case (PvcSource c)
    then have "volumes_loop pod vs (m(pvs_ClaimName c \<mapsto> pod)) k = Some q" using Cons.prems by simp
    from Cons.IH [OF this] PvcSource show ?thesis by (cases "pvs_ClaimName c = k") auto
  qed (use Cons in simp_all)
qed simp

text \<open>A pod uses a claim.\<close>

definition mounts_claim :: "pod \<Rightarrow> string \<Rightarrow> bool" where
  "mounts_claim pod k \<longleftrightarrow> (\<exists>v \<in> set (ps_Volumes (pod_Spec pod)). \<exists>c. vol_Source v = PvcSource c \<and> pvs_ClaimName c = k)"

lemma pvcPodMap_Some:
  "pvcPodMap pods m k = Some q \<Longrightarrow> m k = Some q \<or> q \<in> set pods \<and> pod_Phase q = PodRunning \<and> mounts_claim q k"
proof (induction pods arbitrary: m)
  case (Cons p pods)
  show ?case
  proof (cases "pod_Phase p = PodRunning")
    case True
    let ?m = "volumes_loop p (ps_Volumes (pod_Spec p)) m"
    from Cons.prems True have "pvcPodMap pods ?m k = Some q" by simp
    from Cons.IH [OF this] show ?thesis
      using volumes_loop_Some [of p "ps_Volumes (pod_Spec p)" m k q] True by (auto simp: mounts_claim_def)
  next
    case False
    then show ?thesis using Cons by auto
  qed
qed simp

lemma pvcPodMap_None:
  "pvcPodMap pods m k = None \<longleftrightarrow>
     m k = None \<and> (\<forall>p \<in> set pods. pod_Phase p = PodRunning \<longrightarrow> \<not> mounts_claim p k)"
  by (induction pods arbitrary: m) (auto simp: volumes_loop_None mounts_claim_def)

lemma pvc_item_Some:
  assumes "pvc_item L K cfg annotation podMap pvc w = (Inr (Some bi), w')"
  shows "\<not> pvc_skipped cfg annotation pvc \<and>
     bi_volume bi = \<lparr>vol_Name = om_Name (pvc_Meta pvc), vol_Source = PvcSource \<lparr>pvs_ClaimName = om_Name (pvc_Meta pvc), pvs_ReadOnly = False\<rparr>\<rparr> \<and>
     restic_args L cfg pvc = Some (bi_resticArgs bi)"
  using assms
  by (auto simp: pvc_item_def new_item_def hostname_override_def Let_def
      split: if_splits option.splits prod.splits sum.splits)

text \<open>The claims an item was built for, in the order of the list.\<close>

lemma pvc_loop_items:
  assumes "pvc_loop L K cfg annotation podMap pvcs items w = (Inr items', w')"
  shows "\<exists>new. items' = items @ new \<and>
     subseq (map (\<lambda>bi. vol_Name (bi_volume bi)) new)
       (map (\<lambda>p. om_Name (pvc_Meta p)) (filter (\<lambda>p. \<not> pvc_skipped cfg annotation p \<and> restic_args L cfg p \<noteq> None) pvcs))"
  using assms
proof (induction pvcs arbitrary: items w)
  case (Cons pvc pvcs)
  obtain r w1 where r: "pvc_item L K cfg annotation podMap pvc w = (r, w1)" by fastforce
  let ?sel = "\<lambda>p. \<not> pvc_skipped cfg annotation p \<and> restic_args L cfg p \<noteq> None"
  show ?case
  proof (cases r)
    case (Inr o')
    show ?thesis
    proof (cases o')
      case None
      then have "pvc_loop L K cfg annotation podMap pvcs items w1 = (Inr items', w')"
        using Cons.prems r Inr by simp
      from Cons.IH [OF this] show ?thesis by (auto intro: list_emb_Cons)
    next
      case (Some bi)
      then have l: "pvc_loop L K cfg annotation podMap pvcs (items @ [bi]) w1 = (Inr items', w')"
        using Cons.prems r Inr by simp
      from Some Inr r have "pvc_item L K cfg annotation podMap pvc w = (Inr (Some bi), w1)" by simp
      note bi = pvc_item_Some [OF this]
      from Cons.IH [OF l] obtain new where "items' = items @ [bi] @ new"
        "subseq (map (\<lambda>bi. vol_Name (bi_volume bi)) new) (map (\<lambda>p. om_Name (pvc_Meta p)) (filter ?sel pvcs))"
        by auto
      then show ?thesis using bi by (intro exI [of _ "bi # new"]) auto
    qed
  qed (use Cons.prems r in simp)
qed auto

text \<open>
  A claim that passes the guards and is used by a running pod, or does not need its node looked
  up, gets an item.
\<close>

lemma pvc_item_complete:
  assumes "\<not> pvc_skipped cfg annotation pvc" "restic_args L cfg pvc \<noteq> None"
    "podMap (om_Name (pvc_Meta pvc)) \<noteq> None \<or> cfg_EnableRelaxedScheduling cfg \<or> \<not> is_rwo pvc"
  shows "\<exists>bi. pvc_item L K cfg annotation podMap pvc w = (Inr (Some bi), w)"
  using assms by (auto simp: pvc_item_def Let_def split: option.splits)

lemma pvc_loop_complete:
  assumes "pvc_loop L K cfg annotation podMap pvcs items w = (Inr items', w')" "pvc \<in> set pvcs"
    "\<not> pvc_skipped cfg annotation pvc" "restic_args L cfg pvc \<noteq> None"
    "podMap (om_Name (pvc_Meta pvc)) \<noteq> None \<or> cfg_EnableRelaxedScheduling cfg \<or> \<not> is_rwo pvc"
  shows "\<exists>bi \<in> set items'. vol_Name (bi_volume bi) = om_Name (pvc_Meta pvc)"
  using assms
proof (induction pvcs arbitrary: items w)
  case (Cons q pvcs)
  show ?case
  proof (cases "q = pvc")
    case True
    then obtain bi where bi: "pvc_item L K cfg annotation podMap q w = (Inr (Some bi), w)"
      using pvc_item_complete [of cfg annotation pvc L podMap K w] Cons.prems(3-5) by blast
    then have l: "pvc_loop L K cfg annotation podMap pvcs (items @ [bi]) w = (Inr items', w')"
      using Cons.prems(1) by simp
    have "vol_Name (bi_volume bi) = om_Name (pvc_Meta pvc)" using pvc_item_Some [OF bi] True by simp
    moreover have "bi \<in> set items'" using pvc_loop_items [OF l] by auto
    ultimately show ?thesis by blast
  next
    case False
    then have mem: "pvc \<in> set pvcs" using Cons.prems(2) by simp
    obtain r w1 where r: "pvc_item L K cfg annotation podMap q w = (r, w1)" by fastforce
    from Cons.prems(1) r obtain items1 where "pvc_loop L K cfg annotation podMap pvcs items1 w1 = (Inr items', w')"
      by (cases r) (auto split: option.splits)
    from Cons.IH [OF this mem Cons.prems(3-5)] show ?thesis .
  qed
qed simp

end
