(* ===== verification/Backup_Grouping.thy ===== *)
theory Backup_Grouping
  imports Backup_Items
begin

text \<open>
  What the grouping loop of \<^verbatim>\<open>startBackup\<close> computes: which claims end up in which
  batch job, in the classic and in the relaxed mode.
\<close>

section \<open>Classic mode\<close>

text \<open>The items of one key, and the job they are expected to be in.\<close>

definition items_at :: "string \<Rightarrow> backupItem list \<Rightarrow> backupItem list" where
  "items_at k items = filter (\<lambda>i. classic_key i = k) items"

definition target_pods :: "backupItem list \<Rightarrow> string list" where
  "target_pods items = filter (\<lambda>p. p \<noteq> []) (map bi_targetPod items)"

definition classic_job :: "Backup \<Rightarrow> nat \<Rightarrow> backupItem list \<Rightarrow> jobItem" where
  "classic_job b index items =
     (new_jobItem b index (hd items))\<lparr>ji_targetPods := target_pods items, ji_volumes := map bi_volume items\<rparr>"

lemma items_at_Nil [simp]: "items_at k [] = []"
  by (simp add: items_at_def)

lemma items_at_snoc: "items_at k (items @ [i]) = items_at k items @ (if classic_key i = k then [i] else [])"
  by (simp add: items_at_def)

lemma add_target_simps [simp]:
  "ji_volumes (add_target i j) = ji_volumes j"
  "ji_job (add_target i j) = ji_job j"
  "ji_resticArgs (add_target i j) = ji_resticArgs j"
  "ji_targetPods (add_target i j) = ji_targetPods j @ target_pods [i]"
  by (simp_all add: add_target_def target_pods_def)

lemma classic_job_snoc:
  "items \<noteq> [] \<Longrightarrow> classic_job b index (items @ [i]) =
     (add_target i (classic_job b index items))\<lparr>ji_volumes := ji_volumes (classic_job b index items) @ [bi_volume i]\<rparr>"
  by (simp add: classic_job_def add_target_def target_pods_def)

lemma classic_job_single:
  "classic_job b index [i] = (add_target i (new_jobItem b index i))\<lparr>ji_volumes := [bi_volume i]\<rparr>"
  by (simp add: classic_job_def add_target_def target_pods_def new_jobItem_def)

text \<open>The state of the loop after the items \<open>seen\<close>: one job per key, made at some index.\<close>

definition classic_jobs :: "Backup \<Rightarrow> backupItem list \<Rightarrow> (string \<times> jobItem) list \<Rightarrow> bool" where
  "classic_jobs b seen jobs \<longleftrightarrow>
     (\<forall>k. (items_at k seen = [] \<longrightarrow> map_of jobs k = None) \<and>
          (items_at k seen \<noteq> [] \<longrightarrow> (\<exists>index < length seen. map_of jobs k = Some (classic_job b index (items_at k seen)))))"

lemma classic_jobs_Nil: "classic_jobs b [] []"
  by (simp add: classic_jobs_def)

lemma group_item_classic:
  assumes "\<not> cfg_EnableRelaxedScheduling cfg" "classic_jobs b seen jobs"
  shows "classic_jobs b (seen @ [item]) (group_item cfg b (length seen) item jobs)"
  unfolding classic_jobs_def
proof (intro allI conjI impI)
  fix k
  let ?jobs' = "group_item cfg b (length seen) item jobs"
  have step: "map_of ?jobs' k = map_of jobs k" if "classic_key item \<noteq> k"
    using assms(1) that by (simp add: group_item_def Let_def update_conv' split: option.splits)
  show "map_of ?jobs' k = None" if "items_at k (seen @ [item]) = []"
    using that assms(2) step by (auto simp: classic_jobs_def items_at_snoc split: if_splits)
  show "\<exists>index < length (seen @ [item]). map_of ?jobs' k = Some (classic_job b index (items_at k (seen @ [item])))"
    if ne: "items_at k (seen @ [item]) \<noteq> []"
  proof (cases "classic_key item = k")
    case False
    then show ?thesis using ne assms(2) step
      by (auto simp: classic_jobs_def items_at_snoc less_Suc_eq)
  next
    case key: True
    show ?thesis
    proof (cases "items_at k seen = []")
      case True
      then have "map_of jobs k = None" using assms(2) by (simp add: classic_jobs_def)
      then have "map_of ?jobs' k = Some (classic_job b (length seen) [item])"
        using assms(1) key by (simp add: group_item_def Let_def update_conv' classic_job_single new_jobItem_def add_target_def)
      then show ?thesis using True key by (auto simp: items_at_snoc)
    next
      case False
      then obtain index where "index < length seen" "map_of jobs k = Some (classic_job b index (items_at k seen))"
        using assms(2) by (auto simp: classic_jobs_def)
      moreover from this have "map_of ?jobs' k = Some (classic_job b index (items_at k seen @ [item]))"
        using assms(1) key False by (simp add: group_item_def Let_def update_conv' classic_job_snoc)
      ultimately show ?thesis using key by (auto simp: items_at_snoc less_Suc_eq)
    qed
  qed
qed

lemma group_loop_classic:
  assumes "\<not> cfg_EnableRelaxedScheduling cfg" "classic_jobs b seen jobs"
  shows "classic_jobs b (seen @ items) (group_loop_items cfg b (length seen) items jobs)"
  using assms(2)
proof (induction items arbitrary: seen jobs)
  case (Cons i items)
  from Cons.IH [OF group_item_classic [OF assms(1) Cons.prems, of i]] show ?case by simp
qed simp

lemma group_classic:
  "\<not> cfg_EnableRelaxedScheduling cfg \<Longrightarrow> classic_jobs b items (group_loop_items cfg b 0 items [])"
  using group_loop_classic [OF _ classic_jobs_Nil] by fastforce

section \<open>Relaxed mode\<close>

definition relaxed_job :: "Backup \<Rightarrow> nat \<Rightarrow> backupItem \<Rightarrow> jobItem" where
  "relaxed_job b index item =
     (new_jobItem b index item)\<lparr>ji_targetPods := target_pods [item],
        ji_volumes := (if vol_Name (bi_volume item) \<noteq> [] then [bi_volume item] else [])\<rparr>"

lemma group_item_relaxed:
  "cfg_EnableRelaxedScheduling cfg \<Longrightarrow>
     group_item cfg b index item jobs = AList.update (relaxed_key index item) (relaxed_job b index item) jobs"
  by (simp add: group_item_def Let_def relaxed_job_def add_target_def target_pods_def new_jobItem_def)

lemma AList_update_new: "k \<notin> fst ` set al \<Longrightarrow> AList.update k v al = al @ [(k, v)]"
  by (induction al) auto

lemma group_loop_relaxed:
  assumes "cfg_EnableRelaxedScheduling cfg"
    "distinct (map fst jobs @ map (\<lambda>(i, item). relaxed_key i item) (enumerate index items))"
  shows "group_loop_items cfg b index items jobs =
     jobs @ map (\<lambda>(i, item). (relaxed_key i item, relaxed_job b i item)) (enumerate index items)"
  using assms(2)
proof (induction items arbitrary: index jobs)
  case (Cons item items)
  then have "relaxed_key index item \<notin> fst ` set jobs" by auto
  with Cons show ?case
    by (simp add: group_item_relaxed [OF assms(1)] AList_update_new)
qed simp

lemma relaxed_keys:
  "\<forall>item \<in> set items. bi_resticArgs item = args \<Longrightarrow>
     map (\<lambda>(i, item). relaxed_key i item) (enumerate index items) =
     map (\<lambda>i. Itoa (int i) @ Join args '','') [index..<index + length items]"
  by (induction items arbitrary: index) (simp_all add: relaxed_key_def upt_rec)

lemma relaxed_keys_distinct:
  "\<forall>item \<in> set items. bi_resticArgs item = args \<Longrightarrow>
     distinct (map (\<lambda>(i, item). relaxed_key i item) (enumerate index items))"
  by (simp only: relaxed_keys) (simp add: distinct_map inj_on_def Itoa_inject)

section \<open>Properties\<close>

definition ex_item :: "string \<Rightarrow> string \<Rightarrow> string \<Rightarrow> string list \<Rightarrow> backupItem" where
  "ex_item claim node pod args =
     \<lparr>bi_volume = \<lparr>vol_Name = claim, vol_Source = PvcSource \<lparr>pvs_ClaimName = claim, pvs_ReadOnly = False\<rparr>\<rparr>,
      bi_node = node, bi_tolerations = [], bi_targetPod = pod, bi_resticArgs = args\<rparr>"

definition sample_backup :: Backup where
  "sample_backup = \<lparr>b_Meta = ex_meta ''b'' 0, b_Spec = ex_backup_spec, b_Status = empty_status\<rparr>"

definition relaxed_config :: Configuration where
  "relaxed_config = (default_config ''k8up'')\<lparr>cfg_EnableRelaxedScheduling := True\<rparr>"

definition ex_pvc :: "string \<Rightarrow> string \<Rightarrow> persistent_volume_claim" where
  "ex_pvc name phase = \<lparr>pvc_Meta = ex_meta name 0, pvc_AccessModes = [ReadWriteMany], pvc_VolumeName = [], pvc_Phase = phase\<rparr>"

text \<open>The claims that are to be backed up.\<close>

definition claim_selected :: "lib \<Rightarrow> Configuration \<Rightarrow> string \<Rightarrow> persistent_volume_claim \<Rightarrow> bool" where
  "claim_selected L cfg annotation pvc \<longleftrightarrow>
     pvc_Phase pvc = ''Bound'' \<and>
     (case om_Annotations (pvc_Meta pvc) annotation of
        None \<Rightarrow> \<not> cfg_SkipWithoutAnnotation cfg \<and>
          (''ReadWriteMany'' \<in> set (pvc_AccessModes pvc) \<or> ''ReadWriteOnce'' \<in> set (pvc_AccessModes pvc))
      | Some v \<Rightarrow> v \<in> {''1'', ''t'', ''T'', ''TRUE'', ''true'', ''True''}) \<and>
     (case om_Annotations (pvc_Meta pvc) (cfg_BackupResticArgsAnnotation cfg) of
        None \<Rightarrow> True
      | Some v \<Rightarrow> \<exists>args. UnmarshalJSON (lib_JsonDecode L) v = Inr args)"

lemma claim_selected_iff:
  "claim_selected L cfg annotation pvc \<longleftrightarrow> \<not> pvc_skipped cfg annotation pvc \<and> restic_args L cfg pvc \<noteq> None"
  by (auto simp: claim_selected_def pvc_skipped_def restic_args_def is_rwo_def containsAccessMode_iff ParseBool_def Let_def k8up_consts
      split: option.splits sum.splits)
text \<open>
  C25. When the pods and the claims could be listed and \<^verbatim>\<open>listAndFilterPVCs\<close> returns,
  the items are in the order of the claims and at most one per claim, each for a claim that is bound,
  whose backup annotation is one of the texts for true, or that has none, is ReadWriteMany or
  ReadWriteOnce, and annotations are not required, and whose annotation with restic arguments, if
  any, parses. And every such claim has an item, unless it is a ReadWriteOnce claim used by no
  running pod in classic mode (then its node has to be looked up first).
\<close>

theorem listAndFilterPVCs_selects:
  assumes "k_ListPods K (om_Namespace (b_Meta b)) (PodsWithoutLabel K8uplabel) w = (Inr pods, w1)"
    "fetchPVCs L K ord b w1 = (Inr claims, w2)"
    "listAndFilterPVCs L K cfg ord annotation b w = (Inr items, w3)"
  shows "subseq (map (\<lambda>bi. vol_Name (bi_volume bi)) items)
      (map (\<lambda>p. om_Name (pvc_Meta p)) (filter (\<lambda>p. claim_selected L cfg annotation p) claims))
    \<and> (\<forall>pvc. pvc \<in> set claims \<and> claim_selected L cfg annotation pvc \<and>
         ((\<exists>p. p \<in> set pods \<and> pod_Phase p = PodRunning \<and> mounts_claim p (om_Name (pvc_Meta pvc)))
          \<or> cfg_EnableRelaxedScheduling cfg \<or> \<not> is_rwo pvc)
       \<longrightarrow> om_Name (pvc_Meta pvc) \<in> set (map (\<lambda>bi. vol_Name (bi_volume bi)) items))"
proof -
  let ?m = "pvcPodMap pods Map.empty"
  have l: "pvc_loop L K cfg annotation ?m claims [] w2 = (Inr items, w3)"
    using assms by (simp add: listAndFilterPVCs_def)
  have all: "om_Name (pvc_Meta pvc) \<in> set (map (\<lambda>bi. vol_Name (bi_volume bi)) items)"
    if "pvc \<in> set claims" "claim_selected L cfg annotation pvc"
      "(\<exists>p. p \<in> set pods \<and> pod_Phase p = PodRunning \<and> mounts_claim p (om_Name (pvc_Meta pvc)))
          \<or> cfg_EnableRelaxedScheduling cfg \<or> \<not> is_rwo pvc" for pvc
  proof -
    have sel: "\<not> pvc_skipped cfg annotation pvc" "restic_args L cfg pvc \<noteq> None"
      using that(2) by (simp_all add: claim_selected_iff)
    have "?m (om_Name (pvc_Meta pvc)) \<noteq> None \<or> cfg_EnableRelaxedScheduling cfg \<or> \<not> is_rwo pvc"
      using that(3) pvcPodMap_None [of pods Map.empty "om_Name (pvc_Meta pvc)"] by auto
    from pvc_loop_complete [OF l that(1) sel this] obtain bi where "bi \<in> set items" "vol_Name (bi_volume bi) = om_Name (pvc_Meta pvc)"
      by (elim bexE)
    then show ?thesis by (simp add: rev_image_eqI)
  qed
  from pvc_loop_items [OF l] have
    "subseq (map (\<lambda>bi. vol_Name (bi_volume bi)) items)
      (map (\<lambda>p. om_Name (pvc_Meta p)) (filter (\<lambda>p. claim_selected L cfg annotation p) claims))"
    by (simp add: claim_selected_iff)
  then show ?thesis by (intro conjI allI impI) (assumption, elim conjE, rule all)
qed

theorem listAndFilterPVCs_selects_witness:
  "\<exists>items w3. listAndFilterPVCs lib_ref kube_ref (default_config ''k8up'') id ''k8up.io/backup'' sample_backup
      (empty_cluster\<lparr>cl_PVCs := [ex_pvc ''a'' ClaimBound, ex_pvc ''b'' ''Pending'']\<rparr>) = (Inr items, w3) \<and>
    ''a'' \<in> set (map (\<lambda>bi. vol_Name (bi_volume bi)) items)"
proof -
  let ?cfg = "default_config ''k8up''"
  let ?w = "empty_cluster\<lparr>cl_PVCs := [ex_pvc ''a'' ClaimBound, ex_pvc ''b'' ''Pending'']\<rparr>"
  note defs = kube_ref_def sample_backup_def ex_pvc_def ex_meta_def empty_cluster_def
  have p: "k_ListPods kube_ref (om_Namespace (b_Meta sample_backup)) (PodsWithoutLabel K8uplabel) ?w = (Inr [], ?w)"
    by (simp add: defs)
  have f: "fetchPVCs lib_ref kube_ref id sample_backup ?w = (Inr [ex_pvc ''a'' ClaimBound, ex_pvc ''b'' ''Pending''], ?w)"
    by (simp add: fetchPVCs_def ex_backup_spec_def defs)
  have s: "\<not> pvc_skipped ?cfg ''k8up.io/backup'' (ex_pvc ''a'' ClaimBound)" "restic_args lib_ref ?cfg (ex_pvc ''a'' ClaimBound) \<noteq> None"
    "\<not> is_rwo (ex_pvc ''a'' ClaimBound)" "om_Name (pvc_Meta (ex_pvc ''a'' ClaimBound)) = ''a''"
    by (simp_all add: pvc_skipped_def restic_args_def is_rwo_def default_config_def ex_pvc_def ex_meta_def empty_meta_def k8up_consts)
  have skip: "pvc_item lib_ref kube_ref ?cfg ''k8up.io/backup'' m (ex_pvc ''b'' ''Pending'') v = (Inr None, v)" for m v
    by (simp add: pvc_item_def pvc_skipped_def ex_pvc_def k8up_consts)
  obtain item where item: "pvc_item lib_ref kube_ref ?cfg ''k8up.io/backup'' Map.empty (ex_pvc ''a'' ClaimBound) ?w = (Inr (Some item), ?w)"
    using pvc_item_complete [OF s(1,2) disjI2 [OF disjI2 [OF s(3)]], of kube_ref Map.empty ?w] by (elim exE)
  have l: "listAndFilterPVCs lib_ref kube_ref ?cfg id ''k8up.io/backup'' sample_backup ?w = (Inr [item], ?w)"
    by (simp only: listAndFilterPVCs_def p f prod.case sum.case pvc_loop.simps pvcPodMap.simps skip item option.case append_Nil)
  have "claim_selected lib_ref ?cfg ''k8up.io/backup'' (ex_pvc ''a'' ClaimBound)" using s by (simp add: claim_selected_iff)
  with listAndFilterPVCs_selects [OF p f l, THEN conjunct2, THEN spec, of "ex_pvc ''a'' ClaimBound"] s(3,4)
  have "''a'' \<in> set (map (\<lambda>bi. vol_Name (bi_volume bi)) [item])" by simp
  with l show ?thesis by blast
qed

text \<open>
  C26. In classic mode the grouping loop computes one job per distinct key (node followed by the
  restic arguments): the job of a key holds the volumes and the target pods of exactly the items
  with this key, in the order they were found, and is built from the first of them. So every
  selected claim is backed up by exactly one job.
\<close>

theorem group_classic_complete:
  assumes "\<not> cfg_EnableRelaxedScheduling cfg"
  shows "\<forall>k. case map_of (group_loop_items cfg b 0 items []) k of
           None \<Rightarrow> items_at k items = []
         | Some j \<Rightarrow> (\<exists>index < length items. j = classic_job b index (items_at k items)) \<and> items_at k items \<noteq> []"
proof
  fix k
  have g: "classic_jobs b items (group_loop_items cfg b 0 items [])" by (rule group_classic [OF assms])
  show "case map_of (group_loop_items cfg b 0 items []) k of
           None \<Rightarrow> items_at k items = []
         | Some j \<Rightarrow> (\<exists>index < length items. j = classic_job b index (items_at k items)) \<and> items_at k items \<noteq> []"
    using g [unfolded classic_jobs_def, THEN spec, of k]
    by (cases "items_at k items = []") (auto split: option.splits)
qed

theorem group_classic_complete_witness:
  "\<not> cfg_EnableRelaxedScheduling (default_config ''k8up'') \<and>
   (\<exists>j index. map_of (group_loop_items (default_config ''k8up'') sample_backup 0
       [ex_item ''a'' ''n1'' ''p'' [], ex_item ''b'' ''n2'' [] [], ex_item ''c'' ''n1'' ''q'' []] []) ''n1'' = Some j \<and>
     j = classic_job sample_backup index [ex_item ''a'' ''n1'' ''p'' [], ex_item ''c'' ''n1'' ''q'' []])"
proof -
  let ?is = "[ex_item ''a'' ''n1'' ''p'' [], ex_item ''b'' ''n2'' [] [], ex_item ''c'' ''n1'' ''q'' []]"
  have c: "\<not> cfg_EnableRelaxedScheduling (default_config ''k8up'')" by (simp add: default_config_def)
  have i: "items_at ''n1'' ?is = [ex_item ''a'' ''n1'' ''p'' [], ex_item ''c'' ''n1'' ''q'' []]"
    by (simp add: items_at_def classic_key_def ex_item_def)
  show ?thesis
    using group_classic_complete [OF c, of ?is sample_backup, THEN spec, of "''n1''"] c
    unfolding i by (auto split: option.splits)
qed

text \<open>
  In relaxed mode, when all selected claims carry the same restic arguments (in particular
  when none carries any), every claim gets a job of its own, in the order the claims were found:
  no two claims share a key.
\<close>

theorem group_relaxed_one_job_each:
  assumes "cfg_EnableRelaxedScheduling cfg" "\<forall>item \<in> set items. bi_resticArgs item = args"
  shows "group_loop_items cfg b 0 items [] =
     map (\<lambda>(i, item). (relaxed_key i item, relaxed_job b i item)) (enumerate 0 items)"
  using group_loop_relaxed [OF assms(1), of "[]" 0 items] relaxed_keys_distinct [OF assms(2)] by simp

theorem group_relaxed_one_job_each_witness:
  "map (ji_volumes \<circ> snd) (group_loop_items relaxed_config sample_backup 0
       [ex_item ''a'' ''n1'' ''p'' [], ex_item ''b'' ''n1'' [] []] []) =
     [[bi_volume (ex_item ''a'' ''n1'' ''p'' [])], [bi_volume (ex_item ''b'' ''n1'' [] [])]]"
  by (subst group_relaxed_one_job_each [where args = "[]"])
    (simp_all add: relaxed_config_def ex_item_def relaxed_job_def)

text \<open>
  With differing restic arguments the keys of the relaxed mode can collide: the index and the
  joined arguments are concatenated without a separator, so item 1 with the argument ``1'' and
  item 11 without arguments share the key ``11''. The later job replaces the earlier one and the
  claim of item 1 is in no job.
\<close>

theorem relaxed_key_collision_drops_claim:
  "\<exists>items lost. lost \<in> set items \<and> vol_Name (bi_volume lost) \<noteq> [] \<and>
     (\<forall>b. bi_volume lost \<notin> set (concat (map (ji_volumes \<circ> snd) (group_loop_items relaxed_config b 0 items []))))"
proof -
  let ?lost = "ex_item ''lost'' [] [] [''1'']"
  let ?o = "\<lambda>n. ex_item n [] [] []"
  let ?items = "[?o ''c0'', ?lost, ?o ''c2'', ?o ''c3'', ?o ''c4'', ?o ''c5'', ?o ''c6'', ?o ''c7'', ?o ''c8'', ?o ''c9'', ?o ''c10'', ?o ''c11'']"
  have key: "nat_numeral (Suc 0) @ ''1'' = nat_numeral 11" by code_simp
  have "bi_volume ?lost \<notin> set (concat (map (ji_volumes \<circ> snd) (group_loop_items relaxed_config b 0 ?items [])))" for b
    by (simp add: group_item_relaxed relaxed_config_def relaxed_key_def Itoa_def ex_item_def relaxed_job_def key)
  moreover have "vol_Name (bi_volume ?lost) \<noteq> []" by (simp add: ex_item_def)
  moreover have "?lost \<in> set ?items" by simp
  ultimately show ?thesis by blast
qed

text \<open>
  The keys of the classic mode can collide as well: a claim on node ``n1'' with the argument
  ``x'' and a claim on node ``n1x'' without arguments share a job, which is pinned to ``n1'' and
  passes ``x'' to restic for both.
\<close>

theorem classic_key_collision_wrong_node:
  "\<exists>items i. i \<in> set items \<and>
     (\<forall>b. \<exists>k j. map_of (group_loop_items (default_config ''k8up'') b 0 items []) k = Some j \<and>
       bi_volume i \<in> set (ji_volumes j) \<and> ji_resticArgs j \<noteq> bi_resticArgs i \<and>
       ps_NodeSelector (pt_Spec (j_Template (ji_job j))) LabelHostname \<noteq> Some (bi_node i))"
proof -
  let ?i = "ex_item ''b'' ''n1x'' [] []"
  let ?items = "[ex_item ''a'' ''n1'' [] [''x''], ?i]"
  have "map_of (group_loop_items (default_config ''k8up'') b 0 ?items []) ''n1x'' = Some (classic_job b 0 ?items)" for b
    by (simp add: default_config_def group_item_def Let_def ex_item_def classic_key_def classic_job_def add_target_def
        target_pods_def new_jobItem_def)
  moreover have "bi_volume ?i \<in> set (ji_volumes (classic_job b 0 ?items))"
    "ji_resticArgs (classic_job b 0 ?items) \<noteq> bi_resticArgs ?i"
    "ps_NodeSelector (pt_Spec (j_Template (ji_job (classic_job b 0 ?items)))) LabelHostname \<noteq> Some (bi_node ?i)" for b
    by (simp_all add: classic_job_def new_jobItem_def ex_item_def createJob_def upd_pod_spec_def)
  moreover have "?i \<in> set ?items" by simp
  ultimately show ?thesis by blast
qed

end
