(* ===== verification/Backup_Controller.thy ===== *)
theory Backup_Controller
  imports Backup_Grouping
begin

text \<open>
  \<^verbatim>\<open>operator/backupcontroller/executor.go\<close>, second part, the rest of
  \<^verbatim>\<open>backup_utils.go\<close>, and \<^verbatim>\<open>controller.go\<close>: the batch jobs of a
  backup, \<^verbatim>\<open>Execute\<close>, the status of a backup from all of its jobs, and
  \<^verbatim>\<open>Provision\<close>.
\<close>

section \<open>The parts of a batch job\<close>

definition newVolumeMounts :: "Configuration \<Rightarrow> volume list \<Rightarrow> volume_mount list" where
  "newVolumeMounts cfg claims =
     map (\<lambda>v. \<lparr>vm_Name = vol_Name v, vm_MountPath = path_Join (cfg_MountPath cfg) (vol_Name v), vm_ReadOnly = True\<rparr>) claims"

definition createServiceAccountAndBinding :: "'w kube \<Rightarrow> Configuration \<Rightarrow> Backup \<Rightarrow> 'w \<Rightarrow> gerr option \<times> 'w" where
  "createServiceAccountAndBinding K cfg b w =
     (let ns = om_Namespace (b_Meta b); sa = cfg_ServiceAccount cfg
      in case k_CreateOrUpdateServiceAccount K \<lparr>nn_Namespace = ns, nn_Name = sa\<rparr> w of
           (Some err, w) \<Rightarrow> (Some err, w)
         | (None, w) \<Rightarrow>
             k_CreateOrUpdateRoleBinding K \<lparr>nn_Namespace = ns, nn_Name = cfg_PodExecRoleName cfg @ ''-namespaced''\<rparr>
               sa ''k8up-executor'' w)"

definition backup_setupArgs :: "Configuration \<Rightarrow> Backup \<Rightarrow> string list \<Rightarrow> string list" where
  "backup_setupArgs cfg b userArgs =
     [''-varDir'', cfg_PodVarDir cfg] @
     (if length (bs_Tags (b_Spec b)) > 0 then BuildListArgs ''--tag'' (bs_Tags (b_Spec b)) else []) @
     (case rs_Backend (bs_RunnableSpec (b_Spec b)) of
        Some be \<Rightarrow> AppendTLSOptionsArgs (be_TLSOptions be) []
      | None \<Rightarrow> []) @
     userArgs"

definition backup_setupEnvVars :: "lib \<Rightarrow> Configuration \<Rightarrow> Backup \<Rightarrow> env_var list result" where
  "backup_setupEnvVars L cfg b =
     (let vars = set_backend_vars cfg (rs_Backend (bs_RunnableSpec (b_Spec b))) NewEnvVarConverter;
          vars = SetStringOrDefault ''STATS_URL'' (bs_StatsURL (b_Spec b)) (cfg_GlobalStatsURL cfg) vars;
          vars = SetStringOrDefault ''PROM_URL'' (bs_PromURL (b_Spec b)) (cfg_PromURL cfg) vars;
          vars = SetStringOrDefault ''CLUSTER_NAME'' (bs_ClusterName (b_Spec b)) (cfg_ClusterName cfg) vars;
          vars = SetString ''BACKUPCOMMAND_ANNOTATION'' (cfg_BackupCommandAnnotation cfg) vars;
          vars = SetString ''FILEEXTENSION_ANNOTATION'' (cfg_FileExtensionAnnotation cfg) vars;
          vars = (if cfg_SkipSnapshotSync cfg then SetString ''BACKUP_SKIP_SNAPSHOT_SYNC'' ''true'' vars else vars)
      in case Merge (lib_MergoVars L) vars (DefaultEnv cfg (om_Namespace (b_Meta b))) of
           (Some err, _) \<Rightarrow> Inl (Wrapped ''cannot merge environment variables'' err)
         | (None, vars) \<Rightarrow> Inr (Convert (lib_Order L vars) vars))"

definition backup_attachTLSVolumeMounts :: "Configuration \<Rightarrow> Backup \<Rightarrow> volume_mount list" where
  "backup_attachTLSVolumeMounts cfg b =
     AttachEmptyDirVolumeMounts (cfg_PodVarDir cfg) [Some (backend_mounts (rs_Backend (bs_RunnableSpec (b_Spec b))))]"

text \<open>
  The variables the closure appends one after the other; \<open>index\<close> counts the jobs created
  before this one.
\<close>

definition job_env_vars :: "Configuration \<Rightarrow> string \<Rightarrow> nat \<Rightarrow> jobItem \<Rightarrow> env_var list" where
  "job_env_vars cfg name index ji =
     (if length (ji_targetPods ji) > 0 then [\<lparr>ev_Name = ''TARGET_PODS'', ev_Value = Join (ji_targetPods ji) '','', ev_ValueFrom = None\<rparr>] else []) @
     (if ji_skipPreBackup ji then [\<lparr>ev_Name = ''SKIP_PREBACKUP'', ev_Value = ''true'', ev_ValueFrom = None\<rparr>] else []) @
     (if cfg_InsecureAllowPodExecSPDYFallback cfg then [\<lparr>ev_Name = SPDYFallbackEnvName, ev_Value = ''true'', ev_ValueFrom = None\<rparr>] else []) @
     (if name = ''prebackup'' \<or> index \<noteq> 0
      then [\<lparr>ev_Name = ''SLEEP_DURATION'', ev_Value = duration_string (index * 10), ev_ValueFrom = None\<rparr>] else [])"

definition backup_mutate ::
  "lib \<Rightarrow> 'w kube \<Rightarrow> Configuration \<Rightarrow> Config \<Rightarrow> Backup \<Rightarrow> string \<Rightarrow> nat \<Rightarrow> jobItem \<Rightarrow> batch_job \<Rightarrow> 'w
   \<Rightarrow> batch_job result \<times> 'w" where
  "backup_mutate L K cfg config b name index ji batchJob w =
     (case MutateBatchJob L K cfg batchJob (BackupObj b) config w of (r, w) \<Rightarrow>
        (rbind r (\<lambda>j.
         rbind (backup_setupEnvVars L cfg b) (\<lambda>vars.
         rbind (upd_container0 (append_env (vars @ job_env_vars cfg name index ji)) j) (\<lambda>j.
         rbind (upd_container0 (AppendEnvFromToContainer (bs_RunnableSpec (b_Spec b))) j) (\<lambda>j.
         (let j = append_volumes (ji_volumes ji) j;
              j = append_volumes (AttachEmptyDirVolumes (rs_Volumes (bs_RunnableSpec (b_Spec b)))) j
          in rbind (upd_container0 (append_mounts (newVolumeMounts cfg (ji_volumes ji))) j) (\<lambda>j.
             rbind (upd_container0 (append_mounts (backup_attachTLSVolumeMounts cfg b)) j) (\<lambda>j.
             (let j = j\<lparr>j_BackoffLimit := Some (cfg_GlobalBackoffLimit cfg)\<rparr>
              in rbind (upd_container0 (set_args (backup_setupArgs cfg b (ji_resticArgs ji))) j) (\<lambda>j.
                 Inr (default_service_account cfg j)))))))))), w))"

section \<open>Creating the jobs\<close>

text \<open>The loop from the last index down that removes elements in place.\<close>

fun remove_nonviable :: "string list \<Rightarrow> nat \<Rightarrow> pod list \<Rightarrow> pod list" where
  "remove_nonviable names 0 items = items"
| "remove_nonviable names (Suc i) items =
     remove_nonviable names i
       (if om_Name (pod_Meta (items ! i)) \<notin> set names then take i items @ drop (i + 1) items else items)"

definition prebackup_job :: "Backup \<Rightarrow> string list \<Rightarrow> jobItem" where
  "prebackup_job b targetPods =
     \<lparr>ji_job = createJob b ''prebackup'' [] [], ji_targetPods = targetPods, ji_volumes = [], ji_resticArgs = [],
      ji_skipPreBackup = False\<rparr>"

definition add_prebackup_job :: "Backup \<Rightarrow> string list \<Rightarrow> pod list \<Rightarrow> (string \<times> jobItem) list \<Rightarrow> (string \<times> jobItem) list" where
  "add_prebackup_job b viableNames backupPods jobs =
     (if length backupPods > 0
      then (let targetPods = filter (\<lambda>n. n \<in> set viableNames) (map (\<lambda>p. om_Name (pod_Meta p)) backupPods)
            in AList.update ''prebackup'' (prebackup_job b targetPods) jobs)
      else jobs)"

text \<open>
  The loop over the map of jobs, in the order \<open>names\<close> the runtime chose. The closure runs
  once per call and counts up when it succeeds; after an error the loop is left.
\<close>

fun run_jobs ::
  "lib \<Rightarrow> 'w kube \<Rightarrow> Configuration \<Rightarrow> Config \<Rightarrow> Backup \<Rightarrow> (string \<times> jobItem) list \<Rightarrow> string list \<Rightarrow> nat \<Rightarrow> 'w
   \<Rightarrow> gerr option \<times> 'w" where
  "run_jobs L K cfg config b jobs [] index w = (None, w)"
| "run_jobs L K cfg config b jobs (name # names) index w =
     (case map_of jobs name of
        None \<Rightarrow> run_jobs L K cfg config b jobs names index w
      | Some ji \<Rightarrow>
         (case k_CreateOrUpdateJob K (ji_job ji) (backup_mutate L K cfg config b name index ji) w of
            ((Some err, j), w) \<Rightarrow>
              (Some (if is_panic err then err
                     else Wrapped (''unable to createOrUpdate('' @ [CHR 0x22] @ om_Name (j_Meta j) @ [CHR 0x22] @ '')'') err), w)
          | ((None, j), w) \<Rightarrow> run_jobs L K cfg config b jobs names (Suc index) w))"

definition nothing_to_backup :: "lib \<Rightarrow> 'w kube \<Rightarrow> Backup \<Rightarrow> 'w \<Rightarrow> (gerr option \<times> Backup) \<times> 'w" where
  "nothing_to_backup L K b w =
     (let obj = SetStatus (SetSucceeded (lib_Meta L) ''nothing to backup'' (GetStatus (BackupObj b))) (BackupObj b)
      in case k_StatusUpdate K obj w of ((err, obj), w) \<Rightarrow> ((err, as_backup obj b), w))"

text \<open>From the listed items on.\<close>

definition create_backup_jobs ::
  "lib \<Rightarrow> 'w kube \<Rightarrow> Configuration \<Rightarrow> Config \<Rightarrow> (string list \<Rightarrow> string list) \<Rightarrow> backupItem list \<Rightarrow> Backup \<Rightarrow> 'w
   \<Rightarrow> (gerr option \<times> Backup) \<times> 'w" where
  "create_backup_jobs L K cfg config ord backupItems b w =
     (let backupJobs = group_loop_items cfg b 0 backupItems [];
          podLister = NewPodLister (cfg_BackupCommandAnnotation cfg) [] [] (om_Namespace (b_Meta b)) [] False
      in case ListPods K podLister w of
           (Inl err, w) \<Rightarrow> ((Some (if is_panic err then err else Wrapped ''could not list pods'' err), b), w)
         | (Inr viableBackupPods, w) \<Rightarrow>
            (let viableNames = map bp_PodName viableBackupPods
             in case fetchCandidatePods L K ord b w of
                  (Inl err, w) \<Rightarrow> ((Some (Wrapped ''failed to fetch candidate pods'' err), b), w)
                | (Inr backupPods, w) \<Rightarrow>
                   (let backupPods = remove_nonviable viableNames (length backupPods) backupPods;
                        backupJobs = add_prebackup_job b viableNames backupPods backupJobs
                    in case run_jobs L K cfg config b backupJobs (ord (map fst backupJobs)) 0 w of
                         (Some err, w) \<Rightarrow> ((Some err, b), w)
                       | (None, w) \<Rightarrow>
                          (if length backupJobs = 0 then nothing_to_backup L K b w else ((None, b), w)))))"

definition startBackup ::
  "lib \<Rightarrow> 'w kube \<Rightarrow> Configuration \<Rightarrow> (string list \<Rightarrow> string list) \<Rightarrow> string \<Rightarrow> Backup \<Rightarrow> 'w
   \<Rightarrow> (gerr option \<times> Backup) \<times> 'w" where
  "startBackup L K cfg ord repository b w =
     (case StartPreBackup L K cfg ord b w of
        (((ready, Some err), b), w) \<Rightarrow> ((Some err, b), w)
      | (((ready, None), b), w) \<Rightarrow>
         (if \<not> ready \<or> IsWaitingForPreBackup (lib_Meta L) (b_Status b) then ((None, b), w)
          else case listAndFilterPVCs L K cfg ord (cfg_BackupAnnotation cfg) b w of
                 (Inl err, w) \<Rightarrow>
                   (if is_panic err then ((Some err, b), w)
                    else case on_backup (SetConditionFalseWithMessage L K ConditionReady ReasonRetrievalFailed (err_text err)) b w of
                           (b, w) \<Rightarrow> ((Some err, b), w))
               | (Inr backupItems, w) \<Rightarrow>
                   create_backup_jobs L K cfg (NewConfig (BackupObj b) repository) ord backupItems b w))"

definition backup_Execute ::
  "lib \<Rightarrow> 'w kube \<Rightarrow> Configuration \<Rightarrow> (string list \<Rightarrow> string list) \<Rightarrow> string \<Rightarrow> Backup \<Rightarrow> ('w, JobObject) runnable" where
  "backup_Execute L K cfg ord repository b obj e =
     (let b = as_backup obj b
      in case in_world (createServiceAccountAndBinding K cfg b) e of
           (Some err, e) \<Rightarrow> ((Some err, obj), e)
         | (None, e) \<Rightarrow>
            (case in_world (startBackup L K cfg ord repository b) e of
               ((err, b), e) \<Rightarrow> ((err, BackupObj b), e)))"

section \<open>The status of a backup\<close>

fun count_loop :: "batch_job list \<Rightarrow> nat \<times> nat \<times> nat \<Rightarrow> nat \<times> nat \<times> nat" where
  "count_loop [] c = c"
| "count_loop (item # items) (numSucceeded, numFailed, numStarted) =
     (let conditions = js_Conditions (j_Status item);
          numSucceeded = (if JobHasSucceeded conditions then numSucceeded + 1 else numSucceeded);
          numFailed = (if JobHasFailed conditions then numFailed + 1 else numFailed);
          numStarted = (if JobHasStarted conditions then numStarted + 1 else numStarted)
      in count_loop items (numSucceeded, numFailed, numStarted))"

definition backup_ownedBy :: "Backup \<Rightarrow> string" where
  "backup_ownedBy b = BackupType @ ''_'' @ om_Name (b_Meta b)"

definition counts_message :: "Backup \<Rightarrow> nat \<Rightarrow> nat \<Rightarrow> nat \<Rightarrow> string" where
  "counts_message b s f st = [CHR 0x22] @ backup_ownedBy b @ [CHR 0x22] @ '' has '' @ nat_numeral s @ '' succeeded, '' @
     nat_numeral f @ '' failed, and '' @ nat_numeral st @ '' started jobs''"

text \<open>The new status and metrics from the list of jobs.\<close>

definition backup_status ::
  "meta_api \<Rightarrow> Backup \<Rightarrow> batch_job list \<Rightarrow> Status \<Rightarrow> Metrics \<Rightarrow> Status \<times> Metrics" where
  "backup_status M b items objStatus m =
     (case count_loop items (0, 0, 0) of (numSucceeded, numFailed, numStarted) \<Rightarrow>
        (let message = counts_message b numSucceeded numFailed numStarted;
             ns = om_Namespace (b_Meta b)
         in if length items = numSucceeded then JobSetSucceeded M (backup_ownedBy b) ns BackupType message objStatus m
            else if numFailed > 0 then JobSetFailed M (backup_ownedBy b) ns BackupType message objStatus m
            else if numStarted > 0 then (SetStarted M message objStatus, m)
            else (objStatus, m)))"

definition backup_ReconcileJobStatus ::
  "lib \<Rightarrow> 'w kube \<Rightarrow> Backup \<Rightarrow> 'w env \<Rightarrow> (gerr option \<times> JobObject) \<times> 'w env" where
  "backup_ReconcileJobStatus L K b e =
     (case in_world (k_ListJobs K [LabelK8upOwnedBy \<mapsto> backup_ownedBy b] (Some (om_Namespace (b_Meta b)))) e of
        (Inl err, e) \<Rightarrow> ((Some (Wrapped ''list jobs'' err), BackupObj b), e)
      | (Inr items, e) \<Rightarrow>
         (if length items = 0 then ((None, BackupObj b), e)
          else case backup_status (lib_Meta L) b items (b_Status b) (env_Metrics e) of (objStatus, m) \<Rightarrow>
                 (case in_world (k_StatusUpdate K (SetStatus objStatus (BackupObj b))) (e\<lparr>env_Metrics := m\<rparr>) of
                    ((Some err, obj), e) \<Rightarrow> ((Some (Wrapped ''backup status update failed'' err), obj), e)
                  | ((None, obj), e) \<Rightarrow> ((None, obj), e))))"

section \<open>Provision\<close>

definition prebackup_stopped :: "meta_api \<Rightarrow> Status \<Rightarrow> bool" where
  "prebackup_stopped M s =
     (case FindStatusCondition M (st_Conditions s) ConditionPreBackupPodReady of
        None \<Rightarrow> False
      | Some c \<Rightarrow> cond_Reason c = ReasonFinished \<or> cond_Reason c = ReasonFailed \<or> cond_Reason c = ReasonNoPreBackupPodsFound)"

definition scrubbed :: "meta_api \<Rightarrow> Status \<Rightarrow> bool" where
  "scrubbed M s =
     (case FindStatusCondition M (st_Conditions s) ConditionScrubbed of
        None \<Rightarrow> False
      | Some c \<Rightarrow> cond_Reason c = ReasonSucceeded)"

text \<open>The branch for finished backups and failed pre-backup pods.\<close>

definition finish_backup ::
  "lib \<Rightarrow> 'w kube \<Rightarrow> Configuration \<Rightarrow> (string list \<Rightarrow> string list) \<Rightarrow> Backup \<Rightarrow> JobObject \<Rightarrow> 'w env
   \<Rightarrow> ((Result \<times> gerr option) \<times> JobObject) \<times> 'w env" where
  "finish_backup L K cfg ord b obj e =
     (case (if \<not> scrubbed (lib_Meta L) (GetStatus obj) then in_world (CleanupOldResources L K cfg obj) e else (obj, e)) of
        (obj, e) \<Rightarrow>
         (if prebackup_stopped (lib_Meta L) (GetStatus obj) then (((no_result, None), obj), e)
          else case in_world (StopPreBackupDeployments L K cfg ord (as_backup obj b)) e of
                 ((Some p, b), e) \<Rightarrow> (((no_result, Some p), BackupObj b), e)
               | ((None, b), e) \<Rightarrow> (((\<lparr>RequeueAfter = 30\<rparr>, None), BackupObj b), e)))"

definition BackupProvision ::
  "lib \<Rightarrow> 'w kube \<Rightarrow> Configuration \<Rightarrow> (string list \<Rightarrow> string list) \<Rightarrow> Backup \<Rightarrow> 'w env
   \<Rightarrow> ((Result \<times> gerr option) \<times> JobObject) \<times> 'w env" where
  "BackupProvision L K cfg ord b e =
     (let repository = repository_of cfg (rs_Backend (bs_RunnableSpec (b_Spec b)))
      in case backup_ReconcileJobStatus L K b e of
           ((Some err, obj), e) \<Rightarrow> (((no_result, Some err), obj), e)
         | ((None, obj), e) \<Rightarrow>
            (if HasStarted (lib_Meta L) (GetStatus obj) then (((\<lparr>RequeueAfter = 5\<rparr>, None), obj), e)
             else if HasFinished (lib_Meta L) (GetStatus obj) \<or> isPrebackupFailed (lib_Meta L) (GetStatus obj)
             then finish_backup L K cfg ord b obj e
             else case locked_run L K repository (NewConfig obj repository) (cfg_GlobalConcurrentBackupJobsLimit cfg)
                         (\<lambda>obj. backup_Execute L K cfg ord repository b obj) obj e of
                    (((didRun, err), obj), e) \<Rightarrow> (((\<lparr>RequeueAfter = 30\<rparr>, err), obj), e)))"

end
