(* ===== verification/Job_Submission.thy ===== *)
theory Job_Submission
  imports Backup_Controller
begin

text \<open>
  Which batch jobs a reconciliation hands to the API server: lemmas over the observer
  \<open>job_log\<close>, one per operation, up to the \<^verbatim>\<open>Provision\<close> methods.
\<close>

section \<open>Operations that submit no job\<close>

context job_log begin

lemmas quiet_calls = keeps_reads [THEN keepsD] keeps_writes [THEN keepsD]

lemma patchConditions_keeps: "keeps submitted (patchConditions L K st r msg c obj)"
  by (rule keepsI) (auto simp: patchConditions_def Let_def split: prod.splits dest: quiet_calls)

lemma conditions_keep:
  "keeps submitted (SetConditionTrue L K c r obj)"
  "keeps submitted (SetConditionUnknownWithMessage L K c r msg obj)"
  "keeps submitted (SetConditionTrueWithMessage L K c r msg obj)"
  "keeps submitted (SetConditionFalseWithMessage L K c r msg obj)"
  using patchConditions_keeps
  by (simp_all add: keeps_def SetConditionTrue_def SetConditionUnknownWithMessage_def
      SetConditionTrueWithMessage_def SetConditionFalseWithMessage_def)

lemma Config_SetStarted_keeps: "keeps submitted (Config_SetStarted L K msg obj)"
  by (rule keepsI) (auto simp: Config_SetStarted_def Let_def split: prod.splits dest: quiet_calls)

lemma on_backup_keeps: "(\<And>obj. keeps submitted (f obj)) \<Longrightarrow> keeps submitted (on_backup f b)"
  by (rule keepsI) (auto simp: on_backup_def split: prod.splits dest: keepsD)

lemma deleteJob_keeps: "keeps submitted (deleteJob K obj)"
  by (rule keepsI) (auto simp: deleteJob_def split: prod.splits option.splits dest: quiet_calls)

lemma delete_loop_keeps: "delete_loop K objs i n w = (r, w') \<Longrightarrow> submitted w' = submitted w"
proof (induction n arbitrary: i w)
  case (Suc n)
  then show ?case
    by (auto split: if_splits prod.splits option.splits dest: keepsD [OF deleteJob_keeps])
qed simp

lemma cleanOldObjects_keeps: "keeps submitted (cleanOldObjects K objs n)"
  by (rule keepsI) (auto simp: cleanOldObjects_def Let_def split: if_splits dest: delete_loop_keeps)

lemma CleanOldObjects_keeps: "keeps submitted (CleanOldObjects L K cfg limits objs)"
  by (rule keepsI) (auto simp: CleanOldObjects_def split: prod.splits sum.splits option.splits
      dest!: keepsD [OF cleanOldObjects_keeps])

lemma listOldResources_keeps: "keeps submitted (listOldResources L K ns obj)"
  by (rule keepsI) (auto simp: listOldResources_def split: prod.splits sum.splits
      dest!: keepsD [OF conditions_keep(4)] quiet_calls)

lemma CleanupOldResources_keeps: "keeps submitted (CleanupOldResources L K cfg obj)"
  by (rule keepsI) (auto simp: CleanupOldResources_def Let_def split: prod.splits sum.splits option.splits
      dest!: keepsD [OF conditions_keep(4)] keepsD [OF conditions_keep(3)]
        keepsD [OF listOldResources_keeps] keepsD [OF CleanOldObjects_keeps])

lemma fetchRunningJobs_keeps: "keeps submitted (fetchRunningJobs L K l)"
  by (rule keepsI) (auto simp: fetchRunningJobs_def split: prod.splits sum.splits dest: quiet_calls)

lemma in_world_keeps:
  "keeps submitted f \<Longrightarrow> in_world f e = (r, e') \<Longrightarrow> submitted (env_World e') = submitted (env_World e)"
  by (auto simp: in_world_Pair dest: keepsD)

lemma ReconcileJobStatus_keeps:
  "ReconcileJobStatus L K key obj e = (r, e') \<Longrightarrow> submitted (env_World e') = submitted (env_World e)"
  by (auto simp: ReconcileJobStatus_def split: prod.splits sum.splits if_splits option.splits
      dest!: in_world_keeps [OF keeps_reads(2)] in_world_keeps [OF keeps_writes(1)])

section \<open>The four executors\<close>

lemmas mutate_keeps_defs = keeps_def check_mutate_def prune_mutate_def archive_mutate_def
  restore_mutate_def backup_mutate_def

lemma mutate_keeps:
  "keeps submitted (check_mutate L K cfg config c j)"
  "keeps submitted (prune_mutate L K cfg config p j)"
  "keeps submitted (archive_mutate L K cfg config a j)"
  "keeps submitted (restore_mutate L K cfg config r j)"
  "keeps submitted (backup_mutate L K cfg config b name i ji j)"
  using MutateBatchJob_keeps [of submitted K L cfg j, OF keeps_reads(1)]
  by (simp_all add: mutate_keeps_defs split: prod.splits) (metis snd_conv)+

lemma finish_execute_keeps:
  "finish_execute L K r obj e = (r', e') \<Longrightarrow> submitted (env_World e') = submitted (env_World e)"
  by (auto simp: finish_execute_def split: prod.splits option.splits if_splits
      dest!: in_world_keeps [OF conditions_keep(4)] in_world_keeps [OF Config_SetStarted_keeps])

lemma submit_in_world:
  assumes "\<And>j. keeps submitted (f j)" "in_world (k_CreateOrUpdateJob K j f) e = (r, e')"
  shows "submitted (env_World e') = submitted (env_World e) @ [job_key j]"
proof -
  obtain w where w: "k_CreateOrUpdateJob K j f (env_World e) = (r, w)" "e' = e\<lparr>env_World := w\<rparr>"
    using assms(2) by (auto simp: in_world_Pair)
  show ?thesis using submit [OF assms(1) w(1)] w(2) by simp
qed

lemma job_key_new_job [simp]: "job_key (new_job ns name) = \<lparr>nn_Namespace = ns, nn_Name = name\<rparr>"
  by (simp add: job_key_def new_job_def)

lemma check_Execute_submits:
  "check_Execute L K cfg config c obj e = (r, e') \<Longrightarrow>
   submitted (env_World e') = submitted (env_World e) @ [\<lparr>nn_Namespace = om_Namespace (c_Meta c), nn_Name = check_jobName c\<rparr>]"
  by (auto simp: check_Execute_def split: prod.splits dest!: finish_execute_keeps submit_in_world [OF mutate_keeps(1)])

lemma prune_Execute_submits:
  "prune_Execute L K cfg config p obj e = (r, e') \<Longrightarrow>
   submitted (env_World e') = submitted (env_World e) @ [\<lparr>nn_Namespace = om_Namespace (p_Meta p), nn_Name = prune_jobName p\<rparr>]"
  by (auto simp: prune_Execute_def split: prod.splits dest!: finish_execute_keeps submit_in_world [OF mutate_keeps(2)])

lemma archive_Execute_submits:
  "archive_Execute L K cfg config a obj e = (r, e') \<Longrightarrow>
   submitted (env_World e') = submitted (env_World e) @
     [\<lparr>nn_Namespace = om_Namespace (a_Meta a), nn_Name = archive_jobName (cf_Obj config)\<rparr>]"
  by (auto simp: archive_Execute_def split: prod.splits dest!: finish_execute_keeps submit_in_world [OF mutate_keeps(3)])

lemma restore_Execute_submits:
  "restore_Execute L K cfg config r obj e = (res, e') \<Longrightarrow>
   submitted (env_World e') = submitted (env_World e) @
     [\<lparr>nn_Namespace = om_Namespace (r_Meta r), nn_Name = restore_jobName (cf_Obj config)\<rparr>]"
  by (auto simp: restore_Execute_def split: prod.splits option.splits if_splits
      dest!: submit_in_world [OF mutate_keeps(4)] in_world_keeps [OF conditions_keep(4)]
        in_world_keeps [OF Config_SetStarted_keeps])

end

section \<open>The flow of Provision\<close>

text \<open>
  What the controllers rely on of a status update: the object comes back as the same object, and
  with the conditions it was sent with when there was no error.
\<close>

locale job_server = job_log K submitted for K :: "'w kube" and submitted +
  assumes status_identity: "k_StatusUpdate K obj w = ((err, obj'), w') \<Longrightarrow>
      GetType obj' = GetType obj \<and> MapToNamespacedName (obj_meta obj') = MapToNamespacedName (obj_meta obj)"
    and status_content: "k_StatusUpdate K obj w = ((None, obj'), w') \<Longrightarrow>
      st_Conditions (GetStatus obj') = st_Conditions (GetStatus obj)"

interpretation kube_ref: job_server kube_ref cl_Submitted
  by unfold_locales (auto simp: kube_ref_def ref_put_def split: if_splits)

lemma UpdateStatus_SetStatus: "\<exists>s. fst (UpdateStatus M j obj m) = SetStatus s obj"
  by (auto simp: UpdateStatus_def Let_def split: prod.splits)

lemma UpdateStatus_identity:
  "GetType (fst (UpdateStatus M j obj m)) = GetType obj"
  "obj_meta (fst (UpdateStatus M j obj m)) = obj_meta obj"
  using UpdateStatus_SetStatus [of M j obj m] job_object.kind_put job_object.meta_put by auto

lemma UpdateStatus_verdict:
  assumes "meta_laws M" "JobHasStarted (conds_of j) \<or> JobHasSucceeded (conds_of j) \<or> JobHasFailed (conds_of j)"
  shows "HasStarted M (GetStatus (fst (UpdateStatus M j obj m))) \<or> HasFinished M (GetStatus (fst (UpdateStatus M j obj m)))"
proof -
  have done_ok: "HasFinished M (fst (JobSetSucceeded M n ns jt msg s m))" for n ns jt msg s m
    by (simp add: JobSetSucceeded_def Let_def HasFinished_def HasFailed_def [of M "SetFinished M _ _"]
        meta_laws.set_finished_frame [OF assms(1)] meta_laws.set_succeeded_succeeded [OF assms(1)]
        meta_laws.set_succeeded_prebackup [OF assms(1)])
  have done_failed: "HasFinished M (fst (JobSetFailed M n ns jt msg s m))" for n ns jt msg s m
    by (simp add: JobSetFailed_def Let_def HasFinished_def meta_laws.set_finished_frame [OF assms(1)]
        meta_laws.set_failed_failed [OF assms(1)])
  have started: "HasStarted M (SetStarted M msg s)" for msg s by (rule meta_laws.set_started_started [OF assms(1)])
  show ?thesis
    using assms(2) started_not_ended done_ok done_failed started
    by (auto simp: UpdateStatus_def Let_def job_object.queries_get_put split: prod.splits)
      (metis fst_conv)+
qed

lemma started_cong: "st_Conditions s = st_Conditions s' \<Longrightarrow> HasStarted M s = HasStarted M s'"
  by (simp add: HasStarted_def)

lemma finished_cong: "st_Conditions s = st_Conditions s' \<Longrightarrow> HasFinished M s = HasFinished M s'"
  by (simp add: status_queries)

context job_server begin

lemma ReconcileJobStatus_identity:
  assumes "ReconcileJobStatus L K key obj e = ((err, obj'), e')"
  shows "GetType obj' = GetType obj \<and> MapToNamespacedName (obj_meta obj') = MapToNamespacedName (obj_meta obj)"
proof -
  consider "obj' = obj"
    | j m err' w w' where "k_StatusUpdate K (fst (UpdateStatus (lib_Meta L) j obj m)) w = ((err', obj'), w')"
    using assms
    by (auto simp: ReconcileJobStatus_def in_world_Pair split: prod.splits sum.splits if_splits option.splits)
      (metis fst_conv)+
  then show ?thesis by cases (auto dest!: status_identity simp: UpdateStatus_identity)
qed

text \<open>After a batch job was found that runs or has ended, the object is started or finished.\<close>

lemma ReconcileJobStatus_ended:
  assumes "lib_laws L" "k_GetJob K key (env_World e) = (Inr j, w1)"
    "JobHasStarted (conds_of j) \<or> JobHasSucceeded (conds_of j) \<or> JobHasFailed (conds_of j)"
    "ReconcileJobStatus L K key obj e = ((None, obj'), e')"
  shows "HasStarted (lib_Meta L) (GetStatus obj') \<or> HasFinished (lib_Meta L) (GetStatus obj')"
proof -
  let ?M = "lib_Meta L"
  have ml: "meta_laws ?M" using assms(1) by (rule lib_laws.axioms)
  obtain o1 m where u: "UpdateStatus ?M j obj (env_Metrics e) = (o1, m)" by fastforce
  then obtain w w' where "k_StatusUpdate K o1 w = ((None, obj'), w')"
    using assms(2,4) by (auto simp: ReconcileJobStatus_def in_world_def split: prod.splits option.splits)
  then have c: "st_Conditions (GetStatus obj') = st_Conditions (GetStatus o1)" by (rule status_content)
  have "HasStarted ?M (GetStatus o1) \<or> HasFinished ?M (GetStatus o1)"
    using UpdateStatus_verdict [OF ml, of j obj "env_Metrics e"] assms(3) u by simp
  then show ?thesis using started_cong [OF c] finished_cong [OF c] by simp
qed

text \<open>A run under either guard submits what the runnable submits, or nothing.\<close>

lemma GetForRepository_world: "GetForRepository repo e = (l, e') \<Longrightarrow> env_World e' = env_World e"
  by (auto simp: GetForRepository_def Let_def split: option.splits)

lemma locked_run_submits:
  assumes "locked_run L K repo config limit r obj e = (((b, err), obj'), e')"
    and "\<And>e1 res e2. r obj e1 = (res, e2) \<Longrightarrow> submitted (env_World e2) = submitted (env_World e1) @ [k]"
  shows "submitted (env_World e') = submitted (env_World e) @ (if b then [k] else [])"
  using assms(1)
  by (auto simp: locked_run_def TryRun_def Let_def split: prod.splits sum.splits if_splits
      dest!: in_world_keeps [OF fetchRunningJobs_keeps] GetForRepository_world assms(2))

lemma locked_run_exclusively_submits:
  assumes "locked_run_exclusively L K repo r obj e = (((b, err), obj'), e')"
    and "\<And>e1 res e2. r obj e1 = (res, e2) \<Longrightarrow> submitted (env_World e2) = submitted (env_World e1) @ [k]"
  shows "submitted (env_World e') = submitted (env_World e) @ (if b then [k] else [])"
  using assms(1)
  by (auto simp: locked_run_exclusively_def TryRunExclusively_def split: prod.splits sum.splits if_splits
      dest!: in_world_keeps [OF fetchRunningJobs_keeps] GetForRepository_world assms(2))

lemma provision_flow_submits:
  assumes "provision_flow L K cfg key rq try_run obj e = ((r, obj'), e')"
    and "\<And>obj1 e1 b err obj2 e2. GetType obj1 = GetType obj \<Longrightarrow>
        MapToNamespacedName (obj_meta obj1) = MapToNamespacedName (obj_meta obj) \<Longrightarrow>
        try_run obj1 e1 = (((b, err), obj2), e2) \<Longrightarrow>
        submitted (env_World e2) = submitted (env_World e1) @ (if b then [key] else [])"
  shows "\<exists>b. submitted (env_World e') = submitted (env_World e) @ (if b then [key] else [])"
proof -
  obtain err1 obj1 e1 where rj: "ReconcileJobStatus L K key obj e = ((err1, obj1), e1)"
    by (metis surj_pair)
  note s1 = ReconcileJobStatus_keeps [OF rj]
  note id = ReconcileJobStatus_identity [OF rj]
  consider (err) "env_World e' = env_World e1"
    | (clean) r1 where "in_world (CleanupOldResources L K cfg obj1) e1 = (r1, e')"
    | (run) b err2 obj2 where "try_run obj1 e1 = (((b, err2), obj2), e')"
    using assms(1) rj
    by (auto simp: provision_flow_def split: option.splits if_splits prod.splits)
  then show ?thesis
  proof cases
    case err
    then show ?thesis using s1 by (intro exI [of _ False]) simp
  next
    case clean
    then show ?thesis using s1 in_world_keeps [OF CleanupOldResources_keeps] by (intro exI [of _ False]) simp
  next
    case (run b err2 obj2)
    from assms(2) [OF id [THEN conjunct1] id [THEN conjunct2] run] s1 show ?thesis by (intro exI [of _ b]) simp
  qed
qed

text \<open>Nothing is submitted when the batch job exists and runs or has ended.\<close>

lemma provision_flow_no_rerun:
  assumes "provision_flow L K cfg key rq try_run obj e = ((r, obj'), e')"
    and "lib_laws L" "k_GetJob K key (env_World e) = (Inr j, w1)"
    "JobHasStarted (conds_of j) \<or> JobHasSucceeded (conds_of j) \<or> JobHasFailed (conds_of j)"
  shows "submitted (env_World e') = submitted (env_World e)"
proof -
  obtain err1 obj1 e1 where rj: "ReconcileJobStatus L K key obj e = ((err1, obj1), e1)"
    by (metis surj_pair)
  note s1 = ReconcileJobStatus_keeps [OF rj]
  show ?thesis
  proof (cases err1)
    case None
    have "HasStarted (lib_Meta L) (GetStatus obj1) \<or> HasFinished (lib_Meta L) (GetStatus obj1)"
      using ReconcileJobStatus_ended [OF assms(2-4)] rj None by simp
    then show ?thesis using assms(1) rj None s1 in_world_keeps [OF CleanupOldResources_keeps]
      by (auto simp: provision_flow_def split: if_splits prod.splits)
  next
    case (Some a)
    then show ?thesis using assms(1) rj s1 by (simp add: provision_flow_def)
  qed
qed

end

end
