(* ===== verification/Backup_Submission.thy ===== *)
theory Backup_Submission
  imports Job_Submission
begin

text \<open>
  The batch jobs a reconciliation of a backup hands to the API server.
\<close>

abbreviation backup_key :: "Backup \<Rightarrow> namespaced_name" where
  "backup_key b \<equiv> MapToNamespacedName (b_Meta b)"

definition job_keys :: "namespaced_name \<Rightarrow> string list \<Rightarrow> namespaced_name list" where
  "job_keys k names =
     map (\<lambda>n. \<lparr>nn_Namespace = nn_Namespace k, nn_Name = BackupType @ ''-'' @ nn_Name k @ ''-'' @ n\<rparr>) names"

lemma job_keys_append [simp]: "job_keys k (a @ b) = job_keys k a @ job_keys k b"
  by (simp add: job_keys_def)

lemma job_key_createJob: "job_key (createJob b n node tol) \<in> set (job_keys (backup_key b) [n])"
  by (simp add: job_key_def createJob_def upd_pod_spec_def new_job_def job_keys_def backup_jobName_def MapToNamespacedName_def)

lemma remove_nonviable_append:
  "i \<le> length items \<Longrightarrow>
   remove_nonviable names i items = filter (\<lambda>p. om_Name (pod_Meta p) \<in> set names) (take i items) @ drop i items"
proof (induction i arbitrary: items)
  case (Suc i)
  then have "items ! i # drop (Suc i) items = drop i items" "take (Suc i) items = take i items @ [items ! i]"
    by (simp_all add: Cons_nth_drop_Suc take_Suc_conv_app_nth)
  then show ?case using Suc by simp
qed simp

lemma remove_nonviable_filter:
  "remove_nonviable names (length items) items = filter (\<lambda>p. om_Name (pod_Meta p) \<in> set names) items"
  by (simp add: remove_nonviable_append)

text \<open>Every job of the grouping is one that \<open>createJob\<close> made.\<close>

definition made_by :: "Backup \<Rightarrow> jobItem \<Rightarrow> bool" where
  "made_by b j \<longleftrightarrow> (\<exists>n node tol. ji_job j = createJob b n node tol)"

lemma made_by_simps [simp]:
  "made_by b (j\<lparr>ji_targetPods := x\<rparr>) = made_by b j" "made_by b (j\<lparr>ji_volumes := y\<rparr>) = made_by b j"
  by (simp_all add: made_by_def)

lemma made_by_new [simp]: "made_by b (new_jobItem b i item)" "made_by b (prebackup_job b ps)"
  by (force simp: made_by_def new_jobItem_def prebackup_job_def)+

lemma group_item_made:
  assumes "\<And>k j. map_of jobs k = Some j \<Longrightarrow> made_by b j" "map_of (group_item cfg b i item jobs) k = Some j"
  shows "made_by b j"
  using assms
  by (auto simp: group_item_def Let_def update_conv' add_target_def split: if_splits option.splits)

lemma group_loop_made:
  assumes "\<And>k j. map_of jobs k = Some j \<Longrightarrow> made_by b j" "map_of (group_loop_items cfg b i items jobs) k = Some j"
  shows "made_by b j"
  using assms
proof (induction items arbitrary: i jobs)
  case (Cons x items)
  from Cons.IH [of "group_item cfg b i x jobs" "Suc i"] Cons.prems group_item_made [of jobs b cfg i x]
  show ?case by auto
qed simp

lemma prebackup_made:
  assumes "\<And>k j. map_of jobs k = Some j \<Longrightarrow> made_by b j" "map_of (add_prebackup_job b names pods jobs) k = Some j"
  shows "made_by b j"
  using assms by (auto simp: add_prebackup_job_def Let_def update_conv' split: if_splits)

context job_server begin

section \<open>Reading\<close>

lemma select_loop_keeps:
  assumes "\<And>s. keeps submitted (list s)"
  shows "select_loop conv list name what sels u w = (r, w') \<Longrightarrow> submitted w' = submitted w"
proof (induction sels arbitrary: u w)
  case (Cons a sels)
  then show ?case by (auto split: sum.splits prod.splits dest: keepsD [OF assms])
qed simp

lemma fetchPVCs_keeps: "keeps submitted (fetchPVCs L K ord b)"
  by (rule keepsI) (auto simp: fetchPVCs_def split: option.splits prod.splits
      dest: quiet_calls select_loop_keeps [OF keeps_reads(6)])

lemma fetchCandidatePods_keeps: "keeps submitted (fetchCandidatePods L K ord b)"
  by (rule keepsI) (auto simp: fetchCandidatePods_def split: option.splits prod.splits
      dest: quiet_calls select_loop_keeps [OF keeps_reads(5)])

lemma fetchPreBackupPodTemplates_keeps: "keeps submitted (fetchPreBackupPodTemplates L K ord b)"
  by (rule keepsI) (auto simp: fetchPreBackupPodTemplates_def split: option.splits prod.splits sum.splits
      dest: quiet_calls select_loop_keeps [OF keeps_reads(8)])

lemma ListPods_keeps: "keeps submitted (ListPods K p)"
  by (rule keepsI) (auto simp: ListPods_def split: option.splits prod.splits sum.splits if_splits dest: quiet_calls)

lemma pvc_item_keeps: "keeps submitted (pvc_item L K cfg ann m pvc)"
  by (rule keepsI) (auto simp: pvc_item_def Let_def split: option.splits prod.splits sum.splits if_splits dest: quiet_calls)

lemma pvc_loop_keeps: "pvc_loop L K cfg ann m pvcs items w = (r, w') \<Longrightarrow> submitted w' = submitted w"
proof (induction pvcs arbitrary: items w)
  case (Cons p pvcs)
  then show ?case by (auto split: sum.splits prod.splits option.splits dest: keepsD [OF pvc_item_keeps])
qed simp

lemma listAndFilterPVCs_keeps: "keeps submitted (listAndFilterPVCs L K cfg ord ann b)"
  by (rule keepsI) (auto simp: listAndFilterPVCs_def split: option.splits prod.splits sum.splits
      dest!: quiet_calls keepsD [OF fetchPVCs_keeps] pvc_loop_keeps)

section \<open>Pre-backup pods\<close>

text \<open>The operations that change the status of the backup keep its identity.\<close>

lemma patch_identity:
  "patchConditions L K st r msg c obj w = (obj', w') \<Longrightarrow>
   GetType obj' = GetType obj \<and> MapToNamespacedName (obj_meta obj') = MapToNamespacedName (obj_meta obj)"
  by (auto simp: patchConditions_def Let_def job_object.kind_put job_object.meta_put split: prod.splits dest!: status_identity)

definition backup_op :: "(Backup \<Rightarrow> 'w \<Rightarrow> Backup \<times> 'w) \<Rightarrow> bool" where
  "backup_op f \<longleftrightarrow> (\<forall>b w b' w'. f b w = (b', w') \<longrightarrow> submitted w' = submitted w \<and> backup_key b' = backup_key b)"

lemma backup_opD: "backup_op f \<Longrightarrow> f b w = (b', w') \<Longrightarrow> submitted w' = submitted w \<and> backup_key b' = backup_key b"
  by (simp add: backup_op_def)

lemma on_backup_op:
  assumes "\<And>obj w obj' w'. f obj w = (obj', w') \<Longrightarrow> submitted w' = submitted w \<and>
    GetType obj' = GetType obj \<and> MapToNamespacedName (obj_meta obj') = MapToNamespacedName (obj_meta obj)"
  shows "backup_op (on_backup f)"
  unfolding backup_op_def
proof (intro allI impI)
  fix b w b' w'
  assume "on_backup f b w = (b', w')"
  then obtain obj where o: "f (BackupObj b) w = (obj, w')" "b' = as_backup obj b"
    by (auto simp: on_backup_def split: prod.splits)
  then show "submitted w' = submitted w \<and> backup_key b' = backup_key b"
    using assms [OF o(1)] by (cases obj) (auto simp: as_backup_def)
qed

lemma condition_ops:
  "backup_op (on_backup (SetConditionTrue L K c r))"
  "backup_op (on_backup (SetConditionUnknownWithMessage L K c r msg))"
  "backup_op (on_backup (SetConditionTrueWithMessage L K c r msg))"
  "backup_op (on_backup (SetConditionFalseWithMessage L K c r msg))"
  using keepsD [OF patchConditions_keeps] patch_identity
  by (auto simp: SetConditionTrue_def SetConditionUnknownWithMessage_def SetConditionTrueWithMessage_def
      SetConditionFalseWithMessage_def intro!: on_backup_op)

lemma deletePreBackupDeployment_op: "backup_op (deletePreBackupDeployment L K d)"
  unfolding backup_op_def
  by (auto simp: deletePreBackupDeployment_def split: prod.splits option.splits if_splits
      dest!: quiet_calls backup_opD [OF condition_ops(4)])

lemma fetchOrCreate_op:
  "fetchOrCreatePreBackupDeployment L K d b w = ((r, b'), w') \<Longrightarrow>
   submitted w' = submitted w \<and> backup_key b' = backup_key b"
  by (auto simp: fetchOrCreatePreBackupDeployment_def Let_def split: prod.splits sum.splits if_splits
      dest!: quiet_calls backup_opD [OF condition_ops(4)])

lemma fetch_all_op:
  "fetch_all L K ds b w = ((r, b'), w') \<Longrightarrow> submitted w' = submitted w \<and> backup_key b' = backup_key b"
proof (induction ds arbitrary: b w r)
  case (Cons d ds)
  then show ?case
    by (auto split: prod.splits sum.splits dest!: fetchOrCreate_op)
qed simp

lemma allDeploymentsAreReady_op:
  "allDeploymentsAreReady L K ds b w = ((r, b'), w') \<Longrightarrow> submitted w' = submitted w \<and> backup_key b' = backup_key b"
proof (induction ds arbitrary: b w r)
  case (Cons d ds)
  then show ?case
    by (auto split: prod.splits option.splits if_splits
        dest!: backup_opD [OF condition_ops(4)] backup_opD [OF condition_ops(3)] backup_opD [OF deletePreBackupDeployment_op])
qed simp

lemma StartPreBackup_op:
  "StartPreBackup L K cfg ord b w = ((r, b'), w') \<Longrightarrow> submitted w' = submitted w \<and> backup_key b' = backup_key b"
  by (auto simp: StartPreBackup_def startAllPreBackupDeployments_def split: prod.splits sum.splits option.splits if_splits
      dest!: keepsD [OF fetchPreBackupPodTemplates_keeps] fetch_all_op allDeploymentsAreReady_op
        backup_opD [OF condition_ops(1)] backup_opD [OF condition_ops(2)] backup_opD [OF condition_ops(3)] backup_opD [OF condition_ops(4)])

lemma delete_all_op: "delete_all L K ds b w = (b', w') \<Longrightarrow> submitted w' = submitted w \<and> backup_key b' = backup_key b"
proof (induction ds arbitrary: b w)
  case (Cons d ds)
  then show ?case by (auto split: prod.splits dest!: backup_opD [OF deletePreBackupDeployment_op])
qed simp

lemma StopPreBackupDeployments_op:
  "StopPreBackupDeployments L K cfg ord b w = ((r, b'), w') \<Longrightarrow> submitted w' = submitted w \<and> backup_key b' = backup_key b"
  by (auto simp: StopPreBackupDeployments_def split: prod.splits sum.splits if_splits
      dest!: keepsD [OF fetchPreBackupPodTemplates_keeps] delete_all_op backup_opD [OF condition_ops(1)]
        backup_opD [OF condition_ops(4)])

section \<open>The batch jobs\<close>

text \<open>Without an error, every job of the map is submitted, in the order of the runtime.\<close>

lemma run_jobs_all:
  assumes "run_jobs L K cfg config b jobs names index w = (None, w')"
  shows "submitted w' = submitted w @ map job_key (map ji_job (List.map_filter (map_of jobs) names))"
  using assms
proof (induction names arbitrary: index w)
  case (Cons n names)
  show ?case
  proof (cases "map_of jobs n")
    case (Some ji)
    obtain err j w1 where c: "k_CreateOrUpdateJob K (ji_job ji) (backup_mutate L K cfg config b n index ji) w = ((err, j), w1)"
      by (metis surj_pair)
    with Cons.prems Some have "err = None" "run_jobs L K cfg config b jobs names (Suc index) w1 = (None, w')"
      by (auto split: option.splits)
    from Cons.IH [OF this(2)] submit [OF mutate_keeps(5) c] Some show ?thesis
      by (simp add: List.map_filter_simps)
  qed (use Cons in \<open>simp add: List.map_filter_simps\<close>)
qed (simp add: List.map_filter_simps)

lemma made_by_key:
  assumes "made_by b ji"
  shows "\<exists>n. [job_key (ji_job ji)] = job_keys (backup_key b) [n]"
proof -
  obtain n node tol where "ji_job ji = createJob b n node tol" using assms by (auto simp: made_by_def)
  then show ?thesis using job_key_createJob [of b n node tol] by (intro exI [of _ n]) (simp add: job_keys_def)
qed

lemma run_jobs_submits:
  assumes "\<And>k j. map_of jobs k = Some j \<Longrightarrow> made_by b j" "run_jobs L K cfg config b jobs names index w = (err, w')"
  shows "\<exists>ns. submitted w' = submitted w @ job_keys (backup_key b) ns"
  using assms(2)
proof (induction names arbitrary: index w)
  case Nil
  then show ?case by (intro exI [of _ "[]"]) (simp add: job_keys_def)
next
  case (Cons n names)
  show ?case
  proof (cases "map_of jobs n")
    case None
    then show ?thesis using Cons by simp
  next
    case (Some ji)
    obtain err1 j w1 where c: "k_CreateOrUpdateJob K (ji_job ji) (backup_mutate L K cfg config b n index ji) w = ((err1, j), w1)"
      by (metis surj_pair)
    obtain n' where "[job_key (ji_job ji)] = job_keys (backup_key b) [n']"
      using made_by_key [OF assms(1) [OF Some]] by blast
    with submit [OF mutate_keeps(5) c] have s1: "submitted w1 = submitted w @ job_keys (backup_key b) [n']" by simp
    show ?thesis
    proof (cases err1)
      case None
      then have "run_jobs L K cfg config b jobs names (Suc index) w1 = (err, w')" using Cons.prems Some c by simp
      from Cons.IH [OF this] obtain ns where "submitted w' = submitted w1 @ job_keys (backup_key b) ns" by blast
      with s1 show ?thesis by (intro exI [of _ "n' # ns"]) (simp add: job_keys_def)
    next
      case (Some x)
      then show ?thesis using Cons.prems \<open>map_of jobs n = Some ji\<close> c s1 by (intro exI [of _ "[n']"]) simp
    qed
  qed
qed

lemma nothing_keeps:
  "nothing_to_backup L K b w = (r, w') \<Longrightarrow> submitted w' = submitted w"
  by (auto simp: nothing_to_backup_def Let_def split: prod.splits dest: quiet_calls)

lemma create_backup_jobs_submits:
  assumes "create_backup_jobs L K cfg config ord items b w = (r, w')"
  shows "\<exists>ns. submitted w' = submitted w @ job_keys (backup_key b) ns"
proof -
  let ?g = "group_loop_items cfg b 0 items []"
  obtain l w1 where l: "ListPods K (NewPodLister (cfg_BackupCommandAnnotation cfg) [] [] (om_Namespace (b_Meta b)) [] False) w = (l, w1)"
    by fastforce
  obtain c w2 where c: "fetchCandidatePods L K ord b w1 = (c, w2)" by fastforce
  have s: "submitted w1 = submitted w" "submitted w2 = submitted w1"
    using keepsD [OF ListPods_keeps l] keepsD [OF fetchCandidatePods_keeps c] by simp_all
  have none: ?thesis if "submitted w' = submitted w" using that by (intro exI [of _ "[]"]) (simp add: job_keys_def)
  show ?thesis
  proof (cases l)
    case (Inl a)
    then show ?thesis using assms l s none by (simp add: create_backup_jobs_def)
  next
    case lp: (Inr pods)
    show ?thesis
    proof (cases c)
      case (Inl a)
      then show ?thesis using assms l lp c s none by (simp add: create_backup_jobs_def Let_def)
    next
      case (Inr cand)
      let ?names = "map bp_PodName pods"
      define jobs where "jobs = add_prebackup_job b ?names (remove_nonviable ?names (length cand) cand) ?g"
      have g: "made_by b j" if "map_of ?g k = Some j" for k j
        by (rule group_loop_made [OF _ that]) simp
      have mb: "made_by b j" if "map_of jobs k = Some j" for k j
        by (rule prebackup_made [OF g that [unfolded jobs_def]])
      obtain err w3 where r: "run_jobs L K cfg config b jobs (ord (map fst jobs)) 0 w2 = (err, w3)" by fastforce
      have "\<exists>ns. submitted w3 = submitted w2 @ job_keys (backup_key b) ns"
        by (rule run_jobs_submits [OF _ r]) (rule mb)
      then obtain ns where ns: "submitted w3 = submitted w2 @ job_keys (backup_key b) ns" ..
      have "submitted w' = submitted w3"
        using assms l lp c Inr r nothing_keeps
        by (auto simp: create_backup_jobs_def Let_def jobs_def [symmetric] split: option.splits if_splits)
      then show ?thesis using ns s by auto
    qed
  qed
qed

lemma startBackup_submits:
  assumes "startBackup L K cfg ord repo b w = ((err, b'), w')"
  shows "\<exists>ns. submitted w' = submitted w @ job_keys (backup_key b) ns"
proof -
  obtain ready err1 b1 w1 where sp: "StartPreBackup L K cfg ord b w = (((ready, err1), b1), w1)" by (metis surj_pair)
  note s1 = StartPreBackup_op [OF sp]
  have none: ?thesis if "submitted w' = submitted w" using that by (intro exI [of _ "[]"]) (simp add: job_keys_def)
  show ?thesis
  proof (cases "err1 \<noteq> None \<or> \<not> ready \<or> IsWaitingForPreBackup (lib_Meta L) (b_Status b1)")
    case True
    then show ?thesis using assms sp s1 none by (auto simp: startBackup_def split: option.splits)
  next
    case False
    obtain l w2 where l: "listAndFilterPVCs L K cfg ord (cfg_BackupAnnotation cfg) b1 w1 = (l, w2)" by fastforce
    have s2: "submitted w2 = submitted w" using keepsD [OF listAndFilterPVCs_keeps l] s1 by simp
    show ?thesis
    proof (cases l)
      case (Inl err)
      then have "submitted w' = submitted w2"
        using assms sp False l
        by (auto simp: startBackup_def split: if_splits prod.splits dest!: backup_opD [OF condition_ops(4)])
      then show ?thesis using s2 none by simp
    next
      case (Inr items)
      then have "create_backup_jobs L K cfg (NewConfig (BackupObj b1) repo) ord items b1 w2 = ((err, b'), w')"
        using assms sp False l by (simp add: startBackup_def)
      from create_backup_jobs_submits [OF this] show ?thesis using s1 s2 by simp
    qed
  qed
qed

lemma backup_Execute_submits:
  assumes "backup_Execute L K cfg ord repo b obj e = (r, e')" "GetType obj = BackupType"
    "MapToNamespacedName (obj_meta obj) = backup_key b"
  shows "\<exists>ns. submitted (env_World e') = submitted (env_World e) @ job_keys (backup_key b) ns"
proof -
  let ?b = "as_backup obj b"
  have k: "backup_key ?b = backup_key b" using assms(3) by (cases obj) (simp_all add: as_backup_def)
  obtain err w1 where c: "createServiceAccountAndBinding K cfg ?b (env_World e) = (err, w1)" by fastforce
  have s1: "submitted w1 = submitted (env_World e)"
    using c by (auto simp: createServiceAccountAndBinding_def Let_def split: prod.splits option.splits dest!: quiet_calls)
  show ?thesis
  proof (cases err)
    case (Some x)
    then show ?thesis using assms(1) c s1
      by (intro exI [of _ "[]"]) (auto simp: backup_Execute_def Let_def in_world_def job_keys_def)
  next
    case None
    obtain err2 b2 w2 where st: "startBackup L K cfg ord repo ?b w1 = ((err2, b2), w2)" by (metis surj_pair)
    then have "env_World e' = w2" using assms(1) c None by (auto simp: backup_Execute_def Let_def in_world_def)
    then show ?thesis using startBackup_submits [OF st] s1 k by simp
  qed
qed

end

end
