(* ===== verification/Reconciler.thy ===== *)
theory Reconciler
  imports Backup_Submission
begin

text \<open>
  \<^verbatim>\<open>operator/reconciler/reconciler.go\<close>: the generic controller, over the
  \<^verbatim>\<open>Provision\<close> and \<^verbatim>\<open>Deprovision\<close> methods of the six kinds.
\<close>

text \<open>The methods by kind; \<open>ords\<close> and \<open>ord\<close> are the orders in which maps are enumerated.\<close>

fun Provision ::
  "lib \<Rightarrow> 'w kube \<Rightarrow> Configuration \<Rightarrow> JobType list \<Rightarrow> (string list \<Rightarrow> string list) \<Rightarrow> JobObject \<Rightarrow> 'w env
   \<Rightarrow> ((Result \<times> gerr option) \<times> JobObject) \<times> 'w env" where
  "Provision L K cfg ords ord (BackupObj b) e = BackupProvision L K cfg ord b e"
| "Provision L K cfg ords ord (CheckObj c) e = CheckProvision L K cfg c e"
| "Provision L K cfg ords ord (ArchiveObj a) e = ArchiveProvision L K cfg a e"
| "Provision L K cfg ords ord (RestoreObj r) e = RestoreProvision L K cfg r e"
| "Provision L K cfg ords ord (PruneObj p) e = PruneProvision L K cfg p e"
| "Provision L K cfg ords ord (ScheduleObj s) e =
     (case ScheduleProvision L K cfg ords s e of ((r, s), e) \<Rightarrow> ((r, ScheduleObj s), e))"

fun Deprovision ::
  "lib \<Rightarrow> 'w kube \<Rightarrow> JobObject \<Rightarrow> 'w env \<Rightarrow> ((Result \<times> gerr option) \<times> JobObject) \<times> 'w env" where
  "Deprovision L K (ScheduleObj s) e =
     (case ScheduleDeprovision L K s e of ((r, s), e) \<Rightarrow> ((r, ScheduleObj s), e))"
| "Deprovision L K obj e = (((no_result, None), obj), e)"

type_synonym 'w handler = "JobObject \<Rightarrow> 'w env \<Rightarrow> ((Result \<times> gerr option) \<times> JobObject) \<times> 'w env"

definition Reconcile ::
  "'w kube \<Rightarrow> 'w handler \<Rightarrow> 'w handler \<Rightarrow> JobType \<Rightarrow> namespaced_name \<Rightarrow> 'w env \<Rightarrow> (Result \<times> gerr option) \<times> 'w env" where
  "Reconcile K provision deprovision kind name e =
     (case in_world (k_GetObject K kind name) e of
        (Inl err, e) \<Rightarrow> if IsNotFound err then ((no_result, None), e) else ((no_result, Some err), e)
      | (Inr obj, e) \<Rightarrow>
         (case (if om_DeletionTimestamp (obj_meta obj) \<noteq> None then deprovision obj e else provision obj e) of
            (((res, Some provisionErr), _), e) \<Rightarrow>
              if IsConflict provisionErr then ((res\<lparr>RequeueAfter := 1\<rparr>, None), e)
              else ((res, Some provisionErr), e)
          | (((res, None), _), e) \<Rightarrow> ((res, None), e)))"

section \<open>Batch jobs of a reconciliation\<close>

text \<open>A get returns the object that was asked for.\<close>

locale api_server = job_server K submitted for K :: "'w kube" and submitted +
  assumes get_keeps: "keeps submitted (k_GetObject K kind key)"
    and get_identity: "k_GetObject K kind key w = (Inr obj, w') \<Longrightarrow>
      GetType obj = kind \<and> MapToNamespacedName (obj_meta obj) = key"

interpretation kube_ref: api_server kube_ref cl_Submitted
  by unfold_locales (auto simp: kube_ref_def keeps_def ref_get_def find_Some_iff split: option.splits)

definition single_job_kinds :: "JobType set" where
  "single_job_kinds = {CheckType, ArchiveType, RestoreType, PruneType}"

text \<open>The batch job of an object of one of these kinds.\<close>

definition single_job_key :: "JobType \<Rightarrow> namespaced_name \<Rightarrow> namespaced_name" where
  "single_job_key kind key = \<lparr>nn_Namespace = nn_Namespace key, nn_Name = kind @ ''-'' @ nn_Name key\<rparr>"

lemma JobType_cases [simp]:
  "GetType obj = CheckType \<longleftrightarrow> (\<exists>x. obj = CheckObj x)"
  "GetType obj = PruneType \<longleftrightarrow> (\<exists>x. obj = PruneObj x)"
  "GetType obj = ArchiveType \<longleftrightarrow> (\<exists>x. obj = ArchiveObj x)"
  "GetType obj = RestoreType \<longleftrightarrow> (\<exists>x. obj = RestoreObj x)"
  "GetType obj = BackupType \<longleftrightarrow> (\<exists>x. obj = BackupObj x)"
  by (cases obj; simp add: k8up_consts)+

lemma single_job_key_names:
  "\<lparr>nn_Namespace = om_Namespace (c_Meta c), nn_Name = check_jobName c\<rparr> = single_job_key CheckType (MapToNamespacedName (c_Meta c))"
  "\<lparr>nn_Namespace = om_Namespace (p_Meta p), nn_Name = prune_jobName p\<rparr> = single_job_key PruneType (MapToNamespacedName (p_Meta p))"
  "\<lparr>nn_Namespace = om_Namespace (a_Meta a), nn_Name = archive_jobName (ArchiveObj a)\<rparr> = single_job_key ArchiveType (MapToNamespacedName (a_Meta a))"
  "\<lparr>nn_Namespace = om_Namespace (r_Meta r), nn_Name = restore_jobName (RestoreObj r)\<rparr> = single_job_key RestoreType (MapToNamespacedName (r_Meta r))"
  by (simp_all add: single_job_key_def MapToNamespacedName_def check_jobName_def prune_jobName_def
      archive_jobName_def restore_jobName_def)

context api_server begin

text \<open>A guarded run of one of the four executors, as \<open>provision_flow\<close> uses it.\<close>

definition submits_one :: "JobType \<Rightarrow> namespaced_name \<Rightarrow>
    (JobObject \<Rightarrow> 'w env \<Rightarrow> ((bool \<times> gerr option) \<times> JobObject) \<times> 'w env) \<Rightarrow> bool" where
  "submits_one kind key try_run \<longleftrightarrow> (\<forall>obj e b err obj' e'.
     GetType obj = kind \<and> MapToNamespacedName (obj_meta obj) = key \<and> try_run obj e = (((b, err), obj'), e') \<longrightarrow>
     submitted (env_World e') = submitted (env_World e) @ (if b then [single_job_key kind key] else []))"

lemma submits_oneI:
  assumes "\<And>obj e b err obj' e'. GetType obj = kind \<Longrightarrow> MapToNamespacedName (obj_meta obj) = key \<Longrightarrow>
     try_run obj e = (((b, err), obj'), e') \<Longrightarrow>
     submitted (env_World e') = submitted (env_World e) @ (if b then [single_job_key kind key] else [])"
  shows "submits_one kind key try_run"
  using assms unfolding submits_one_def by blast

lemma runs_submit_one:
  "submits_one CheckType k (locked_run_exclusively L K repo (\<lambda>obj. check_Execute L K cfg (cf obj) (as_check obj c) obj))"
  "submits_one PruneType k (locked_run_exclusively L K repo (\<lambda>obj. prune_Execute L K cfg (cf obj) (as_prune obj p) obj))"
  "submits_one ArchiveType k (\<lambda>obj. locked_run L K repo (cf obj) limit (\<lambda>obj. archive_Execute L K cfg (NewConfig obj repo) (as_archive obj a) obj) obj)"
  "submits_one RestoreType k (\<lambda>obj. locked_run L K repo (cf obj) limit (\<lambda>obj. restore_Execute L K cfg (NewConfig obj repo) (as_restore obj r) obj) obj)"
  by (rule submits_oneI, (erule locked_run_exclusively_submits | erule locked_run_submits),
      auto simp: as_check_def as_prune_def as_archive_def as_restore_def NewConfig_def
        dest!: check_Execute_submits prune_Execute_submits archive_Execute_submits restore_Execute_submits
        simp: single_job_key_names)+

text \<open>All four are \<open>provision_flow\<close>; an archive without a spec panics before.\<close>

lemma Provision_flow:
  assumes "GetType obj \<in> single_job_kinds"
  shows "(\<exists>p. \<forall>e. Provision L K cfg ords ord obj e = (((no_result, Some p), obj), e)) \<or>
    (\<exists>rq try_run. submits_one (GetType obj) (MapToNamespacedName (obj_meta obj)) try_run \<and>
       (\<forall>e. Provision L K cfg ords ord obj e = provision_flow L K cfg
          (single_job_key (GetType obj) (MapToNamespacedName (obj_meta obj))) rq try_run obj e))"
proof (cases obj)
  case (CheckObj c)
  show ?thesis unfolding CheckObj Provision.simps CheckProvision_def Let_def single_job_key_names obj_meta.simps GetType.simps type_methods
    by (rule disjI2, rule exI, rule exI, rule conjI [rotated], rule allI, rule refl) (rule runs_submit_one)
next
  case (PruneObj p)
  show ?thesis unfolding PruneObj Provision.simps PruneProvision_def Let_def single_job_key_names obj_meta.simps GetType.simps type_methods
    by (rule disjI2, rule exI, rule exI, rule conjI [rotated], rule allI, rule refl) (rule runs_submit_one)
next
  case (RestoreObj r)
  show ?thesis unfolding RestoreObj Provision.simps RestoreProvision_def Let_def single_job_key_names obj_meta.simps GetType.simps type_methods
    by (rule disjI2, rule exI, rule exI, rule conjI [rotated], rule allI, rule refl) (rule runs_submit_one)
next
  case (ArchiveObj a)
  show ?thesis
  proof (cases "as_RestoreSpec (a_Spec a)")
    case None
    then show ?thesis unfolding ArchiveObj by (intro disjI1) (simp add: ArchiveProvision_def archive_spec_def)
  next
    case (Some spec)
    then have p: "Provision L K cfg ords ord (ArchiveObj a) e = provision_flow L K cfg
        (single_job_key ArchiveType (MapToNamespacedName (a_Meta a))) 30
        (\<lambda>obj. locked_run L K (repository_of cfg (rs_Backend (res_RunnableSpec spec)))
           (NewConfig obj (repository_of cfg (rs_Backend (res_RunnableSpec spec)))) (cfg_GlobalConcurrentArchiveJobsLimit cfg)
           (\<lambda>obj. archive_Execute L K cfg (NewConfig obj (repository_of cfg (rs_Backend (res_RunnableSpec spec)))) (as_archive obj a) obj) obj)
        (ArchiveObj a) e" for e
      by (simp add: ArchiveProvision_def archive_spec_def Let_def single_job_key_names)
    show ?thesis unfolding ArchiveObj p obj_meta.simps GetType.simps type_methods
      by (rule disjI2, rule exI, rule exI, rule conjI [rotated], rule allI, rule refl) (rule runs_submit_one)
  qed
qed (use assms in \<open>auto simp: single_job_kinds_def k8up_consts\<close>)

lemma Provision_submits:
  assumes "GetType obj \<in> single_job_kinds" "Provision L K cfg ords ord obj e = ((r, obj'), e')"
  shows "\<exists>b. submitted (env_World e') = submitted (env_World e) @
    (if b then [single_job_key (GetType obj) (MapToNamespacedName (obj_meta obj))] else [])"
  using Provision_flow [OF assms(1), of L cfg ords ord]
proof (elim disjE exE conjE)
  fix p
  assume "\<forall>e. Provision L K cfg ords ord obj e = (((no_result, Some p), obj), e)"
  then show ?thesis using assms(2) by (intro exI [of _ False]) simp
next
  fix rq try_run
  assume t: "submits_one (GetType obj) (MapToNamespacedName (obj_meta obj)) try_run"
    and "\<forall>e. Provision L K cfg ords ord obj e = provision_flow L K cfg
        (single_job_key (GetType obj) (MapToNamespacedName (obj_meta obj))) rq try_run obj e"
  then have "provision_flow L K cfg (single_job_key (GetType obj) (MapToNamespacedName (obj_meta obj))) rq try_run obj e = ((r, obj'), e')"
    using assms(2) by simp
  then show ?thesis by (rule provision_flow_submits) (use t in \<open>auto simp: submits_one_def\<close>)
qed

lemma Provision_no_rerun:
  assumes "GetType obj \<in> single_job_kinds" "Provision L K cfg ords ord obj e = ((r, obj'), e')" "lib_laws L"
    "k_GetJob K (single_job_key (GetType obj) (MapToNamespacedName (obj_meta obj))) (env_World e) = (Inr j, w1)"
    "JobHasStarted (conds_of j) \<or> JobHasSucceeded (conds_of j) \<or> JobHasFailed (conds_of j)"
  shows "submitted (env_World e') = submitted (env_World e)"
  using Provision_flow [OF assms(1), of L cfg ords ord]
proof (elim disjE exE conjE)
  fix p
  assume "\<forall>e. Provision L K cfg ords ord obj e = (((no_result, Some p), obj), e)"
  then show ?thesis using assms(2) by simp
next
  fix rq try_run
  assume "\<forall>e. Provision L K cfg ords ord obj e = provision_flow L K cfg
        (single_job_key (GetType obj) (MapToNamespacedName (obj_meta obj))) rq try_run obj e"
  then have "provision_flow L K cfg (single_job_key (GetType obj) (MapToNamespacedName (obj_meta obj))) rq try_run obj e = ((r, obj'), e')"
    using assms(2) by simp
  from provision_flow_no_rerun [OF this assms(3-5)] show ?thesis .
qed

end

section \<open>Backups\<close>

lemma count_loop_eq:
  "count_loop items (a, b, c) =
     (a + length (filter (\<lambda>j. JobHasSucceeded (conds_of j)) items),
      b + length (filter (\<lambda>j. JobHasFailed (conds_of j)) items),
      c + length (filter (\<lambda>j. JobHasStarted (conds_of j)) items))"
  by (induction items arbitrary: a b c) (auto simp: Let_def)

lemma all_filter: "length xs = length (filter P xs) \<longleftrightarrow> list_all P xs"
proof
  assume "length xs = length (filter P xs)"
  then have "filter P xs = xs" using length_filter_less [of _ xs P] by (metis filter_id_conv less_irrefl)
  then show "list_all P xs" by (metis filter_id_conv list_all_iff)
qed (simp add: list_all_iff)

lemma some_filter: "0 < length (filter P xs) \<longleftrightarrow> list_ex P xs"
  by (auto simp: list_ex_iff filter_empty_conv)

lemma backup_status_eq:
  "backup_status M b items s m =
     (let msg = counts_message b (length (filter (\<lambda>j. JobHasSucceeded (conds_of j)) items))
            (length (filter (\<lambda>j. JobHasFailed (conds_of j)) items)) (length (filter (\<lambda>j. JobHasStarted (conds_of j)) items))
      in if list_all (\<lambda>j. JobHasSucceeded (conds_of j)) items
         then JobSetSucceeded M (backup_ownedBy b) (om_Namespace (b_Meta b)) BackupType msg s m
         else if list_ex (\<lambda>j. JobHasFailed (conds_of j)) items
         then JobSetFailed M (backup_ownedBy b) (om_Namespace (b_Meta b)) BackupType msg s m
         else if list_ex (\<lambda>j. JobHasStarted (conds_of j)) items then (SetStarted M msg s, m) else (s, m))"
  by (simp add: backup_status_def count_loop_eq all_filter some_filter Let_def del: length_greater_0_conv)

text \<open>The jobs of a backup have reached a verdict, or one of them runs.\<close>

definition jobs_decided :: "batch_job list \<Rightarrow> bool" where
  "jobs_decided items \<longleftrightarrow> list_all (\<lambda>j. JobHasSucceeded (conds_of j)) items \<or>
     list_ex (\<lambda>j. JobHasFailed (conds_of j) \<or> JobHasStarted (conds_of j)) items"

lemma JobSet_finished:
  assumes "meta_laws M"
  shows "HasFinished M (fst (JobSetSucceeded M n ns jt msg s m))" "HasFinished M (fst (JobSetFailed M n ns jt msg s m))"
  by (simp_all add: JobSetSucceeded_def JobSetFailed_def Let_def HasFinished_def HasFailed_def [of M "SetSucceeded M _ _"]
      meta_laws.set_finished_frame [OF assms] meta_laws.set_succeeded_succeeded [OF assms]
      meta_laws.set_failed_failed [OF assms] meta_laws.set_succeeded_prebackup [OF assms])

lemma backup_status_verdict:
  assumes "meta_laws M" "jobs_decided items"
  shows "HasStarted M (fst (backup_status M b items s m)) \<or> HasFinished M (fst (backup_status M b items s m))"
  using assms(2) JobSet_finished [OF assms(1)] meta_laws.set_started_started [OF assms(1)]
  by (auto simp: backup_status_eq Let_def jobs_decided_def list_ex_iff)

context api_server begin

lemma backup_Reconcile_keeps:
  assumes "backup_ReconcileJobStatus L K b e = ((err, obj), e')"
  shows "submitted (env_World e') = submitted (env_World e) \<and> GetType obj = BackupType \<and>
    MapToNamespacedName (obj_meta obj) = backup_key b"
proof (intro conjI)
  show "submitted (env_World e') = submitted (env_World e)"
    using assms
    by (auto simp: backup_ReconcileJobStatus_def split: prod.splits sum.splits option.splits if_splits
        dest!: in_world_keeps [OF keeps_reads(3)] in_world_keeps [OF keeps_writes(1)])
  consider "obj = BackupObj b"
    | st err' w w' where "k_StatusUpdate K (SetStatus st (BackupObj b)) w = ((err', obj), w')"
    using assms
    by (auto simp: backup_ReconcileJobStatus_def in_world_Pair split: prod.splits sum.splits option.splits if_splits)
  then have "GetType obj = GetType (BackupObj b) \<and> MapToNamespacedName (obj_meta obj) = backup_key b"
    by cases (auto dest!: status_identity)
  then show "GetType obj = BackupType" "MapToNamespacedName (obj_meta obj) = backup_key b" by simp_all
qed

lemma finish_backup_keeps:
  assumes "finish_backup L K cfg ord b obj e = (r, e')"
  shows "submitted (env_World e') = submitted (env_World e)"
  using assms
  by (auto simp: finish_backup_def in_world_Pair split: prod.splits option.splits if_splits
      dest!: keepsD [OF CleanupOldResources_keeps] StopPreBackupDeployments_op)

lemma locked_run_any:
  assumes "locked_run L K repo config limit r obj e = (res, e')"
    and "\<And>e1 res e2. r obj e1 = (res, e2) \<Longrightarrow> \<exists>ns. submitted (env_World e2) = submitted (env_World e1) @ job_keys k ns"
  shows "\<exists>ns. submitted (env_World e') = submitted (env_World e) @ job_keys k ns"
proof -
  have none: ?thesis if "submitted (env_World e') = submitted (env_World e)"
    using that by (intro exI [of _ "[]"]) (simp add: job_keys_def)
  have "submitted (env_World e') = submitted (env_World e) \<or>
      (\<exists>e1 res1. submitted (env_World e1) = submitted (env_World e) \<and> r obj e1 = (res1, e'))"
    using assms(1)
    by (auto simp: locked_run_def TryRun_def Let_def split: prod.splits sum.splits if_splits
      dest!: in_world_keeps [OF fetchRunningJobs_keeps] GetForRepository_world)
  then show ?thesis using none assms(2) by metis
qed

lemma BackupProvision_submits:
  assumes "BackupProvision L K cfg ord b e = (r, e')"
  shows "\<exists>ns. submitted (env_World e') = submitted (env_World e) @ job_keys (backup_key b) ns"
proof -
  let ?repo = "repository_of cfg (rs_Backend (bs_RunnableSpec (b_Spec b)))"
  obtain err obj e1 where rj: "backup_ReconcileJobStatus L K b e = ((err, obj), e1)" by (metis surj_pair)
  note s1 = backup_Reconcile_keeps [OF rj]
  have none: ?thesis if "submitted (env_World e') = submitted (env_World e1)"
    using that s1 by (intro exI [of _ "[]"]) (simp add: job_keys_def)
  consider (same) "env_World e' = env_World e1"
    | (fin) "finish_backup L K cfg ord b obj e1 = (r, e')"
    | (run) res where "locked_run L K ?repo (NewConfig obj ?repo) (cfg_GlobalConcurrentBackupJobsLimit cfg)
        (\<lambda>obj. backup_Execute L K cfg ord ?repo b obj) obj e1 = (res, e')"
    using assms rj by (auto simp: BackupProvision_def Let_def split: option.splits if_splits prod.splits)
  then show ?thesis
  proof cases
    case same
    then show ?thesis using none by simp
  next
    case fin
    then show ?thesis using none finish_backup_keeps by blast
  next
    case run
    have "\<exists>ns. submitted (env_World e') = submitted (env_World e1) @ job_keys (backup_key b) ns"
      by (rule locked_run_any [OF run]) (use s1 in \<open>blast intro: backup_Execute_submits\<close>)
    then show ?thesis using s1 by simp
  qed
qed

lemma BackupProvision_no_rerun:
  assumes "lib_laws L" "BackupProvision L K cfg ord b e = (r, e')"
    "k_ListJobs K [LabelK8upOwnedBy \<mapsto> backup_ownedBy b] (Some (om_Namespace (b_Meta b))) (env_World e) = (Inr items, w1)"
    "items \<noteq> []" "jobs_decided items"
  shows "submitted (env_World e') = submitted (env_World e)"
proof -
  let ?M = "lib_Meta L"
  have ml: "meta_laws ?M" using assms(1) by (rule lib_laws.axioms)
  obtain err obj e1 where rj: "backup_ReconcileJobStatus L K b e = ((err, obj), e1)" by (metis surj_pair)
  note s1 = backup_Reconcile_keeps [OF rj]
  show ?thesis
  proof (cases err)
    case (Some x)
    then show ?thesis using assms(2) rj s1 by (auto simp: BackupProvision_def Let_def)
  next
    case None
    obtain st m where st: "backup_status ?M b items (b_Status b) (env_Metrics e) = (st, m)" by fastforce
    obtain w w' where "k_StatusUpdate K (SetStatus st (BackupObj b)) w = ((None, obj), w')"
      using rj None assms(3,4) st
      by (auto simp: backup_ReconcileJobStatus_def in_world_def split: prod.splits option.splits)
    then have "st_Conditions (GetStatus obj) = st_Conditions st"
      using status_content by fastforce
    then have "HasStarted ?M (GetStatus obj) \<or> HasFinished ?M (GetStatus obj)"
      using backup_status_verdict [OF ml assms(5), of b "b_Status b" "env_Metrics e"] st
        started_cong finished_cong by (metis fst_conv)
    then have "env_World e' = env_World e1 \<or> finish_backup L K cfg ord b obj e1 = (r, e')"
      using assms(2) rj None by (auto simp: BackupProvision_def Let_def split: if_splits)
    then show ?thesis using s1 finish_backup_keeps by metis
  qed
qed

end

lemma JobSetSucceeded_failed_prebackup:
  assumes "meta_laws M" "HasFailedPreBackup M s"
  shows "snd (JobSetSucceeded M name ns jt msg s m) = IncSuccessCounters ns jt m"
    "HasFailedPreBackup M (fst (JobSetSucceeded M name ns jt msg s m))"
  using assms(2) meta_laws.set_finished_frame [OF assms(1)] meta_laws.set_succeeded_prebackup [OF assms(1)]
  by (simp_all add: JobSetSucceeded_def Let_def HasSucceeded_def)

lemma prebackup_cong: "st_Conditions s = st_Conditions s' \<Longrightarrow> HasFailedPreBackup M s = HasFailedPreBackup M s'"
  by (simp add: status_queries)

lemma stop_without_templates:
  assumes "lib_laws L" "job_server K submitted" "fetchPreBackupPodTemplates L K ord b w = (Inl err, w1)"
    "\<And>st. fst (fst (k_StatusUpdate K (SetStatus st (BackupObj b)) w1)) = None"
    "StopPreBackupDeployments L K cfg ord b w = ((r, b'), w2)"
  shows "HasFailedPreBackup (lib_Meta L) (b_Status b') \<and> MapToNamespacedName (b_Meta b') = MapToNamespacedName (b_Meta b)"
proof -
  define c where "c = \<lparr>cond_Type = ConditionPreBackupPodReady, cond_Status = ConditionFalse,
      cond_Reason = ReasonRetrievalFailed, cond_Message = ''could not fetch pod templates: '' @ err_text err\<rparr>"
  define st where "st = (b_Status b)\<lparr>st_Conditions := SetStatusCondition (lib_Meta L) (st_Conditions (b_Status b)) c\<rparr>"
  have "StopPreBackupDeployments L K cfg ord b w =
      (case k_StatusUpdate K (SetStatus st (BackupObj b)) w1 of ((_, obj), w) \<Rightarrow> ((None, as_backup obj b), w))"
    by (simp add: StopPreBackupDeployments_def assms(3) on_backup_def SetConditionFalseWithMessage_def
        patchConditions_def st_def c_def split: prod.split)
  then obtain obj' where u: "k_StatusUpdate K (SetStatus st (BackupObj b)) w1 = ((None, obj'), w2)" and b': "b' = as_backup obj' b"
    using assms(5) assms(4) [of st] by (auto split: prod.splits)
  obtain x where x: "obj' = BackupObj x"
    using job_server.status_identity [OF assms(2) u] by (cases obj') (auto simp: k8up_consts)
  have n: "MapToNamespacedName (b_Meta x) = MapToNamespacedName (b_Meta b)"
    using job_server.status_identity [OF assms(2) u] x by simp
  have "st_Conditions (b_Status x) = SetStatusCondition (lib_Meta L) (st_Conditions (b_Status b)) c"
    using job_server.status_content [OF assms(2) u] x by (simp add: st_def)
  then have "HasFailedPreBackup (lib_Meta L) (b_Status x)"
    by (simp add: HasFailedPreBackup_def meta_laws.find_set [OF lib_laws.axioms(1) [OF assms(1)]] c_def
        isPreBackupFailed_def k8up_consts)
  then show ?thesis using n b' x by (simp add: as_backup_def)
qed

text \<open>A server on which the pre-backup templates cannot be listed.\<close>

definition no_templates :: "'w kube \<Rightarrow> 'w kube" where
  "no_templates K = K\<lparr>k_ListPreBackupPods := (\<lambda>ns sel w. (Inl (PlainError ''timeout''), w))\<rparr>"

lemma no_templates_same:
  "k_CreateOrUpdateJob (no_templates K) = k_CreateOrUpdateJob K" "k_GetPodConfig (no_templates K) = k_GetPodConfig K"
  "k_GetJob (no_templates K) = k_GetJob K" "k_ListJobs (no_templates K) = k_ListJobs K"
  "k_ListObjects (no_templates K) = k_ListObjects K" "k_ListPods (no_templates K) = k_ListPods K"
  "k_ListPVCs (no_templates K) = k_ListPVCs K" "k_GetPV (no_templates K) = k_GetPV K"
  "k_GetDeployment (no_templates K) = k_GetDeployment K" "k_StatusUpdate (no_templates K) = k_StatusUpdate K"
  "k_StatusPatch (no_templates K) = k_StatusPatch K" "k_DeleteObject (no_templates K) = k_DeleteObject K"
  "k_CreateDeployment (no_templates K) = k_CreateDeployment K" "k_DeleteDeployment (no_templates K) = k_DeleteDeployment K"
  "k_CreateOrUpdateServiceAccount (no_templates K) = k_CreateOrUpdateServiceAccount K"
  "k_CreateOrUpdateRoleBinding (no_templates K) = k_CreateOrUpdateRoleBinding K"
  by (simp_all add: no_templates_def)

interpretation no_templates: job_server "no_templates kube_ref" cl_Submitted
proof (unfold_locales, unfold no_templates_same)
  show "keeps cl_Submitted (k_ListPreBackupPods (no_templates kube_ref) ns' sel')" for ns' sel'
    by (simp add: keeps_def no_templates_def)
  show "k_CreateOrUpdateJob kube_ref j f w = (r, w') \<Longrightarrow> cl_Submitted w' = cl_Submitted w @ [job_key j]"
    if "\<And>j. keeps cl_Submitted (f j)" for f j w r w'
    by (rule kube_ref.submit [OF that])
qed (rule kube_ref.keeps_reads kube_ref.keeps_writes kube_ref.status_identity kube_ref.status_content, assumption?)+

section \<open>Properties\<close>

abbreviation ref_Reconcile :: "JobType \<Rightarrow> namespaced_name \<Rightarrow> cluster env \<Rightarrow> (Result \<times> gerr option) \<times> cluster env" where
  "ref_Reconcile \<equiv> Reconcile kube_ref (Provision lib_ref kube_ref (default_config ''k8up'') [] id) (Deprovision lib_ref kube_ref)"

definition ex_key :: "string \<Rightarrow> namespaced_name" where
  "ex_key name = \<lparr>nn_Namespace = ''ns'', nn_Name = name\<rparr>"

text \<open>
  C12. One reconciliation of a check, prune, archive or restore object hands at most one batch job
  to the API server, and this is the job of that object: its kind, a dash and its name, in its
  namespace. This holds whatever the server answers, for deleted objects (which get no job) and on
  every error path.
\<close>

theorem Reconcile_submits_at_most_one:
  assumes "api_server K submitted" "kind \<in> single_job_kinds"
    "Reconcile K (Provision L K cfg ords ord) (Deprovision L K) kind key e = (r, e')"
  shows "submitted (env_World e') = submitted (env_World e) \<or>
    submitted (env_World e') = submitted (env_World e) @ [single_job_key kind key]"
proof -
  obtain g w1 where g: "k_GetObject K kind key (env_World e) = (g, w1)" by fastforce
  let ?e1 = "e\<lparr>env_World := w1\<rparr>"
  have s1: "submitted w1 = submitted (env_World e)"
    using keepsD [OF api_server.get_keeps [OF assms(1)] g] .
  show ?thesis
  proof (cases g)
    case (Inl err)
    then show ?thesis using assms(3) g s1 by (auto simp: Reconcile_def in_world_def split: if_splits)
  next
    case (Inr obj)
    then have "k_GetObject K kind key (env_World e) = (Inr obj, w1)" using g by simp
    note id = api_server.get_identity [OF assms(1) this]
    obtain r1 obj1 e1 where h: "(if om_DeletionTimestamp (obj_meta obj) \<noteq> None then Deprovision L K obj ?e1
        else Provision L K cfg ords ord obj ?e1) = ((r1, obj1), e1)" by (metis surj_pair)
    then have e': "e' = e1" using assms(3) g Inr
      by (auto simp: Reconcile_def in_world_def split: prod.splits option.splits if_splits)
    show ?thesis
    proof (cases "om_DeletionTimestamp (obj_meta obj) = None")
      case True
      have p: "Provision L K cfg ords ord obj ?e1 = ((r1, obj1), e1)" using h True by simp
      have k: "GetType obj \<in> single_job_kinds" using id assms(2) by simp
      from api_server.Provision_submits [OF assms(1) k p] obtain b where
        "submitted (env_World e1) = submitted (env_World ?e1) @
          (if b then [single_job_key (GetType obj) (MapToNamespacedName (obj_meta obj))] else [])" by (elim exE)
      then show ?thesis using s1 e' id by (cases b) simp_all
    next
      case False
      then have "e1 = ?e1" using h id assms(2)
        by (cases obj) (auto simp: single_job_kinds_def k8up_consts)
      then show ?thesis using s1 e' by simp
    qed
  qed
qed

theorem Reconcile_submits_at_most_one_witness:
  "cl_Submitted (env_World (snd (ref_Reconcile CheckType (ex_key ''c'')
      (ref_env (empty_cluster\<lparr>cl_Objects := [CheckObj ex_check]\<rparr>))))) \<in> {[], [ex_key ''check-c'']}"
proof -
  let ?e = "ref_env (empty_cluster\<lparr>cl_Objects := [CheckObj ex_check]\<rparr>)"
  obtain r e' where run: "ref_Reconcile CheckType (ex_key ''c'') ?e = (r, e')" by fastforce
  have k: "CheckType \<in> single_job_kinds" by (simp add: single_job_kinds_def)
  have "cl_Submitted (env_World ?e) = []" by (simp add: ref_env_def empty_cluster_def)
  moreover have "single_job_key CheckType (ex_key ''c'') = ex_key ''check-c''"
    by (simp add: single_job_key_def ex_key_def k8up_consts)
  ultimately show ?thesis
    using Reconcile_submits_at_most_one [OF kube_ref.api_server_axioms k run] unfolding run by auto
qed

text \<open>
  C13. A check, prune, archive or restore object is never run again: when its batch job is found and
  is still running or has ended either way, the reconciliation hands no job to the server.
\<close>

theorem Provision_never_reruns:
  assumes "lib_laws L" "api_server K submitted" "GetType obj \<in> single_job_kinds"
    "k_GetJob K (single_job_key (GetType obj) (MapToNamespacedName (obj_meta obj))) (env_World e) = (Inr j, w1)"
    "JobHasStarted (conds_of j) \<or> JobHasSucceeded (conds_of j) \<or> JobHasFailed (conds_of j)"
    "Provision L K cfg ords ord obj e = ((r, obj'), e')"
  shows "submitted (env_World e') = submitted (env_World e)"
  by (rule api_server.Provision_no_rerun [OF assms(2,3,6,1,4,5)])

theorem Provision_never_reruns_witness:
  "cl_Submitted (env_World (snd (Provision lib_ref kube_ref (default_config ''k8up'') [] id (CheckObj ex_check)
      (ref_env (empty_cluster\<lparr>cl_Objects := [CheckObj ex_check], cl_Jobs := [ex_job ''check-c'' Map.empty 0
        [\<lparr>jc_Type = JobComplete, jc_Status = ConditionTrue\<rparr>]]\<rparr>))))) = []"
proof -
  let ?j = "ex_job ''check-c'' Map.empty 0 [\<lparr>jc_Type = JobComplete, jc_Status = ConditionTrue\<rparr>]"
  let ?w = "empty_cluster\<lparr>cl_Objects := [CheckObj ex_check], cl_Jobs := [?j]\<rparr>"
  obtain r obj' e' where run: "Provision lib_ref kube_ref (default_config ''k8up'') [] id (CheckObj ex_check) (ref_env ?w) = ((r, obj'), e')"
    by (metis surj_pair)
  have k: "GetType (CheckObj ex_check) \<in> single_job_kinds" by (simp add: single_job_kinds_def)
  have g: "k_GetJob kube_ref (single_job_key (GetType (CheckObj ex_check)) (MapToNamespacedName (obj_meta (CheckObj ex_check))))
      (env_World (ref_env ?w)) = (Inr ?j, ?w)"
    by (simp add: ref_env_def kube_ref_def ref_get_def job_key_def ex_job_def ex_meta_def single_job_key_def
        MapToNamespacedName_def ex_check_def k8up_consts)
  have d: "JobHasStarted (conds_of ?j) \<or> JobHasSucceeded (conds_of ?j) \<or> JobHasFailed (conds_of ?j)"
    by (simp add: JobHasSucceeded_def ex_job_def)
  have "cl_Submitted (env_World (ref_env ?w)) = []" by (simp add: ref_env_def empty_cluster_def)
  then show ?thesis
    using Provision_never_reruns [OF lib_ref.lib_laws_axioms kube_ref.api_server_axioms k g d run]
    unfolding run snd_conv by (rule trans [rotated])
qed

text \<open>
  C14. A reconciliation of a backup only hands jobs of this backup to the server (in its namespace,
  named \<^verbatim>\<open>backup-<name>-\<close> and a suffix); it hands over none at all when jobs of the
  backup are found and all of them succeeded, or one failed, or one is still running.
\<close>

theorem BackupProvision_jobs:
  assumes "lib_laws L" "api_server K submitted" "BackupProvision L K cfg ord b e = (r, e')"
    "k_ListJobs K [LabelK8upOwnedBy \<mapsto> backup_ownedBy b] (Some (om_Namespace (b_Meta b))) (env_World e) = (Inr items, w1)"
  shows "(\<exists>ns. submitted (env_World e') = submitted (env_World e) @ job_keys (MapToNamespacedName (b_Meta b)) ns) \<and>
    (items \<noteq> [] \<and> jobs_decided items \<longrightarrow> submitted (env_World e') = submitted (env_World e))"
  using api_server.BackupProvision_submits [OF assms(2,3)]
    api_server.BackupProvision_no_rerun [OF assms(2,1,3,4)] by blast

theorem BackupProvision_jobs_witness:
  "cl_Submitted (env_World (snd (BackupProvision lib_ref kube_ref (default_config ''k8up'') id sample_backup
      (ref_env (empty_cluster\<lparr>cl_Jobs := [ex_job ''backup-b-0'' [LabelK8upOwnedBy \<mapsto> ''backup_b''] 0
        [\<lparr>jc_Type = JobFailed, jc_Status = ConditionTrue\<rparr>]]\<rparr>))))) = []"
proof -
  let ?j = "ex_job ''backup-b-0'' [LabelK8upOwnedBy \<mapsto> ''backup_b''] 0 [\<lparr>jc_Type = JobFailed, jc_Status = ConditionTrue\<rparr>]"
  let ?w = "empty_cluster\<lparr>cl_Jobs := [?j]\<rparr>"
  obtain r e' where run: "BackupProvision lib_ref kube_ref (default_config ''k8up'') id sample_backup (ref_env ?w) = (r, e')"
    by fastforce
  have l: "k_ListJobs kube_ref [LabelK8upOwnedBy \<mapsto> backup_ownedBy sample_backup] (Some (om_Namespace (b_Meta sample_backup)))
      (env_World (ref_env ?w)) = (Inr [?j], ?w)"
    by (simp add: ref_env_def kube_ref_def ref_matches_def job_labels_def ex_job_def ex_meta_def backup_ownedBy_def
        sample_backup_def empty_job_def empty_meta_def k8up_consts)
  have "jobs_decided [?j]" by (simp add: jobs_decided_def JobHasFailed_def JobHasStarted_def ex_job_def)
  moreover have "cl_Submitted (env_World (ref_env ?w)) = []" by (simp add: ref_env_def empty_cluster_def)
  ultimately show ?thesis
    using BackupProvision_jobs [OF lib_ref.lib_laws_axioms kube_ref.api_server_axioms run l, THEN conjunct2]
    unfolding run snd_conv by simp
qed

text \<open>
  C5. A succeeded backup is counted again and reads as failed when the templates of its pre-backup
  pods cannot be listed while it is cleaned up. \<^verbatim>\<open>StopPreBackupDeployments\<close> then
  sets the pre-backup condition to false with the reason \<^verbatim>\<open>RetrievalFailed\<close>, whatever the
  status said before; the next reconciliation of the same succeeded jobs increments the success and
  total counters once more, because \<^verbatim>\<open>HasSucceeded\<close> is false with that condition, and
  leaves the condition in place, so that the one after it does the same. The hypotheses are that
  the API server accepts the two status updates.
\<close>

theorem stop_failure_recounts_backup:
  assumes "lib_laws L" "job_server K submitted" "fetchPreBackupPodTemplates L K ord b (env_World e) = (Inl err, w1)"
    "\<And>st. fst (fst (k_StatusUpdate K (SetStatus st (BackupObj b)) w1)) = None"
    "StopPreBackupDeployments L K cfg ord b (env_World e) = ((r, b'), w2)"
    "k_ListJobs K [LabelK8upOwnedBy \<mapsto> backup_ownedBy b] (Some (om_Namespace (b_Meta b))) w2 = (Inr items, w3)"
    "items \<noteq> []" "list_all (\<lambda>j. JobHasSucceeded (conds_of j)) items"
    "backup_ReconcileJobStatus L K b' (e\<lparr>env_World := w2\<rparr>) = ((None, obj), e')"
  shows "env_Metrics e' = IncSuccessCounters (om_Namespace (b_Meta b)) BackupType (env_Metrics e) \<and>
    HasFailed (lib_Meta L) (b_Status b') \<and> HasFailedPreBackup (lib_Meta L) (GetStatus obj)"
proof -
  let ?M = "lib_Meta L" and ?e2 = "e\<lparr>env_World := w2\<rparr>"
  have ml: "meta_laws ?M" using assms(1) by (rule lib_laws.axioms)
  note s = stop_without_templates [OF assms(1-5)]
  have n: "om_Namespace (b_Meta b') = om_Namespace (b_Meta b)" "backup_ownedBy b' = backup_ownedBy b"
    using s by (simp_all add: MapToNamespacedName_def backup_ownedBy_def)
  obtain st m where bs: "backup_status ?M b' items (b_Status b') (env_Metrics e) = (st, m)" by fastforce
  then obtain msg where j: "JobSetSucceeded ?M (backup_ownedBy b) (om_Namespace (b_Meta b)) BackupType msg (b_Status b') (env_Metrics e) = (st, m)"
    using assms(8) by (auto simp: backup_status_eq Let_def n)
  note m = JobSetSucceeded_failed_prebackup [OF ml conjunct1 [OF s], where m = "env_Metrics e", of "backup_ownedBy b"
      "om_Namespace (b_Meta b)" BackupType msg, unfolded j fst_conv snd_conv]
  let ?o = "SetStatus st (BackupObj b')"
  have u: "k_StatusUpdate K ?o w3 = ((None, obj), env_World e')" "env_Metrics e' = m"
    using assms(7,9) bs n assms(6)
    by (auto simp: backup_ReconcileJobStatus_def in_world_def split: prod.splits option.splits)
  have "st_Conditions (GetStatus obj) = st_Conditions (GetStatus ?o)"
    using job_server.status_content [OF assms(2)] u(1) by blast
  from prebackup_cong [OF this, of ?M] have "HasFailedPreBackup ?M (GetStatus obj)"
    using m(2) by (simp add: job_object.queries_get_put)
  then show ?thesis using m(1) u(2) s by (simp add: HasFailed_def)
qed

theorem stop_failure_recounts_backup_witness:
  "\<exists>b b' w2 obj e'. ex_backup ''b'' 0 [ex_condition ConditionCompleted ConditionTrue ReasonSucceeded] = BackupObj b \<and>
     HasSucceeded meta_ref (b_Status b) \<and>
     StopPreBackupDeployments lib_ref (no_templates kube_ref) (default_config ''k8up'') id b
       (empty_cluster\<lparr>cl_Objects := [BackupObj b], cl_Jobs := [ex_job ''j'' [LabelK8upOwnedBy \<mapsto> ''backup_b''] 0
          [\<lparr>jc_Type = JobComplete, jc_Status = ConditionTrue\<rparr>]]\<rparr>) = ((None, b'), w2) \<and>
     backup_ReconcileJobStatus lib_ref (no_templates kube_ref) b' (ref_env w2) = ((None, obj), e') \<and>
     mt_SuccessCounter (env_Metrics e') (''ns'', BackupType) = 1"
proof -
  let ?K = "no_templates kube_ref"
  let ?j = "ex_job ''j'' [LabelK8upOwnedBy \<mapsto> ''backup_b''] 0 [\<lparr>jc_Type = JobComplete, jc_Status = ConditionTrue\<rparr>]"
  obtain b where b: "ex_backup ''b'' 0 [ex_condition ConditionCompleted ConditionTrue ReasonSucceeded] = BackupObj b"
    by (simp add: ex_backup_def)
  let ?w = "empty_cluster\<lparr>cl_Objects := [BackupObj b], cl_Jobs := [?j]\<rparr>"
  have b': "b_Meta b = ex_meta ''b'' 0" "b_Spec b = ex_backup_spec"
      "b_Status b = empty_status\<lparr>st_Conditions := [ex_condition ConditionCompleted ConditionTrue ReasonSucceeded]\<rparr>"
    using b by (auto simp: ex_backup_def)
  have f: "fetchPreBackupPodTemplates lib_ref ?K id b (env_World (ref_env ?w)) = (Inl (Wrapped ''could not list pod templates'' (PlainError ''timeout'')), ?w)"
    by (simp add: fetchPreBackupPodTemplates_def b' ex_backup_spec_def no_templates_def ref_env_def)
  have u: "fst (fst (k_StatusUpdate ?K (SetStatus st (BackupObj b)) ?w)) = None" for st
    by (simp add: no_templates_same kube_ref_def ref_put_def same_object_def)
  obtain r b1 w2 where st: "StopPreBackupDeployments lib_ref ?K (default_config ''k8up'') id b (env_World (ref_env ?w)) = ((r, b1), w2)"
    by (metis surj_pair)
  have s: "HasSucceeded meta_ref (b_Status b)"
    by (simp add: status_queries b' ex_condition_def meta_ref_def ref_find_def k8up_consts)
  have r: "r = None" "cl_Jobs w2 = [?j]" "cl_Objects w2 = [BackupObj b1]" "MapToNamespacedName (b_Meta b1) = MapToNamespacedName (b_Meta b)"
    using st f by (auto simp: StopPreBackupDeployments_def on_backup_def SetConditionFalseWithMessage_def patchConditions_def
        no_templates_same kube_ref_def ref_put_def same_object_def as_backup_def ref_env_def Let_def)
  have l: "k_ListJobs ?K [LabelK8upOwnedBy \<mapsto> backup_ownedBy b] (Some (om_Namespace (b_Meta b))) w2 = (Inr [?j], w2)"
    by (simp add: no_templates_same kube_ref_def r(2) b' ref_matches_def ex_job_def job_labels_def backup_ownedBy_def
        ex_meta_def empty_job_def empty_meta_def k8up_consts)
  have ns: "om_Namespace (b_Meta b1) = om_Namespace (b_Meta b)" "backup_ownedBy b1 = backup_ownedBy b"
    using r(4) by (simp_all add: MapToNamespacedName_def backup_ownedBy_def)
  obtain r2 obj e' where rc: "backup_ReconcileJobStatus lib_ref ?K b1 (ref_env w2) = ((r2, obj), e')" by (metis surj_pair)
  have r2: "r2 = None"
    using rc l ns r(3) by (auto simp: backup_ReconcileJobStatus_def in_world_def ref_env_def no_templates_same(10) kube_ref_def
        ref_put_def same_object_def split: prod.splits)
  have a: "list_all (\<lambda>j. JobHasSucceeded (conds_of j)) [?j]" by (simp add: JobHasSucceeded_def ex_job_def)
  have w: "(ref_env ?w)\<lparr>env_World := w2\<rparr> = ref_env w2" "env_World (ref_env ?w) = ?w" by (simp_all add: ref_env_def)
  have "env_Metrics e' = IncSuccessCounters (om_Namespace (b_Meta b)) BackupType (env_Metrics (ref_env ?w))"
    using stop_failure_recounts_backup [OF lib_ref.lib_laws_axioms no_templates.job_server_axioms f u st l _ a] rc
    unfolding r2 w by blast
  then have "mt_SuccessCounter (env_Metrics e') (''ns'', BackupType) = 1"
    by (simp add: metrics_defs ref_env_def empty_metrics_def b' ex_meta_def)
  then show ?thesis using b s st rc unfolding r(1) r2 w(2) by blast
qed

end
