(* ===== verification/Controller_Properties.thy ===== *)
theory Controller_Properties
  imports Reconciler "HOL-Library.List_Lexorder" "HOL-Library.Char_ord"
begin

text \<open>
  What holds of the batch jobs the executors prepare, and how it fits the locker: the labels of
  exclusive jobs, the environment, the volume mounts, and the inputs on which an executor panics.
\<close>

section \<open>Labels and the locker\<close>

lemma set_job_label_labels [simp]: "job_labels (set_job_label k v j) = (job_labels j)(k \<mapsto> v)"
  by (simp add: set_job_label_def job_labels_def)

lemma upd_container0_job_labels: "upd_container0 f j = Inr j' \<Longrightarrow> job_labels j' = job_labels j"
  by (auto simp: job_labels_def elim!: upd_container0_Inr)

lemma upd_pod_spec_job_labels [simp]: "job_labels (upd_pod_spec f j) = job_labels j"
  by (simp add: job_labels_def)

lemma append_volumes_labels [simp]: "job_labels (append_volumes vs j) = job_labels j"
  by (simp add: append_volumes_def)

lemma default_service_account_labels [simp]: "job_labels (default_service_account cfg j) = job_labels j"
  by (simp add: default_service_account_def)

lemma check_mutate_labels:
  assumes "lib_laws L" "check_mutate L K cfg config c j0 w = (Inr j, w')"
  shows "job_labels j = (job_labels j0 ++ k8up_job_labels L (CheckObj c) config)(K8upExclusive \<mapsto> ''true'')"
  using assms(2) MutateBatchJob_labels [OF assms(1), of K cfg j0 "CheckObj c" config w]
  by (auto simp: check_mutate_def rbind_Inr Let_def split: prod.splits dest!: upd_container0_job_labels)

lemma prune_mutate_labels:
  assumes "lib_laws L" "prune_mutate L K cfg config p j0 w = (Inr j, w')"
  shows "job_labels j = (job_labels j0 ++ k8up_job_labels L (PruneObj p) config)(K8upExclusive \<mapsto> ''true'')"
  using assms(2) MutateBatchJob_labels [OF assms(1), of K cfg j0 "PruneObj p" config w]
  by (auto simp: prune_mutate_def rbind_Inr Let_def split: prod.splits dest!: upd_container0_job_labels)

lemma restore_mutate_labels:
  assumes "lib_laws L" "restore_mutate L K cfg config r j0 w = (Inr j, w')"
  shows "job_labels j = (job_labels j0 ++ k8up_job_labels L (RestoreObj r) config)(K8upExclusive \<mapsto> ''true'')"
  using assms(2) MutateBatchJob_labels [OF assms(1), of K cfg j0 "RestoreObj r" config w]
  by (auto simp: restore_mutate_def rbind_Inr Let_def split: prod.splits dest!: upd_container0_job_labels)

text \<open>The job is selected by the locker of its repository.\<close>

lemma exclusive_labels_selected:
  "lk_repository l = cf_Repository config \<Longrightarrow>
   repo_selector L l \<subseteq>\<^sub>m (m ++ k8up_job_labels L obj config)(K8upExclusive \<mapsto> ''true'')"
  by (auto simp: map_le_def repo_selector_def k8up_job_labels_def k8up_consts)

definition exclusive_mutation ::
  "lib \<Rightarrow> 'w kube \<Rightarrow> Configuration \<Rightarrow> Config \<Rightarrow> JobObject \<Rightarrow> batch_job \<Rightarrow> 'w \<Rightarrow> batch_job result \<times> 'w" where
  "exclusive_mutation L K cfg config obj j w =
     (case obj of
        CheckObj c \<Rightarrow> check_mutate L K cfg config c j w
      | PruneObj p \<Rightarrow> prune_mutate L K cfg config p j w
      | RestoreObj r \<Rightarrow> restore_mutate L K cfg config r j w
      | _ \<Rightarrow> (Inl nil_deref, w))"

lemma exclusive_mutation_labels:
  assumes "lib_laws L" "exclusive_mutation L K cfg config obj j0 w = (Inr j, w')"
  shows "job_labels j = (job_labels j0 ++ k8up_job_labels L obj config)(K8upExclusive \<mapsto> ''true'')"
  using assms check_mutate_labels prune_mutate_labels restore_mutate_labels
  by (cases obj) (auto simp: exclusive_mutation_def)

section \<open>Environment\<close>

text \<open>A map with finitely many keys is enumerated completely and without repetition.\<close>

definition order_laws :: "lib \<Rightarrow> bool" where
  "order_laws L \<longleftrightarrow> (\<forall>e. finite (dom e) \<longrightarrow> range_order e (lib_Order L e))"

definition merge_ok :: "lib \<Rightarrow> bool" where
  "merge_ok L \<longleftrightarrow> mergo_laws (lib_MergoVars L) \<and> (\<forall>dst src. fst (lib_MergoVars L dst src) = None)"

lemma finite_set_string [simp]:
  "finite (dom (SetString k v e)) = finite (dom e)"
  "finite (dom (SetStringOrDefault k v d e)) = finite (dom e)"
  by (simp_all add: SetString_def SetStringOrDefault_def setEntry_def Let_def)

lemma finite_keep_var [simp]: "finite (dom (keep_var k n e)) = finite (dom e)"
  by (simp add: keep_var_def)

lemma finite_EnvVars [simp]: "finite (dom vars) \<Longrightarrow> finite (dom (EnvVars be vars))"
  by (cases be) (simp_all add: addEnvVarFromSecret_def split: option.splits)

lemma finite_credentials [simp]: "finite (dom (GetCredentialEnv b))"
  by (simp add: GetCredentialEnv_def Let_def split: option.splits)

lemma finite_backend_vars [simp]: "finite (dom e) \<Longrightarrow> finite (dom (set_backend_vars cfg be e))"
  by (simp add: set_backend_vars_def split: option.splits)

lemma finite_default_env [simp]: "finite (dom (DefaultEnv cfg ns))"
  by (simp add: DefaultEnv_def Let_def NewEnvVarConverter_def)

lemma finite_new [simp]: "finite (dom NewEnvVarConverter)"
  by (simp add: NewEnvVarConverter_def)

lemma default_repository:
  "DefaultEnv cfg ns ResticRepositoryEnvName = Some \<lparr>ee_stringEnv = Some (GetGlobalRepository cfg), ee_envVarSource = None\<rparr>"
  by (simp add: DefaultEnv_def Let_def set_string_apply GetGlobalRepository_def k8up_consts)

text \<open>
  Variables that agree on the repository: unset without a backend, the backend's string with one.
\<close>

definition repo_var_ok :: "Configuration \<Rightarrow> Backend option \<Rightarrow> Vars \<Rightarrow> bool" where
  "repo_var_ok cfg be e \<longleftrightarrow> finite (dom e) \<and> e ResticRepositoryEnvName =
     (case be of Some b \<Rightarrow> Some \<lparr>ee_stringEnv = Some (Backend_String cfg b), ee_envVarSource = None\<rparr> | None \<Rightarrow> None)"

lemma repo_var_ok_backend:
  "finite (dom e) \<Longrightarrow> e ResticRepositoryEnvName = None \<Longrightarrow> repo_var_ok cfg be (set_backend_vars cfg be e)"
  by (auto simp: repo_var_ok_def set_backend_vars_def set_string_apply split: option.splits)

lemma repo_var_ok_set:
  "k \<noteq> ResticRepositoryEnvName \<Longrightarrow> repo_var_ok cfg be (SetString k v e) = repo_var_ok cfg be e"
  "k \<noteq> ResticRepositoryEnvName \<Longrightarrow> repo_var_ok cfg be (SetStringOrDefault k v d e) = repo_var_ok cfg be e"
  by (auto simp: repo_var_ok_def SetString_def SetStringOrDefault_def setEntry_def Let_def)

lemma merged_repository:
  assumes "merge_ok L" "repo_var_ok cfg be e"
  shows "finite (dom (merged_vars L cfg ns e))"
    "merged_vars L cfg ns e ResticRepositoryEnvName = Some \<lparr>ee_stringEnv = Some (repository_of cfg be), ee_envVarSource = None\<rparr>"
proof -
  have m: "lib_MergoVars L e (DefaultEnv cfg ns) = (None, merged_vars L cfg ns e)"
    using assms(1) by (metis Merge_def merge_ok_def merged_vars_def prod.collapse)
  have laws: "mergo_laws (lib_MergoVars L)" using assms(1) by (simp add: merge_ok_def)
  note D = mergo_lawsD [OF laws m]
  show "finite (dom (merged_vars L cfg ns e))" using D(1) assms(2) by (simp add: repo_var_ok_def)
  show "merged_vars L cfg ns e ResticRepositoryEnvName = Some \<lparr>ee_stringEnv = Some (repository_of cfg be), ee_envVarSource = None\<rparr>"
    using D(2,3) [of ResticRepositoryEnvName] assms(2) default_repository
    by (cases be) (auto simp: repo_var_ok_def repository_of_def)
qed

text \<open>Distinct names, and the repository comes last with the expected value.\<close>

definition env_ok :: "string \<Rightarrow> env_var list \<Rightarrow> bool" where
  "env_ok repo vars \<longleftrightarrow> distinct (map ev_Name vars) \<and> vars \<noteq> [] \<and>
     last vars = \<lparr>ev_Name = ResticRepositoryEnvName, ev_Value = repo, ev_ValueFrom = None\<rparr>"

lemma Convert_env_ok:
  assumes "range_order e ord" "e ResticRepositoryEnvName = Some \<lparr>ee_stringEnv = Some repo, ee_envVarSource = None\<rparr>"
  shows "env_ok repo (Convert ord e)"
proof -
  have "Convert ord e = var_list e ord @ [\<lparr>ev_Name = ResticRepositoryEnvName, ev_Value = repo, ev_ValueFrom = None\<rparr>]"
    using Convert_eq [OF assms(1)] assms(2) by (simp add: entry_env_var_def)
  moreover have n: "map ev_Name (var_list e ord) = filter (\<lambda>k. k \<noteq> ResticRepositoryEnvName) ord"
    by (rule var_list_names [OF assms(1)])
  have "distinct (map ev_Name (var_list e ord))" "ResticRepositoryEnvName \<notin> set (map ev_Name (var_list e ord))"
    unfolding n using assms(1) by (simp_all add: range_order_def)
  ultimately show ?thesis by (simp add: env_ok_def)
qed

lemma finish_env_ok:
  assumes "merge_ok L" "order_laws L" "repo_var_ok cfg be e"
  shows "env_ok (repository_of cfg be) (finish_env L cfg ns e)"
  using merged_repository [OF assms(1,3)] assms(2) unfolding finish_env_def
  by (intro Convert_env_ok) (auto simp: order_laws_def)

text \<open>The variables of the first container, which is the one k8up configures.\<close>

definition job_env :: "batch_job \<Rightarrow> env_var list" where
  "job_env j = (case ps_Containers (pt_Spec (j_Template j)) of [] \<Rightarrow> [] | c # _ \<Rightarrow> ctr_Env c)"

lemma job_env_append: "upd_container0 (append_env vars) j = Inr j' \<Longrightarrow> job_env j' = job_env j @ vars"
  by (auto simp: job_env_def append_env_def elim!: upd_container0_Inr)

lemma job_env_keeps:
  "upd_container0 (AppendEnvFromToContainer r) j = Inr j' \<Longrightarrow> job_env j' = job_env j"
  "upd_container0 (append_mounts ms) j = Inr j' \<Longrightarrow> job_env j' = job_env j"
  "upd_container0 (set_args args) j = Inr j' \<Longrightarrow> job_env j' = job_env j"
  by (auto simp: job_env_def AppendEnvFromToContainer_def append_mounts_def set_args_def split: option.splits
      elim!: upd_container0_Inr)

lemma job_env_others [simp]:
  "job_env (append_volumes vs j) = job_env j" "job_env (set_job_label k v j) = job_env j"
  "job_env (default_service_account cfg j) = job_env j" "job_env (j\<lparr>j_BackoffLimit := n\<rparr>) = job_env j"
  by (simp_all add: job_env_def append_volumes_def upd_pod_spec_def set_job_label_def default_service_account_def)

text \<open>What each executor does to the job after \<open>MutateBatchJob\<close>, by kind.\<close>

definition executor_mutation ::
  "lib \<Rightarrow> 'w kube \<Rightarrow> Configuration \<Rightarrow> Config \<Rightarrow> (string \<times> nat \<times> jobItem) \<Rightarrow> JobObject \<Rightarrow> batch_job \<Rightarrow> 'w \<Rightarrow> batch_job result \<times> 'w" where
  "executor_mutation L K cfg config item obj j w =
     (case obj of
        CheckObj c \<Rightarrow> check_mutate L K cfg config c j w
      | PruneObj p \<Rightarrow> prune_mutate L K cfg config p j w
      | RestoreObj r \<Rightarrow> restore_mutate L K cfg config r j w
      | ArchiveObj a \<Rightarrow> archive_mutate L K cfg config a j w
      | BackupObj b \<Rightarrow> (case item of (name, index, ji) \<Rightarrow> backup_mutate L K cfg config b name index ji j w)
      | _ \<Rightarrow> (Inl nil_deref, w))"

definition object_backend :: "JobObject \<Rightarrow> Backend option" where
  "object_backend obj =
     (case obj of
        CheckObj c \<Rightarrow> rs_Backend (cs_RunnableSpec (c_Spec c))
      | PruneObj p \<Rightarrow> rs_Backend (prs_RunnableSpec (p_Spec p))
      | RestoreObj r \<Rightarrow> rs_Backend (res_RunnableSpec (r_Spec r))
      | ArchiveObj a \<Rightarrow> (case as_RestoreSpec (a_Spec a) of Some spec \<Rightarrow> rs_Backend (res_RunnableSpec spec) | None \<Rightarrow> None)
      | BackupObj b \<Rightarrow> rs_Backend (bs_RunnableSpec (b_Spec b))
      | _ \<Rightarrow> None)"

lemma RestoreEnvVars_names:
  "finite (dom (RestoreEnvVars cfg s3))" "RestoreEnvVars cfg s3 ResticRepositoryEnvName = None"
  by (auto simp: RestoreEnvVars_def Let_def k8up_consts split: option.splits)

lemma dom_set_restore_vars: "dom (set_restore_vars rvars vars) = dom rvars \<union> dom vars"
  by (auto simp: set_restore_vars_def range_assign_def dom_def split: option.splits)

lemma restore_vars_repository:
  "finite (dom (set_restore_vars (RestoreEnvVars cfg s3) NewEnvVarConverter))"
  "set_restore_vars (RestoreEnvVars cfg s3) NewEnvVarConverter ResticRepositoryEnvName = None"
  "NewEnvVarConverter ResticRepositoryEnvName = None" "ResticRepositoryEnvName \<noteq> ''RESTORE_DIR''"
proof -
  show "finite (dom (set_restore_vars (RestoreEnvVars cfg s3) NewEnvVarConverter))"
    by (simp add: dom_set_restore_vars RestoreEnvVars_names)
  show "set_restore_vars (RestoreEnvVars cfg s3) NewEnvVarConverter ResticRepositoryEnvName = None"
    by (simp add: set_restore_vars_def range_assign_def RestoreEnvVars_names NewEnvVarConverter_def)
qed (simp_all add: NewEnvVarConverter_def k8up_consts)

lemma finish_env_backend:
  assumes "merge_ok L" "order_laws L" "finite (dom e)" "e ResticRepositoryEnvName = None"
  shows "env_ok (repository_of cfg be) (finish_env L cfg ns (set_backend_vars cfg be e))"
  by (rule finish_env_ok [OF assms(1,2) repo_var_ok_backend [OF assms(3,4)]])

lemma check_environment:
  assumes "merge_ok L" "order_laws L"
  shows "env_ok (repository_of cfg (rs_Backend (cs_RunnableSpec (c_Spec c)))) (check_setupEnvVars L cfg c)"
  unfolding check_setupEnvVars_def Let_def
  by (intro finish_env_ok assms) (simp add: repo_var_ok_set k8up_consts repo_var_ok_backend NewEnvVarConverter_def)

lemma prune_environment:
  assumes "merge_ok L" "order_laws L"
  shows "env_ok (repository_of cfg (rs_Backend (prs_RunnableSpec (p_Spec p)))) (prune_setupEnvVars L cfg p)"
  unfolding prune_setupEnvVars_def Let_def
  by (intro finish_env_ok assms)
    (auto simp: repo_var_ok_set k8up_consts intro!: repo_var_ok_backend simp: NewEnvVarConverter_def keep_var_def set_string_apply)

lemma archive_environment:
  assumes "merge_ok L" "order_laws L"
  shows "env_ok (repository_of cfg (rs_Backend (res_RunnableSpec r))) (archive_setupEnvVars L cfg ns r)"
  unfolding archive_setupEnvVars_def Let_def
  by (rule finish_env_backend [OF assms])
    (auto simp: restore_vars_repository set_string_apply split: option.splits)

lemma restore_environment:
  assumes "merge_ok L" "order_laws L" "restore_setupEnvVars L cfg r = Inr vars"
  shows "env_ok (repository_of cfg (rs_Backend (res_RunnableSpec (r_Spec r)))) vars"
  using assms(3) unfolding restore_setupEnvVars_def Let_def
  by (auto split: option.splits intro!: finish_env_backend [OF assms(1,2)]
    simp: restore_vars_repository set_string_apply)

lemma backup_environment:
  assumes "merge_ok L" "order_laws L" "backup_setupEnvVars L cfg b = Inr vars"
  shows "env_ok (repository_of cfg (rs_Backend (bs_RunnableSpec (b_Spec b)))) vars"
proof -
  define e0 where "e0 = (let vars = set_backend_vars cfg (rs_Backend (bs_RunnableSpec (b_Spec b))) NewEnvVarConverter;
          vars = SetStringOrDefault ''STATS_URL'' (bs_StatsURL (b_Spec b)) (cfg_GlobalStatsURL cfg) vars;
          vars = SetStringOrDefault ''PROM_URL'' (bs_PromURL (b_Spec b)) (cfg_PromURL cfg) vars;
          vars = SetStringOrDefault ''CLUSTER_NAME'' (bs_ClusterName (b_Spec b)) (cfg_ClusterName cfg) vars;
          vars = SetString ''BACKUPCOMMAND_ANNOTATION'' (cfg_BackupCommandAnnotation cfg) vars;
          vars = SetString ''FILEEXTENSION_ANNOTATION'' (cfg_FileExtensionAnnotation cfg) vars
      in (if cfg_SkipSnapshotSync cfg then SetString ''BACKUP_SKIP_SNAPSHOT_SYNC'' ''true'' vars else vars))"
  have "vars = finish_env L cfg (om_Namespace (b_Meta b)) e0"
    using assms(3) by (auto simp: backup_setupEnvVars_def e0_def Let_def finish_env_def merged_vars_def Merge_def
        split: prod.splits option.splits)
  moreover have "repo_var_ok cfg (rs_Backend (bs_RunnableSpec (b_Spec b))) e0"
    by (simp add: e0_def Let_def repo_var_ok_set k8up_consts repo_var_ok_backend NewEnvVarConverter_def)
  ultimately show ?thesis using finish_env_ok [OF assms(1,2)] by simp
qed

lemma find_after:
  "(\<forall>x \<in> set xs. \<not> P x) \<Longrightarrow> find P (xs @ ys) = find P ys"
  by (induction xs) simp_all

lemmas job_env_steps = job_env_append job_env_keeps

text \<open>The variables a mutation appends: those of \<open>setupEnvVars\<close> and, for a backup, those of the item.\<close>

definition item_env :: "Configuration \<Rightarrow> (string \<times> nat \<times> jobItem) \<Rightarrow> JobObject \<Rightarrow> env_var list" where
  "item_env cfg item obj =
     (case obj of BackupObj b \<Rightarrow> (case item of (name, index, ji) \<Rightarrow> job_env_vars cfg name index ji) | _ \<Rightarrow> [])"

lemma item_env_names:
  "set (map ev_Name (item_env cfg item obj)) \<subseteq> {''TARGET_PODS'', ''SKIP_PREBACKUP'', SPDYFallbackEnvName, ''SLEEP_DURATION''}"
  by (auto simp: item_env_def job_env_vars_def split: JobObject.splits prod.splits)

lemma executor_environment:
  assumes "merge_ok L" "order_laws L" "executor_mutation L K cfg config item obj j w = (Inr j', w')"
  obtains j1 vars where "MutateBatchJob L K cfg j obj config w = (Inr j1, w')"
    "job_env j' = job_env j1 @ vars @ item_env cfg item obj" "env_ok (repository_of cfg (object_backend obj)) vars"
proof (cases obj)
  case (CheckObj c)
  then obtain j1 where "MutateBatchJob L K cfg j obj config w = (Inr j1, w')" "job_env j' = job_env j1 @ check_setupEnvVars L cfg c"
    using assms(3) by (auto simp: executor_mutation_def check_mutate_def rbind_Inr Let_def split: prod.splits dest!: job_env_steps)
  then show thesis using that check_environment [OF assms(1,2)] CheckObj by (simp add: object_backend_def item_env_def)
next
  case (PruneObj p)
  then obtain j1 where "MutateBatchJob L K cfg j obj config w = (Inr j1, w')" "job_env j' = job_env j1 @ prune_setupEnvVars L cfg p"
    using assms(3) by (auto simp: executor_mutation_def prune_mutate_def rbind_Inr Let_def split: prod.splits dest!: job_env_steps)
  then show thesis using that prune_environment [OF assms(1,2)] PruneObj by (simp add: object_backend_def item_env_def)
next
  case (RestoreObj r)
  then obtain j1 vars where "MutateBatchJob L K cfg j obj config w = (Inr j1, w')" "job_env j' = job_env j1 @ vars"
      "restore_setupEnvVars L cfg r = Inr vars"
    using assms(3) by (auto simp: executor_mutation_def restore_mutate_def rbind_Inr Let_def split: prod.splits dest!: job_env_steps)
  then show thesis using that restore_environment [OF assms(1,2)] RestoreObj by (simp add: object_backend_def item_env_def)
next
  case (ArchiveObj a)
  then obtain j1 spec where "MutateBatchJob L K cfg j obj config w = (Inr j1, w')" "archive_spec a = Inr spec"
      "job_env j' = job_env j1 @ archive_setupEnvVars L cfg (om_Namespace (a_Meta a)) spec"
    using assms(3) by (auto simp: executor_mutation_def archive_mutate_def rbind_Inr Let_def split: prod.splits dest!: job_env_steps)
  then show thesis using that archive_environment [OF assms(1,2)] ArchiveObj
    by (simp add: object_backend_def item_env_def archive_spec_def split: option.splits)
next
  case (BackupObj b)
  obtain name index ji where item: "item = (name, index, ji)" by (cases item)
  obtain j1 vars where "MutateBatchJob L K cfg j obj config w = (Inr j1, w')" "backup_setupEnvVars L cfg b = Inr vars"
      "job_env j' = job_env j1 @ vars @ job_env_vars cfg name index ji"
    using assms(3) BackupObj item
    by (auto simp: executor_mutation_def backup_mutate_def rbind_Inr Let_def split: prod.splits dest!: job_env_steps)
  then show thesis using that backup_environment [OF assms(1,2)] BackupObj item by (simp add: object_backend_def item_env_def)
qed (use assms(3) in \<open>auto simp: executor_mutation_def\<close>)

section \<open>Properties\<close>

text \<open>
  C15. While the job of a check, a prune or a restore has active pods, the locker of its repository
  runs nothing: neither \<^verbatim>\<open>TryRun\<close> (whatever the kind and the limit) nor
  \<^verbatim>\<open>TryRunExclusively\<close>. The job is any job of the cluster with the labels the
  executor gave it; the server is assumed to list every job that matches the selector.
\<close>

theorem exclusive_job_blocks_repository:
  assumes "lib_laws L" "exclusive_mutation L K cfg config obj j0 w0 = (Inr j1, w1)"
    "job_labels j = job_labels j1" "js_Active (j_Status j) > 0" "j \<in> set cluster_jobs"
    "lk_repository l = cf_Repository config"
    "k_ListJobs K (repo_selector L l) None (env_World e) = (Inr items, w)"
    "\<And>x. x \<in> set cluster_jobs \<Longrightarrow> repo_selector L l \<subseteq>\<^sub>m job_labels x \<Longrightarrow> x \<in> set items"
  shows "TryRun L K l config' limit runnable a e = (((False, None), a), e\<lparr>env_World := w\<rparr>) \<and>
    TryRunExclusively L K l runnable a e = (((False, None), a), e\<lparr>env_World := w\<rparr>)"
proof -
  note labels = exclusive_mutation_labels [OF assms(1,2)]
  have "repo_selector L l \<subseteq>\<^sub>m job_labels j"
    unfolding assms(3) labels by (rule exclusive_labels_selected [OF assms(6)])
  then have j: "j \<in> set items" using assms(5,8) by simp
  have "job_labels j K8upExclusive = Some ''true''" using assms(3) labels by simp
  then have ex: "exclusive_running items" using j assms(4) by (auto simp: exclusive_running_def)
  have ne: "active_jobs items \<noteq> []" using j assms(4) by (auto simp: active_jobs_def filter_empty_conv)
  show ?thesis
    using shared_guard [of items "GetType (cf_Obj config')" limit] ex ne
    by (auto simp: TryRun_def TryRunExclusively_def in_world_def fetchRunningJobs_ok [OF assms(7)] Let_def)
qed

definition ex_running_check :: batch_job where
  "ex_running_check = (case check_mutate lib_ref kube_ref (default_config ''k8up'') (NewConfig (CheckObj ex_check) ''r'') ex_check
       (new_job ''ns'' ''check-c'') empty_cluster of
     (Inr j, _) \<Rightarrow> j\<lparr>j_Status := \<lparr>js_Active = 1, js_Succeeded = 0, js_Failed = 0, js_Conditions = []\<rparr>\<rparr>
   | _ \<Rightarrow> empty_job)"

theorem exclusive_job_blocks_repository_witness:
  "TryRun lib_ref kube_ref \<lparr>lk_addr = 0, lk_repository = ''r''\<rparr> (NewConfig (ex_backup ''b'' 0 []) ''r'') 0
      (\<lambda>a e. ((None, Suc a), e)) 0 (ref_env (empty_cluster\<lparr>cl_Jobs := [ex_running_check]\<rparr>)) =
    (((False, None), 0), ref_env (empty_cluster\<lparr>cl_Jobs := [ex_running_check]\<rparr>))"
proof -
  let ?l = "\<lparr>lk_addr = 0, lk_repository = ''r''\<rparr>"
  let ?cfg = "default_config ''k8up''"
  let ?c = "NewConfig (CheckObj ex_check) ''r''"
  let ?e = "ref_env (empty_cluster\<lparr>cl_Jobs := [ex_running_check]\<rparr>)"
  obtain j1 where m: "exclusive_mutation lib_ref kube_ref ?cfg ?c (CheckObj ex_check) (new_job ''ns'' ''check-c'') empty_cluster = (Inr j1, empty_cluster)"
    and j: "ex_running_check = j1\<lparr>j_Status := \<lparr>js_Active = 1, js_Succeeded = 0, js_Failed = 0, js_Conditions = []\<rparr>\<rparr>"
    by (simp add: exclusive_mutation_def ex_running_check_def check_mutate_def MutateBatchJob_def mutate_base_def merge_pod_config_def mutate_override_def
        upd_pod_spec_def upd_container0_def GetPodConfig_ref NewConfig_def ex_check_def ex_meta_def empty_runnable_def new_job_def append_volumes_def set_job_label_def
        empty_job_def empty_template_def empty_pod_spec_def empty_meta_def lib_ref_def default_config_def Let_def)
  have lab: "job_labels ex_running_check = job_labels j1" "js_Active (j_Status ex_running_check) > 0"
    by (simp_all add: j job_labels_def)
  have r: "lk_repository ?l = cf_Repository ?c" by (simp add: NewConfig_def)
  have sel: "repo_selector lib_ref ?l \<subseteq>\<^sub>m job_labels ex_running_check"
    unfolding lab(1) exclusive_mutation_labels [OF lib_ref.lib_laws_axioms m] by (rule exclusive_labels_selected [OF r])
  have "repo_selector lib_ref ?l k = None \<or> job_labels ex_running_check k = repo_selector lib_ref ?l k" for k
    using sel [unfolded map_le_def, THEN bspec, of k] by (cases "repo_selector lib_ref ?l k") (auto simp: domI)
  then have "ref_matches (repo_selector lib_ref ?l) (job_labels ex_running_check)"
    by (simp only: ref_matches_def list.pred_inject simp_thms)
  then have lst: "k_ListJobs kube_ref (repo_selector lib_ref ?l) None (env_World ?e) = (Inr [ex_running_check], empty_cluster\<lparr>cl_Jobs := [ex_running_check]\<rparr>)"
    by (simp add: ref_env_def kube_ref_def)
  show ?thesis
    using exclusive_job_blocks_repository [OF lib_ref.lib_laws_axioms m lab(1,2), of "[ex_running_check]", OF _ r lst, of
        "NewConfig (ex_backup ''b'' 0 []) ''r''" 0 "\<lambda>a e. ((None, Suc a), e)" 0]
    by (simp add: ref_env_def)
qed

text \<open>
  C16. The environment of a batch job, for each of the five kinds that have one. The first container
  of the job an executor prepares has the variables it had after \<^verbatim>\<open>MutateBatchJob\<close> (those
  of a pod configuration among them), then those of \<^verbatim>\<open>setupEnvVars\<close>, then, for a
  backup, those of its item. The middle part has no variable twice and ends with the repository,
  whose value is the repository by which the controller locks and labels the job, from the object's
  backend or from the global settings. The last entry of that name in the whole list is this one,
  also when a pod configuration brings another. (Other variables may be referred to in it, so that
  it has to come after them.) The hypotheses are the documented behaviour of
  \<^verbatim>\<open>mergo.Merge\<close> and of \<^verbatim>\<open>range\<close> over a map, and that the mutation
  returned no error.
\<close>

theorem job_environment:
  assumes "merge_ok L" "order_laws L" "executor_mutation L K cfg config item obj j w = (Inr j', w')"
  shows "\<exists>j1 vars repo. repo = repository_of cfg (object_backend obj) \<and>
    MutateBatchJob L K cfg j obj config w = (Inr j1, w') \<and>
    job_env j' = job_env j1 @ vars @ item_env cfg item obj \<and>
    distinct (map ev_Name vars) \<and>
    (\<exists>vs. vars = vs @ [\<lparr>ev_Name = ResticRepositoryEnvName, ev_Value = repo, ev_ValueFrom = None\<rparr>]) \<and>
    ResticRepositoryEnvName \<notin> set (map ev_Name (item_env cfg item obj)) \<and>
    find (\<lambda>v. ev_Name v = ResticRepositoryEnvName) (rev (job_env j')) =
      Some \<lparr>ev_Name = ResticRepositoryEnvName, ev_Value = repo, ev_ValueFrom = None\<rparr>"
proof -
  let ?r = "\<lparr>ev_Name = ResticRepositoryEnvName, ev_Value = repository_of cfg (object_backend obj), ev_ValueFrom = None\<rparr>"
  obtain j1 vars where m: "MutateBatchJob L K cfg j obj config w = (Inr j1, w')"
      "job_env j' = job_env j1 @ vars @ item_env cfg item obj" "env_ok (repository_of cfg (object_backend obj)) vars"
    by (rule executor_environment [OF assms])
  then obtain vs where vs: "vars = vs @ [?r]" by (metis append_butlast_last_id env_ok_def)
  have n: "ResticRepositoryEnvName \<notin> set (map ev_Name (item_env cfg item obj))"
    using item_env_names [of cfg item obj] by (auto simp: k8up_consts)
  have "find (\<lambda>v. ev_Name v = ResticRepositoryEnvName) (rev (job_env j')) = Some ?r"
    using n by (simp add: m(2) vs) (subst find_after; force)
  then show ?thesis using m n vs by (intro exI [of _ j1] exI [of _ vars]) (auto simp: env_ok_def)
qed

definition sorted_lib :: lib where
  "sorted_lib = lib_ref\<lparr>lib_Order := \<lambda>e. sorted_list_of_set (dom e)\<rparr>"

definition ex_job_item :: "string \<times> nat \<times> jobItem" where
  "ex_job_item = (''prebackup'', 0, prebackup_job sample_backup [])"

theorem job_environment_witness:
  "\<exists>j'. executor_mutation sorted_lib kube_ref (default_config ''k8up'') (NewConfig (CheckObj ex_check) ''r'') ex_job_item
       (CheckObj ex_check) (new_job ''ns'' ''check-c'') empty_cluster = (Inr j', empty_cluster) \<and>
     find (\<lambda>v. ev_Name v = ResticRepositoryEnvName) (rev (job_env j')) =
       Some \<lparr>ev_Name = ResticRepositoryEnvName, ev_Value = GetGlobalRepository (default_config ''k8up''), ev_ValueFrom = None\<rparr>"
proof -
  let ?c = "NewConfig (CheckObj ex_check) ''r''" and ?cfg = "default_config ''k8up''"
  have m: "merge_ok sorted_lib"
    by (simp add: merge_ok_def sorted_lib_def lib_ref_def mergo_ref_laws) (simp add: mergo_ref_def)
  have o: "order_laws sorted_lib" by (simp add: order_laws_def sorted_lib_def range_order_def)
  obtain j' where j': "executor_mutation sorted_lib kube_ref ?cfg ?c ex_job_item (CheckObj ex_check)
      (new_job ''ns'' ''check-c'') empty_cluster = (Inr j', empty_cluster)"
    by (simp add: executor_mutation_def check_mutate_def MutateBatchJob_def mutate_base_def merge_pod_config_def mutate_override_def
        upd_pod_spec_def upd_container0_def GetPodConfig_ref NewConfig_def ex_check_def ex_meta_def empty_runnable_def new_job_def
        append_volumes_def set_job_label_def empty_job_def empty_template_def empty_pod_spec_def empty_meta_def lib_ref_def
        sorted_lib_def default_config_def Let_def)
  have "repository_of ?cfg (object_backend (CheckObj ex_check)) = GetGlobalRepository ?cfg"
    by (simp add: object_backend_def ex_check_def empty_runnable_def repository_of_def)
  then show ?thesis using job_environment [OF m o j'] j' by auto
qed

text \<open>
  The volume mounts that the executors add for TLS files and working directories never
  contain the same name and path twice, and always contain the working directories.
\<close>

theorem tls_mounts_distinct:
  "distinct (mount_keys (AttachEmptyDirVolumeMounts dir (ms # mss))) \<and>
   set (mount_keys (AttachEmptyDirVolumeMounts dir (ms # mss))) =
     set (mount_keys (empty_dir_mounts dir)) \<union>
     (\<Union>v\<in>set (ms # mss). case v of None \<Rightarrow> {} | Some l \<Rightarrow> set (mount_keys l))"
proof -
  have "distinct (mount_keys (empty_dir_mounts dir))"
    by (simp add: empty_dir_mounts_def k8up_consts)
  then show ?thesis
    using attach_all_mounts_props(1) [of "empty_dir_mounts dir" "ms # mss"]
      attach_all_mounts_props(2) [of "ms # mss" "empty_dir_mounts dir"]
    unfolding AttachEmptyDirVolumeMounts_def by auto
qed

text \<open>
  C17. A restore whose method names neither a folder nor an S3 target never reaches the error
  ``undefined restore method'': the mutation panics on the nil folder before, when it computes the
  volumes. A restore without a method panics too.
\<close>

theorem restore_without_target_panics:
  assumes "MutateBatchJob L K cfg j (RestoreObj r) config w = (Inr j1, w')"
    "case res_RestoreMethod (r_Spec r) of None \<Rightarrow> True | Some m \<Rightarrow> rm_Folder m = None \<and> rm_S3 m = None"
  shows "\<exists>p. fst (restore_mutate L K cfg config r j w) = Inl p \<and> is_panic p"
proof -
  let ?j = "set_job_label K8upExclusive ''true'' j1"
  have pan: "upd_container0 f i = Inl p \<Longrightarrow> is_panic p" for f i p
    by (auto simp: upd_container0_def split: list.splits)
  have vol: "\<exists>p. volumeConfig r = Inl p \<and> is_panic p"
    using assms(2) by (auto simp: volumeConfig_def nil_deref_def split: option.splits)
  show ?thesis
    using vol pan assms
    by (auto simp: restore_mutate_def Let_def restore_setupEnvVars_def nil_deref_def rbind_def split: option.splits sum.splits)
qed

definition ex_restore :: Restore where
  "ex_restore = \<lparr>r_Meta = ex_meta ''r'' 0, r_Spec = empty_restore_spec, r_Status = empty_status\<rparr>"

theorem restore_without_target_panics_witness:
  "\<exists>p. fst (restore_mutate lib_ref kube_ref (default_config ''k8up'') (NewConfig (RestoreObj ex_restore) ''repo'') ex_restore
      (new_job ''ns'' ''restore-r'') empty_cluster) = Inl p \<and> is_panic p"
proof -
  obtain j1 where "MutateBatchJob lib_ref kube_ref (default_config ''k8up'') (new_job ''ns'' ''restore-r'') (RestoreObj ex_restore)
      (NewConfig (RestoreObj ex_restore) ''repo'') empty_cluster = (Inr j1, empty_cluster)"
    by (simp add: MutateBatchJob_def mutate_base_def merge_pod_config_def mutate_override_def
        upd_pod_spec_def upd_container0_def GetPodConfig_ref NewConfig_def ex_restore_def empty_restore_spec_def ex_meta_def
        empty_runnable_def new_job_def empty_job_def empty_template_def empty_pod_spec_def empty_meta_def lib_ref_def
        default_config_def Let_def)
  then show ?thesis
    by (rule restore_without_target_panics) (simp add: ex_restore_def empty_restore_spec_def)
qed

end
