(* ===== verification/Locker_Steps.thy ===== *)
theory Locker_Steps
  imports Locker
begin

text \<open>
  The interleavings around \<^verbatim>\<open>GetForRepository\<close>, \<^verbatim>\<open>TryRun\<close> and
  \<^verbatim>\<open>TryRunExclusively\<close> of \<^verbatim>\<open>operator/locker/locker.go\<close>: any number of
  reconciling workers, the shared table of lockers with a mutex in each locker, and the cluster,
  whose job controller sets \<^verbatim>\<open>Status.Active\<close> of a job some time after the job was
  created. The guards and \<open>GetForRepository\<close> are the ones of theory \<open>Locker\<close>.
\<close>

text \<open>
  How a worker asks: \<^verbatim>\<open>TryRunExclusively\<close>, or \<^verbatim>\<open>TryRun\<close> with the
  type and the limit.
\<close>

datatype run_mode = Exclusive | Shared JobType int

text \<open>
  A worker's place in the code, with its locker, the mode and the jobs its runnable has still to
  create. A runnable that finds its job in the cluster updates it and creates none, which is a
  runnable with that job left out.
\<close>

datatype place =
    Idle
  | Got lockerImpl run_mode "batch_job list" \<comment> \<open>after \<^verbatim>\<open>GetForRepository\<close>, before \<^verbatim>\<open>l.m.Lock()\<close> returns\<close>
  | Locked lockerImpl run_mode "batch_job list" \<comment> \<open>after \<^verbatim>\<open>l.m.Lock()\<close>\<close>
  | Running lockerImpl run_mode "batch_job list" \<comment> \<open>the guard held, inside the runnable\<close>
  | Leaving lockerImpl \<comment> \<open>before the deferred \<^verbatim>\<open>l.m.Unlock()\<close>\<close>

record cluster_job =
  cj_Repo :: string
  cj_Mode :: run_mode
  cj_Ended :: bool \<comment> \<open>no pod of it will be active again\<close>
  cj_Job :: batch_job

record lstate =
  ls_Env :: "unit env" \<comment> \<open>with the table of lockers\<close>
  ls_Holder :: "nat \<Rightarrow> nat option" \<comment> \<open>who holds the mutex at an address\<close>
  ls_Place :: "nat \<Rightarrow> place"
  ls_Jobs :: "cluster_job list"

definition active :: "cluster_job \<Rightarrow> bool" where
  "active c \<longleftrightarrow> js_Active (j_Status (cj_Job c)) > 0"

definition set_active :: "int \<Rightarrow> batch_job \<Rightarrow> batch_job" where
  "set_active n j = j\<lparr>j_Status := (j_Status j)\<lparr>js_Active := n\<rparr>\<rparr>"

definition running_jobs :: "lstate \<Rightarrow> string \<Rightarrow> batch_job list" where
  "running_jobs s repo = map cj_Job (filter (\<lambda>c. cj_Repo c = repo \<and> active c) (ls_Jobs s))"

fun guard :: "run_mode \<Rightarrow> batch_job list \<Rightarrow> bool" where
  "guard Exclusive running = (length running = 0)"
| "guard (Shared jobType limit) running =
     (\<not> isExclusiveJobRunning running \<and> \<not> isConcurrencyLimitReached running jobType limit)"

text \<open>
  The executors that run exclusively (check and prune) create one job, with the exclusive label.
\<close>

definition request_ok :: "run_mode \<Rightarrow> batch_job list \<Rightarrow> bool" where
  "request_ok m js \<longleftrightarrow> (m = Exclusive \<longrightarrow> length js \<le> 1 \<and> (\<forall>j \<in> set js. job_labels j K8upExclusive = Some ''true''))"

datatype actor = Worker nat | JobController

definition at_place :: "nat \<Rightarrow> place \<Rightarrow> lstate \<Rightarrow> lstate" where
  "at_place w p s = s\<lparr>ls_Place := (ls_Place s)(w := p)\<rparr>"

definition new_cluster_job :: "lockerImpl \<Rightarrow> run_mode \<Rightarrow> batch_job \<Rightarrow> cluster_job" where
  "new_cluster_job l m j = \<lparr>cj_Repo = lk_repository l, cj_Mode = m, cj_Ended = False, cj_Job = set_active 0 j\<rparr>"

text \<open>
  The steps, each with its actor. A job starts with no active pod, and the job controller changes
  the number at any time until the job has ended.
\<close>

inductive lstep :: "actor \<Rightarrow> lstate \<Rightarrow> lstate \<Rightarrow> bool" where
  get: "\<lbrakk>ls_Place s w = Idle; GetForRepository repo (ls_Env s) = (l, e); request_ok m js\<rbrakk> \<Longrightarrow>
    lstep (Worker w) s (at_place w (Got l m js) (s\<lparr>ls_Env := e\<rparr>))"
| lock: "\<lbrakk>ls_Place s w = Got l m js; ls_Holder s (lk_addr l) = None\<rbrakk> \<Longrightarrow>
    lstep (Worker w) s (at_place w (Locked l m js) (s\<lparr>ls_Holder := (ls_Holder s)(lk_addr l := Some w)\<rparr>))"
| list_error: "ls_Place s w = Locked l m js \<Longrightarrow> lstep (Worker w) s (at_place w (Leaving l) s)"
| pass: "\<lbrakk>ls_Place s w = Locked l m js; guard m (running_jobs s (lk_repository l))\<rbrakk> \<Longrightarrow>
    lstep (Worker w) s (at_place w (Running l m js) s)"
| refuse: "\<lbrakk>ls_Place s w = Locked l m js; \<not> guard m (running_jobs s (lk_repository l))\<rbrakk> \<Longrightarrow>
    lstep (Worker w) s (at_place w (Leaving l) s)"
| create: "ls_Place s w = Running l m (j # js) \<Longrightarrow>
    lstep (Worker w) s (at_place w (Running l m js) (s\<lparr>ls_Jobs := ls_Jobs s @ [new_cluster_job l m j]\<rparr>))"
| run_error: "ls_Place s w = Running l m js \<Longrightarrow> lstep (Worker w) s (at_place w (Leaving l) s)"
| run_done: "ls_Place s w = Running l m [] \<Longrightarrow> lstep (Worker w) s (at_place w (Leaving l) s)"
| unlock: "ls_Place s w = Leaving l \<Longrightarrow>
    lstep (Worker w) s (at_place w Idle (s\<lparr>ls_Holder := (ls_Holder s)(lk_addr l := None)\<rparr>))"
| controller: "\<lbrakk>i < length (ls_Jobs s); c = ls_Jobs s ! i; \<not> cj_Ended c; n \<ge> 0; ended \<Longrightarrow> n = 0\<rbrakk> \<Longrightarrow>
    lstep JobController s (s\<lparr>ls_Jobs := (ls_Jobs s)[i := c\<lparr>cj_Ended := ended, cj_Job := set_active n (cj_Job c)\<rparr>]\<rparr>)"

definition initial :: lstate where
  "initial = \<lparr>ls_Env = \<lparr>env_World = (), env_Metrics = empty_metrics, env_Schedules = Map.empty, env_Lockers = []\<rparr>,
     ls_Holder = \<lambda>_. None, ls_Place = \<lambda>_. Idle, ls_Jobs = []\<rparr>"

text \<open>
  \<open>current s repo\<close>: every job of the repository that has not ended shows an active pod. The
  runs of \<open>reachable True\<close> are those in which this is so whenever a guard passes; those of
  \<open>reachable False\<close> are all runs.
\<close>

definition current :: "lstate \<Rightarrow> string \<Rightarrow> bool" where
  "current s repo \<longleftrightarrow> (\<forall>c \<in> set (ls_Jobs s). cj_Repo c = repo \<and> \<not> cj_Ended c \<longrightarrow> active c)"

definition passes_current :: "lstate \<Rightarrow> lstate \<Rightarrow> bool" where
  "passes_current s s' \<longleftrightarrow> (\<forall>w l m js. ls_Place s w = Locked l m js \<and> ls_Place s' w = Running l m js
     \<longrightarrow> current s (lk_repository l))"

inductive reachable :: "bool \<Rightarrow> lstate \<Rightarrow> bool" for up_to_date :: bool where
  start: "reachable up_to_date initial"
| step: "\<lbrakk>reachable up_to_date s; lstep a s s'; up_to_date \<Longrightarrow> passes_current s s'\<rbrakk> \<Longrightarrow> reachable up_to_date s'"

inductive_cases lstepE: "lstep a s s'"

lemma at_place_simps [simp]:
  "ls_Place (at_place w p s) = (ls_Place s)(w := p)" "ls_Jobs (at_place w p s) = ls_Jobs s"
  "ls_Holder (at_place w p s) = ls_Holder s" "ls_Env (at_place w p s) = ls_Env s"
  by (simp_all add: at_place_def)

section \<open>Mutual exclusion\<close>

text \<open>Between lock and unlock, with a locker.\<close>

fun holds :: "place \<Rightarrow> lockerImpl \<Rightarrow> bool" where
  "holds (Locked l' _ _) l = (l' = l)"
| "holds (Running l' _ _) l = (l' = l)"
| "holds (Leaving l') l = (l' = l)"
| "holds _ l = False"

fun has_locker :: "place \<Rightarrow> lockerImpl \<Rightarrow> bool" where
  "has_locker (Got l' _ _) l = (l' = l)"
| "has_locker p l = holds p l"

definition inside :: "place \<Rightarrow> string \<Rightarrow> bool" where
  "inside p repo \<longleftrightarrow> (\<exists>l. holds p l \<and> lk_repository l = repo)"

lemma holds_has_locker: "holds p l \<Longrightarrow> has_locker p l"
  by (cases p) auto

lemma holds_unique: "holds p l \<Longrightarrow> holds p l' \<Longrightarrow> l = l'"
  by (cases p) auto

definition table_inv :: "lstate \<Rightarrow> bool" where
  "table_inv s \<longleftrightarrow> (\<forall>w l. has_locker (ls_Place s w) l \<longrightarrow> map_of (env_Lockers (ls_Env s)) (lk_repository l) = Some l) \<and>
     (\<forall>repo l. map_of (env_Lockers (ls_Env s)) repo = Some l \<longrightarrow> lk_repository l = repo)"

definition mutex_inv :: "lstate \<Rightarrow> bool" where
  "mutex_inv s \<longleftrightarrow> (\<forall>w l. holds (ls_Place s w) l \<longrightarrow> ls_Holder s (lk_addr l) = Some w)"

text \<open>What \<^verbatim>\<open>LoadOrStore\<close> gives: the stored locker is returned, and no entry changes.\<close>

lemma GetForRepository_table:
  assumes "GetForRepository repo e = (l, e')" "\<And>r k. map_of (env_Lockers e) r = Some k \<Longrightarrow> lk_repository k = r"
  shows "map_of (env_Lockers e') repo = Some l" "lk_repository l = repo"
    "map_of (env_Lockers e) r = Some k \<Longrightarrow> map_of (env_Lockers e') r = Some k"
    "map_of (env_Lockers e') r = Some k \<Longrightarrow> lk_repository k = r"
  using assms by (auto simp: GetForRepository_def Let_def split: option.splits if_splits)

lemma table_inv_others [simp]:
  "table_inv (s\<lparr>ls_Holder := h\<rparr>) = table_inv s" "table_inv (s\<lparr>ls_Jobs := js\<rparr>) = table_inv s"
  by (simp_all add: table_inv_def)

lemma table_at_place:
  "table_inv s \<Longrightarrow> (\<And>l. has_locker p l \<Longrightarrow> has_locker (ls_Place s w) l) \<Longrightarrow> table_inv (at_place w p s)"
  by (auto simp: table_inv_def)

lemma table_step: "lstep a s s' \<Longrightarrow> table_inv s \<Longrightarrow> table_inv s'"
proof (induction rule: lstep.induct)
  case (get s w repo l e m js)
  have t: "\<And>r k. map_of (env_Lockers (ls_Env s)) r = Some k \<Longrightarrow> lk_repository k = r"
    using get(4) by (auto simp: table_inv_def)
  note g = GetForRepository_table [OF get(2) t]
  show ?case using g get(4) by (auto simp: table_inv_def)
qed (auto intro!: table_at_place)

lemma mutex_inv_others [simp]:
  "mutex_inv (s\<lparr>ls_Env := e\<rparr>) = mutex_inv s" "mutex_inv (s\<lparr>ls_Jobs := js\<rparr>) = mutex_inv s"
  by (simp_all add: mutex_inv_def)

lemma mutex_at_place:
  "mutex_inv s \<Longrightarrow> (\<And>l. holds p l \<Longrightarrow> holds (ls_Place s w) l) \<Longrightarrow> mutex_inv (at_place w p s)"
  by (auto simp: mutex_inv_def)

lemma mutex_step: "lstep a s s' \<Longrightarrow> mutex_inv s \<Longrightarrow> mutex_inv s'"
proof (induction rule: lstep.induct)
  case (unlock s w l)
  have "v = w" if "holds (ls_Place s v) k" "lk_addr k = lk_addr l" for v k
    using that unlock(1,2) unfolding mutex_inv_def by (metis holds.simps(3) option.inject)
  then show ?case using unlock(2) by (auto simp: mutex_inv_def)
next
  case (lock s w l m js)
  have "\<not> holds (ls_Place s v) k" if "lk_addr k = lk_addr l" for v k
    using that lock(2,3) unfolding mutex_inv_def by (metis option.distinct(1))
  then show ?case using lock(3) by (auto simp: mutex_inv_def)
qed (auto intro!: mutex_at_place)

lemma initial_inv: "table_inv initial" "mutex_inv initial"
  by (simp_all add: table_inv_def mutex_inv_def initial_def)

lemma reachable_inv: "reachable u s \<Longrightarrow> table_inv s \<and> mutex_inv s"
  by (induction rule: reachable.induct) (auto simp: initial_inv dest: table_step mutex_step)

lemma mutex_unique:
  assumes "table_inv s" "mutex_inv s" "inside (ls_Place s v) r" "inside (ls_Place s w) r"
  shows "v = w"
proof -
  obtain k l where kl: "holds (ls_Place s v) k" "lk_repository k = r" "holds (ls_Place s w) l" "lk_repository l = r"
    using assms(3,4) by (auto simp: inside_def)
  then have "k = l" using assms(1) holds_has_locker unfolding table_inv_def by (metis option.inject)
  then show ?thesis using kl assms(2) unfolding mutex_inv_def by (metis option.inject)
qed

section \<open>Exclusive jobs\<close>

definition open_at :: "cluster_job \<Rightarrow> string \<Rightarrow> bool" where
  "open_at c repo \<longleftrightarrow> cj_Repo c = repo \<and> \<not> cj_Ended c"

text \<open>A job that was started exclusively is the only one of its repository that has not ended.\<close>

definition alone :: "lstate \<Rightarrow> bool" where
  "alone s \<longleftrightarrow> (\<forall>i k. i < length (ls_Jobs s) \<and> k < length (ls_Jobs s) \<and> cj_Mode (ls_Jobs s ! i) = Exclusive \<and>
     open_at (ls_Jobs s ! i) (cj_Repo (ls_Jobs s ! k)) \<and> open_at (ls_Jobs s ! k) (cj_Repo (ls_Jobs s ! k)) \<longrightarrow> i = k)"

text \<open>A worker that passed its guard and has jobs to create can still rely on it.\<close>

definition passed_ok :: "lstate \<Rightarrow> bool" where
  "passed_ok s \<longleftrightarrow> (\<forall>w l m j js c. ls_Place s w = Running l m (j # js) \<and> c \<in> set (ls_Jobs s) \<and> open_at c (lk_repository l)
     \<longrightarrow> m \<noteq> Exclusive \<and> cj_Mode c \<noteq> Exclusive)"

definition labelled :: "lstate \<Rightarrow> bool" where
  "labelled s \<longleftrightarrow> (\<forall>c \<in> set (ls_Jobs s). request_ok (cj_Mode c) [cj_Job c]) \<and>
     (\<forall>w l m js. ls_Place s w \<in> {Got l m js, Locked l m js, Running l m js} \<longrightarrow> request_ok m js)"

lemma labels_set_active [simp]: "job_labels (set_active n j) = job_labels j"
  by (simp add: set_active_def job_labels_def)

lemma request_ok_Cons: "request_ok m (j # js) \<Longrightarrow> request_ok m [j] \<and> request_ok m js \<and> (m = Exclusive \<longrightarrow> js = [])"
  by (auto simp: request_ok_def)

lemma request_ok_set_active [simp]: "request_ok m [set_active n j] = request_ok m [j]"
  by (simp add: request_ok_def)

lemma new_cluster_job_simps [simp]:
  "cj_Mode (new_cluster_job l m j) = m" "cj_Repo (new_cluster_job l m j) = lk_repository l"
  "cj_Job (new_cluster_job l m j) = set_active 0 j" "cj_Ended (new_cluster_job l m j) = False"
  by (simp_all add: new_cluster_job_def)

lemma labelled_step: "lstep a s s' \<Longrightarrow> labelled s \<Longrightarrow> labelled s'"
proof (induction rule: lstep.induct)
  case (controller i s c n ended)
  then have "request_ok (cj_Mode c) [cj_Job c]" by (simp add: labelled_def)
  then show ?case using controller by (auto simp: labelled_def dest!: set_update_subset_insert [THEN subsetD])
next
  case (create s w l m j js)
  then have "request_ok m (j # js)" by (auto simp: labelled_def)
  then have "request_ok m [j]" "request_ok m js" using request_ok_Cons by blast+
  then show ?case using create by (auto simp: labelled_def)
qed (auto simp: labelled_def)

text \<open>What the guards say about the jobs.\<close>

lemma guard_exclusive: "guard Exclusive (running_jobs s r) \<Longrightarrow> c \<in> set (ls_Jobs s) \<Longrightarrow> cj_Repo c = r \<Longrightarrow> \<not> active c"
  by (auto simp: running_jobs_def filter_empty_conv)

lemma guard_shared:
  assumes "guard (Shared t l) (running_jobs s r)" "labelled s" "c \<in> set (ls_Jobs s)" "cj_Repo c = r" "active c"
  shows "cj_Mode c \<noteq> Exclusive"
proof
  assume "cj_Mode c = Exclusive"
  then have "job_labels (cj_Job c) K8upExclusive = Some ''true''"
    using assms(2,3) by (auto simp: labelled_def request_ok_def)
  moreover have "cj_Job c \<in> set (running_jobs s r)" using assms(3-5) by (auto simp: running_jobs_def)
  ultimately have "isExclusiveJobRunning (running_jobs s r)"
    using assms(5) by (auto simp: isExclusiveJobRunning_iff active_def)
  then show False using assms(1) by simp
qed

lemma guard_current:
  assumes "guard m (running_jobs s r)" "current s r" "labelled s" "c \<in> set (ls_Jobs s)" "open_at c r"
  shows "m \<noteq> Exclusive \<and> cj_Mode c \<noteq> Exclusive"
proof -
  have a: "cj_Repo c = r" "active c" using assms(2,4,5) by (auto simp: current_def open_at_def)
  show ?thesis
    using assms(1) guard_exclusive [OF _ assms(4) a(1)] guard_shared [OF _ assms(3,4) a] a(2) by (cases m) auto
qed

lemma passed_step:
  "lstep a s s' \<Longrightarrow> passes_current s s' \<Longrightarrow> table_inv s \<Longrightarrow> mutex_inv s \<Longrightarrow> labelled s \<Longrightarrow> passed_ok s \<Longrightarrow> passed_ok s'"
proof (induction rule: lstep.induct)
  case (pass s w l m js)
  have "current s (lk_repository l)"
    using pass(3) [unfolded passes_current_def, rule_format, of w l m js] pass(1) by simp
  then show ?case using pass(7) guard_current [OF pass(2) _ pass(6)] by (auto simp: passed_ok_def)
next
  case (create s w l m j js)
  let ?s' = "at_place w (Running l m js) (s\<lparr>ls_Jobs := ls_Jobs s @ [new_cluster_job l m j]\<rparr>)"
  show ?case unfolding passed_ok_def
  proof (intro allI impI)
    fix v k m' j' js' c
    assume h: "ls_Place ?s' v = Running k m' (j' # js') \<and> c \<in> set (ls_Jobs ?s') \<and> open_at c (lk_repository k)"
    show "m' \<noteq> Exclusive \<and> cj_Mode c \<noteq> Exclusive"
    proof (cases "v = w")
      case True
      have "request_ok m (j # js)" using create(1,5) by (auto simp: labelled_def)
      then have "m \<noteq> Exclusive" using h True by (auto dest: request_ok_Cons)
      then show ?thesis using h True create(1,6) unfolding passed_ok_def by auto
    next
      case False
      then have v: "ls_Place s v = Running k m' (j' # js')" using h by simp
      then have "lk_repository k \<noteq> lk_repository l"
        using mutex_unique [OF create(3,4), of v "lk_repository k" w] create(1) False by (auto simp: inside_def)
      then have "c \<in> set (ls_Jobs s)" using h by (auto simp: open_at_def)
      then show ?thesis using create(6) v h unfolding passed_ok_def by blast
    qed
  qed
next
  case (controller i s c n ended)
  have old: "\<exists>d \<in> set (ls_Jobs s). cj_Mode d = cj_Mode x \<and> (open_at x r \<longrightarrow> open_at d r)"
    if "x \<in> set ((ls_Jobs s)[i := c\<lparr>cj_Ended := ended, cj_Job := set_active n (cj_Job c)\<rparr>])" for x r
    using that controller(1-3) by (auto simp: open_at_def dest!: set_update_subset_insert [THEN subsetD])
  show ?case unfolding passed_ok_def
  proof (intro allI impI, elim conjE)
    fix w l m j js x
    assume p: "ls_Place (s\<lparr>ls_Jobs := (ls_Jobs s)[i := c\<lparr>cj_Ended := ended, cj_Job := set_active n (cj_Job c)\<rparr>]\<rparr>) w = Running l m (j # js)"
      and x: "x \<in> set (ls_Jobs (s\<lparr>ls_Jobs := (ls_Jobs s)[i := c\<lparr>cj_Ended := ended, cj_Job := set_active n (cj_Job c)\<rparr>]\<rparr>))"
      and o: "open_at x (lk_repository l)"
    from old [of x "lk_repository l"] x o obtain d where d: "d \<in> set (ls_Jobs s)" "cj_Mode d = cj_Mode x" "open_at d (lk_repository l)"
      by auto
    have "ls_Place s w = Running l m (j # js)" using p by simp
    then show "m \<noteq> Exclusive \<and> cj_Mode x \<noteq> Exclusive"
      using controller(10) [unfolded passed_ok_def, rule_format, of w l m j js d] d by simp
  qed
qed (auto simp: passed_ok_def split: if_splits)

lemma alone_step: "lstep a s s' \<Longrightarrow> passed_ok s \<Longrightarrow> alone s \<Longrightarrow> alone s'"
proof (induction rule: lstep.induct)
  case (create s w l m j js)
  have "m \<noteq> Exclusive \<and> cj_Mode c \<noteq> Exclusive" if "c \<in> set (ls_Jobs s)" "open_at c (lk_repository l)" for c
    using create(1,2) that unfolding passed_ok_def by blast
  then have no: "m \<noteq> Exclusive \<and> cj_Mode (ls_Jobs s ! i) \<noteq> Exclusive" if "i < length (ls_Jobs s)" "open_at (ls_Jobs s ! i) (lk_repository l)" for i
    using that nth_mem by blast
  let ?js = "ls_Jobs s @ [new_cluster_job l m j]" and ?n = "length (ls_Jobs s)"
  have "i = k" if "i < Suc ?n" "k < Suc ?n" "cj_Mode (?js ! i) = Exclusive" "open_at (?js ! i) (cj_Repo (?js ! k))"
      "open_at (?js ! k) (cj_Repo (?js ! k))" for i k
  proof (cases "i < ?n"; cases "k < ?n")
    assume "i < ?n" "k < ?n"
    then show ?thesis using that create(3) unfolding alone_def by (simp add: nth_append)
  next
    assume "i < ?n" "\<not> k < ?n"
    then show ?thesis using that no [of i] by (simp add: nth_append less_Suc_eq)
  next
    assume "\<not> i < ?n" "k < ?n"
    then show ?thesis using that no [of k] by (auto simp: nth_append less_Suc_eq open_at_def)
  qed (use that in simp)
  then show ?case by (simp add: alone_def)
next
  case (controller i s c n ended)
  let ?js = "(ls_Jobs s)[i := c\<lparr>cj_Ended := ended, cj_Job := set_active n (cj_Job c)\<rparr>]"
  have same: "cj_Repo (?js ! x) = cj_Repo (ls_Jobs s ! x)" "cj_Mode (?js ! x) = cj_Mode (ls_Jobs s ! x)"
      "open_at (?js ! x) r \<Longrightarrow> open_at (ls_Jobs s ! x) r" if "x < length (ls_Jobs s)" for x r
    using controller(1-3) that by (cases "x = i"; simp add: open_at_def)+
  have "a = b" if "a < length (ls_Jobs s)" "b < length (ls_Jobs s)" "cj_Mode (?js ! a) = Exclusive"
      "open_at (?js ! a) (cj_Repo (?js ! b))" "open_at (?js ! b) (cj_Repo (?js ! b))" for a b
    using controller(7) [unfolded alone_def, rule_format, of a b] that(1-3) same [OF that(1)] same [OF that(2)] that(4,5) by simp
  then show ?case by (simp add: alone_def)
qed (auto simp: alone_def)

definition current_inv :: "lstate \<Rightarrow> bool" where
  "current_inv s \<longleftrightarrow> table_inv s \<and> mutex_inv s \<and> labelled s \<and> passed_ok s \<and> alone s"

lemma reachable_current: "reachable True s \<Longrightarrow> current_inv s"
proof (induction rule: reachable.induct)
  case start
  show ?case by (simp add: current_inv_def initial_inv) (simp add: initial_def labelled_def passed_ok_def alone_def)
next
  case (step s a s')
  then show ?case unfolding current_inv_def
    using table_step mutex_step labelled_step passed_step alone_step by blast
qed

section \<open>Infinite runs\<close>

text \<open>What a worker has still to do before it unlocks.\<close>

fun remaining :: "place \<Rightarrow> nat" where
  "remaining (Locked _ _ js) = length js + 3"
| "remaining (Running _ _ js) = length js + 2"
| "remaining (Leaving _) = 1"
| "remaining _ = 0"

lemma step_other: "lstep a s s' \<Longrightarrow> a \<noteq> Worker w \<Longrightarrow> ls_Place s' w = ls_Place s w"
  by (induction rule: lstep.induct) auto

lemma step_own:
  assumes "lstep (Worker w) s s'" "holds (ls_Place s w) l"
  shows "ls_Place s' w = Idle \<and> ls_Holder s' (lk_addr l) = None \<or>
    holds (ls_Place s' w) l \<and> remaining (ls_Place s' w) < remaining (ls_Place s w)"
  using assms by (cases rule: lstep.cases) auto

text \<open>No worker is stuck while it holds a mutex, also when no call of the API server fails.\<close>

lemma holds_enabled:
  assumes "holds (ls_Place s w) l"
  shows "\<exists>s'. lstep (Worker w) s s'"
proof (cases "ls_Place s w")
  case (Locked k m js)
  then show ?thesis
    using lstep.pass [OF Locked] lstep.refuse [OF Locked] by (cases "guard m (running_jobs s (lk_repository k))") blast+
next
  case (Running k m js)
  then show ?thesis using lstep.create [of s w k m] lstep.run_done [of s w k m] by (cases js) blast+
next
  case (Leaving k)
  then show ?thesis using lstep.unlock by blast
qed (use assms in auto)

text \<open>
  A run: every state comes from the one before by a step or is the same. It is fair when a worker
  that holds a mutex, and could from some time on always take a step, takes one: the scheduler of
  the runtime does not forget a goroutine, and its calls of the API server return.
\<close>

definition fair_run :: "(nat \<Rightarrow> lstate) \<Rightarrow> (nat \<Rightarrow> actor) \<Rightarrow> bool" where
  "fair_run \<sigma> \<alpha> \<longleftrightarrow> \<sigma> 0 = initial \<and> (\<forall>n. lstep (\<alpha> n) (\<sigma> n) (\<sigma> (Suc n)) \<or> \<sigma> (Suc n) = \<sigma> n) \<and>
     (\<forall>w n. (\<forall>k \<ge> n. (\<exists>l. holds (ls_Place (\<sigma> k) w) l) \<and> (\<exists>s'. lstep (Worker w) (\<sigma> k) s'))
        \<longrightarrow> (\<exists>k \<ge> n. \<alpha> k = Worker w \<and> lstep (\<alpha> k) (\<sigma> k) (\<sigma> (Suc k))))"

lemma run_reachable_inv:
  assumes "\<sigma> 0 = initial" "\<And>n. lstep (\<alpha> n) (\<sigma> n) (\<sigma> (Suc n)) \<or> \<sigma> (Suc n) = \<sigma> n"
  shows "reachable False (\<sigma> n)"
proof (induction n)
  case 0
  show ?case by (simp add: assms(1) reachable.start)
next
  case (Suc n)
  from assms(2) [of n] show ?case
  proof
    assume "lstep (\<alpha> n) (\<sigma> n) (\<sigma> (Suc n))"
    then show ?thesis by (rule reachable.step [OF Suc]) simp
  next
    assume "\<sigma> (Suc n) = \<sigma> n"
    then show ?thesis using Suc by simp
  qed
qed

text \<open>A worker that holds a mutex takes a step sooner or later, and stays where it is until then.\<close>

lemma fair_next_step:
  assumes "fair_run \<sigma> \<alpha>" "holds (ls_Place (\<sigma> n) w) l"
  obtains k where "k \<ge> n" "\<alpha> k = Worker w" "lstep (Worker w) (\<sigma> k) (\<sigma> (Suc k))"
    "\<And>i. n \<le> i \<Longrightarrow> i \<le> k \<Longrightarrow> ls_Place (\<sigma> i) w = ls_Place (\<sigma> n) w"
proof -
  let ?own = "\<lambda>k. \<alpha> k = Worker w \<and> lstep (\<alpha> k) (\<sigma> k) (\<sigma> (Suc k))"
  have stays: "ls_Place (\<sigma> i) w = ls_Place (\<sigma> n) w" if "n \<le> i" "\<And>k. n \<le> k \<Longrightarrow> k < i \<Longrightarrow> \<not> ?own k" for i
    using that
  proof (induction i rule: dec_induct)
    case (step i)
    have "lstep (\<alpha> i) (\<sigma> i) (\<sigma> (Suc i)) \<or> \<sigma> (Suc i) = \<sigma> i" using assms(1) by (simp add: fair_run_def)
    then have "ls_Place (\<sigma> (Suc i)) w = ls_Place (\<sigma> i) w" using step_other step by (metis lessI)
    then show ?case using step by simp
  qed simp
  have "\<exists>k \<ge> n. ?own k"
  proof (rule ccontr)
    assume no: "\<not> (\<exists>k \<ge> n. ?own k)"
    then have "ls_Place (\<sigma> k) w = ls_Place (\<sigma> n) w" if "k \<ge> n" for k using stays [OF that] by blast
    then have "(\<exists>l. holds (ls_Place (\<sigma> k) w) l) \<and> (\<exists>s'. lstep (Worker w) (\<sigma> k) s')" if "k \<ge> n" for k
      using assms(2) holds_enabled that by metis
    then show False using assms(1) no unfolding fair_run_def by blast
  qed
  then have "\<exists>k. n \<le> k \<and> ?own k" by blast
  then obtain k where k: "n \<le> k" "?own k" "\<And>i. i < k \<Longrightarrow> \<not> (n \<le> i \<and> ?own i)"
    unfolding exists_least_iff [of "\<lambda>k. n \<le> k \<and> ?own k"] by blast
  have "ls_Place (\<sigma> i) w = ls_Place (\<sigma> n) w" if "n \<le> i" "i \<le> k" for i
    by (rule stays [OF that(1)]) (use k(3) that(2) in auto)
  then show thesis using that k(1,2) by metis
qed

lemma fair_leaves:
  assumes "fair_run \<sigma> \<alpha>" "holds (ls_Place (\<sigma> n) w) l"
  shows "\<exists>k > n. ls_Place (\<sigma> k) w = Idle \<and> ls_Holder (\<sigma> k) (lk_addr l) = None"
  using assms(2)
proof (induction "remaining (ls_Place (\<sigma> n) w)" arbitrary: n rule: less_induct)
  case less
  obtain k where k: "k \<ge> n" "lstep (Worker w) (\<sigma> k) (\<sigma> (Suc k))" "ls_Place (\<sigma> k) w = ls_Place (\<sigma> n) w"
    using fair_next_step [OF assms(1) less(2)] by (metis order_refl)
  from step_own [OF k(2), of l] k(3) less(2)
  consider "ls_Place (\<sigma> (Suc k)) w = Idle" "ls_Holder (\<sigma> (Suc k)) (lk_addr l) = None"
    | "holds (ls_Place (\<sigma> (Suc k)) w) l" "remaining (ls_Place (\<sigma> (Suc k)) w) < remaining (ls_Place (\<sigma> n) w)" by auto
  then show ?case
  proof cases
    case 1
    then show ?thesis using k(1) by (intro exI [of _ "Suc k"]) simp
  next
    case 2
    from less(1) [OF 2(2,1)] show ?thesis using k(1) by (metis Suc_leD le_less_trans less_or_eq_imp_le not_less_eq_eq)
  qed
qed

text \<open>Nobody but a worker between lock and unlock holds a mutex.\<close>

definition holder_inv :: "lstate \<Rightarrow> bool" where
  "holder_inv s \<longleftrightarrow> (\<forall>a w. ls_Holder s a = Some w \<longrightarrow> (\<exists>l. holds (ls_Place s w) l \<and> lk_addr l = a))"

lemma holder_step: "lstep a s s' \<Longrightarrow> holder_inv s \<Longrightarrow> holder_inv s'"
proof (induction rule: lstep.induct)
  case (unlock s w l)
  then show ?case by (auto simp: holder_inv_def) (metis holds.simps(3))
next
  case (lock s w l m js)
  then show ?case by (auto simp: holder_inv_def) (metis holds.simps(5))
qed (auto simp: holder_inv_def, (metis holds.simps)+)

lemma reachable_holder: "reachable u s \<Longrightarrow> holder_inv s"
proof (induction rule: reachable.induct)
  case start
  show ?case by (simp add: holder_inv_def initial_def)
qed (rule holder_step)

section \<open>Example runs\<close>

definition ex_exclusive_job :: batch_job where
  "ex_exclusive_job = ex_job ''prune-p'' [K8upExclusive \<mapsto> ''true''] 0 []"

lemma ex_request_ok: "request_ok m [ex_exclusive_job]" "request_ok m []"
  by (simp_all add: request_ok_def ex_exclusive_job_def ex_job_def job_labels_def)

text \<open>The environment after the locker of the repository \<open>r\<close> was made, and this locker.\<close>

definition ex_locker :: lockerImpl where
  "ex_locker = \<lparr>lk_addr = 0, lk_repository = ''r''\<rparr>"

definition ex_env :: "unit env" where
  "ex_env = (ls_Env initial)\<lparr>env_Lockers := [(''r'', ex_locker)]\<rparr>"

lemma ex_get: "GetForRepository ''r'' (ls_Env initial) = (ex_locker, ex_env)" "GetForRepository ''r'' ex_env = (ex_locker, ex_env)"
  by (simp_all add: GetForRepository_def ex_env_def ex_locker_def initial_def Let_def)

text \<open>A worker in its locker, with nobody else there.\<close>

definition ex_state :: "nat option \<Rightarrow> (nat \<Rightarrow> place) \<Rightarrow> cluster_job list \<Rightarrow> lstate" where
  "ex_state h p js = \<lparr>ls_Env = ex_env, ls_Holder = (\<lambda>_. None)(0 := h), ls_Place = p, ls_Jobs = js\<rparr>"

lemma ex_steps:
  "request_ok m ns \<Longrightarrow> lstep (Worker w) initial (ex_state None ((\<lambda>_. Idle)(w := Got ex_locker m ns)) [])"
  "request_ok m ns \<Longrightarrow> lstep (Worker w) (ex_state None (\<lambda>_. Idle) js) (ex_state None ((\<lambda>_. Idle)(w := Got ex_locker m ns)) js)"
  "lstep (Worker w) (ex_state None ((\<lambda>_. Idle)(w := Got ex_locker m ns)) js) (ex_state (Some w) ((\<lambda>_. Idle)(w := Locked ex_locker m ns)) js)"
  "guard m (running_jobs (ex_state None (\<lambda>_. Idle) js) ''r'') \<Longrightarrow>
   lstep (Worker w) (ex_state (Some w) ((\<lambda>_. Idle)(w := Locked ex_locker m ns)) js) (ex_state (Some w) ((\<lambda>_. Idle)(w := Running ex_locker m ns)) js)"
  "lstep (Worker w) (ex_state (Some w) ((\<lambda>_. Idle)(w := Running ex_locker m (j # ns))) js)
     (ex_state (Some w) ((\<lambda>_. Idle)(w := Running ex_locker m ns)) (js @ [new_cluster_job ex_locker m j]))"
  "lstep (Worker w) (ex_state (Some w) ((\<lambda>_. Idle)(w := Running ex_locker m [])) js) (ex_state (Some w) ((\<lambda>_. Idle)(w := Leaving ex_locker)) js)"
  "lstep (Worker w) (ex_state (Some w) ((\<lambda>_. Idle)(w := Leaving ex_locker)) js) (ex_state None (\<lambda>_. Idle) js)"
proof -
  have g: "lstep (Worker w) s (at_place w (Got ex_locker m ns) (s\<lparr>ls_Env := ex_env\<rparr>))"
    if "request_ok m ns" "ls_Place s w = Idle" "ls_Env s \<in> {ls_Env initial, ex_env}" for s ns
    by (rule lstep.get [OF that(2) _ that(1), of "''r''"]) (use that(3) ex_get in auto)
  have idle: "(\<lambda>_. Idle)(w := Idle) = (\<lambda>_. Idle)" by auto
  show "request_ok m ns \<Longrightarrow> lstep (Worker w) initial (ex_state None ((\<lambda>_. Idle)(w := Got ex_locker m ns)) [])"
    using g [of ns initial] by (simp add: initial_def ex_state_def at_place_def)
  show "request_ok m ns \<Longrightarrow> lstep (Worker w) (ex_state None (\<lambda>_. Idle) js) (ex_state None ((\<lambda>_. Idle)(w := Got ex_locker m ns)) js)"
    using g [of ns "ex_state None (\<lambda>_. Idle) js"] by (simp add: ex_state_def at_place_def)
  show "lstep (Worker w) (ex_state None ((\<lambda>_. Idle)(w := Got ex_locker m ns)) js) (ex_state (Some w) ((\<lambda>_. Idle)(w := Locked ex_locker m ns)) js)"
    using lstep.lock [of "ex_state None ((\<lambda>_. Idle)(w := Got ex_locker m ns)) js" w ex_locker m ns]
    by (simp add: ex_state_def at_place_def ex_locker_def)
  show "lstep (Worker w) (ex_state (Some w) ((\<lambda>_. Idle)(w := Locked ex_locker m ns)) js) (ex_state (Some w) ((\<lambda>_. Idle)(w := Running ex_locker m ns)) js)"
    if "guard m (running_jobs (ex_state None (\<lambda>_. Idle) js) ''r'')"
    using lstep.pass [of "ex_state (Some w) ((\<lambda>_. Idle)(w := Locked ex_locker m ns)) js" w ex_locker m ns] that
    by (simp add: ex_state_def at_place_def ex_locker_def running_jobs_def)
  show "lstep (Worker w) (ex_state (Some w) ((\<lambda>_. Idle)(w := Running ex_locker m (j # ns))) js)
     (ex_state (Some w) ((\<lambda>_. Idle)(w := Running ex_locker m ns)) (js @ [new_cluster_job ex_locker m j]))"
    using lstep.create [of "ex_state (Some w) ((\<lambda>_. Idle)(w := Running ex_locker m (j # ns))) js" w ex_locker m j ns]
    by (simp add: ex_state_def at_place_def)
  show "lstep (Worker w) (ex_state (Some w) ((\<lambda>_. Idle)(w := Running ex_locker m [])) js) (ex_state (Some w) ((\<lambda>_. Idle)(w := Leaving ex_locker)) js)"
    using lstep.run_done [of "ex_state (Some w) ((\<lambda>_. Idle)(w := Running ex_locker m [])) js" w ex_locker m]
    by (simp add: ex_state_def at_place_def)
  show "lstep (Worker w) (ex_state (Some w) ((\<lambda>_. Idle)(w := Leaving ex_locker)) js) (ex_state None (\<lambda>_. Idle) js)"
    using lstep.unlock [of "ex_state (Some w) ((\<lambda>_. Idle)(w := Leaving ex_locker)) js" w ex_locker]
    by (simp add: ex_state_def at_place_def ex_locker_def idle)
qed

lemma ex_passes:
  "(\<And>w l m ns. p w = Locked l m ns \<Longrightarrow> p' w \<noteq> Running l m ns) \<Longrightarrow> passes_current (ex_state h p js) (ex_state h' p' js')"
  by (auto simp: passes_current_def ex_state_def)

text \<open>One worker through the whole of \<^verbatim>\<open>TryRun\<close> or \<^verbatim>\<open>TryRunExclusively\<close>.\<close>

lemma ex_run_reachable:
  assumes "reachable u (ex_state None ((\<lambda>_. Idle)(w := Got ex_locker m [ex_exclusive_job])) js)"
    "guard m (running_jobs (ex_state None (\<lambda>_. Idle) js) ''r'')" "u \<Longrightarrow> current (ex_state None (\<lambda>_. Idle) js) ''r''"
  shows "reachable u (ex_state None (\<lambda>_. Idle) (js @ [new_cluster_job ex_locker m ex_exclusive_job]))"
proof -
  note st = reachable.step [rotated]
  have "reachable u (ex_state (Some w) ((\<lambda>_. Idle)(w := Locked ex_locker m [ex_exclusive_job])) js)"
    by (rule st [OF ex_steps(3) _ assms(1)]) (rule ex_passes, simp split: if_splits)
  from st [OF ex_steps(4) [OF assms(2)] _ this]
  have "reachable u (ex_state (Some w) ((\<lambda>_. Idle)(w := Running ex_locker m [ex_exclusive_job])) js)"
    using assms(3) by (auto simp: passes_current_def ex_state_def current_def ex_locker_def split: if_splits)
  then have "reachable u (ex_state (Some w) ((\<lambda>_. Idle)(w := Running ex_locker m [])) (js @ [new_cluster_job ex_locker m ex_exclusive_job]))"
    by (rule st [OF ex_steps(5) _, rotated]) (rule ex_passes, simp split: if_splits)
  then have "reachable u (ex_state (Some w) ((\<lambda>_. Idle)(w := Leaving ex_locker)) (js @ [new_cluster_job ex_locker m ex_exclusive_job]))"
    by (rule st [OF ex_steps(6) _, rotated]) (rule ex_passes, simp split: if_splits)
  then show ?thesis by (rule st [OF ex_steps(7) _, rotated]) (rule ex_passes, simp split: if_splits)
qed

lemma ex_controller_reachable:
  assumes "reachable u (ex_state None (\<lambda>_. Idle) js)" "i < length js" "\<not> cj_Ended (js ! i)" "n \<ge> 0" "ended \<Longrightarrow> n = 0"
  shows "reachable u (ex_state None (\<lambda>_. Idle) (js[i := (js ! i)\<lparr>cj_Ended := ended, cj_Job := set_active n (cj_Job (js ! i))\<rparr>]))"
proof -
  have "lstep JobController (ex_state None (\<lambda>_. Idle) js)
     (ex_state None (\<lambda>_. Idle) (js[i := (js ! i)\<lparr>cj_Ended := ended, cj_Job := set_active n (cj_Job (js ! i))\<rparr>]))"
    using lstep.controller [of i "ex_state None (\<lambda>_. Idle) js" _ n ended] assms(2-5) by (simp add: ex_state_def)
  then show ?thesis by (rule reachable.step [OF assms(1)]) (simp add: ex_passes)
qed

definition ex_exclusive :: "int \<Rightarrow> bool \<Rightarrow> cluster_job" where
  "ex_exclusive n ended = \<lparr>cj_Repo = ''r'', cj_Mode = Exclusive, cj_Ended = ended, cj_Job = set_active n ex_exclusive_job\<rparr>"

lemma ex_exclusive_simps [simp]:
  "new_cluster_job ex_locker Exclusive ex_exclusive_job = ex_exclusive 0 False"
  "(ex_exclusive n e)\<lparr>cj_Ended := e', cj_Job := set_active n' (cj_Job (ex_exclusive n e))\<rparr> = ex_exclusive n' e'"
  "cj_Ended (ex_exclusive n e) = e" "cj_Mode (ex_exclusive n e) = Exclusive" "cj_Repo (ex_exclusive n e) = ''r''"
  "active (ex_exclusive n e) \<longleftrightarrow> n > 0"
  by (simp_all add: ex_exclusive_def new_cluster_job_def ex_locker_def set_active_def active_def)

lemma ex_first_reachable: "reachable u (ex_state None (\<lambda>_. Idle) [ex_exclusive 0 False])"
proof -
  have "reachable u (ex_state None ((\<lambda>_. Idle)(0 := Got ex_locker Exclusive [ex_exclusive_job])) [])"
    by (rule reachable.step [OF reachable.start ex_steps(1) [OF ex_request_ok(1)]]) (simp add: passes_current_def initial_def)
  from ex_run_reachable [OF this] show ?thesis by (simp add: running_jobs_def ex_state_def current_def)
qed

lemma ex_second_reachable:
  assumes "reachable u (ex_state None (\<lambda>_. Idle) [ex_exclusive 0 e])" "u \<longrightarrow> e"
  shows "reachable u (ex_state None (\<lambda>_. Idle) [ex_exclusive 0 e, ex_exclusive 0 False])"
proof -
  have "reachable u (ex_state None ((\<lambda>_. Idle)(1 := Got ex_locker Exclusive [ex_exclusive_job])) [ex_exclusive 0 e])"
    by (rule reachable.step [OF assms(1) ex_steps(2) [OF ex_request_ok(1)]]) (simp add: ex_passes)
  from ex_run_reachable [OF this] show ?thesis using assms(2) by (simp add: running_jobs_def ex_state_def current_def)
qed

text \<open>A run in which one worker comes and goes, and then nothing happens any more.\<close>

definition ex_states :: "lstate list" where
  "ex_states = [initial, ex_state None ((\<lambda>_. Idle)(0 := Got ex_locker Exclusive [])) [],
     ex_state (Some 0) ((\<lambda>_. Idle)(0 := Locked ex_locker Exclusive [])) [],
     ex_state (Some 0) ((\<lambda>_. Idle)(0 := Running ex_locker Exclusive [])) [],
     ex_state (Some 0) ((\<lambda>_. Idle)(0 := Leaving ex_locker)) [], ex_state None (\<lambda>_. Idle) []]"

definition ex_run :: "nat \<Rightarrow> lstate" where
  "ex_run n = ex_states ! min n 5"

lemma ex_run_fair: "fair_run ex_run (\<lambda>_. Worker 0)"
  unfolding fair_run_def
proof (intro conjI allI impI)
  show "ex_run 0 = initial" by (simp add: ex_run_def ex_states_def)
  show "lstep (Worker 0) (ex_run n) (ex_run (Suc n)) \<or> ex_run (Suc n) = ex_run n" for n
  proof (cases "n < 5")
    case True
    have g: "guard Exclusive (running_jobs (ex_state None (\<lambda>_. Idle) []) ''r'')" by (simp add: running_jobs_def ex_state_def)
    from True have "n = 0 \<or> n = 1 \<or> n = 2 \<or> n = 3 \<or> n = 4" by auto
    then show ?thesis
      using ex_steps(1) [OF ex_request_ok(2), of 0 Exclusive] ex_steps(3) [of 0 Exclusive "[]" "[]"] ex_steps(4) [OF g, of 0 "[]"]
        ex_steps(6) [of 0 Exclusive "[]"] ex_steps(7) [of 0 "[]"]
      by (elim disjE) (simp_all add: ex_run_def ex_states_def)
  qed (simp add: ex_run_def)
  fix w n
  assume h: "\<forall>k \<ge> n. (\<exists>l. holds (ls_Place (ex_run k) w) l) \<and> (\<exists>s'. lstep (Worker w) (ex_run k) s')"
  have "ls_Place (ex_run (max n 5)) w = Idle" by (simp add: ex_run_def ex_states_def ex_state_def)
  then have "\<not> (\<exists>l. holds (ls_Place (ex_run (max n 5)) w) l)" by simp
  moreover have "\<exists>l. holds (ls_Place (ex_run (max n 5)) w) l" using h by simp
  ultimately show "\<exists>k \<ge> n. Worker 0 = Worker w \<and> lstep (Worker 0) (ex_run k) (ex_run (Suc k))" by blast
qed

lemma ended_inactive: "reachable u s \<Longrightarrow> \<forall>c \<in> set (ls_Jobs s). active c \<longrightarrow> \<not> cj_Ended c"
proof (induction rule: reachable.induct)
  case start
  show ?case by (simp add: initial_def)
next
  case (step s a s')
  from step(2,4) show ?case
  proof (induction rule: lstep.induct)
    case (controller i s c n ended)
    then show ?case
      by (auto simp: active_def set_active_def dest!: set_update_subset_insert [THEN subsetD])
  qed auto
qed

section \<open>Properties\<close>

text \<open>
  C27. At no time are two workers between \<^verbatim>\<open>Lock\<close> and \<^verbatim>\<open>Unlock\<close> for the
  same repository, whatever the interleaving: the guard and the creation of the jobs are atomic
  with respect to other workers of the repository. The mutexes are in the lockers, and a worker
  has its locker from \<^verbatim>\<open>GetForRepository\<close>; that all workers of a repository have the
  same one comes from the table that \<^verbatim>\<open>LoadOrStore\<close> keeps.
\<close>

theorem mutual_exclusion:
  assumes "reachable False s" "inside (ls_Place s v) repo" "inside (ls_Place s w) repo"
  shows "v = w"
  using reachable_inv [OF assms(1)] mutex_unique assms(2,3) by blast

theorem mutual_exclusion_witness:
  "inside (ls_Place (ex_run 2) 0) ''r'' \<and> \<not> inside (ls_Place (ex_run 2) 1) ''r''"
proof -
  have f: "ex_run 0 = initial" "\<And>n. lstep (Worker 0) (ex_run n) (ex_run (Suc n)) \<or> ex_run (Suc n) = ex_run n"
    using ex_run_fair by (auto simp: fair_run_def)
  have r: "reachable False (ex_run 2)" by (rule run_reachable_inv [OF f])
  have i: "inside (ls_Place (ex_run 2) 0) ''r''"
    by (simp add: ex_run_def ex_states_def ex_state_def inside_def ex_locker_def)
  then show ?thesis using mutual_exclusion [OF r i, of 1] by auto
qed

text \<open>
  C28. Exclusive jobs overlap for one reason only. In every run in which, whenever a guard passes,
  the jobs of the repository that have not ended show an active pod, a job started by
  \<^verbatim>\<open>TryRunExclusively\<close> is the only job of its repository that has not ended, from its
  creation on and whatever the interleaving. (A job with active pods has not ended.)
\<close>

theorem exclusive_job_alone:
  assumes "reachable True s"
  shows "(\<forall>i k. i < length (ls_Jobs s) \<and> k < length (ls_Jobs s) \<and> cj_Mode (ls_Jobs s ! i) = Exclusive \<and>
      cj_Repo (ls_Jobs s ! k) = cj_Repo (ls_Jobs s ! i) \<and> \<not> cj_Ended (ls_Jobs s ! i) \<and> \<not> cj_Ended (ls_Jobs s ! k) \<longrightarrow> i = k) \<and>
    (\<forall>c \<in> set (ls_Jobs s). active c \<longrightarrow> \<not> cj_Ended c)"
proof (intro conjI allI impI, elim conjE)
  show "\<forall>c \<in> set (ls_Jobs s). active c \<longrightarrow> \<not> cj_Ended c" by (rule ended_inactive [OF assms])
qed (use reachable_current [OF assms] in \<open>auto simp: current_inv_def alone_def open_at_def\<close>)

theorem exclusive_job_alone_witness:
  "\<exists>s. reachable True s \<and> length (ls_Jobs s) = 2 \<and> cj_Mode (ls_Jobs s ! 0) = Exclusive \<and> cj_Mode (ls_Jobs s ! 1) = Exclusive \<and>
     cj_Repo (ls_Jobs s ! 0) = cj_Repo (ls_Jobs s ! 1) \<and> active (ls_Jobs s ! 1) \<and> cj_Ended (ls_Jobs s ! 0)"
proof -
  have 1: "reachable True (ex_state None (\<lambda>_. Idle) [ex_exclusive 0 True])"
    using ex_controller_reachable [OF ex_first_reachable, of 0 0 True] by simp
  have 2: "reachable True (ex_state None (\<lambda>_. Idle) [ex_exclusive 0 True, ex_exclusive 0 False])"
    by (rule ex_second_reachable [OF 1]) simp
  have 3: "reachable True (ex_state None (\<lambda>_. Idle) [ex_exclusive 0 True, ex_exclusive 1 False])" (is "reachable True ?s")
    using ex_controller_reachable [OF 2, of 1 1 False] by simp
  from exclusive_job_alone [OF 3] have "cj_Ended (ls_Jobs ?s ! 0) \<or> cj_Ended (ls_Jobs ?s ! 1)" "\<not> cj_Ended (ls_Jobs ?s ! 1)"
    by (auto simp: ex_state_def)
  then show ?thesis using 3 by (intro exI [of _ ?s]) (simp add: ex_state_def)
qed

text \<open>
  C29. As the code is, exclusive jobs of one repository can run at the same time: a job counts as
  running only once the job controller has set \<^verbatim>\<open>Status.Active\<close>, so a second
  \<^verbatim>\<open>TryRunExclusively\<close> passes its guard when it comes before that. The mutex does not
  help, it is released when the job has been created.
\<close>

theorem exclusive_overlap_reachable:
  "\<exists>s i k. reachable False s \<and> i < length (ls_Jobs s) \<and> k < length (ls_Jobs s) \<and> i \<noteq> k \<and>
     cj_Mode (ls_Jobs s ! i) = Exclusive \<and> cj_Mode (ls_Jobs s ! k) = Exclusive \<and>
     active (ls_Jobs s ! i) \<and> active (ls_Jobs s ! k) \<and> cj_Repo (ls_Jobs s ! i) = cj_Repo (ls_Jobs s ! k)"
proof -
  have 1: "reachable False (ex_state None (\<lambda>_. Idle) [ex_exclusive 0 False, ex_exclusive 0 False])"
    by (rule ex_second_reachable [OF ex_first_reachable]) simp
  have 2: "reachable False (ex_state None (\<lambda>_. Idle) [ex_exclusive 1 False, ex_exclusive 0 False])"
    using ex_controller_reachable [OF 1, of 0 1 False] by simp
  have 3: "reachable False (ex_state None (\<lambda>_. Idle) [ex_exclusive 1 False, ex_exclusive 1 False])" (is "reachable False ?s")
    using ex_controller_reachable [OF 2, of 1 1 False] by simp
  have "ls_Jobs ?s = [ex_exclusive 1 False, ex_exclusive 1 False]" by (simp add: ex_state_def)
  then show ?thesis using 3 by (intro exI [of _ ?s] exI [of _ 0] exI [of _ 1]) simp
qed

text \<open>
  C30. No repository stays locked. In every fair run a worker that is between
  \<^verbatim>\<open>Lock\<close> and \<^verbatim>\<open>Unlock\<close> comes to the end of its call and frees the mutex, on
  every path (list error, guard refused, runnable done or failed, any number of jobs created), and
  every mutex is free again and again. The runnables are finite sequences of creations, as the
  executors' are; fairness says that a worker with a step to take takes one in the end, so that a
  call of the API server which never returned would not be a fair run.
\<close>

theorem mutex_released:
  assumes "fair_run \<sigma> \<alpha>"
  shows "(\<forall>n w l. holds (ls_Place (\<sigma> n) w) l \<longrightarrow>
      (\<exists>k > n. ls_Place (\<sigma> k) w = Idle \<and> ls_Holder (\<sigma> k) (lk_addr l) = None)) \<and>
    (\<forall>n a. \<exists>k \<ge> n. ls_Holder (\<sigma> k) a = None)"
proof (intro conjI allI impI)
  show "\<exists>k > n. ls_Place (\<sigma> k) w = Idle \<and> ls_Holder (\<sigma> k) (lk_addr l) = None" if "holds (ls_Place (\<sigma> n) w) l" for n w l
    by (rule fair_leaves [OF assms that])
  have run: "\<sigma> 0 = initial" "\<And>n. lstep (\<alpha> n) (\<sigma> n) (\<sigma> (Suc n)) \<or> \<sigma> (Suc n) = \<sigma> n"
    using assms by (simp_all add: fair_run_def)
  fix n a
  show "\<exists>k \<ge> n. ls_Holder (\<sigma> k) a = None"
  proof (cases "ls_Holder (\<sigma> n) a")
    case (Some w)
    then obtain l where l: "holds (ls_Place (\<sigma> n) w) l" "lk_addr l = a"
      using reachable_holder [OF run_reachable_inv [OF run, of n]] unfolding holder_inv_def by blast
    then show ?thesis using fair_leaves [OF assms l(1)] by (auto intro: less_imp_le)
  qed blast
qed

theorem mutex_released_witness:
  "ls_Holder (ex_run 2) 0 = Some 0 \<and> (\<exists>k > 2. ls_Place (ex_run k) 0 = Idle \<and> ls_Holder (ex_run k) 0 = None)"
proof -
  have h: "holds (ls_Place (ex_run 2) 0) ex_locker" "ls_Holder (ex_run 2) 0 = Some 0"
    by (simp_all add: ex_run_def ex_states_def ex_state_def)
  have "lk_addr ex_locker = 0" by (simp add: ex_locker_def)
  with mutex_released [OF ex_run_fair, THEN conjunct1, rule_format, OF h(1)] h(2) show ?thesis by simp
qed

end
