(* ===== verification/Go_Duration.thy ===== *)
theory Go_Duration
  imports K8up_Prelude
begin

text \<open>
  \<^verbatim>\<open>time.ParseDuration\<close> of Go's library, which the validation of the restic
  configuration relies on. The integers of the parser are unsigned 64-bit numbers, so the sums are
  written with their wrap-around. The contribution of a fraction is a \<^verbatim>\<open>float64\<close>
  product \<^verbatim>\<open>f * (unit / scale)\<close> cut to an integer; it is the argument
  \<open>frac f unit scale\<close>.
\<close>

definition is_digit :: "char \<Rightarrow> bool" where
  "is_digit c \<longleftrightarrow> 48 \<le> (of_char c :: nat) \<and> (of_char c :: nat) \<le> 57"

definition digit_value :: "char \<Rightarrow> nat" where
  "digit_value c = of_char c - 48"

text \<open>\<^verbatim>\<open>leadingInt\<close>: none on overflow.\<close>

fun leadingInt :: "string \<Rightarrow> nat \<Rightarrow> (nat \<times> string) option" where
  "leadingInt [] x = Some (x, [])"
| "leadingInt (c # s) x =
     (if \<not> is_digit c then Some (x, c # s)
      else if x > 2 ^ 63 div 10 then None
      else if x * 10 + digit_value c > 2 ^ 63 then None
      else leadingInt s (x * 10 + digit_value c))"

text \<open>\<^verbatim>\<open>leadingFraction\<close>: digits after an overflow are skipped.\<close>

fun leadingFraction :: "string \<Rightarrow> nat \<Rightarrow> nat \<Rightarrow> bool \<Rightarrow> nat \<times> nat \<times> string" where
  "leadingFraction [] x scale overflow = (x, scale, [])"
| "leadingFraction (c # s) x scale overflow =
     (if \<not> is_digit c then (x, scale, c # s)
      else if overflow then leadingFraction s x scale True
      else if x > (2 ^ 63 - 1) div 10 then leadingFraction s x scale True
      else if x * 10 + digit_value c > 2 ^ 63 then leadingFraction s x scale True
      else leadingFraction s (x * 10 + digit_value c) (scale * 10) False)"

definition unitMap :: "string \<rightharpoonup> nat" where
  "unitMap = [''ns'' \<mapsto> 1, ''us'' \<mapsto> 1000, [CHR 0xC2, CHR 0xB5, CHR ''s''] \<mapsto> 1000,
     [CHR 0xCE, CHR 0xBC, CHR ''s''] \<mapsto> 1000, ''ms'' \<mapsto> 1000000, ''s'' \<mapsto> 1000000000,
     ''m'' \<mapsto> 60000000000, ''h'' \<mapsto> 3600000000000]"

definition unit_char :: "char \<Rightarrow> bool" where
  "unit_char c \<longleftrightarrow> c \<noteq> CHR ''.'' \<and> \<not> is_digit c"

text \<open>\<^verbatim>\<open>time.quote\<close>.\<close>

definition hex_digit :: "nat \<Rightarrow> char" where
  "hex_digit n = ''0123456789abcdef'' ! n"

definition quote_char :: "char \<Rightarrow> string" where
  "quote_char c =
     (let n = of_char c
      in if n \<ge> 128 \<or> n < 32 then [CHR 0x5C, CHR ''x'', hex_digit (n div 16), hex_digit (n mod 16)]
         else if c = CHR 0x22 \<or> c = CHR 0x5C then [CHR 0x5C, c] else [c])"

definition quote :: "string \<Rightarrow> string" where
  "quote s = [CHR 0x22] @ concat (map quote_char s) @ [CHR 0x22]"

definition invalid_duration :: "string \<Rightarrow> gerr" where
  "invalid_duration orig = PlainError (''time: invalid duration '' @ quote orig)"

text \<open>One number with its unit: the text after it and its value in nanoseconds.\<close>

definition duration_part :: "(nat \<Rightarrow> nat \<Rightarrow> nat \<Rightarrow> nat) \<Rightarrow> string \<Rightarrow> string \<Rightarrow> (string \<times> nat) result" where
  "duration_part frac orig s =
     (case leadingInt s 0 of
        None \<Rightarrow> Inl (invalid_duration orig)
      | Some (v, s1) \<Rightarrow>
         (let pre = (length s1 \<noteq> length s);
              (f, scale, s2) = (if s1 \<noteq> [] \<and> hd s1 = CHR ''.'' then leadingFraction (tl s1) 0 1 False else (0, 1, s1));
              post = (s1 \<noteq> [] \<and> hd s1 = CHR ''.'' \<and> length s2 \<noteq> length (tl s1));
              u = takeWhile unit_char s2;
              rest = dropWhile unit_char s2
          in if \<not> pre \<and> \<not> post then Inl (invalid_duration orig)
             else if u = [] then Inl (PlainError (''time: missing unit in duration '' @ quote orig))
             else case unitMap u of
                    None \<Rightarrow> Inl (PlainError (''time: unknown unit '' @ quote u @ '' in duration '' @ quote orig))
                  | Some unit \<Rightarrow>
                     (if v > 2 ^ 63 div unit then Inl (invalid_duration orig)
                      else let v1 = v * unit;
                               v2 = (if f > 0 then (v1 + frac f unit scale) mod 2 ^ 64 else v1)
                           in if f > 0 \<and> v2 > 2 ^ 63 then Inl (invalid_duration orig)
                              else Inr (rest, v2))))"

lemma leadingInt_length: "leadingInt s x = Some (v, r) \<Longrightarrow> length r \<le> length s"
  by (induction s x rule: leadingInt.induct) (auto split: if_splits)

lemma leadingFraction_length: "length (snd (snd (leadingFraction s x scale ov))) \<le> length s"
proof (induction s arbitrary: x scale ov)
  case (Cons c s)
  have "length (snd (snd (leadingFraction s y sc o'))) \<le> Suc (length s)" for y sc o'
    using Cons [of y sc o'] by simp
  then show ?case by simp
qed simp

lemma duration_part_shorter:
  assumes "duration_part frac orig s = Inr (r, v)"
  shows "length r < length s"
proof -
  obtain n s1 where i: "leadingInt s 0 = Some (n, s1)"
    using assms by (auto simp: duration_part_def split: option.splits)
  obtain f scale s2 where fr:
    "(if s1 \<noteq> [] \<and> hd s1 = CHR ''.'' then leadingFraction (tl s1) 0 1 False else (0, 1, s1)) = (f, scale, s2)"
    by (metis prod_cases3)
  have l2: "length s2 \<le> length s1"
    using fr leadingFraction_length [of "tl s1" 0 1 False] by (auto split: if_splits)
  have r: "r = dropWhile unit_char s2" and u: "takeWhile unit_char s2 \<noteq> []"
    using assms by (auto simp: duration_part_def i fr Let_def split: if_splits option.splits)
  have "length s2 = length (takeWhile unit_char s2) + length r"
    unfolding r by (metis length_append takeWhile_dropWhile_id)
  then have "length r < length s2" using u by simp
  then show ?thesis using l2 leadingInt_length [OF i] by linarith
qed

function duration_loop :: "(nat \<Rightarrow> nat \<Rightarrow> nat \<Rightarrow> nat) \<Rightarrow> string \<Rightarrow> string \<Rightarrow> nat \<Rightarrow> nat result" where
  "duration_loop frac orig s d =
     (if s = [] then Inr d
      else if \<not> (hd s = CHR ''.'' \<or> is_digit (hd s)) then Inl (invalid_duration orig)
      else case duration_part frac orig s of
             Inl err \<Rightarrow> Inl err
           | Inr (s', v) \<Rightarrow>
              (if (d + v) mod 2 ^ 64 > 2 ^ 63 then Inl (invalid_duration orig)
               else duration_loop frac orig s' ((d + v) mod 2 ^ 64)))"
  by auto
termination
  by (relation "measure (\<lambda>(_, _, s, _). length s)") (auto dest: duration_part_shorter)

declare duration_loop.simps [simp del]

definition ParseDuration :: "(nat \<Rightarrow> nat \<Rightarrow> nat \<Rightarrow> nat) \<Rightarrow> string \<Rightarrow> int result" where
  "ParseDuration frac orig =
     (let signed = orig \<noteq> [] \<and> (hd orig = CHR ''-'' \<or> hd orig = CHR ''+'');
          neg = signed \<and> hd orig = CHR ''-'';
          s = (if signed then tl orig else orig)
      in if s = ''0'' then Inr 0
         else if s = [] then Inl (invalid_duration orig)
         else case duration_loop frac orig s 0 of
                Inl err \<Rightarrow> Inl err
              | Inr d \<Rightarrow>
                 (if neg then Inr (- int d)
                  else if d > 2 ^ 63 - 1 then Inl (invalid_duration orig)
                  else Inr (int d)))"

section \<open>Lemmas\<close>

lemma duration_loop_bound: "d \<le> 2 ^ 63 \<Longrightarrow> duration_loop frac orig s d = Inr r \<Longrightarrow> r \<le> 2 ^ 63"
proof (induction frac orig s d rule: duration_loop.induct)
  case (1 frac orig s d)
  show ?case
  proof (cases "s = []")
    case False
    then obtain s' v where p: "duration_part frac orig s = Inr (s', v)" "\<not> (d + v) mod 2 ^ 64 > 2 ^ 63"
        "hd s = CHR ''.'' \<or> is_digit (hd s)"
      using 1(3) by (subst (asm) duration_loop.simps) (auto split: if_splits sum.splits)
    then have "duration_loop frac orig s' ((d + v) mod 2 ^ 64) = Inr r"
      using 1(3) False by (subst (asm) duration_loop.simps) auto
    then show ?thesis using 1(1) False p by auto
  qed (use 1 in \<open>auto simp: duration_loop.simps\<close>)
qed

text \<open>The result fits the signed 64-bit integers, whatever the fractions contribute.\<close>

lemma ParseDuration_range:
  assumes "ParseDuration frac s = Inr d"
  shows "- (2 ^ 63) \<le> d \<and> d < 2 ^ 63"
proof -
  have b: "duration_loop frac s t 0 = Inr n \<Longrightarrow> n \<le> 2 ^ 63" for t n
    by (rule duration_loop_bound [of 0]) simp_all
  show ?thesis using assms b
    by (auto simp: ParseDuration_def Let_def split: if_splits sum.splits)
qed

end
