(* ===== verification/Go_Flags.thy ===== *)
theory Go_Flags
  imports Go_Duration
begin

text \<open>
  The parsing of a command line: Go's packages \<^verbatim>\<open>flag\<close> (\<^verbatim>\<open>FlagSet.Parse\<close>) and
  \<^verbatim>\<open>strconv\<close> (\<^verbatim>\<open>ParseBool\<close>) as functions, and the library \<^verbatim>\<open>urfave/cli\<close>, which
  the commands are built with, as the locale \<open>cli_library\<close> over what its documentation promises: a
  value of the command line goes before one of the environment, the first environment variable that
  is set counts, and a text that cannot be converted is an error.
\<close>

section \<open>Flags\<close>

datatype flag_kind = BoolFlag | StringFlag | IntFlag | DurationFlag | StringSliceFlag

record cli_flag =
  fl_Kind :: flag_kind
  fl_Name :: string
  fl_Aliases :: "string list"
  fl_EnvVars :: "string list"
  fl_Required :: bool

definition flag_named :: "cli_flag list \<Rightarrow> string \<Rightarrow> cli_flag option" where
  "flag_named fs name = List.find (\<lambda>f. fl_Name f = name \<or> name \<in> set (fl_Aliases f)) fs"

definition parse_bool :: "string \<Rightarrow> bool option" where
  "parse_bool str =
     (if str \<in> set [''1'', ''t'', ''T'', ''true'', ''TRUE'', ''True''] then Some True
      else if str \<in> set [''0'', ''f'', ''F'', ''false'', ''FALSE'', ''False''] then Some False
      else None)"

section \<open>The command line\<close>

text \<open>The name of a flag and the value after the first equals sign, which cannot be the first character.\<close>

fun split_value :: "string \<Rightarrow> string \<times> string option" where
  "split_value [] = ([], None)"
| "split_value (c # s) =
     (if c = CHR ''='' then ([], Some s)
      else (case split_value s of (name, value) \<Rightarrow> (c # name, value)))"

text \<open>
  \<open>parse_flags fs given args\<close> adds the values it reads to \<open>given\<close>, under the name of the flag, and
  ends with the arguments that are not flags.
\<close>

fun parse_flags :: "cli_flag list \<Rightarrow> (string \<times> string) list \<Rightarrow> string list \<Rightarrow> ((string \<times> string) list \<times> string list) result" where
  "parse_flags fs given [] = Inr (given, [])"
| "parse_flags fs given (s # args) =
     (if length s < 2 \<or> hd s \<noteq> CHR ''-'' then Inr (given, s # args)
      else if s = ''--'' then Inr (given, args)
      else (let text = (if hd (tl s) = CHR ''-'' then tl (tl s) else tl s)
            in if text = [] \<or> hd text = CHR ''-'' \<or> hd text = CHR ''=''
               then Inl (PlainError (''bad flag syntax: '' @ s))
               else (case split_value text of (name, value) \<Rightarrow>
                 (case flag_named fs name of
                    None \<Rightarrow> Inl (PlainError (''flag provided but not defined: -'' @ name))
                  | Some f \<Rightarrow>
                     (case value of
                        Some v \<Rightarrow> parse_flags fs (given @ [(fl_Name f, v)]) args
                      | None \<Rightarrow>
                         (if fl_Kind f = BoolFlag then parse_flags fs (given @ [(fl_Name f, ''true'')]) args
                          else (case args of
                                  [] \<Rightarrow> Inl (PlainError (''flag needs an argument: -'' @ name))
                                | v # args \<Rightarrow> parse_flags fs (given @ [(fl_Name f, v)]) args)))))))"

section \<open>Values\<close>

text \<open>
  The text of the first environment variable of a flag that is set. Lists are not separated at commas
  (\<^verbatim>\<open>DisableSliceFlagSeparator\<close> is set in \<^verbatim>\<open>cmd/k8up/main.go\<close>), but each text of a list, from the
  command line or from the environment, loses the (ASCII) white space around it
  (\<^verbatim>\<open>KeepSpace\<close> is not set on any flag).
\<close>

definition TrimSpace :: "string \<Rightarrow> string" where
  "TrimSpace s = (let blank = (\<lambda>c. of_char c \<in> {9, 10, 11, 12, 13, 32 :: nat})
                  in rev (dropWhile blank (rev (dropWhile blank s))))"

definition slice_text :: "flag_kind \<Rightarrow> string \<Rightarrow> string" where
  "slice_text kind v = (if kind = StringSliceFlag then TrimSpace v else v)"

definition env_text :: "(string \<rightharpoonup> string) \<Rightarrow> cli_flag \<Rightarrow> string option" where
  "env_text env f =
     (case List.find (\<lambda>k. env k \<noteq> None) (fl_EnvVars f) of
        Some k \<Rightarrow> map_option (slice_text (fl_Kind f)) (env k)
      | None \<Rightarrow> None)"

definition given_texts :: "(string \<times> string) list \<Rightarrow> string \<Rightarrow> string list" where
  "given_texts given name = map snd (filter (\<lambda>(n, v). n = name) given)"

definition flag_texts :: "(string \<rightharpoonup> string) \<Rightarrow> (string \<times> string) list \<Rightarrow> cli_flag \<Rightarrow> string list option" where
  "flag_texts env given f =
     (if given_texts given (fl_Name f) \<noteq> [] then Some (map (slice_text (fl_Kind f)) (given_texts given (fl_Name f)))
      else map_option (\<lambda>v. [v]) (env_text env f))"

text \<open>Whether a text can be converted to the type of a flag.\<close>

definition converts :: "(string \<Rightarrow> int option) \<Rightarrow> (string \<Rightarrow> int result) \<Rightarrow> flag_kind \<Rightarrow> string \<Rightarrow> bool" where
  "converts ParseInt ParseDur kind v \<longleftrightarrow>
     (case kind of
        BoolFlag \<Rightarrow> parse_bool v \<noteq> None
      | IntFlag \<Rightarrow> ParseInt v \<noteq> None
      | DurationFlag \<Rightarrow> (\<exists>d. ParseDur v = Inr d)
      | _ \<Rightarrow> True)"

section \<open>The library\<close>

locale cli_library =
  fixes cli_parse :: "cli_flag list \<Rightarrow> string list \<Rightarrow> (string \<rightharpoonup> string) \<Rightarrow> (string \<Rightarrow> string list option) result"
    and ParseInt :: "string \<Rightarrow> int option" and ParseDur :: "string \<Rightarrow> int result"
  assumes accepts: "parse_flags fs [] args = Inr (given, []) \<Longrightarrow> distinct (map fl_Name fs) \<Longrightarrow>
      (\<And>f v. f \<in> set fs \<Longrightarrow> v \<in> set (given_texts given (fl_Name f)) \<Longrightarrow> converts ParseInt ParseDur (fl_Kind f) v) \<Longrightarrow>
      (\<And>f v. f \<in> set fs \<Longrightarrow> env_text env f = Some v \<Longrightarrow> v \<noteq> [] \<Longrightarrow> converts ParseInt ParseDur (fl_Kind f) v) \<Longrightarrow>
      (\<And>f. f \<in> set fs \<Longrightarrow> fl_Required f \<Longrightarrow> flag_texts env given f \<noteq> None) \<Longrightarrow>
      \<exists>vals. cli_parse fs args env = Inr vals \<and> (\<forall>f \<in> set fs. vals (fl_Name f) = flag_texts env given f)"
    and rejects: "f \<in> set fs \<Longrightarrow> parse_flags fs [] args = Inr (given, rest) \<Longrightarrow> given_texts given (fl_Name f) = [] \<Longrightarrow>
      env_text env f = Some v \<Longrightarrow> v \<noteq> [] \<Longrightarrow> \<not> converts ParseInt ParseDur (fl_Kind f) v \<Longrightarrow>
      \<exists>err. cli_parse fs args env = Inl err"
    and ParseInt_Itoa: "0 \<le> n \<Longrightarrow> n < 2 ^ 63 \<Longrightarrow> ParseInt (Itoa n) = Some n"

section \<open>Lemmas\<close>

lemma given_texts_simps [simp]:
  "given_texts [] n = []"
  "given_texts ((n', v) # given) n = (if n' = n then v # given_texts given n else given_texts given n)"
  "given_texts (given @ given') n = given_texts given n @ given_texts given' n"
  by (simp_all add: given_texts_def)

lemma given_texts_pairs [simp]: "given_texts (map (Pair n') vs) n = (if n' = n then vs else [])"
  by (induction vs) auto

lemma slice_text_simps [simp]: "slice_text StringSliceFlag = TrimSpace" "kind \<noteq> StringSliceFlag \<Longrightarrow> slice_text kind = (\<lambda>v. v)"
  by (simp_all add: slice_text_def fun_eq_iff)

text \<open>One flag of the command line: with a value, and a switch.\<close>

lemma parse_value_flag:
  assumes "s = CHR ''-'' # name \<or> s = CHR ''-'' # CHR ''-'' # name"
    and "name \<noteq> []" "hd name \<noteq> CHR ''-''" "hd name \<noteq> CHR ''=''" "split_value name = (name, None)"
    and "flag_named fs name = Some f" "fl_Kind f \<noteq> BoolFlag"
  shows "parse_flags fs given (s # v # args) = parse_flags fs (given @ [(fl_Name f, v)]) args"
  using assms by (cases name) auto

lemma parse_switch:
  assumes "s = CHR ''-'' # name \<or> s = CHR ''-'' # CHR ''-'' # name"
    and "name \<noteq> []" "hd name \<noteq> CHR ''-''" "hd name \<noteq> CHR ''=''" "split_value name = (name, None)"
    and "flag_named fs name = Some f" "fl_Kind f = BoolFlag"
  shows "parse_flags fs given (s # args) = parse_flags fs (given @ [(fl_Name f, ''true'')]) args"
  using assms by (cases name) auto

text \<open>What was read before stays in front.\<close>

abbreviation after_given :: "'a list \<Rightarrow> ('e + 'a list \<times> 'b) \<Rightarrow> 'e + 'a list \<times> 'b" where
  "after_given given \<equiv> map_sum (\<lambda>err. err) (\<lambda>(given', rest). (given @ given', rest))"

lemma parse_flags_given: "parse_flags fs given args = after_given given (parse_flags fs [] args)"
proof (induction args arbitrary: given rule: length_induct)
  case (1 args)
  note IH = "1.IH" [rule_format]
  show ?case
  proof (cases args)
    case (Cons s rest)
    have step: "parse_flags fs (given @ [x]) as = after_given given (parse_flags fs [x] as)" if "length as < length args" for x as
      using IH [OF that, of "given @ [x]"] IH [OF that, of "[x]"] by (cases "parse_flags fs [] as") auto
    show ?thesis
      using step unfolding Cons parse_flags.simps(2) [of fs given s rest] parse_flags.simps(2) [of fs "[]" s rest]
      by (auto simp del: parse_flags.simps simp: Let_def split: option.splits prod.splits list.splits)
  qed simp
qed

section \<open>An instance\<close>

text \<open>
  One library that behaves this way, with decimal numbers. It shows that the laws can hold, and the
  examples run on it.
\<close>

definition decimal :: "string \<Rightarrow> int option" where
  "decimal s =
     (if s \<noteq> [] \<and> list_all (\<lambda>c. c \<in> set ''0123456789'') s
      then Some (foldl (\<lambda>n c. n * 10 + (of_char c - 48)) 0 s) else None)"

definition unreadable :: "(string \<Rightarrow> int result) \<Rightarrow> (string \<rightharpoonup> string) \<Rightarrow> (string \<times> string) list \<Rightarrow> cli_flag \<Rightarrow> bool" where
  "unreadable pdur env given f \<longleftrightarrow>
     (\<exists>v \<in> set (given_texts given (fl_Name f)). \<not> converts decimal pdur (fl_Kind f) v) \<or>
     (case env_text env f of Some v \<Rightarrow> v \<noteq> [] \<and> \<not> converts decimal pdur (fl_Kind f) v | None \<Rightarrow> False) \<or>
     fl_Required f \<and> flag_texts env given f = None"

definition cli_ref :: "(string \<Rightarrow> int result) \<Rightarrow> cli_flag list \<Rightarrow> string list \<Rightarrow> (string \<rightharpoonup> string) \<Rightarrow> (string \<Rightarrow> string list option) result" where
  "cli_ref pdur fs args env =
     (case parse_flags fs [] args of
        Inl err \<Rightarrow> Inl err
      | Inr (given, rest) \<Rightarrow>
         (if list_ex (unreadable pdur env given) fs then Inl (PlainError ''could not parse'')
          else Inr (\<lambda>n. case List.find (\<lambda>f. fl_Name f = n) fs of Some f \<Rightarrow> flag_texts env given f | None \<Rightarrow> None)))"

lemma decimal_digits:
  "nat_numeral n \<noteq> []" "list_all (\<lambda>c. c \<in> set ''0123456789'') (nat_numeral n)"
  "foldl (\<lambda>n c. n * 10 + (of_char c - 48)) (0 :: int) (nat_numeral n) = int n"
proof (induction n rule: nat_numeral.induct)
  case (1 n)
  have c: "char_of (48 + m) \<in> set ''0123456789''" "of_char (char_of (48 + m) :: char) = 48 + int m" if m: "m < 10" for m :: nat
  proof -
    have m': "m \<in> set [0, 1, 2, 3, 4, 5, 6, 7, 8, 9]" using m by auto
    have "list_all (\<lambda>m. char_of (48 + m) \<in> set ''0123456789'') [0 :: nat, 1, 2, 3, 4, 5, 6, 7, 8, 9]" by code_simp
    then show "char_of (48 + m) \<in> set ''0123456789''" using m' unfolding list_all_iff by blast
    have "list_all (\<lambda>m. of_char (char_of (48 + m) :: char) = 48 + int m) [0 :: nat, 1, 2, 3, 4, 5, 6, 7, 8, 9]" by code_simp
    then show "of_char (char_of (48 + m) :: char) = 48 + int m" using m' unfolding list_all_iff by blast
  qed
  have dm: "int (n div 10) * 10 + int (n mod 10) = int n" by presburger
  {
    case 1 show ?case by (simp add: nat_numeral.simps [of n])
  next
    case 2 show ?case
      using c(1) [of n] c(1) [of "n mod 10"] "1"(2) by (simp add: nat_numeral.simps [of n])
  next
    case 3 show ?case
      using c(2) [of n] c(2) [of "n mod 10"] "1"(3) dm by (simp add: nat_numeral.simps [of n])
  }
qed

lemma decimal_Itoa: "0 \<le> n \<Longrightarrow> decimal (Itoa n) = Some n"
  using decimal_digits [of "nat n"] by (simp add: decimal_def Itoa_def)

lemma find_flag: "distinct (map fl_Name fs) \<Longrightarrow> f \<in> set fs \<Longrightarrow> List.find (\<lambda>g. fl_Name g = fl_Name f) fs = Some f"
  by (induction fs) auto

interpretation cli_ref: cli_library "cli_ref pdur" decimal pdur for pdur
proof
  fix fs args given env
  assume p: "parse_flags fs [] args = Inr (given, [])" and d: "distinct (map fl_Name fs)"
    and g: "\<And>f v. f \<in> set fs \<Longrightarrow> v \<in> set (given_texts given (fl_Name f)) \<Longrightarrow> converts decimal pdur (fl_Kind f) v"
    and e: "\<And>f v. f \<in> set fs \<Longrightarrow> env_text env f = Some v \<Longrightarrow> v \<noteq> [] \<Longrightarrow> converts decimal pdur (fl_Kind f) v"
    and r: "\<And>f. f \<in> set fs \<Longrightarrow> fl_Required f \<Longrightarrow> flag_texts env given f \<noteq> None"
  have "\<not> list_ex (unreadable pdur env given) fs"
    using g e r by (auto simp: list_ex_iff unreadable_def split: option.splits)
  then show "\<exists>vals. cli_ref pdur fs args env = Inr vals \<and> (\<forall>f \<in> set fs. vals (fl_Name f) = flag_texts env given f)"
    using p find_flag [OF d] by (simp add: cli_ref_def)
next
  fix f fs args given rest env v
  assume "f \<in> set fs" "parse_flags fs [] args = Inr (given, rest)" "env_text env f = Some v" "v \<noteq> []" "\<not> converts decimal pdur (fl_Kind f) v"
  moreover from this have "unreadable pdur env given f" by (simp add: unreadable_def)
  ultimately show "\<exists>err. cli_ref pdur fs args env = Inl err" by (auto simp: cli_ref_def list_ex_iff)
qed (rule decimal_Itoa)

end
