(* ===== verification/Restic_Cfg.thy ===== *)
theory Restic_Cfg
  imports Go_Duration "HOL-Library.List_Lexorder" "HOL-Library.Char_ord"
begin

text \<open>
  \<^verbatim>\<open>restic/cfg/config.go\<close>: the configuration of the restic module, its defaults from
  the command line definition in \<^verbatim>\<open>cmd/restic/main.go\<close>, and its validation.

  The loops over Go maps take the order in which the runtime enumerates the keys from the argument
  \<open>ord\<close>, about which nothing but \<open>enumerates ord\<close> is assumed.
\<close>

definition enumerates :: "(string set \<Rightarrow> string list) \<Rightarrow> bool" where
  "enumerates ord \<longleftrightarrow> (\<forall>A. finite A \<longrightarrow> distinct (ord A) \<and> set (ord A) = A)"

text \<open>A loop over a map visits its entries in that order.\<close>

definition entries :: "(string set \<Rightarrow> string list) \<Rightarrow> (string \<rightharpoonup> 'a) \<Rightarrow> (string \<times> 'a) list" where
  "entries ord m = List.map_filter (\<lambda>k. map_option (Pair k) (m k)) (ord (dom m))"

definition RestoreTypeS3 :: string where [k8up_consts]: "RestoreTypeS3 = ''s3''"
definition RestoreTypeFolder :: string where [k8up_consts]: "RestoreTypeFolder = ''folder''"

record ResticConfiguration =
  rc_DoCheck :: bool
  rc_DoPrune :: bool
  rc_DoRestore :: bool
  rc_DoArchive :: bool
  rc_BackupCommandAnnotation :: string
  rc_BackupFileExtensionAnnotation :: string
  rc_BackupContainerAnnotation :: string
  rc_BackupDir :: string
  rc_SkipPreBackup :: bool
  rc_SkipSnapshotSync :: bool
  rc_PromURL :: string
  rc_ClusterName :: string
  rc_WebhookURL :: string
  rc_Hostname :: string
  rc_KubeConfig :: string
  rc_ResticBin :: string
  rc_ResticRepository :: string
  rc_ResticOptions :: string
  rc_Delete :: bool
  rc_Exclude :: "string list"
  rc_ExcludeCaches :: bool
  rc_ExcludeFile :: "string list"
  rc_ExcludeIfPresent :: "string list"
  rc_ExcludeLargerThan :: string
  rc_FilesFrom :: "string list"
  rc_FilesFromRaw :: "string list"
  rc_FilesFromVerbatim :: "string list"
  rc_IExclude :: "string list"
  rc_IExcludeFile :: "string list"
  rc_OneFileSystem :: bool
  rc_RestoreTimeFilter :: string
  rc_RestoreDir :: string
  rc_RestoreS3Endpoint :: string
  rc_RestoreS3AccessKey :: string
  rc_RestoreS3SecretKey :: string
  rc_RestoreSnap :: string
  rc_RestoreType :: string
  rc_RestoreFilter :: string
  rc_RestoreCACert :: string
  rc_RestoreClientCert :: string
  rc_RestoreClientKey :: string
  rc_VerifyRestore :: bool
  rc_RestoreTrimPath :: bool
  rc_PruneKeepLast :: int
  rc_PruneKeepHourly :: int
  rc_PruneKeepDaily :: int
  rc_PruneKeepWeekly :: int
  rc_PruneKeepMonthly :: int
  rc_PruneKeepYearly :: int
  rc_PruneKeepTags :: bool
  rc_PruneKeepWithin :: string
  rc_PruneKeepWithinHourly :: string
  rc_PruneKeepWithinDaily :: string
  rc_PruneKeepWithinWeekly :: string
  rc_PruneKeepWithinMonthly :: string
  rc_PruneKeepWithinYearly :: string
  rc_Tags :: "string list"
  rc_Paths :: "string list"
  rc_TargetPods :: "string list"
  rc_SleepDuration :: int
  rc_VarDir :: string
  rc_CACert :: string
  rc_ClientCert :: string
  rc_ClientKey :: string
  rc_InsecureAllowPodExecSPDYFallback :: bool

text \<open>
  The configuration after the flags were read and none but the two required ones was set:
  \<^verbatim>\<open>hostname\<close> and \<^verbatim>\<open>resticRepository\<close>. The argument
  \<open>homeFile\<close> is \<^verbatim>\<open>clientcmd.RecommendedHomeFile\<close>.
\<close>

definition default_restic_config :: "string \<Rightarrow> string \<Rightarrow> string \<Rightarrow> ResticConfiguration" where
  "default_restic_config homeFile hostname repository = \<lparr>
     rc_DoCheck = False, rc_DoPrune = False, rc_DoRestore = False, rc_DoArchive = False,
     rc_BackupCommandAnnotation = [], rc_BackupFileExtensionAnnotation = [],
     rc_BackupContainerAnnotation = ''k8up.io/backupcommand-container'',
     rc_BackupDir = ''/data'', rc_SkipPreBackup = False, rc_SkipSnapshotSync = False,
     rc_PromURL = [], rc_ClusterName = [], rc_WebhookURL = [],
     rc_Hostname = hostname, rc_KubeConfig = homeFile,
     rc_ResticBin = ''/usr/local/bin/restic'', rc_ResticRepository = repository, rc_ResticOptions = [],
     rc_Delete = False, rc_Exclude = [], rc_ExcludeCaches = False, rc_ExcludeFile = [],
     rc_ExcludeIfPresent = [], rc_ExcludeLargerThan = [], rc_FilesFrom = [], rc_FilesFromRaw = [],
     rc_FilesFromVerbatim = [], rc_IExclude = [], rc_IExcludeFile = [], rc_OneFileSystem = False,
     rc_RestoreTimeFilter = [], rc_RestoreDir = ''/data'', rc_RestoreS3Endpoint = [],
     rc_RestoreS3AccessKey = [], rc_RestoreS3SecretKey = [], rc_RestoreSnap = [], rc_RestoreType = [],
     rc_RestoreFilter = [], rc_RestoreCACert = [], rc_RestoreClientCert = [], rc_RestoreClientKey = [],
     rc_VerifyRestore = False, rc_RestoreTrimPath = True,
     rc_PruneKeepLast = 0, rc_PruneKeepHourly = 0, rc_PruneKeepDaily = 0, rc_PruneKeepWeekly = 0,
     rc_PruneKeepMonthly = 0, rc_PruneKeepYearly = 0, rc_PruneKeepTags = False,
     rc_PruneKeepWithin = [], rc_PruneKeepWithinHourly = [], rc_PruneKeepWithinDaily = [],
     rc_PruneKeepWithinWeekly = [], rc_PruneKeepWithinMonthly = [], rc_PruneKeepWithinYearly = [],
     rc_Tags = [], rc_Paths = [], rc_TargetPods = [], rc_SleepDuration = 0, rc_VarDir = ''/k8up'',
     rc_CACert = [], rc_ClientCert = [], rc_ClientKey = [], rc_InsecureAllowPodExecSPDYFallback = False\<rparr>"

section \<open>Validation\<close>

definition keepN_args :: "ResticConfiguration \<Rightarrow> string \<rightharpoonup> int" where
  "keepN_args c = [''keepLast'' \<mapsto> rc_PruneKeepLast c, ''keepHourly'' \<mapsto> rc_PruneKeepHourly c,
     ''keepDaily'' \<mapsto> rc_PruneKeepDaily c, ''keepWeekly'' \<mapsto> rc_PruneKeepWeekly c,
     ''keepMonthly'' \<mapsto> rc_PruneKeepMonthly c, ''keepYearly'' \<mapsto> rc_PruneKeepYearly c]"

definition keepWithin_args :: "ResticConfiguration \<Rightarrow> string \<rightharpoonup> string" where
  "keepWithin_args c = [''keepWithin'' \<mapsto> rc_PruneKeepWithin c, ''keepWithinHourly'' \<mapsto> rc_PruneKeepWithinHourly c,
     ''keepWithinDaily'' \<mapsto> rc_PruneKeepWithinDaily c, ''keepWithinWeekly'' \<mapsto> rc_PruneKeepWithinWeekly c,
     ''keepWithinMonthly'' \<mapsto> rc_PruneKeepWithinMonthly c, ''keepWithinYearly'' \<mapsto> rc_PruneKeepWithinYearly c]"

fun keepN_loop :: "(string \<times> int) list \<Rightarrow> gerr option" where
  "keepN_loop [] = None"
| "keepN_loop ((arg, val) # rest) =
     (if val < 0
      then Some (PlainError (''the value of the argument '' @ arg @ '' must not be negative, but was set to '' @ [CHR 0x27] @ Itoa val @ [CHR 0x27]))
      else keepN_loop rest)"

fun keepWithin_loop :: "(string \<Rightarrow> int result) \<Rightarrow> (string \<times> string) list \<Rightarrow> gerr option" where
  "keepWithin_loop pd [] = None"
| "keepWithin_loop pd ((arg, val) # rest) =
     (if val = [] then keepWithin_loop pd rest
      else case pd val of
             Inl err \<Rightarrow> Some (Wrapped (''the duration '' @ [CHR 0x27] @ val @ [CHR 0x27] @ '' of the argument '' @ arg @ '' is not valid'') err)
           | Inr d \<Rightarrow>
              (if d \<le> 0
               then Some (PlainError (''the duration '' @ [CHR 0x27] @ val @ [CHR 0x27] @ '' of the argument '' @ arg @ '' must not be negative''))
               else keepWithin_loop pd rest))"

definition validatePrune ::
  "(string set \<Rightarrow> string list) \<Rightarrow> (string \<Rightarrow> int result) \<Rightarrow> ResticConfiguration \<Rightarrow> gerr option" where
  "validatePrune ord pd c =
     (if \<not> rc_DoPrune c then None
      else case keepN_loop (entries ord (keepN_args c)) of
             Some err \<Rightarrow> Some err
           | None \<Rightarrow> keepWithin_loop pd (entries ord (keepWithin_args c)))"

definition s3_required :: "string \<Rightarrow> gerr" where
  "s3_required what = PlainError (''if the restore type is set to '' @ [CHR 0x27] @ RestoreTypeS3 @ [CHR 0x27] @
     '', then the restore s3 '' @ what @ '' must be defined'')"

text \<open>\<^verbatim>\<open>validateRestore\<close> also normalises the restore type in the configuration.\<close>

definition validateRestore :: "ResticConfiguration \<Rightarrow> gerr option \<times> ResticConfiguration" where
  "validateRestore c0 =
     (if \<not> rc_DoRestore c0 then (None, c0)
      else let c = c0\<lparr>rc_RestoreType := ToLower (rc_RestoreType c0)\<rparr>
           in if rc_RestoreType c = RestoreTypeS3 then
                (if rc_RestoreS3Endpoint c = [] then (Some (s3_required ''endpoint''), c)
                 else if rc_RestoreS3AccessKey c = [] then (Some (s3_required ''access key''), c)
                 else if rc_RestoreS3SecretKey c = [] then (Some (s3_required ''secret key''), c)
                 else (None, c))
              else if rc_RestoreType c = RestoreTypeFolder then
                (if rc_RestoreDir c = []
                 then (Some (PlainError (''if the restore type is set to '' @ [CHR 0x27] @ RestoreTypeFolder @ [CHR 0x27] @
                        '', then the restore directory must be defined'')), c)
                 else (None, c))
              else (Some (PlainError (''the restore type '' @ [CHR 0x27] @ rc_RestoreType c @ [CHR 0x27] @ '' is unknown'')), c))"

definition Validate ::
  "(string set \<Rightarrow> string list) \<Rightarrow> (string \<Rightarrow> int result) \<Rightarrow> ResticConfiguration \<Rightarrow> gerr option \<times> ResticConfiguration" where
  "Validate ord pd c0 =
     (case validateRestore c0 of
        (Some err, c) \<Rightarrow> (Some err, c)
      | (None, c) \<Rightarrow>
         (case validatePrune ord pd c of
            Some err \<Rightarrow> (Some err, c)
          | None \<Rightarrow> (None, c)))"

text \<open>\<^verbatim>\<open>cmd.SplitAtComma\<close>.\<close>

fun split_loop :: "string list \<Rightarrow> string list \<Rightarrow> string list" where
  "split_loop result [] = result"
| "split_loop result (item # slice) = split_loop (result @ Split item CHR '','') slice"

definition SplitAtComma :: "string list \<Rightarrow> string list" where
  "SplitAtComma slice = split_loop [] slice"

section \<open>Lemmas\<close>

lemma set_entries:
  assumes "enumerates ord" "finite (dom m)"
  shows "set (entries ord m) = {(k, v). m k = Some v}"
proof -
  have "set (ord (dom m)) = dom m" using assms by (simp add: enumerates_def)
  then show ?thesis by (force simp: entries_def List.map_filter_def dom_def)
qed

lemma ball_entries:
  assumes "enumerates ord" "finite (dom m)"
  shows "(\<forall>(k, v) \<in> set (entries ord m). P v) \<longleftrightarrow> (\<forall>v \<in> ran m. P v)"
  unfolding set_entries [OF assms] by (auto simp: ran_def)

lemma keepN_loop_None: "keepN_loop es = None \<longleftrightarrow> (\<forall>(k, v) \<in> set es. 0 \<le> v)"
  by (induction es rule: keepN_loop.induct) auto

lemma keepWithin_loop_None:
  "keepWithin_loop pd es = None \<longleftrightarrow> (\<forall>(k, v) \<in> set es. v = [] \<or> (\<exists>d. pd v = Inr d \<and> 0 < d))"
  by (induction pd es rule: keepWithin_loop.induct) (auto split: sum.splits)

lemma SplitAtComma_concat: "SplitAtComma slice = concat (map (\<lambda>s. Split s CHR '','') slice)"
proof -
  have "split_loop r slice = r @ concat (map (\<lambda>s. Split s CHR '','') slice)" for r
    by (induction slice arbitrary: r) simp_all
  then show ?thesis by (simp add: SplitAtComma_def)
qed

text \<open>What a configuration has to satisfy.\<close>

definition restore_ok :: "ResticConfiguration \<Rightarrow> bool" where
  "restore_ok c \<longleftrightarrow> (rc_DoRestore c \<longrightarrow>
     ToLower (rc_RestoreType c) = ''s3'' \<and> [] \<notin> {rc_RestoreS3Endpoint c, rc_RestoreS3AccessKey c, rc_RestoreS3SecretKey c} \<or>
     ToLower (rc_RestoreType c) = ''folder'' \<and> rc_RestoreDir c \<noteq> [])"

definition prune_ok :: "(string \<Rightarrow> int result) \<Rightarrow> ResticConfiguration \<Rightarrow> bool" where
  "prune_ok pd c \<longleftrightarrow> (rc_DoPrune c \<longrightarrow>
     (\<forall>n \<in> {rc_PruneKeepLast c, rc_PruneKeepHourly c, rc_PruneKeepDaily c, rc_PruneKeepWeekly c,
            rc_PruneKeepMonthly c, rc_PruneKeepYearly c}. 0 \<le> n) \<and>
     (\<forall>s \<in> {rc_PruneKeepWithin c, rc_PruneKeepWithinHourly c, rc_PruneKeepWithinDaily c, rc_PruneKeepWithinWeekly c,
            rc_PruneKeepWithinMonthly c, rc_PruneKeepWithinYearly c}. s = [] \<or> (\<exists>d. pd s = Inr d \<and> 0 < d)))"

lemma validateRestore_spec:
  "validateRestore c = (e, c') \<Longrightarrow> (e = None \<longleftrightarrow> restore_ok c) \<and>
     c' = (if rc_DoRestore c then c\<lparr>rc_RestoreType := ToLower (rc_RestoreType c)\<rparr> else c)"
  by (auto simp: validateRestore_def restore_ok_def k8up_consts Let_def split: if_splits)

lemma validatePrune_spec:
  assumes "enumerates ord"
  shows "validatePrune ord pd c = None \<longleftrightarrow> prune_ok pd c"
proof -
  have f: "finite (dom (keepN_args c))" "finite (dom (keepWithin_args c))"
    by (simp_all add: keepN_args_def keepWithin_args_def)
  have n: "keepN_loop (entries ord (keepN_args c)) = None \<longleftrightarrow>
      (\<forall>n \<in> {rc_PruneKeepLast c, rc_PruneKeepHourly c, rc_PruneKeepDaily c, rc_PruneKeepWeekly c,
            rc_PruneKeepMonthly c, rc_PruneKeepYearly c}. 0 \<le> n)"
    unfolding keepN_loop_None ball_entries [OF assms f(1)] by (auto simp: keepN_args_def ran_map_upd)
  have w: "keepWithin_loop pd (entries ord (keepWithin_args c)) = None \<longleftrightarrow>
      (\<forall>s \<in> {rc_PruneKeepWithin c, rc_PruneKeepWithinHourly c, rc_PruneKeepWithinDaily c, rc_PruneKeepWithinWeekly c,
            rc_PruneKeepWithinMonthly c, rc_PruneKeepWithinYearly c}. s = [] \<or> (\<exists>d. pd s = Inr d \<and> 0 < d))"
    unfolding keepWithin_loop_None ball_entries [OF assms f(2)] by (simp add: keepWithin_args_def ran_map_upd) blast
  show ?thesis
    unfolding validatePrune_def prune_ok_def n [symmetric] w [symmetric] by (auto split: option.splits)
qed

definition key_order :: "string set \<Rightarrow> string list" where
  "key_order = sorted_list_of_set"

lemma key_order_enumerates: "enumerates key_order"
  by (simp add: enumerates_def key_order_def)

lemma Validate_accepts_iff:
  assumes "enumerates ord"
  shows "fst (Validate ord pd c) = None \<longleftrightarrow> restore_ok c \<and> prune_ok pd c"
proof -
  obtain e c' where v: "validateRestore c = (e, c')" by fastforce
  have p: "prune_ok pd c' = prune_ok pd c"
    using validateRestore_spec [OF v] by (simp add: prune_ok_def)
  show ?thesis
    using validateRestore_spec [OF v] validatePrune_spec [OF assms, of pd c'] p
    by (auto simp: Validate_def v split: option.splits)
qed

section \<open>Properties\<close>

text \<open>
  C31. \<^verbatim>\<open>Validate\<close> accepts a configuration exactly when a requested restore names S3 with
  endpoint and both keys, or a folder with a directory, and a requested prune has no negative count
  and only positive durations, whatever the order of the map iterations. A count of 0 is accepted,
  where the reference of the options asks for positive numbers. The restore type is in
  lower case afterwards and nothing else is changed.
\<close>

theorem Validate_accepts:
  assumes "enumerates ord"
  shows "(fst (Validate ord pd c) = None \<longleftrightarrow> restore_ok c \<and> prune_ok pd c) \<and>
    snd (Validate ord pd c) = (if rc_DoRestore c then c\<lparr>rc_RestoreType := ToLower (rc_RestoreType c)\<rparr> else c)"
proof -
  obtain e c' where v: "validateRestore c = (e, c')" by fastforce
  have "snd (Validate ord pd c) = (if rc_DoRestore c then c\<lparr>rc_RestoreType := ToLower (rc_RestoreType c)\<rparr> else c)"
    using validateRestore_spec [OF v] by (auto simp: Validate_def v split: option.splits)
  then show ?thesis using Validate_accepts_iff [OF assms] by blast
qed

definition ex_restic_config :: ResticConfiguration where
  "ex_restic_config = (default_restic_config ''/root/.kube/config'' ''prod'' ''s3:http://minio/backup'')
     \<lparr>rc_DoRestore := True, rc_RestoreType := ''Folder'', rc_DoPrune := True, rc_PruneKeepLast := 5,
      rc_PruneKeepWithinDaily := ''1h30m''\<rparr>"

theorem Validate_accepts_witness:
  "fst (Validate key_order (ParseDuration (\<lambda>_ _ _. 0)) ex_restic_config) = None \<and>
   rc_RestoreType (snd (Validate key_order (ParseDuration (\<lambda>_ _ _. 0)) ex_restic_config)) = RestoreTypeFolder"
proof -
  have d: "ParseDuration (\<lambda>_ _ _. 0) ''1h30m'' = Inr 5400000000000"
    by (simp add: ParseDuration_def duration_loop.simps duration_part_def unitMap_def unit_char_def is_digit_def digit_value_def)
  have "restore_ok ex_restic_config" "ToLower (rc_RestoreType ex_restic_config) = ''folder''" by code_simp+
  moreover have "prune_ok (ParseDuration (\<lambda>_ _ _. 0)) ex_restic_config"
    by (simp add: prune_ok_def ex_restic_config_def default_restic_config_def d)
  moreover have "rc_DoRestore ex_restic_config" by code_simp
  ultimately show ?thesis
    using Validate_accepts [OF key_order_enumerates, of "ParseDuration (\<lambda>_ _ _. 0)" ex_restic_config]
    by (simp add: k8up_consts)
qed

text \<open>
  The example that the usage texts of the \<^verbatim>\<open>keepWithin\<close> flags give,
  \<^verbatim>\<open>2y5m7d3h\<close>, is rejected: the validation parses restic's durations as Go
  durations, which have no years, months and days.
\<close>

theorem Validate_rejects_usage_example:
  assumes "enumerates ord" "rc_DoPrune c" "rc_PruneKeepWithin c = ''2y5m7d3h''"
  shows "fst (Validate ord (ParseDuration frac) c) \<noteq> None"
proof -
  have "leadingInt ''2y5m7d3h'' 0 = Some (2, ''y5m7d3h'')" by (simp add: is_digit_def digit_value_def)
  moreover have "takeWhile unit_char ''y5m7d3h'' = ''y''" "unitMap ''y'' = None"
    by (simp_all add: unit_char_def is_digit_def unitMap_def)
  ultimately have "duration_part frac o' ''2y5m7d3h'' =
      Inl (PlainError (''time: unknown unit '' @ quote ''y'' @ '' in duration '' @ quote o'))" for o'
    by (simp add: duration_part_def)
  moreover have "is_digit CHR ''2''" by code_simp
  ultimately have "duration_loop frac o' ''2y5m7d3h'' 0 =
      Inl (PlainError (''time: unknown unit '' @ quote ''y'' @ '' in duration '' @ quote o'))" for o'
    by (subst duration_loop.simps) simp
  then have "\<nexists>d. ParseDuration frac ''2y5m7d3h'' = Inr d" by (simp add: ParseDuration_def)
  then have "\<not> prune_ok (ParseDuration frac) c" using assms(2,3) by (simp add: prune_ok_def)
  then show ?thesis using Validate_accepts_iff [OF assms(1)] by blast
qed

theorem Validate_rejects_usage_example_witness:
  "fst (Validate key_order (ParseDuration (\<lambda>_ _ _. 0)) (ex_restic_config\<lparr>rc_PruneKeepWithin := ''2y5m7d3h''\<rparr>)) \<noteq> None"
  by (rule Validate_rejects_usage_example [OF key_order_enumerates])
     (simp_all add: ex_restic_config_def)

end
