(* ===== verification/Restic_Flags.thy ===== *)
theory Restic_Flags
  imports Restic_Cfg
begin

text \<open>
  \<^verbatim>\<open>restic/cli/flags.go\<close>: the flags for the restic process, a Go map from flag names to
  their values, and the argument lists built from them. The order of the flags in an argument list
  is the runtime's, \<open>ord\<close>.
\<close>

type_synonym Flags = "string \<rightharpoonup> string list"

definition AddFlag :: "Flags \<Rightarrow> string \<Rightarrow> string list \<Rightarrow> Flags" where
  "AddFlag f key vals =
     (case f key of
        Some currentValues \<Rightarrow> f(key \<mapsto> currentValues @ vals)
      | None \<Rightarrow> f(key \<mapsto> vals))"

fun combine_first :: "(string \<times> string list) list \<Rightarrow> Flags \<Rightarrow> Flags" where
  "combine_first [] combined = combined"
| "combine_first ((firstK, firstV) # rest) combined = combine_first rest (combined(firstK \<mapsto> firstV))"

fun combine_second :: "Flags \<Rightarrow> (string \<times> string list) list \<Rightarrow> Flags \<Rightarrow> Flags" where
  "combine_second first [] combined = combined"
| "combine_second first ((secondK, secondV) # rest) combined =
     combine_second first rest
       (case first secondK of
          Some firstV \<Rightarrow> combined(secondK \<mapsto> firstV @ secondV)
        | None \<Rightarrow> combined(secondK \<mapsto> secondV))"

definition Combine :: "(string set \<Rightarrow> string list) \<Rightarrow> Flags \<Rightarrow> Flags \<Rightarrow> Flags" where
  "Combine ord first second = combine_second first (entries ord second) (combine_first (entries ord first) Map.empty)"

fun expand_loop :: "string \<Rightarrow> string list \<Rightarrow> string list \<Rightarrow> string list" where
  "expand_loop flag [] args = args"
| "expand_loop flag (v # vals) args = expand_loop flag vals (args @ [flag, v])"

definition expand :: "string \<Rightarrow> string list \<Rightarrow> string list" where
  "expand flag vals = (if length vals = 0 then [flag] else expand_loop flag vals [])"

fun apply_loop :: "(string \<times> string list) list \<Rightarrow> string list \<Rightarrow> string list" where
  "apply_loop [] args = args"
| "apply_loop ((flag, vals) # rest) args = apply_loop rest (args @ expand flag vals)"

definition ApplyToCommand :: "(string set \<Rightarrow> string list) \<Rightarrow> Flags \<Rightarrow> string \<Rightarrow> string list \<Rightarrow> string list" where
  "ApplyToCommand ord f command commandArgs =
     apply_loop (entries ord f) (if command \<noteq> [] then [command] else []) @ commandArgs"

text \<open>\<^verbatim>\<open>ArrayOpts.BuildArgs\<close> and \<^verbatim>\<open>ArrayOpts.String\<close> of
  \<^verbatim>\<open>restic/cli/restic.go\<close>.\<close>

fun build_args_loop :: "string \<Rightarrow> string list \<Rightarrow> string list \<Rightarrow> string list" where
  "build_args_loop param [] argList = argList"
| "build_args_loop param (e # a) argList = build_args_loop param a (argList @ [param, e])"

definition BuildArgs :: "string list \<Rightarrow> string \<Rightarrow> string list" where
  "BuildArgs a param = build_args_loop param a []"

definition ArrayOpts_String :: "string list \<Rightarrow> string" where
  "ArrayOpts_String a = Join a '', ''"

definition ArrayOpts_Set :: "string list \<Rightarrow> string \<Rightarrow> gerr option \<times> string list" where
  "ArrayOpts_Set a val = (None, a @ [val])"

text \<open>\<^verbatim>\<open>mixinBackupFlags\<close> of \<^verbatim>\<open>restic/cli/backup.go\<close>.\<close>

definition toMix :: "ResticConfiguration \<Rightarrow> Flags" where
  "toMix c = [''--exclude'' \<mapsto> rc_Exclude c, ''--exclude-file'' \<mapsto> rc_ExcludeFile c,
     ''--exclude-if-present'' \<mapsto> rc_ExcludeIfPresent c, ''--files-from'' \<mapsto> rc_FilesFrom c,
     ''--files-from-raw'' \<mapsto> rc_FilesFromRaw c, ''--files-from-verbatim'' \<mapsto> rc_FilesFromVerbatim c,
     ''--iexclude'' \<mapsto> rc_IExclude c, ''--iexclude-file'' \<mapsto> rc_IExcludeFile c]"

fun mix_loop :: "(string set \<Rightarrow> string list) \<Rightarrow> (string \<times> string list) list \<Rightarrow> Flags \<Rightarrow> Flags" where
  "mix_loop ord [] flags = flags"
| "mix_loop ord ((k, v) # rest) flags =
     mix_loop ord rest (if length v > 0 then Combine ord flags [k \<mapsto> v] else flags)"

definition mixinBackupFlags :: "(string set \<Rightarrow> string list) \<Rightarrow> ResticConfiguration \<Rightarrow> Flags \<Rightarrow> Flags" where
  "mixinBackupFlags ord c flags =
     (let flags1 = mix_loop ord (entries ord (toMix c)) flags;
          flags2 = (if rc_ExcludeCaches c then Combine ord flags1 [''--exclude-caches'' \<mapsto> []] else flags1)
      in if rc_OneFileSystem c then Combine ord flags2 [''--one-file-system'' \<mapsto> []] else flags2)"

section \<open>Lemmas\<close>

lemma map_fst_entries:
  assumes "enumerates ord" "finite (dom m)"
  shows "map fst (entries ord m) = ord (dom m)"
proof -
  have "List.map_filter (\<lambda>k. map_option (Pair k) (m k)) ks = map (\<lambda>k. (k, the (m k))) ks" if "set ks \<subseteq> dom m" for ks
    using that by (induction ks) auto
  moreover have "set (ord (dom m)) \<subseteq> dom m" using assms by (simp add: enumerates_def)
  ultimately show ?thesis by (simp add: entries_def comp_def)
qed

lemma distinct_entries: "enumerates ord \<Longrightarrow> finite (dom m) \<Longrightarrow> distinct (map fst (entries ord m))"
  by (simp add: map_fst_entries) (simp add: enumerates_def)

lemma map_of_entries:
  assumes "enumerates ord" "finite (dom m)"
  shows "map_of (entries ord m) = m"
proof
  fix k
  show "map_of (entries ord m) k = m k"
  proof (cases "m k")
    case None
    then have "k \<notin> fst ` set (entries ord m)" by (auto simp: set_entries [OF assms])
    then show ?thesis using None by (simp add: map_of_eq_None_iff)
  next
    case (Some v)
    then show ?thesis using distinct_entries [OF assms] set_entries [OF assms] by auto
  qed
qed

lemma upd_map_of: "k \<notin> fst ` set es \<Longrightarrow> m(k \<mapsto> v) ++ map_of es = m ++ map_of ((k, v) # es)"
proof
  fix x
  assume "k \<notin> fst ` set es"
  then have "map_of es k = None" by (simp add: map_of_eq_None_iff)
  then show "(m(k \<mapsto> v) ++ map_of es) x = (m ++ map_of ((k, v) # es)) x"
    by (cases "x = k") (auto simp: map_add_def split: option.splits)
qed

lemma combine_first_map_of: "distinct (map fst es) \<Longrightarrow> combine_first es m = m ++ map_of es"
proof (induction es arbitrary: m)
  case (Cons e es)
  obtain k v where e: "e = (k, v)" by fastforce
  have "m(k \<mapsto> v) ++ map_of es = m ++ map_of (e # es)"
    unfolding e by (rule upd_map_of) (use Cons(2) e in auto)
  moreover have "combine_first es (m(k \<mapsto> v)) = m(k \<mapsto> v) ++ map_of es" by (rule Cons(1)) (use Cons(2) in simp)
  moreover have "combine_first (e # es) m = combine_first es (m(k \<mapsto> v))" by (simp add: e)
  ultimately show ?case by metis
qed simp

definition combine_value :: "Flags \<Rightarrow> string \<Rightarrow> string list \<Rightarrow> string list" where
  "combine_value first k v = (case first k of Some fv \<Rightarrow> fv @ v | None \<Rightarrow> v)"

lemma combine_second_apply:
  "distinct (map fst es) \<Longrightarrow>
   combine_second first es m k = (case map_of es k of Some v \<Rightarrow> Some (combine_value first k v) | None \<Rightarrow> m k)"
proof (induction es arbitrary: m)
  case (Cons e es)
  obtain a v where e: "e = (a, v)" by fastforce
  have "map_of es a = None" using Cons(2) e by (auto simp: map_of_eq_None_iff)
  then show ?case
    using Cons e by (auto simp: combine_value_def split: option.splits)
qed simp

text \<open>What \<^verbatim>\<open>Combine\<close> computes, in every order: the values of the first, then those of the second.\<close>

lemma Combine_apply:
  assumes "enumerates ord" "finite (dom first)" "finite (dom second)"
  shows "Combine ord first second k =
    (case second k of Some v \<Rightarrow> Some (combine_value first k v) | None \<Rightarrow> first k)"
  using distinct_entries [OF assms(1,2)] distinct_entries [OF assms(1,3)]
  by (simp add: Combine_def combine_second_apply combine_first_map_of map_of_entries assms)

lemma Combine_dom:
  assumes "enumerates ord" "finite (dom first)" "finite (dom second)"
  shows "dom (Combine ord first second) = dom first \<union> dom second"
  using Combine_apply [OF assms] by (auto simp: dom_def split: option.splits)

lemma Combine_finite [intro]:
  "enumerates ord \<Longrightarrow> finite (dom first) \<Longrightarrow> finite (dom second) \<Longrightarrow> finite (dom (Combine ord first second))"
  by (simp add: Combine_dom)

lemma Combine_assoc:
  assumes "enumerates ord" "finite (dom a)" "finite (dom b)" "finite (dom c)"
  shows "Combine ord (Combine ord a b) c = Combine ord a (Combine ord b c)"
  using assms
  by (auto simp: fun_eq_iff Combine_apply Combine_finite combine_value_def split: option.splits)

lemma expand_loop_eq: "expand_loop flag vals args = args @ concat (map (\<lambda>v. [flag, v]) vals)"
  by (induction vals arbitrary: args) simp_all

lemma expand_eq: "expand flag vals = (if vals = [] then [flag] else concat (map (\<lambda>v. [flag, v]) vals))"
  by (simp add: expand_def expand_loop_eq)

lemma apply_loop_eq: "apply_loop es args = args @ concat (map (\<lambda>(k, v). expand k v) es)"
  by (induction es args rule: apply_loop.induct) simp_all

lemma ApplyToCommand_eq:
  "ApplyToCommand ord f command commandArgs =
     (if command \<noteq> [] then [command] else []) @ concat (map (\<lambda>(k, v). expand k v) (entries ord f)) @ commandArgs"
  by (simp add: ApplyToCommand_def apply_loop_eq)

lemma BuildArgs_eq: "BuildArgs a param = concat (map (\<lambda>e. [param, e]) a)"
proof -
  have "build_args_loop param a l = l @ concat (map (\<lambda>e. [param, e]) a)" for l
    by (induction a arbitrary: l) simp_all
  then show ?thesis by (simp add: BuildArgs_def)
qed

section \<open>Reading the flags back\<close>

text \<open>
  A reader for argument lists in the style of restic's own parser: names in \<open>sw\<close> stand
  alone, names in \<open>vl\<close> take the next argument, and repeated flags collect their values. It
  stops at the first other argument.
\<close>

fun read_flags :: "string set \<Rightarrow> string set \<Rightarrow> Flags \<Rightarrow> string list \<Rightarrow> Flags \<times> string list" where
  "read_flags sw vl m [] = (m, [])"
| "read_flags sw vl m [t] = (if t \<in> sw then (AddFlag m t [], []) else (m, [t]))"
| "read_flags sw vl m (t # v # ts) =
     (if t \<in> sw then read_flags sw vl (AddFlag m t []) (v # ts)
      else if t \<in> vl then read_flags sw vl (AddFlag m t [v]) ts
      else (m, t # v # ts))"

lemma read_switch: "t \<in> sw \<Longrightarrow> read_flags sw vl m (t # ts) = read_flags sw vl (AddFlag m t []) ts"
  by (cases ts) simp_all

lemma read_values:
  "k \<in> vl \<Longrightarrow> k \<notin> sw \<Longrightarrow> vals \<noteq> [] \<Longrightarrow>
   read_flags sw vl m (concat (map (\<lambda>v. [k, v]) vals) @ ts) = read_flags sw vl (AddFlag m k vals) ts"
proof (induction vals arbitrary: m)
  case (Cons v vals)
  have "AddFlag (AddFlag m k [v]) k vals = AddFlag m k (v # vals)"
    by (auto simp: AddFlag_def split: option.splits)
  then show ?case using Cons by (cases "vals = []") auto
qed simp

definition switches :: "Flags \<Rightarrow> string set" where
  "switches f = {k. f k = Some []}"

lemma read_entries:
  assumes "distinct (map fst es)" "\<forall>(k, v) \<in> set es. f k = Some v" "\<forall>(k, v) \<in> set es. m k = None"
  shows "read_flags (switches f) (dom f - switches f) m (concat (map (\<lambda>(k, v). expand k v) es) @ ts) =
     read_flags (switches f) (dom f - switches f) (m ++ map_of es) ts"
  using assms
proof (induction es arbitrary: m)
  case (Cons e es)
  obtain k v where e: "e = (k, v)" by fastforce
  have k: "f k = Some v" "m k = None" "k \<notin> fst ` set es" using Cons(2-) e by auto
  have add: "AddFlag m k v = m(k \<mapsto> v)" using k by (simp add: AddFlag_def)
  have step: "read_flags (switches f) (dom f - switches f) m (expand k v @ us) =
      read_flags (switches f) (dom f - switches f) (m(k \<mapsto> v)) us" for us
  proof (cases "v = []")
    case True
    then show ?thesis using k add by (simp add: expand_eq read_switch switches_def)
  next
    case False
    then show ?thesis
      using read_values [of k "dom f - switches f" "switches f" v m us] k add
      by (auto simp: expand_eq switches_def)
  qed
  have upd: "m(k \<mapsto> v) ++ map_of es = m ++ map_of (e # es)"
    unfolding e by (rule upd_map_of [OF k(3)])
  have "read_flags (switches f) (dom f - switches f) (m(k \<mapsto> v)) (concat (map (\<lambda>(k, v). expand k v) es) @ ts) =
      read_flags (switches f) (dom f - switches f) (m(k \<mapsto> v) ++ map_of es) ts"
    by (rule Cons(1)) (use Cons(2-) e k(3) in force)+
  moreover have "concat (map (\<lambda>(k, v). expand k v) (e # es)) @ ts = expand k v @ concat (map (\<lambda>(k, v). expand k v) es) @ ts"
    by (simp add: e)
  ultimately show ?case unfolding upd using step by metis
qed simp

lemma read_stop: "args \<noteq> [] \<longrightarrow> hd args \<notin> sw \<union> vl \<Longrightarrow> read_flags sw vl m args = (m, args)"
  by (cases "(sw, vl, m, args)" rule: read_flags.cases) auto

section \<open>Properties\<close>

text \<open>
  C32. An argument list built by \<^verbatim>\<open>ApplyToCommand\<close> starts with the command, and reading the
  rest gives back exactly the flags with their values in order and the arguments of the command,
  for every order in which the flags were written.
\<close>

theorem ApplyToCommand_roundtrip:
  assumes "enumerates ord" "finite (dom f)" "command \<noteq> []" "args \<noteq> [] \<longrightarrow> hd args \<notin> dom f"
  shows "hd (ApplyToCommand ord f command args) = command \<and>
    read_flags (switches f) (dom f - switches f) Map.empty (tl (ApplyToCommand ord f command args)) = (f, args)"
proof -
  have "read_flags (switches f) (dom f - switches f) Map.empty (concat (map (\<lambda>(k, v). expand k v) (entries ord f)) @ args) =
      read_flags (switches f) (dom f - switches f) (Map.empty ++ map_of (entries ord f)) args"
    by (rule read_entries) (use distinct_entries [OF assms(1,2)] set_entries [OF assms(1,2)] in auto)
  also have "\<dots> = (f, args)"
    using assms(4) by (subst read_stop) (auto simp: map_of_entries [OF assms(1,2)] switches_def)
  finally show ?thesis using assms(3) by (simp add: ApplyToCommand_eq)
qed

theorem ApplyToCommand_roundtrip_witness:
  "read_flags (switches [''--json'' \<mapsto> [], ''--host'' \<mapsto> [''prod'']]) {''--host''} Map.empty
     (tl (ApplyToCommand key_order [''--json'' \<mapsto> [], ''--host'' \<mapsto> [''prod'']] ''backup'' [''/data/pvc'']))
   = ([''--json'' \<mapsto> [], ''--host'' \<mapsto> [''prod'']], [''/data/pvc''])"
proof -
  let ?f = "[''--json'' \<mapsto> [], ''--host'' \<mapsto> [''prod'']] :: Flags"
  have "dom ?f - switches ?f = {''--host''}" by (auto simp: switches_def split: if_splits)
  then show ?thesis
    using ApplyToCommand_roundtrip [OF key_order_enumerates, of ?f "''backup''" "[''/data/pvc'']"] by auto
qed

end
