(* ===== verification/Restic_Types.thy ===== *)
theory Restic_Types
  imports Restic_Flags Pod_List
begin

text \<open>
  The data of the restic module: snapshots as restic lists them
  (\<^verbatim>\<open>restic/dto/snapshot.go\<close>) and as custom resources
  (\<^verbatim>\<open>api/v1/snapshot_types.go\<close>), the messages of a backup
  (\<^verbatim>\<open>restic/logging/logging.go\<close>), the statistics (\<^verbatim>\<open>restic/cli/stats.go\<close>), the
  nodes of a listing and the restore options (\<^verbatim>\<open>restic/cli/restore.go\<close>), and the interface
  to everything outside the repository.
\<close>

text \<open>
  A \<^verbatim>\<open>float64\<close> is kept as where it comes from: the conversion of an integer, or a
  number of a JSON text.
\<close>

datatype float64 = OfInt int | OfJson string

section \<open>Snapshots\<close>

type_synonym time = int \<comment> \<open>an instant\<close>

record dto_Snapshot =
  sn_ID :: string
  sn_Time :: time
  sn_Tree :: string
  sn_Paths :: "string list"
  sn_Hostname :: string
  sn_Username :: string
  sn_UID :: int
  sn_Gid :: int
  sn_Tags :: "string list"

definition zero_snapshot :: dto_Snapshot where
  "zero_snapshot = \<lparr>sn_ID = [], sn_Time = 0, sn_Tree = [], sn_Paths = [], sn_Hostname = [],
     sn_Username = [], sn_UID = 0, sn_Gid = 0, sn_Tags = []\<rparr>"

text \<open>The custom resource; pointers are options.\<close>

record SnapshotSpec =
  ss_ID :: "string option"
  ss_Date :: "time option"
  ss_Paths :: "string list option"
  ss_Repository :: "string option"

record Snapshot =
  cr_Name :: string
  cr_Namespace :: string
  cr_Spec :: SnapshotSpec

type_synonym SnapshotList = "Snapshot list"

section \<open>Backup messages\<close>

record BackupSummary =
  bs_MessageType :: string
  bs_FilesNew :: int
  bs_FilesChanged :: int
  bs_FilesUnmodified :: int
  bs_DirsNew :: int
  bs_DirsChanged :: int
  bs_DirsUnmodified :: int
  bs_DataBlobs :: int
  bs_TreeBlobs :: int
  bs_DataAdded :: int
  bs_TotalFilesProcessed :: int
  bs_TotalBytesProcessed :: int
  bs_TotalDuration :: float64
  bs_SnapshotID :: string

record BackupStatus =
  bst_PercentDone :: float64
  bst_TotalFiles :: int
  bst_FilesDone :: int
  bst_TotalBytes :: int
  bst_BytesDone :: int
  bst_CurrentFiles :: "string list"
  bst_ErrorCount :: int

record BackupError =
  be_Op :: string
  be_Path :: string
  be_Err :: int
  be_During :: string
  be_Item :: string

record BackupEnvelope =
  env_MessageType :: string
  env_BackupStatus :: BackupStatus
  env_BackupSummary :: BackupSummary
  env_BackupError :: BackupError

section \<open>Statistics\<close>

record RawMetrics =
  rm_runningBackupDuration :: float64
  rm_BackupStartTimestamp :: float64
  rm_BackupEndTimestamp :: float64
  rm_Errors :: float64
  rm_NewFiles :: float64
  rm_ChangedFiles :: float64
  rm_UnmodifiedFiles :: float64
  rm_NewDirs :: float64
  rm_ChangedDirs :: float64
  rm_UnmodifiedDirs :: float64
  rm_DataTransferred :: float64
  rm_MountedPVCs :: "string list"
  rm_availableSnapshots :: float64
  rm_Folder :: string
  rm_hostname :: string
  rm_ID :: string

record BackupStats =
  bks_Name :: string
  bks_BucketName :: string
  bks_BackupMetrics :: "RawMetrics option"
  bks_Snapshots :: "dto_Snapshot list"

record RestoreStats =
  rs_RestoreLocation :: string
  rs_SnapshotID :: string
  rs_RestoredFiles :: "string list"

definition zero_restore_stats :: RestoreStats where
  "zero_restore_stats = \<lparr>rs_RestoreLocation = [], rs_SnapshotID = [], rs_RestoredFiles = []\<rparr>"

text \<open>A gauge vector: its name, its label names and the samples that were set.\<close>

record gauge =
  g_Name :: string
  g_Labels :: "string list"
  g_Samples :: "(string list \<times> float64) list"

section \<open>Restores\<close>

record fileNode =
  fn_Name :: string
  fn_Type :: string
  fn_Path :: string
  fn_UID :: int
  fn_GID :: int
  fn_Size :: int
  fn_Mode :: int
  fn_Mtime :: time
  fn_Atime :: time
  fn_Ctime :: time
  fn_StructType :: string

record S3Cert =
  s3c_CACert :: string
  s3c_ClientCert :: string
  s3c_ClientKey :: string

record S3Bucket =
  s3b_Endpoint :: string
  s3b_AccessKey :: string
  s3b_SecretKey :: string
  s3b_Cert :: S3Cert

record RestoreOptions =
  ro_RestoreType :: string
  ro_RestoreDir :: string
  ro_RestoreFilter :: string
  ro_RestoreTimeFilter :: string
  ro_Delete :: bool
  ro_Verify :: bool
  ro_S3Destination :: S3Bucket

record tar_Header =
  th_Name :: string
  th_Size :: int
  th_Mode :: int
  th_Uid :: int
  th_Gid :: int
  th_ModTime :: time
  th_AccessTime :: time
  th_ChangeTime :: time

section \<open>The outside\<close>

text \<open>
  A process, as \<^verbatim>\<open>os/exec\<close> shows it: what it wrote, chunk by chunk in the order of the
  writes, and how waiting for it ended.
\<close>

datatype stream = Stdout | Stderr

datatype wait_result = WaitOk | WaitEOF | WaitExit int | WaitOther gerr

record process =
  pr_Writes :: "(stream \<times> string) list"
  pr_Wait :: wait_result

record s3_url =
  url_Scheme :: string
  url_Host :: string
  url_Path :: string

text \<open>A connection of the minio library: endpoint, keys, and whether it uses TLS.\<close>

record minio_Client =
  mn_Endpoint :: string
  mn_AccessKeyID :: string
  mn_SecretAccessKey :: string
  mn_Secure :: bool

text \<open>A command to run in a container of a pod, \<^verbatim>\<open>PodExecOptions\<close> and the path of the request.\<close>

record exec_request =
  er_Pod :: string
  er_Namespace :: string
  er_Command :: "string list"
  er_Container :: string
  er_Stdin :: bool
  er_Stdout :: bool
  er_Stderr :: bool
  er_TTY :: bool

text \<open>
  The operating system, the cluster and the servers the module talks to, over a state
  \<open>'w\<close>. \<open>x_Exec path args env stdin\<close> starts a process, or fails to start it; a
  started process has done its work when it is waited for. The \<open>x_Decode\<close> functions are
  \<^verbatim>\<open>json.Unmarshal\<close> at the types named; \<open>x_DecodeEnvelope\<close> also gives what was
  filled in before an error. \<open>x_Ord\<close> is the order of map iterations.
\<close>

record 'w outside =
  x_Ord :: "string set \<Rightarrow> string list"
  x_ParseDuration :: "string \<Rightarrow> int result"
  x_Random :: "nat \<Rightarrow> nat"
  x_TimeString :: "time \<Rightarrow> string"
  x_TimeRFC3339 :: "time \<Rightarrow> string"
  x_DecodeSnapshots :: "string \<Rightarrow> dto_Snapshot list result"
  x_DecodeSnapshot :: "string \<Rightarrow> dto_Snapshot result"
  x_DecodeFileNode :: "string \<Rightarrow> fileNode result"
  x_DecodeEnvelope :: "string \<Rightarrow> BackupEnvelope \<times> gerr option"
  x_MarshalBackupStats :: "BackupStats \<Rightarrow> string"
  x_MarshalRestoreStats :: "RestoreStats \<Rightarrow> string"
  x_ParseURL :: "string \<Rightarrow> s3_url result"
  x_Exec :: "string \<Rightarrow> string list \<Rightarrow> string list \<Rightarrow> string option \<Rightarrow> 'w \<Rightarrow> process result \<times> 'w"
  x_Environ :: "'w \<Rightarrow> string list"
  x_Now :: "'w \<Rightarrow> int"
  x_Sleep :: "int \<Rightarrow> 'w \<Rightarrow> 'w"
  x_NotExist :: "string \<Rightarrow> 'w \<Rightarrow> bool"
    \<comment> \<open>\<^verbatim>\<open>os.IsNotExist\<close> of the error of \<^verbatim>\<open>os.Stat\<close>\<close>
  x_StatFails :: "string \<Rightarrow> 'w \<Rightarrow> bool"
  x_ReadDir :: "string \<Rightarrow> 'w \<Rightarrow> (string \<times> bool) list result"
    \<comment> \<open>names, and whether they are directories\<close>
  x_OpenRead :: "string \<Rightarrow> 'w \<Rightarrow> string result"
  x_OpenWrite :: "string \<Rightarrow> 'w \<Rightarrow> gerr option \<times> 'w"
  x_Append :: "string \<Rightarrow> string \<Rightarrow> 'w \<Rightarrow> gerr option \<times> 'w"
  x_Post :: "string \<Rightarrow> string \<Rightarrow> 'w \<Rightarrow> string result \<times> 'w"
    \<comment> \<open>the status line\<close>
  x_Push :: "string \<Rightarrow> string \<Rightarrow> gauge \<Rightarrow> (string \<times> string) list \<Rightarrow> 'w \<Rightarrow> gerr option \<times> 'w"
  x_InClusterConfig :: "'w \<Rightarrow> gerr option"
  x_BuildConfigFromFlags :: "string \<Rightarrow> 'w \<Rightarrow> gerr option"
  x_NewClient :: "'w \<Rightarrow> gerr option"
  x_ListSnapshots :: "string \<Rightarrow> 'w \<Rightarrow> Snapshot list result \<times> 'w"
  x_CreateSnapshot :: "Snapshot \<Rightarrow> 'w \<Rightarrow> gerr option \<times> 'w"
  x_DeleteSnapshot :: "Snapshot \<Rightarrow> 'w \<Rightarrow> gerr option \<times> 'w"
  x_Kube :: "'w kube"
  x_KubeNewForConfig :: "'w \<Rightarrow> gerr option"
  x_AddToScheme :: "gerr option"
  x_SplitCommand :: "string \<Rightarrow> string list" \<comment> \<open>\<^verbatim>\<open>qsplit.ToStrings\<close>\<close>
  x_NewWebSocketExecutor :: "exec_request \<Rightarrow> gerr option"
  x_NewSPDYExecutor :: "exec_request \<Rightarrow> gerr option"
  x_NewFallbackExecutor :: "exec_request \<Rightarrow> gerr option"
  x_Stream :: "bool \<Rightarrow> exec_request \<Rightarrow> 'w \<Rightarrow> (string \<times> gerr option) \<times> 'w"
    \<comment> \<open>with or without the fallback to SPDY: the output of the command, and how the stream ended\<close>
  x_ReadFile :: "string \<Rightarrow> 'w \<Rightarrow> gerr option"
  x_LoadX509KeyPair :: "string \<Rightarrow> string \<Rightarrow> 'w \<Rightarrow> gerr option"
  x_MinioNew :: "minio_Client \<Rightarrow> 'w \<Rightarrow> gerr option"
  x_BucketExists :: "minio_Client \<Rightarrow> string \<Rightarrow> 'w \<Rightarrow> (bool \<times> gerr option) \<times> 'w"
  x_MakeBucket :: "minio_Client \<Rightarrow> string \<Rightarrow> 'w \<Rightarrow> gerr option \<times> 'w"
  x_PutObject :: "minio_Client \<Rightarrow> string \<Rightarrow> string \<Rightarrow> string \<Rightarrow> 'w \<Rightarrow> gerr option \<times> 'w"
    \<comment> \<open>bucket, object name, content\<close>
  x_UploadFailsFirst :: "minio_Client \<Rightarrow> string \<Rightarrow> string \<Rightarrow> 'w \<Rightarrow> gerr option"
    \<comment> \<open>the error of an upload that ends before the content was written\<close>
  x_ListObjects :: "minio_Client \<Rightarrow> string \<Rightarrow> 'w \<Rightarrow> (string \<times> gerr option) list"
  x_RemoveObjects :: "minio_Client \<Rightarrow> string \<Rightarrow> string list \<Rightarrow> 'w \<Rightarrow> (string \<times> gerr) list \<times> 'w"
  x_RemoveBucket :: "minio_Client \<Rightarrow> string \<Rightarrow> 'w \<Rightarrow> gerr option \<times> 'w"
  x_GetObject :: "minio_Client \<Rightarrow> string \<Rightarrow> string \<Rightarrow> 'w \<Rightarrow> string result"
  x_StatObject :: "minio_Client \<Rightarrow> string \<Rightarrow> string \<Rightarrow> 'w \<Rightarrow> string result"
  x_Gzip :: "string \<Rightarrow> string"
  x_TarHeader :: "tar_Header \<Rightarrow> gerr option"
    \<comment> \<open>the error of \<^verbatim>\<open>tar.Writer.WriteHeader\<close>\<close>
  x_TarGz :: "tar_Header \<Rightarrow> string \<Rightarrow> string"

text \<open>\<^verbatim>\<open>path.Base\<close>.\<close>

definition path_Base :: "string \<Rightarrow> string" where
  "path_Base p =
     (if p = [] then ''.''
      else let q = TrimRight p CHR ''/'';
               b = rev (takeWhile (\<lambda>c. c \<noteq> CHR ''/'') (rev q))
           in if b = [] then ''/'' else b)"

end
