(* ===== verification/Restic_Logging.thy ===== *)
theory Restic_Logging
  imports Restic_Types
begin

text \<open>
  \<^verbatim>\<open>restic/logging/logging.go\<close>: the writers behind the output of a restic process. Each
  chunk that is written is cut into lines by a scanner of its own, and each line is given to a
  function. What only goes to the log is left out.
\<close>

section \<open>Lines\<close>

text \<open>
  \<^verbatim>\<open>bufio.Scanner\<close> with \<^verbatim>\<open>bufio.ScanLines\<close>: the text up to each newline, a
  last line without one if it is not empty, one trailing carriage return dropped. The scanner stops
  at a line that does not fit its buffer.
\<close>

definition MaxScanTokenSize :: nat where
  "MaxScanTokenSize = 65536"

abbreviation newline :: char where
  "newline \<equiv> CHR 0x0A"

definition raw_lines :: "string \<Rightarrow> string list" where
  "raw_lines p = (let ls = Split p newline in if last ls = [] then butlast ls else ls)"

definition dropCR :: "string \<Rightarrow> string" where
  "dropCR l = (if l \<noteq> [] \<and> last l = CHR 0x0D then butlast l else l)"

definition scan_lines :: "string \<Rightarrow> string list" where
  "scan_lines p = map dropCR (takeWhile (\<lambda>l. length l < MaxScanTokenSize) (raw_lines p))"

text \<open>\<^verbatim>\<open>writer.Write\<close>: the function is called for each line of the chunk.\<close>

definition writer_Write :: "(string \<Rightarrow> 's \<Rightarrow> 's) \<Rightarrow> string \<Rightarrow> 's \<Rightarrow> (nat \<times> gerr option) \<times> 's" where
  "writer_Write out p s = ((length p, None), fold out (scan_lines p) s)"

text \<open>A stream of chunks.\<close>

definition write_chunks :: "(string \<Rightarrow> 's \<Rightarrow> 's) \<Rightarrow> string list \<Rightarrow> 's \<Rightarrow> 's" where
  "write_chunks out ps s = fold (\<lambda>p s. snd (writer_Write out p s)) ps s"

section \<open>The backup output\<close>

text \<open>
  \<^verbatim>\<open>BackupOutputParser\<close>, with its summary function as an argument of
  \<^verbatim>\<open>out\<close>; the state \<open>'s\<close> is what the summary function changes. The percentage
  function only logs.
\<close>

record BackupOutputParser =
  bop_errorCount :: int
  bop_folder :: string

definition NewBackupOutputParser :: "string \<Rightarrow> BackupOutputParser" where
  "NewBackupOutputParser folderName = \<lparr>bop_errorCount = 0, bop_folder = folderName\<rparr>"

definition NewStdinBackupOutputParser :: "string \<Rightarrow> BackupOutputParser" where
  "NewStdinBackupOutputParser folderName = \<lparr>bop_errorCount = 0, bop_folder = folderName\<rparr>"

definition bop_out ::
  "(string \<Rightarrow> BackupEnvelope \<times> gerr option) \<Rightarrow> (BackupSummary \<Rightarrow> int \<Rightarrow> string \<Rightarrow> 's \<Rightarrow> 's) \<Rightarrow>
   string \<Rightarrow> BackupOutputParser \<times> 's \<Rightarrow> BackupOutputParser \<times> 's" where
  "bop_out decode summaryFunc l bs =
     (case bs of (b, s) \<Rightarrow>
       (let envelope = fst (decode l)
        in if env_MessageType envelope = ''error'' then (b\<lparr>bop_errorCount := bop_errorCount b + 1\<rparr>, s)
           else if env_MessageType envelope = ''status'' then (b, s)
           else if env_MessageType envelope = ''summary''
           then (b, summaryFunc (env_BackupSummary envelope) (bop_errorCount b) (bop_folder b) s)
           else (b, s)))"

section \<open>Lemmas\<close>

lemma writer_Write_snd [simp]: "snd (writer_Write out p s) = fold out (scan_lines p) s"
  by (simp add: writer_Write_def)

lemma Split_append_sep: "Split (p @ c # q) c = Split p c @ Split q c"
  by (induction p) (auto split: list.splits)

lemma Split_single: "c \<notin> set p \<Longrightarrow> Split p c = [p]"
  by (induction p) auto

lemma raw_lines_newline: "raw_lines (p @ [newline]) = Split p newline"
  by (simp add: raw_lines_def Split_append_sep)

lemma raw_lines_append: "raw_lines (p @ newline # q) = raw_lines (p @ [newline]) @ raw_lines q"
  by (auto simp: raw_lines_newline) (auto simp: raw_lines_def Split_append_sep Let_def last_append butlast_append)

lemma raw_lines_Nil [simp]: "raw_lines [] = []"
  by (simp add: raw_lines_def)

text \<open>Complete, short lines: the chunks of a stream are scanned as the whole stream would be.\<close>

definition complete_lines :: "string \<Rightarrow> bool" where
  "complete_lines p \<longleftrightarrow> p \<noteq> [] \<and> last p = newline \<and> (\<forall>l \<in> set (raw_lines p). length l < MaxScanTokenSize)"

lemma scan_lines_complete: "complete_lines p \<Longrightarrow> scan_lines p = map dropCR (raw_lines p)"
  by (simp add: complete_lines_def scan_lines_def takeWhile_eq_all_conv [THEN iffD2])

lemma raw_lines_concat:
  "\<forall>p \<in> set ps. complete_lines p \<Longrightarrow> raw_lines (concat ps) = concat (map raw_lines ps)"
proof (induction ps)
  case (Cons p ps)
  have "p \<noteq> []" "last p = newline" using Cons(2) by (simp_all add: complete_lines_def)
  then have p: "p = butlast p @ [newline]" using append_butlast_last_id [of p] by simp
  have "raw_lines (p @ concat ps) = raw_lines p @ raw_lines (concat ps)"
    using raw_lines_append [of "butlast p" "concat ps"] p by (metis append.assoc append_Cons append_Nil)
  then show ?case using Cons by simp
qed simp

lemma write_chunks_lines:
  assumes "\<forall>p \<in> set ps. complete_lines p"
  shows "write_chunks out ps s = fold out (map dropCR (raw_lines (concat ps))) s"
  unfolding raw_lines_concat [OF assms] using assms
  by (induction ps arbitrary: s) (simp_all add: write_chunks_def scan_lines_complete)

text \<open>
  What the parser reports: for each summary line the number of error lines before it.
\<close>

fun reports :: "(string \<Rightarrow> BackupEnvelope \<times> gerr option) \<Rightarrow> int \<Rightarrow> string list \<Rightarrow> (BackupSummary \<times> int) list" where
  "reports decode n [] = []"
| "reports decode n (l # ls) =
     (let t = env_MessageType (fst (decode l))
      in if t = ''summary'' then (env_BackupSummary (fst (decode l)), n) # reports decode n ls
         else reports decode (if t = ''error'' then n + 1 else n) ls)"

lemma fold_bop_out:
  "snd (fold (bop_out decode summaryFunc) ls (b, s)) =
     fold (\<lambda>(sm, n). summaryFunc sm n (bop_folder b)) (reports decode (bop_errorCount b) ls) s"
  by (induction ls arbitrary: b s) (auto simp: bop_out_def Let_def)

section \<open>Properties\<close>

text \<open>
  C33. When restic's messages arrive in whole lines, the parser calls the summary function for each
  summary message, in order and with the number of error messages before it, however the lines are
  spread over the writes.
\<close>

theorem backup_output_reported:
  assumes "\<forall>p \<in> set ps. complete_lines p"
  shows "snd (write_chunks (bop_out decode summaryFunc) ps (NewBackupOutputParser folder, s)) =
    fold (\<lambda>(sm, n). summaryFunc sm n folder) (reports decode 0 (map dropCR (raw_lines (concat ps)))) s"
  by (simp add: write_chunks_lines [OF assms] fold_bop_out NewBackupOutputParser_def)

definition ex_summary :: BackupSummary where
  "ex_summary = \<lparr>bs_MessageType = ''summary'', bs_FilesNew = 1, bs_FilesChanged = 0, bs_FilesUnmodified = 0,
     bs_DirsNew = 0, bs_DirsChanged = 0, bs_DirsUnmodified = 0, bs_DataBlobs = 0, bs_TreeBlobs = 0,
     bs_DataAdded = 10, bs_TotalFilesProcessed = 1, bs_TotalBytesProcessed = 10,
     bs_TotalDuration = OfJson ''0.5'', bs_SnapshotID = ''abc''\<rparr>"

definition ex_envelope :: "string \<Rightarrow> BackupEnvelope" where
  "ex_envelope t = \<lparr>env_MessageType = t,
     env_BackupStatus = \<lparr>bst_PercentDone = OfInt 0, bst_TotalFiles = 0, bst_FilesDone = 0, bst_TotalBytes = 0,
       bst_BytesDone = 0, bst_CurrentFiles = [], bst_ErrorCount = 0\<rparr>,
     env_BackupSummary = ex_summary,
     env_BackupError = \<lparr>be_Op = [], be_Path = [], be_Err = 0, be_During = [], be_Item = []\<rparr>\<rparr>"

text \<open>A decoder that knows three messages.\<close>

definition ex_decode :: "string \<Rightarrow> BackupEnvelope \<times> gerr option" where
  "ex_decode l =
     (if l = ''{summary}'' then (ex_envelope ''summary'', None)
      else if l = ''{error}'' then (ex_envelope ''error'', None)
      else (ex_envelope [], Some (PlainError ''unexpected end of JSON input'')))"

theorem backup_output_reported_witness:
  "snd (write_chunks (bop_out ex_decode (\<lambda>sm n f s. s @ [(bs_DataAdded sm, n)]))
     [''{error}'' @ [newline], ''{summary}'' @ [newline]] (NewBackupOutputParser ''f'', [])) = [(10, 1)]"
proof -
  have c: "\<forall>p \<in> set [''{error}'' @ [newline], ''{summary}'' @ [newline]]. complete_lines p"
    by (simp add: complete_lines_def raw_lines_def MaxScanTokenSize_def)
  show ?thesis
    unfolding backup_output_reported [OF c]
    by (simp add: raw_lines_def dropCR_def ex_decode_def ex_envelope_def ex_summary_def)
qed

text \<open>
  A line that arrives in two writes is scanned as two lines: a summary message that is cut by
  the end of a write is not recognised and no statistics are sent for the backup.
\<close>

theorem cut_summary_lost:
  "snd (write_chunks (bop_out ex_decode (\<lambda>sm n f s. s @ [(bs_DataAdded sm, n)]))
     [''{summ'', ''ary}'' @ [newline]] (NewBackupOutputParser ''f'', [])) = [] \<and>
   snd (write_chunks (bop_out ex_decode (\<lambda>sm n f s. s @ [(bs_DataAdded sm, n)]))
     [''{summ'' @ ''ary}'' @ [newline]] (NewBackupOutputParser ''f'', [])) = [(10, 0)]"
  by (simp add: write_chunks_def scan_lines_def raw_lines_def dropCR_def MaxScanTokenSize_def bop_out_def
      NewBackupOutputParser_def ex_decode_def ex_envelope_def ex_summary_def)

end
