(* ===== verification/Restic_Command.thy ===== *)
theory Restic_Command
  imports Restic_Logging
begin

text \<open>
  \<^verbatim>\<open>restic/cli/command.go\<close>: running a process. The writers for its output are functions on
  the state \<open>'l\<close> they belong to and the outside state; what the process wrote has reached them
  when \<^verbatim>\<open>Wait\<close> returns.
\<close>

type_synonym ('l, 'w) sink = "string \<Rightarrow> 'l \<times> 'w \<Rightarrow> 'l \<times> 'w"

record ('l, 'w) CommandOptions =
  co_Path :: string
  co_StdIn :: "string option"
  co_StdOut :: "('l, 'w) sink option"
  co_StdErr :: "('l, 'w) sink option"
  co_Args :: "string list"

text \<open>The parts of \<^verbatim>\<open>exec.Cmd\<close> the code sets or reads.\<close>

record ('l, 'w) exec_Cmd =
  ec_Path :: string
  ec_Args :: "string list"
  ec_Env :: "string list"
  ec_Stdin :: "string option"
  ec_Stdout :: "('l, 'w) sink option"
  ec_Stderr :: "('l, 'w) sink option"
  ec_Process :: "process option"

record ('l, 'w) Command =
  cm_options :: "('l, 'w) CommandOptions"
  cm_FatalError :: "gerr option"
  cm_Errors :: "gerr list"
  cm_cmd :: "('l, 'w) exec_Cmd option"

definition NewCommand :: "('l, 'w) CommandOptions \<Rightarrow> ('l, 'w) Command" where
  "NewCommand commandOptions = \<lparr>cm_options = commandOptions, cm_FatalError = None, cm_Errors = [], cm_cmd = None\<rparr>"

definition setResticProgressFPSIfNotDefined :: "string list \<Rightarrow> string list" where
  "setResticProgressFPSIfNotDefined givenEnv =
     (if \<exists>envVar \<in> set givenEnv. HasPrefix envVar ''RESTIC_PROGRESS_FPS='' then givenEnv
      else givenEnv @ [''RESTIC_PROGRESS_FPS=0.016667''])"

definition Configure :: "'w outside \<Rightarrow> ('l, 'w) Command \<Rightarrow> 'w \<Rightarrow> ('l, 'w) Command" where
  "Configure X c w =
     c\<lparr>cm_cmd := Some \<lparr>ec_Path = co_Path (cm_options c), ec_Args = co_Args (cm_options c),
         ec_Env = setResticProgressFPSIfNotDefined (x_Environ X w),
         ec_Stdin = co_StdIn (cm_options c), ec_Stdout = co_StdOut (cm_options c),
         ec_Stderr = co_StdErr (cm_options c), ec_Process = None\<rparr>\<rparr>"

definition not_configured :: gerr where
  "not_configured = PlainError ''command not configured''"

definition Start :: "'w outside \<Rightarrow> ('l, 'w) Command \<Rightarrow> 'w \<Rightarrow> ('l, 'w) Command \<times> 'w" where
  "Start X c w =
     (case cm_cmd c of
        None \<Rightarrow> (c\<lparr>cm_FatalError := Some not_configured\<rparr>, w)
      | Some cmd \<Rightarrow>
         (case x_Exec X (ec_Path cmd) (ec_Args cmd) (ec_Env cmd) (ec_Stdin cmd) w of
            (Inl err, w) \<Rightarrow> (c\<lparr>cm_FatalError := Some (Wrapped ''cmd.Start() err'' err)\<rparr>, w)
          | (Inr p, w) \<Rightarrow> (c\<lparr>cm_cmd := Some (cmd\<lparr>ec_Process := Some p\<rparr>)\<rparr>, w)))"

definition deliver :: "('l, 'w) exec_Cmd \<Rightarrow> stream \<times> string \<Rightarrow> 'l \<times> 'w \<Rightarrow> 'l \<times> 'w" where
  "deliver cmd chunk s =
     (case (if fst chunk = Stdout then ec_Stdout cmd else ec_Stderr cmd) of
        None \<Rightarrow> s
      | Some sink \<Rightarrow> sink (snd chunk) s)"

fun wait_error :: "wait_result \<Rightarrow> gerr option" where
  "wait_error WaitOk = None"
| "wait_error WaitEOF = None"
| "wait_error (WaitExit code) = (if code \<noteq> 3 then Some (PlainError (''cmd.Wait() err: '' @ Itoa code)) else None)"
| "wait_error (WaitOther err) = Some (Wrapped ''cmd.Wait() err'' err)"

definition did_not_start :: gerr where
  "did_not_start = PlainError ''the process did not start, please check if execution bit is set''"

definition Command_Wait :: "('l, 'w) Command \<Rightarrow> 'l \<times> 'w \<Rightarrow> ('l, 'w) Command \<times> 'l \<times> 'w" where
  "Command_Wait c s =
     (case cm_cmd c of
        None \<Rightarrow> (c\<lparr>cm_FatalError := Some not_configured\<rparr>, s)
      | Some cmd \<Rightarrow>
         (case ec_Process cmd of
            None \<Rightarrow> (c\<lparr>cm_FatalError := Some did_not_start\<rparr>, s)
          | Some p \<Rightarrow>
             (case wait_error (pr_Wait p) of
                None \<Rightarrow> (c, fold (deliver cmd) (pr_Writes p) s)
              | Some err \<Rightarrow> (c\<lparr>cm_FatalError := Some err\<rparr>, fold (deliver cmd) (pr_Writes p) s))))"

definition Run :: "'w outside \<Rightarrow> ('l, 'w) Command \<Rightarrow> 'l \<times> 'w \<Rightarrow> ('l, 'w) Command \<times> 'l \<times> 'w" where
  "Run X c s =
     (case s of (l, w) \<Rightarrow>
       (case Start X (Configure X c w) w of (c, w) \<Rightarrow> Command_Wait c (l, w)))"

text \<open>How the callers use it: the fatal error and what the writers made of the output.\<close>

definition run_command ::
  "'w outside \<Rightarrow> ('l, 'w) CommandOptions \<Rightarrow> 'l \<Rightarrow> 'w \<Rightarrow> gerr option \<times> 'l \<times> 'w" where
  "run_command X opts l w =
     (case Run X (NewCommand opts) (l, w) of (c, l, w) \<Rightarrow> (cm_FatalError c, l, w))"

section \<open>Writers\<close>

text \<open>A \<^verbatim>\<open>bytes.Buffer\<close>, and the writers that only log.\<close>

definition buffer_sink :: "(string, 'w) sink" where
  "buffer_sink p s = (case s of (b, w) \<Rightarrow> (b @ p, w))"

definition log_sink :: "('l, 'w) sink" where
  "log_sink p s = s"

section \<open>Lemmas\<close>

lemma environment_kept: "\<exists>extra. setResticProgressFPSIfNotDefined env = env @ extra"
  by (simp add: setResticProgressFPSIfNotDefined_def)

lemma progress_defined: "\<exists>v \<in> set (setResticProgressFPSIfNotDefined env). HasPrefix v ''RESTIC_PROGRESS_FPS=''"
  by (auto simp: setResticProgressFPSIfNotDefined_def HasPrefix_def)

text \<open>What a run comes to. An error of \<^verbatim>\<open>Start\<close> is replaced by the one of \<^verbatim>\<open>Wait\<close>.\<close>

definition sinks_of :: "('l, 'w) CommandOptions \<Rightarrow> stream \<times> string \<Rightarrow> 'l \<times> 'w \<Rightarrow> 'l \<times> 'w" where
  "sinks_of opts chunk s =
     (case (if fst chunk = Stdout then co_StdOut opts else co_StdErr opts) of None \<Rightarrow> s | Some sink \<Rightarrow> sink (snd chunk) s)"

lemma run_command_eq:
  "run_command X opts l w =
     (case x_Exec X (co_Path opts) (co_Args opts) (setResticProgressFPSIfNotDefined (x_Environ X w)) (co_StdIn opts) w of
        (Inl err, w) \<Rightarrow> (Some did_not_start, l, w)
      | (Inr p, w) \<Rightarrow> (wait_error (pr_Wait p), fold (sinks_of opts) (pr_Writes p) (l, w)))"
proof -
  have d: "deliver \<lparr>ec_Path = a, ec_Args = b, ec_Env = c, ec_Stdin = d, ec_Stdout = co_StdOut opts,
      ec_Stderr = co_StdErr opts, ec_Process = e\<rparr> = sinks_of opts" for a b c d e
    by (simp add: fun_eq_iff deliver_def sinks_of_def)
  show ?thesis
    by (auto simp: run_command_def Run_def NewCommand_def Configure_def Start_def Command_Wait_def d
        split: prod.splits sum.splits option.splits)
qed

lemma fold_buffer: "fold (sinks_of opts) ws (b, w) = (b @ concat (map snd (filter (\<lambda>c. fst c = Stdout) ws)), w)"
  if "co_StdOut opts = Some buffer_sink" "co_StdErr opts = None \<or> co_StdErr opts = Some log_sink"
  using that by (induction ws arbitrary: b) (auto simp: sinks_of_def buffer_sink_def log_sink_def)

lemma fold_log: "fold (sinks_of opts) ws s = s"
  if "co_StdOut opts = Some log_sink" "co_StdErr opts = Some log_sink"
  using that by (induction ws) (auto simp: sinks_of_def log_sink_def)

text \<open>A command that only logs: the fatal error and the outside state.\<close>

definition log_command :: "'w outside \<Rightarrow> string \<Rightarrow> string list \<Rightarrow> 'w \<Rightarrow> gerr option \<times> 'w" where
  "log_command X path args w =
     (case run_command X \<lparr>co_Path = path, co_StdIn = None, co_StdOut = Some log_sink, co_StdErr = Some log_sink, co_Args = args\<rparr> () w
      of (err, _, w) \<Rightarrow> (err, w))"

text \<open>No fatal error means that the process ran and ended well, or with the exit code 3.\<close>

lemma run_command_no_fatal:
  assumes "run_command X opts l w = (None, l', w')"
  shows "\<exists>p v. x_Exec X (co_Path opts) (co_Args opts) (setResticProgressFPSIfNotDefined (x_Environ X w)) (co_StdIn opts) w = (Inr p, v)
     \<and> pr_Wait p \<in> {WaitOk, WaitEOF, WaitExit 3} \<and> fold (sinks_of opts) (pr_Writes p) (l, v) = (l', w')"
proof -
  have "wait_error r = None \<longleftrightarrow> r \<in> {WaitOk, WaitEOF, WaitExit 3}" for r
    by (cases r) auto
  then show ?thesis using assms by (auto simp: run_command_eq split: prod.splits sum.splits)
qed

end
