(* ===== verification/Restic_Stats.thy ===== *)
theory Restic_Stats
  imports Restic_Command "HOL-Library.AList"
begin

text \<open>
  \<^verbatim>\<open>restic/cli/stats.go\<close> and \<^verbatim>\<open>restic/stats/handler.go\<close>: the metrics of a backup and
  where they are sent.
\<close>

section \<open>Metrics\<close>

definition prometheusNamespace :: string where [k8up_consts]: "prometheusNamespace = ''k8up''"
definition prometheusSubsystem :: string where [k8up_consts]: "prometheusSubsystem = ''backup_restic''"

record PromMetrics =
  pm_Errors :: gauge
  pm_AvailableSnapshots :: gauge
  pm_NewFiles :: gauge
  pm_ChangedFiles :: gauge
  pm_UnmodifiedFiles :: gauge
  pm_NewDirs :: gauge
  pm_ChangedDirs :: gauge
  pm_UnmodifiedDirs :: gauge
  pm_DataTransferred :: gauge

text \<open>\<^verbatim>\<open>prometheus.BuildFQName\<close> for the non-empty namespace and subsystem.\<close>

definition fq_name :: "string \<Rightarrow> string" where
  "fq_name name = prometheusNamespace @ ''_'' @ prometheusSubsystem @ ''_'' @ name"

definition new_gauge_vec :: "string \<Rightarrow> string list \<Rightarrow> gauge" where
  "new_gauge_vec name lbls = \<lparr>g_Name = fq_name name, g_Labels = lbls, g_Samples = []\<rparr>"

definition dataTransferredGaugeVec :: "string list \<Rightarrow> gauge" where
  "dataTransferredGaugeVec lbls = new_gauge_vec ''data_transferred_during_backup'' lbls"
definition unmodifiedDirsGaugeVec :: "string list \<Rightarrow> gauge" where
  "unmodifiedDirsGaugeVec lbls = new_gauge_vec ''unmodified_directories_during_backup'' lbls"
definition changedDirsGaugeVec :: "string list \<Rightarrow> gauge" where
  "changedDirsGaugeVec lbls = new_gauge_vec ''changed_directories_during_backup'' lbls"
definition newDirsGaugeVec :: "string list \<Rightarrow> gauge" where
  "newDirsGaugeVec lbls = new_gauge_vec ''new_directories_during_backup'' lbls"
definition unmodifiedFilesGaugeVec :: "string list \<Rightarrow> gauge" where
  "unmodifiedFilesGaugeVec lbls = new_gauge_vec ''unmodified_files_during_backup'' lbls"
definition changedFiledGaugeVec :: "string list \<Rightarrow> gauge" where
  "changedFiledGaugeVec lbls = new_gauge_vec ''changed_files_during_backup'' lbls"
definition newFilesGaugeVec :: "string list \<Rightarrow> gauge" where
  "newFilesGaugeVec lbls = new_gauge_vec ''new_files_during_backup'' lbls"
definition errorsGaugeVec :: "string list \<Rightarrow> gauge" where
  "errorsGaugeVec lbls = new_gauge_vec ''last_errors'' lbls"

text \<open>A plain gauge exists with the value 0 from the start.\<close>

definition availableSnapshotsGauge :: gauge where
  "availableSnapshotsGauge = \<lparr>g_Name = fq_name ''available_snapshots'', g_Labels = [], g_Samples = [([], OfInt 0)]\<rparr>"

definition newPromMetrics :: PromMetrics where
  "newPromMetrics = (let lbls = [''pvc'', ''namespace''] in
     \<lparr>pm_Errors = errorsGaugeVec lbls, pm_AvailableSnapshots = availableSnapshotsGauge,
      pm_NewFiles = newFilesGaugeVec lbls, pm_ChangedFiles = changedFiledGaugeVec lbls,
      pm_UnmodifiedFiles = unmodifiedFilesGaugeVec lbls, pm_NewDirs = newDirsGaugeVec lbls,
      pm_ChangedDirs = changedDirsGaugeVec lbls, pm_UnmodifiedDirs = unmodifiedDirsGaugeVec lbls,
      pm_DataTransferred = dataTransferredGaugeVec lbls\<rparr>)"

text \<open>\<^verbatim>\<open>WithLabelValues(...).Set\<close>; a plain gauge has no label values.\<close>

definition set_gauge :: "string list \<Rightarrow> float64 \<Rightarrow> gauge \<Rightarrow> gauge" where
  "set_gauge lvs v g = g\<lparr>g_Samples := AList.update lvs v (g_Samples g)\<rparr>"

definition prometheus :: "RawMetrics \<Rightarrow> PromMetrics" where
  "prometheus r =
     (let m = newPromMetrics; lvs = [rm_Folder r, rm_hostname r] in
      m\<lparr>pm_AvailableSnapshots := set_gauge [] (rm_availableSnapshots r) (pm_AvailableSnapshots m),
        pm_ChangedDirs := set_gauge lvs (rm_ChangedDirs r) (pm_ChangedDirs m),
        pm_ChangedFiles := set_gauge lvs (rm_ChangedFiles r) (pm_ChangedFiles m),
        pm_Errors := set_gauge lvs (rm_Errors r) (pm_Errors m),
        pm_NewDirs := set_gauge lvs (rm_NewDirs r) (pm_NewDirs m),
        pm_NewFiles := set_gauge lvs (rm_NewFiles r) (pm_NewFiles m),
        pm_UnmodifiedDirs := set_gauge lvs (rm_UnmodifiedDirs r) (pm_UnmodifiedDirs m),
        pm_UnmodifiedFiles := set_gauge lvs (rm_UnmodifiedFiles r) (pm_UnmodifiedFiles m)\<rparr>)"

definition PromMetrics_ToProm :: "PromMetrics \<Rightarrow> gauge list" where
  "PromMetrics_ToProm p =
     [pm_Errors p, pm_AvailableSnapshots p, pm_NewFiles p, pm_ChangedFiles p, pm_UnmodifiedFiles p,
      pm_NewDirs p, pm_ChangedDirs p, pm_UnmodifiedDirs p, pm_DataTransferred p]"

text \<open>A missing \<^verbatim>\<open>BackupMetrics\<close> is a nil dereference.\<close>

definition BackupStats_ToProm :: "BackupStats \<Rightarrow> gauge list result" where
  "BackupStats_ToProm b =
     (case bks_BackupMetrics b of
        None \<Rightarrow> Inl (Panic ''nil pointer dereference'')
      | Some m \<Rightarrow> Inr (PromMetrics_ToProm (prometheus m)))"

section \<open>The handler\<close>

record Handler =
  h_promURL :: string
  h_promHostname :: string
  h_webhookURL :: string
  h_clusterName :: string

definition NewHandler :: "string \<Rightarrow> string \<Rightarrow> string \<Rightarrow> string \<Rightarrow> Handler" where
  "NewHandler promURL clusterName promHostname webhookURL =
     \<lparr>h_promURL = promURL, h_promHostname = promHostname, h_webhookURL = webhookURL, h_clusterName = clusterName\<rparr>"

definition subsystem :: string where [k8up_consts]: "subsystem = ''restic_backup''"

definition updatePrometheus :: "'w outside \<Rightarrow> Handler \<Rightarrow> gauge \<Rightarrow> 'w \<Rightarrow> gerr option \<times> 'w" where
  "updatePrometheus X h collector w =
     x_Push X (h_promURL h) subsystem collector [(''instance'', h_promHostname h), (''cluster'', h_clusterName h)] w"

fun send_prom_loop :: "'w outside \<Rightarrow> Handler \<Rightarrow> gauge list \<Rightarrow> 'w \<Rightarrow> gerr option \<times> 'w" where
  "send_prom_loop X h [] w = (None, w)"
| "send_prom_loop X h (stat # stats) w =
     (case updatePrometheus X h stat w of
        (Some err, w) \<Rightarrow> (Some err, w)
      | (None, w) \<Rightarrow> send_prom_loop X h stats w)"

definition SendPrometheus :: "'w outside \<Rightarrow> Handler \<Rightarrow> BackupStats \<Rightarrow> 'w \<Rightarrow> gerr option \<times> 'w" where
  "SendPrometheus X h stats w =
     (if h_promURL h = [] then (None, w)
      else case BackupStats_ToProm stats of
             Inl err \<Rightarrow> (Some err, w)
           | Inr gs \<Rightarrow> send_prom_loop X h gs w)"

text \<open>\<^verbatim>\<open>SendWebhook\<close>, with the JSON text of the provider.\<close>

definition SendWebhook :: "'w outside \<Rightarrow> Handler \<Rightarrow> string \<Rightarrow> 'w \<Rightarrow> gerr option \<times> 'w" where
  "SendWebhook X h data w =
     (if h_webhookURL h = [] then (None, w)
      else if length data \<le> 0 then (Some (PlainError ''webhook data is empty''), w)
      else case x_Post X (h_webhookURL h) data w of
             (Inl err, w) \<Rightarrow> (Some (PlainError (''could not send webhook: '' @ err_text err @ '' http status code: '' @ ''http status unavailable'')), w)
           | (Inr status, w) \<Rightarrow>
              (if \<not> HasPrefix status ''200''
               then (Some (PlainError (''could not send webhook: '' @ ''<nil>'' @ '' http status code: '' @ status)), w)
               else (None, w)))"

section \<open>Lemmas\<close>

lemma send_prom_loop_all:
  "send_prom_loop X h gs w = (None, w') \<Longrightarrow>
   w' = fold (\<lambda>g w. snd (updatePrometheus X h g w)) gs w"
  by (induction X h gs w rule: send_prom_loop.induct) (auto split: prod.splits option.splits)

lemma SendWebhook_sent:
  "SendWebhook X h data w = (None, w') \<Longrightarrow> h_webhookURL h \<noteq> [] \<Longrightarrow>
   \<exists>status. x_Post X (h_webhookURL h) data w = (Inr status, w') \<and> HasPrefix status ''200'' \<and> data \<noteq> []"
  by (auto simp: SendWebhook_def split: if_splits prod.splits sum.splits)

text \<open>The gauge of the transferred data is pushed, but it never has a sample.\<close>

lemma data_transferred_never_set: "g_Samples (pm_DataTransferred (prometheus m)) = []"
  by (simp add: prometheus_def newPromMetrics_def Let_def dataTransferredGaugeVec_def new_gauge_vec_def)

lemma other_gauges_set:
  "\<forall>g \<in> set (butlast (PromMetrics_ToProm (prometheus m))). g_Samples g \<noteq> []"
  by (simp add: PromMetrics_ToProm_def prometheus_def newPromMetrics_def Let_def set_gauge_def
      availableSnapshotsGauge_def AList.update_nonempty)

end
