(* ===== verification/Restic_Cli.thy ===== *)
theory Restic_Cli
  imports Restic_Stats Backup_Items
begin

text \<open>
  \<^verbatim>\<open>restic/cli\<close>: the \<^verbatim>\<open>Restic\<close> object and its calls of the restic binary that do not
  move data: \<^verbatim>\<open>New\<close>, \<^verbatim>\<open>Init\<close>, \<^verbatim>\<open>Unlock\<close>, \<^verbatim>\<open>Wait\<close>,
  \<^verbatim>\<open>Snapshots\<close> and \<^verbatim>\<open>Check\<close>.
\<close>

record clientCert =
  cc_cert :: string
  cc_key :: string
  cc_pem :: string

definition zero_clientCert :: clientCert where
  "zero_clientCert = \<lparr>cc_cert = [], cc_key = [], cc_pem = []\<rparr>"

record Restic =
  r_resticPath :: string
  r_snapshots :: "dto_Snapshot list"
  r_bucket :: string
  r_globalFlags :: Flags
  r_statsHandler :: Handler
  r_caCert :: string
  r_clientCert :: clientCert

definition pem_file_name :: "(nat \<Rightarrow> nat) \<Rightarrow> string" where
  "pem_file_name rnd = ''restic.repo.'' @ RandomStringGenerator rnd 10 @ ''.pem''"

definition New :: "'w outside \<Rightarrow> ResticConfiguration \<Rightarrow> Handler \<Rightarrow> Restic" where
  "New X c statsHandler =
     (let flags0 = Map.empty;
          flags1 = (if rc_ResticOptions c \<noteq> [] then AddFlag flags0 ''--option'' (Split (rc_ResticOptions c) CHR '','') else flags0);
          caCert = (if rc_CACert c \<noteq> [] then rc_CACert c else []);
          flags2 = (if rc_CACert c \<noteq> [] then AddFlag flags1 ''--cacert'' [rc_CACert c] else flags1);
          both = (rc_ClientCert c \<noteq> [] \<and> rc_ClientKey c \<noteq> []);
          cc = (if both then \<lparr>cc_cert = rc_ClientCert c, cc_key = rc_ClientKey c,
                   cc_pem = path_Join (rc_VarDir c) (pem_file_name (x_Random X))\<rparr> else zero_clientCert);
          flags3 = (if both then AddFlag flags2 ''--tls-client-cert'' [cc_pem cc] else flags2)
      in \<lparr>r_resticPath = rc_ResticBin c, r_snapshots = [], r_bucket = path_Base (rc_ResticRepository c),
          r_globalFlags = flags3, r_statsHandler = statsHandler, r_caCert = caCert, r_clientCert = cc\<rparr>)"

abbreviation command_args :: "'w outside \<Rightarrow> Flags \<Rightarrow> string \<Rightarrow> string list \<Rightarrow> string list" where
  "command_args X \<equiv> ApplyToCommand (x_Ord X)"

section \<open>Snapshots\<close>

definition tag_args :: "string list \<Rightarrow> string list" where
  "tag_args tags = (if length tags > 0 then BuildArgs tags ''--tag'' else [])"

definition path_args :: "string list \<Rightarrow> string list" where
  "path_args paths = (if length paths > 0 then BuildArgs paths ''--path'' else [])"

text \<open>
  The argument \<open>onlyLast\<close> (\<^verbatim>\<open>last\<close>) has no effect. The decoded list is stored also when the command failed.
\<close>

definition listSnapshots ::
  "'w outside \<Rightarrow> Restic \<Rightarrow> string list \<Rightarrow> string list \<Rightarrow> bool \<Rightarrow> 'w \<Rightarrow> gerr option \<times> Restic \<times> 'w" where
  "listSnapshots X r tags paths onlyLast w =
     (case run_command X
        \<lparr>co_Path = r_resticPath r, co_StdIn = None, co_StdOut = Some buffer_sink, co_StdErr = Some log_sink,
         co_Args = command_args X (r_globalFlags r) ''snapshots'' [''--json''] @ tag_args tags @ path_args paths\<rparr> [] w
      of (fatal, buf, w) \<Rightarrow>
        (case x_DecodeSnapshots X buf of
           Inl err \<Rightarrow> (Some err, r, w)
         | Inr snaps \<Rightarrow> (fatal, r\<lparr>r_snapshots := snaps\<rparr>, w)))"

definition Snapshots :: "'w outside \<Rightarrow> Restic \<Rightarrow> string list \<Rightarrow> string list \<Rightarrow> 'w \<Rightarrow> gerr option \<times> Restic \<times> 'w" where
  "Snapshots X r tags paths w = listSnapshots X r tags paths False w"

definition LastSnapshots :: "'w outside \<Rightarrow> Restic \<Rightarrow> string list \<Rightarrow> string list \<Rightarrow> 'w \<Rightarrow> gerr option \<times> Restic \<times> 'w" where
  "LastSnapshots X r tags paths w = listSnapshots X r tags paths True w"

section \<open>Locks\<close>

definition Unlock :: "'w outside \<Rightarrow> Restic \<Rightarrow> bool \<Rightarrow> 'w \<Rightarrow> gerr option \<times> 'w" where
  "Unlock X r all w =
     log_command X (r_resticPath r)
       (command_args X (r_globalFlags r) ''unlock'' [] @ (if all then [''--remove-all''] else [])) w"

text \<open>\<^verbatim>\<open>locklist.out\<close> behind a line writer.\<close>

definition locklist_sink :: "(string list, 'w) sink" where
  "locklist_sink p s = snd (writer_Write (\<lambda>l s. case s of (ls, w) \<Rightarrow> (ls @ [l], w)) p s)"

definition getLockList :: "'w outside \<Rightarrow> Restic \<Rightarrow> 'w \<Rightarrow> gerr option \<times> string list \<times> 'w" where
  "getLockList X r w =
     (let flags = Combine (x_Ord X) (r_globalFlags r) [''--json'' \<mapsto> [], ''--no-lock'' \<mapsto> []]
      in run_command X
        \<lparr>co_Path = r_resticPath r, co_StdIn = None, co_StdOut = Some locklist_sink, co_StdErr = Some log_sink,
         co_Args = command_args X flags ''list'' [''locks'']\<rparr> [] w)"

text \<open>The loop of \<^verbatim>\<open>Wait\<close>; it does not return while there are locks.\<close>

partial_function (option) wait_loop :: "'w outside \<Rightarrow> Restic \<Rightarrow> 'w \<Rightarrow> (gerr option \<times> 'w) option" where
  "wait_loop X r w =
     (case getLockList X r w of (err, locks, w1) \<Rightarrow>
       (case err of
          Some e \<Rightarrow> Some (Some e, w1)
        | None \<Rightarrow>
           (if length locks > 0
            then (case Unlock X r False w1 of (err2, w2) \<Rightarrow>
                   (case err2 of
                      Some e \<Rightarrow> Some (Some e, w2)
                    | None \<Rightarrow> wait_loop X r (x_Sleep X 35000000000 w2)))
            else Some (None, w1))))"

definition Wait :: "'w outside \<Rightarrow> Restic \<Rightarrow> 'w \<Rightarrow> (gerr option \<times> 'w) option" where
  "Wait X r w =
     (case Unlock X r False w of
        (Some err, w) \<Rightarrow> Some (Some err, w)
      | (None, w) \<Rightarrow> wait_loop X r w)"

section \<open>Initialisation and check\<close>

definition generatePemFile :: "'w outside \<Rightarrow> string \<Rightarrow> string \<Rightarrow> string \<Rightarrow> 'w \<Rightarrow> gerr option \<times> 'w" where
  "generatePemFile X cert key dest w =
     (case x_OpenRead X cert w of
        Inl err \<Rightarrow> (Some err, w)
      | Inr certIn \<Rightarrow>
         (case x_OpenRead X key w of
            Inl err \<Rightarrow> (Some err, w)
          | Inr tlsIn \<Rightarrow>
             (case x_OpenWrite X dest w of
                (Some err, w) \<Rightarrow> (Some err, w)
              | (None, w) \<Rightarrow>
                 (case x_Append X dest certIn w of
                    (Some err, w) \<Rightarrow> (Some err, w)
                  | (None, w) \<Rightarrow> x_Append X dest tlsIn w))))"

text \<open>\<^verbatim>\<open>initStdErrWrapper.Write\<close> on its flag.\<close>

definition okErrorArray :: "string list" where
  "okErrorArray = [''already initialized'', ''already exists'']"

definition initStdErr_sink :: "(bool, 'w) sink" where
  "initStdErr_sink p s =
     (case s of (exists, w) \<Rightarrow>
        if \<exists>l \<in> set (scan_lines p). \<exists>e \<in> set okErrorArray. Contains l e then (True, w) else (exists, w))"

definition Init :: "'w outside \<Rightarrow> Restic \<Rightarrow> 'w \<Rightarrow> gerr option \<times> 'w" where
  "Init X r w =
     (case (if r_clientCert r \<noteq> zero_clientCert
            then generatePemFile X (cc_cert (r_clientCert r)) (cc_key (r_clientCert r)) (cc_pem (r_clientCert r)) w
            else (None, w)) of
        (Some err, w) \<Rightarrow> (Some err, w)
      | (None, w) \<Rightarrow>
         (case run_command X
            \<lparr>co_Path = r_resticPath r, co_StdIn = None, co_StdOut = Some log_sink, co_StdErr = Some initStdErr_sink,
             co_Args = command_args X (r_globalFlags r) ''init'' []\<rparr> False w
          of (fatal, exists, w) \<Rightarrow> (if \<not> exists then (fatal, w) else (None, w))))"

definition Check :: "'w outside \<Rightarrow> Restic \<Rightarrow> 'w \<Rightarrow> gerr option \<times> 'w" where
  "Check X r w = log_command X (r_resticPath r) (command_args X (r_globalFlags r) ''check'' []) w"

section \<open>Lemmas\<close>

text \<open>The last poll of a \<^verbatim>\<open>Wait\<close> that returns without an error found no lock.\<close>

lemma wait_loop_result:
  assumes "wait_loop X r w = Some y"
  shows "fst y = None \<longrightarrow> (\<exists>v. getLockList X r v = (None, [], snd y))"
  by (rule wait_loop.raw_induct [where P = "\<lambda>X r w y. fst y = None \<longrightarrow> (\<exists>v. getLockList X r v = (None, [], snd y))", OF _ assms])
    (auto split: prod.splits option.splits if_splits)

text \<open>A lock that is not removed keeps it waiting.\<close>

lemma wait_loop_blocks:
  assumes "P w"
    and "\<And>w. P w \<Longrightarrow> \<exists>l ls w1 w2. getLockList X r w = (None, l # ls, w1) \<and> Unlock X r False w1 = (None, w2) \<and> P (x_Sleep X 35000000000 w2)"
  shows "wait_loop X r w = None"
proof -
  have "X' = X \<longrightarrow> r' = r \<longrightarrow> \<not> P w'" if "wait_loop X' r' w' = Some y" for X' r' w' y
  proof (rule wait_loop.raw_induct [where P = "\<lambda>X' r' w' y. X' = X \<longrightarrow> r' = r \<longrightarrow> \<not> P w'", OF _ that], intro impI notI)
    fix loop X' r' w' y
    assume ih: "\<And>X' r' w' y. loop X' r' w' = Some y \<Longrightarrow> X' = X \<longrightarrow> r' = r \<longrightarrow> \<not> P w'"
      and body: "(case getLockList X' r' w' of (err, locks, w1) \<Rightarrow>
         (case err of Some e \<Rightarrow> Some (Some e, w1)
          | None \<Rightarrow> if length locks > 0
              then (case Unlock X' r' False w1 of (err2, w2) \<Rightarrow>
                 (case err2 of Some e \<Rightarrow> Some (Some e, w2) | None \<Rightarrow> loop X' r' (x_Sleep X' 35000000000 w2)))
              else Some (None, w1))) = Some y"
      and p: "X' = X" "r' = r" "P w'"
    obtain l ls w1 w2 where s: "getLockList X r w' = (None, l # ls, w1)" "Unlock X r False w1 = (None, w2)"
        "P (x_Sleep X 35000000000 w2)"
      using assms(2) [OF p(3)] by blast
    have "loop X r (x_Sleep X 35000000000 w2) = Some y" using body p s by simp
    from ih [OF this] s(3) show False by simp
  qed
  then show ?thesis using assms(1) by (cases "wait_loop X r w") auto
qed

text \<open>Locks that go away let it return.\<close>

lemma wait_loop_returns:
  fixes \<mu> :: "'w \<Rightarrow> nat"
  assumes "\<And>w l ls w1 w2. getLockList X r w = (None, l # ls, w1) \<Longrightarrow> Unlock X r False w1 = (None, w2) \<Longrightarrow>
      \<mu> (x_Sleep X 35000000000 w2) < \<mu> w"
  shows "wait_loop X r w \<noteq> None"
proof (induction "\<mu> w" arbitrary: w rule: less_induct)
  case less
  show ?case
  proof (cases "\<exists>l ls w1 w2. getLockList X r w = (None, l # ls, w1) \<and> Unlock X r False w1 = (None, w2)")
    case True
    then obtain l ls w1 w2 where s: "getLockList X r w = (None, l # ls, w1)" "Unlock X r False w1 = (None, w2)" by blast
    have "wait_loop X r (x_Sleep X 35000000000 w2) \<noteq> None" by (rule less) (rule assms [OF s])
    then show ?thesis by (subst wait_loop.simps) (simp add: s)
  next
    case False
    obtain e locks w1 where g: "getLockList X r w = (e, locks, w1)" by (metis prod_cases3)
    obtain e2 w2 where u: "Unlock X r False w1 = (e2, w2)" by fastforce
    have "e = None \<Longrightarrow> locks \<noteq> [] \<Longrightarrow> e2 \<noteq> None" using False g u by (cases locks) auto
    then show ?thesis by (subst wait_loop.simps) (auto simp: g u split: option.splits)
  qed
qed

end
