(* ===== verification/Restic_Ref.thy ===== *)
theory Restic_Ref
  imports Restic_Cli
begin

text \<open>
  One instance of the outside: a repository with locks and snapshots behind a restic binary that
  understands a few commands, a directory, and the snapshot resources of a cluster. It shows that
  the laws the theorems assume can hold, and the examples run on it.
\<close>

record ref_state =
  rf_Runs :: "string list list" \<comment> \<open>the arguments of the processes that were started\<close>
  rf_Locks :: "nat list" \<comment> \<open>for how many rounds each lock is not stale\<close>
  rf_Repo :: "string list" \<comment> \<open>the identifiers of the snapshots\<close>
  rf_Cluster :: "Snapshot list"
  rf_Dir :: "(string \<times> bool) list"

definition ref_empty :: ref_state where
  "ref_empty = \<lparr>rf_Runs = [], rf_Locks = [], rf_Repo = [], rf_Cluster = [], rf_Dir = []\<rparr>"

definition ref_snapshot :: "string \<Rightarrow> dto_Snapshot" where
  "ref_snapshot i = zero_snapshot\<lparr>sn_ID := i, sn_Hostname := ''prod'', sn_Paths := [''/data/pvc'']\<rparr>"

definition ok_process :: "(stream \<times> string) list \<Rightarrow> process" where
  "ok_process ws = \<lparr>pr_Writes = ws, pr_Wait = WaitOk\<rparr>"

definition lock_line :: string where
  "lock_line = ''lock'' @ [newline]"

definition ref_exec :: "string \<Rightarrow> string list \<Rightarrow> string list \<Rightarrow> string option \<Rightarrow> ref_state \<Rightarrow> process result \<times> ref_state" where
  "ref_exec path args env stdin w0 =
     (let w = w0\<lparr>rf_Runs := rf_Runs w0 @ [args]\<rparr>
      in if hd args = ''unlock'' then (Inr (ok_process []), w\<lparr>rf_Locks := filter (\<lambda>n. 0 < n) (rf_Locks w)\<rparr>)
         else if hd args = ''list'' then (Inr (ok_process (map (\<lambda>_. (Stdout, lock_line)) (rf_Locks w))), w)
         else if hd args = ''snapshots'' then (Inr (ok_process (map (\<lambda>i. (Stdout, i @ [newline])) (rf_Repo w))), w)
         else if hd args = ''backup'' then (Inr (ok_process [(Stdout, ''{summary}'' @ [newline])]), w\<lparr>rf_Repo := rf_Repo w @ [''0123456789'']\<rparr>)
         else (Inr (ok_process []), w))"

definition ref_create :: "Snapshot \<Rightarrow> ref_state \<Rightarrow> gerr option \<times> ref_state" where
  "ref_create s w =
     (if \<exists>t \<in> set (rf_Cluster w). (cr_Namespace t, cr_Name t) = (cr_Namespace s, cr_Name s)
      then (Some (ApiError OtherReason ''already exists''), w)
      else (None, w\<lparr>rf_Cluster := rf_Cluster w @ [s]\<rparr>))"

definition ref_delete :: "Snapshot \<Rightarrow> ref_state \<Rightarrow> gerr option \<times> ref_state" where
  "ref_delete s w =
     (if \<exists>t \<in> set (rf_Cluster w). (cr_Namespace t, cr_Name t) = (cr_Namespace s, cr_Name s)
      then (None, w\<lparr>rf_Cluster := filter (\<lambda>t. (cr_Namespace t, cr_Name t) \<noteq> (cr_Namespace s, cr_Name s)) (rf_Cluster w)\<rparr>)
      else (Some (ApiError NotFoundReason ''not found''), w))"

definition ref_outside :: "ref_state outside" where
  "ref_outside = \<lparr>
     x_Ord = key_order, x_ParseDuration = ParseDuration (\<lambda>_ _ _. 0), x_Random = (\<lambda>_. 0),
     x_TimeString = Itoa, x_TimeRFC3339 = Itoa,
     x_DecodeSnapshots = (\<lambda>t. Inr (map ref_snapshot (raw_lines t))),
     x_DecodeSnapshot = (\<lambda>t. Inr (ref_snapshot t)),
     x_DecodeFileNode = (\<lambda>t. Inl (PlainError ''not a node'')),
     x_DecodeEnvelope = ex_decode,
     x_MarshalBackupStats = (\<lambda>_. ''{}''), x_MarshalRestoreStats = (\<lambda>_. ''{}''),
     x_ParseURL = (\<lambda>u. Inr \<lparr>url_Scheme = ''https'', url_Host = u, url_Path = ''/bucket''\<rparr>),
     x_Exec = ref_exec, x_Environ = (\<lambda>_. []), x_Now = (\<lambda>_. 0),
     x_Sleep = (\<lambda>_ w. w\<lparr>rf_Locks := map (\<lambda>n. n - 1) (rf_Locks w)\<rparr>),
     x_NotExist = (\<lambda>_ _. False), x_StatFails = (\<lambda>_ _. True),
     x_ReadDir = (\<lambda>_ w. Inr (rf_Dir w)), x_OpenRead = (\<lambda>_ _. Inr []),
     x_OpenWrite = (\<lambda>_ w. (None, w)), x_Append = (\<lambda>_ _ w. (None, w)),
     x_Post = (\<lambda>_ _ w. (Inr ''200 OK'', w)), x_Push = (\<lambda>_ _ _ _ w. (None, w)),
     x_InClusterConfig = (\<lambda>_. None), x_BuildConfigFromFlags = (\<lambda>_ _. None), x_NewClient = (\<lambda>_. None),
     x_ListSnapshots = (\<lambda>ns w. (Inr (filter (\<lambda>s. cr_Namespace s = ns) (rf_Cluster w)), w)),
     x_CreateSnapshot = ref_create, x_DeleteSnapshot = ref_delete,
     x_Kube = undefined, x_KubeNewForConfig = (\<lambda>_. None), x_AddToScheme = None, x_SplitCommand = (\<lambda>c. [c]),
     x_NewWebSocketExecutor = (\<lambda>_. None), x_NewSPDYExecutor = (\<lambda>_. None), x_NewFallbackExecutor = (\<lambda>_. None),
     x_Stream = (\<lambda>_ _ w. (([], None), w)),
     x_ReadFile = (\<lambda>_ _. None), x_LoadX509KeyPair = (\<lambda>_ _ _. None), x_MinioNew = (\<lambda>_ _. None),
     x_BucketExists = (\<lambda>_ _ w. ((True, None), w)), x_MakeBucket = (\<lambda>_ _ w. (None, w)),
     x_PutObject = (\<lambda>_ _ _ _ w. (None, w)), x_UploadFailsFirst = (\<lambda>_ _ _ _. None),
     x_ListObjects = (\<lambda>_ _ _. []), x_RemoveObjects = (\<lambda>_ _ _ w. ([], w)), x_RemoveBucket = (\<lambda>_ _ w. (None, w)),
     x_GetObject = (\<lambda>_ _ _ _. Inr []), x_StatObject = (\<lambda>_ _ _ _. Inr []),
     x_Gzip = id, x_TarHeader = (\<lambda>_. None), x_TarGz = (\<lambda>_ d. d)\<rparr>"

definition ref_config :: ResticConfiguration where
  "ref_config = default_restic_config ''/kubeconfig'' ''prod'' ''s3:http://minio/backup''"

definition ref_restic :: Restic where
  "ref_restic = New ref_outside ref_config (NewHandler [] [] ''prod'' [])"

lemma hd_ApplyToCommand [simp]: "command \<noteq> [] \<Longrightarrow> hd (ApplyToCommand ord f command args) = command"
  "command \<noteq> [] \<Longrightarrow> ApplyToCommand ord f command args \<noteq> []"
  by (simp_all add: ApplyToCommand_eq)

lemma hd_command_args [simp]: "command \<noteq> [] \<Longrightarrow> hd (ApplyToCommand ord f command args @ more_args) = command"
  by (simp add: ApplyToCommand_eq)

end
