(* ===== verification/Restic_S3.thy ===== *)
theory Restic_S3
  imports Restic_Ref
begin

text \<open>
  \<^verbatim>\<open>restic/s3/client.go\<close>: the S3 client of the restores, on top of the minio library, whose
  calls are part of the outside. A method on a client that was not connected dereferences a nil
  pointer of the library.
\<close>

record S3Client =
  s3_Endpoint :: string
  s3_AccessKeyID :: string
  s3_SecretAccessKey :: string
  s3_minioClient :: "minio_Client option"
  s3_bucket :: string
  s3_cert :: S3Cert

definition S3_New :: "string \<Rightarrow> string \<Rightarrow> string \<Rightarrow> S3Cert \<Rightarrow> S3Client" where
  "S3_New endpoint accessKeyID secretAccessKey cert =
     \<lparr>s3_Endpoint = endpoint, s3_AccessKeyID = accessKeyID, s3_SecretAccessKey = secretAccessKey,
      s3_minioClient = None, s3_bucket = [], s3_cert = cert\<rparr>"

definition no_client :: gerr where
  "no_client = Panic ''nil pointer dereference''"

definition createBucket :: "'w outside \<Rightarrow> S3Client \<Rightarrow> 'w \<Rightarrow> gerr option \<times> 'w" where
  "createBucket X c w =
     (case s3_minioClient c of
        None \<Rightarrow> (Some no_client, w)
      | Some mc \<Rightarrow>
         (case x_BucketExists X mc (s3_bucket c) w of ((exists, err), w) \<Rightarrow>
            (if \<not> exists \<and> (err = None \<or> Contains (err_text (the err)) ''exist'')
             then x_MakeBucket X mc (s3_bucket c) w
             else (err, w))))"

definition wrong_scheme :: "string \<Rightarrow> string \<Rightarrow> gerr" where
  "wrong_scheme endpoint scheme = PlainError
     (''endpoint '' @ [CHR 0x27] @ endpoint @ [CHR 0x27] @ '' has wrong scheme '' @ [CHR 0x27] @ scheme @ [CHR 0x27] @
      '' (should be '' @ [CHR 0x27] @ ''http'' @ [CHR 0x27] @ '' or '' @ [CHR 0x27] @ ''https'' @ [CHR 0x27] @ '')'')"

text \<open>The certificates: the error of reading them.\<close>

definition read_certs :: "'w outside \<Rightarrow> S3Cert \<Rightarrow> 'w \<Rightarrow> gerr option" where
  "read_certs X cert w =
     (case (if s3c_CACert cert \<noteq> [] then x_ReadFile X (s3c_CACert cert) w else None) of
        Some err \<Rightarrow> Some err
      | None \<Rightarrow>
         (if s3c_ClientCert cert \<noteq> [] \<and> s3c_ClientKey cert \<noteq> []
          then x_LoadX509KeyPair X (s3c_ClientCert cert) (s3c_ClientKey cert) w else None))"

definition Connect :: "'w outside \<Rightarrow> S3Client \<Rightarrow> 'w \<Rightarrow> gerr option \<times> S3Client \<times> 'w" where
  "Connect X c w =
     (case x_ParseURL X (s3_Endpoint c) of
        Inl err \<Rightarrow> (Some (Wrapped ''error parsing S3 Endpoint URL'' err), c, w)
      | Inr u \<Rightarrow>
         (if url_Scheme u \<notin> {''https'', ''http''}
          then (Some (wrong_scheme (s3_Endpoint c) (url_Scheme u)), c, w)
          else case read_certs X (s3_cert c) w of
                 Some err \<Rightarrow> (Some err, c, w)
               | None \<Rightarrow>
                  (let mc = \<lparr>mn_Endpoint = url_Host u, mn_AccessKeyID = s3_AccessKeyID c,
                         mn_SecretAccessKey = s3_SecretAccessKey c, mn_Secure = (url_Scheme u = ''https'')\<rparr>;
                       c = c\<lparr>s3_bucket := ReplaceFirst (url_Path u) CHR ''/'', s3_Endpoint := url_Host u\<rparr>
                   in case x_MinioNew X mc w of
                        Some err \<Rightarrow> (Some err, c, w)
                      | None \<Rightarrow>
                         (let c = c\<lparr>s3_minioClient := Some mc\<rparr>
                          in case createBucket X c w of (err, w) \<Rightarrow> (err, c, w)))))"

definition Upload :: "'w outside \<Rightarrow> S3Client \<Rightarrow> string \<Rightarrow> string \<Rightarrow> 'w \<Rightarrow> gerr option \<times> 'w" where
  "Upload X c name objectStream w =
     (case s3_minioClient c of
        None \<Rightarrow> (Some no_client, w)
      | Some mc \<Rightarrow> x_PutObject X mc (s3_bucket c) name objectStream w)"

definition S3_Get :: "'w outside \<Rightarrow> S3Client \<Rightarrow> string \<Rightarrow> 'w \<Rightarrow> string result" where
  "S3_Get X c filename w =
     (case s3_minioClient c of None \<Rightarrow> Inl no_client | Some mc \<Rightarrow> x_GetObject X mc (s3_bucket c) filename w)"

definition S3_Stat :: "'w outside \<Rightarrow> S3Client \<Rightarrow> string \<Rightarrow> 'w \<Rightarrow> string result" where
  "S3_Stat X c filename w =
     (case s3_minioClient c of None \<Rightarrow> Inl no_client | Some mc \<Rightarrow> x_StatObject X mc (s3_bucket c) filename w)"

text \<open>Only the first error of the channel is looked at.\<close>

definition deleteBucketByName :: "'w outside \<Rightarrow> S3Client \<Rightarrow> string \<Rightarrow> 'w \<Rightarrow> gerr option \<times> 'w" where
  "deleteBucketByName X c name w =
     (case s3_minioClient c of
        None \<Rightarrow> (Some no_client, w)
      | Some mc \<Rightarrow>
         (case x_RemoveObjects X mc name (map fst (x_ListObjects X mc name w)) w of
            ((obj, err) # _, w) \<Rightarrow> (Some (PlainError (''failed to remove '' @ obj @ '' ,error: '' @ err_text err)), w)
          | ([], w) \<Rightarrow> x_RemoveBucket X mc name w))"

definition DeleteBucket :: "'w outside \<Rightarrow> S3Client \<Rightarrow> 'w \<Rightarrow> gerr option \<times> 'w" where
  "DeleteBucket X c w = deleteBucketByName X c (s3_bucket c) w"

definition DeleteBucketByName :: "'w outside \<Rightarrow> S3Client \<Rightarrow> string \<Rightarrow> 'w \<Rightarrow> gerr option \<times> 'w" where
  "DeleteBucketByName X c name w = deleteBucketByName X c name w"

fun list_objects_loop :: "(string \<times> gerr option) list \<Rightarrow> string list \<Rightarrow> string list result" where
  "list_objects_loop [] tmpInfos = Inr tmpInfos"
| "list_objects_loop ((object, err) # objs) tmpInfos =
     (case err of
        Some e \<Rightarrow> Inl e
      | None \<Rightarrow> list_objects_loop objs (tmpInfos @ [object]))"

definition S3_ListObjects :: "'w outside \<Rightarrow> S3Client \<Rightarrow> 'w \<Rightarrow> string list result" where
  "S3_ListObjects X c w =
     (case s3_minioClient c of
        None \<Rightarrow> Inl no_client
      | Some mc \<Rightarrow> list_objects_loop (x_ListObjects X mc (s3_bucket c) w) [])"

section \<open>Lemmas\<close>

text \<open>
  A connection that was made uses TLS exactly for an \<^verbatim>\<open>https\<close> endpoint, goes to the host of the
  endpoint with the given keys, and the bucket is the path without its first slash.
\<close>

lemma Connect_client:
  assumes "Connect X c w = (None, c', w')"
  shows "\<exists>u. x_ParseURL X (s3_Endpoint c) = Inr u \<and> url_Scheme u \<in> {''http'', ''https''} \<and>
    s3_bucket c' = ReplaceFirst (url_Path u) CHR ''/'' \<and>
    s3_minioClient c' = Some \<lparr>mn_Endpoint = url_Host u, mn_AccessKeyID = s3_AccessKeyID c,
      mn_SecretAccessKey = s3_SecretAccessKey c, mn_Secure = (url_Scheme u = ''https'')\<rparr>"
  using assms by (auto simp: Connect_def Let_def split: sum.splits if_splits option.splits prod.splits)

lemma list_objects_loop_eq:
  "list_objects_loop objs acc = Inr out \<longleftrightarrow> (\<forall>(n, e) \<in> set objs. e = None) \<and> out = acc @ map fst objs"
  by (induction objs acc rule: list_objects_loop.induct) (auto split: option.splits)

end
