(* ===== verification/Restic_Restore.thy ===== *)
theory Restic_Restore
  imports Restic_S3
begin

text \<open>
  \<^verbatim>\<open>restic/cli/restore.go\<close> and \<^verbatim>\<open>archive.go\<close>: choosing a snapshot and restoring it into
  a folder or as an archive to S3.

  The S3 restore runs the upload and the writing of its content concurrently, connected by a pipe,
  and takes the first result. Here the upload either fails before it has read the content
  (\<open>x_UploadFailsFirst\<close>), or it gets the whole content once the writer is closed.
\<close>

definition FolderRestoreType :: string where [k8up_consts]: "FolderRestoreType = RestoreTypeFolder"
definition S3RestoreType :: string where [k8up_consts]: "S3RestoreType = RestoreTypeS3"

section \<open>Choosing a snapshot\<close>

fun time_filter_loop :: "'w outside \<Rightarrow> string \<Rightarrow> dto_Snapshot list \<Rightarrow> nat \<Rightarrow> dto_Snapshot option" where
  "time_filter_loop X timeFilter snaps 0 = None"
| "time_filter_loop X timeFilter snaps (Suc i) =
     (if HasPrefix (x_TimeString X (sn_Time (snaps ! i))) timeFilter then Some (snaps ! i)
      else time_filter_loop X timeFilter snaps i)"

fun id_loop :: "string \<Rightarrow> dto_Snapshot list \<Rightarrow> dto_Snapshot option" where
  "id_loop snapshotID [] = None"
| "id_loop snapshotID (s # snaps) = (if HasPrefix (sn_ID s) snapshotID then Some s else id_loop snapshotID snaps)"

definition no_snapshots :: gerr where
  "no_snapshots = PlainError ''no snapshots available''"

definition getLatestSnapshot :: "'w outside \<Rightarrow> Restic \<Rightarrow> string \<Rightarrow> string \<Rightarrow> dto_Snapshot result" where
  "getLatestSnapshot X r snapshotID timeFilter =
     (if length (r_snapshots r) = 0 then Inl no_snapshots
      else if snapshotID = []
      then (case (if timeFilter \<noteq> [] then time_filter_loop X timeFilter (r_snapshots r) (length (r_snapshots r)) else None) of
              Some snapshot \<Rightarrow> Inr snapshot
            | None \<Rightarrow> Inr (r_snapshots r ! (length (r_snapshots r) - 1)))
      else case id_loop snapshotID (r_snapshots r) of
             Some snapshot \<Rightarrow> Inr snapshot
           | None \<Rightarrow> Inl (PlainError (''no Snapshot found with ID '' @ snapshotID)))"

section \<open>Listings\<close>

definition ls_command :: "'w outside \<Rightarrow> Restic \<Rightarrow> dto_Snapshot \<Rightarrow> 'w \<Rightarrow> string \<times> 'w" where
  "ls_command X r snapshot w =
     (case run_command X
        \<lparr>co_Path = r_resticPath r, co_StdIn = None, co_StdOut = Some buffer_sink, co_StdErr = None,
         co_Args = command_args X (r_globalFlags r) ''ls'' [''--json'', sn_ID snapshot]\<rparr> [] w
      of (_, buf, w) \<Rightarrow> (buf, w))"

fun single_loop :: "(string \<Rightarrow> fileNode result) \<Rightarrow> string list \<Rightarrow> nat \<Rightarrow> nat result" where
  "single_loop decode [] n = Inr n"
| "single_loop decode (l # ls) n =
     (if length l = 0 then single_loop decode ls n
      else case decode l of
             Inl err \<Rightarrow> Inl err
           | Inr node \<Rightarrow>
              (let n = (if fn_Type node = ''file'' then n + 1 else n)
               in if fn_Type node = ''dir'' then Inr 0
                  else if n \<ge> 2 then Inr n
                  else single_loop decode ls n))"

text \<open>\<^verbatim>\<open>strings.Split\<close> never returns an empty slice, so the check for one never applies.\<close>

definition isRestoreSingleFile :: "'w outside \<Rightarrow> Restic \<Rightarrow> dto_Snapshot \<Rightarrow> 'w \<Rightarrow> bool result \<times> 'w" where
  "isRestoreSingleFile X r snapshot w =
     (case ls_command X r snapshot w of (capturedStdOut, w) \<Rightarrow>
       (case Split capturedStdOut newline of
          [] \<Rightarrow> (Inl (PlainError (''no list exist for snapshot '' @ sn_ID snapshot)), w)
        | first # stdOutLines \<Rightarrow>
           (case x_DecodeSnapshot X first of
              Inl err \<Rightarrow> (Inl err, w)
            | Inr _ \<Rightarrow>
               (case single_loop (x_DecodeFileNode X) stdOutLines 0 of
                  Inl err \<Rightarrow> (Inl err, w)
                | Inr n \<Rightarrow> (Inr (n = 1), w)))))"

fun extract_loop ::
  "(string \<Rightarrow> fileNode result) \<Rightarrow> string list \<Rightarrow> nat \<Rightarrow> fileNode option \<Rightarrow> RestoreStats \<Rightarrow> nat \<times> fileNode option \<times> RestoreStats" where
  "extract_loop decode [] n lastNode stats = (n, lastNode, stats)"
| "extract_loop decode (l # ls) n lastNode stats =
     (case decode l of
        Inl err \<Rightarrow> extract_loop decode ls n lastNode stats
      | Inr node \<Rightarrow>
         (if fn_Type node = ''file''
          then extract_loop decode ls (n + 1) (Some node) (stats\<lparr>rs_RestoredFiles := rs_RestoredFiles stats @ [fn_Path node]\<rparr>)
          else extract_loop decode ls n lastNode stats))"

text \<open>\<^verbatim>\<open>extractFileNodes\<close>; \<open>None\<close> is the empty node it starts with.\<close>

definition extractFileNodes :: "'w outside \<Rightarrow> string \<Rightarrow> RestoreStats \<Rightarrow> nat \<times> fileNode option \<times> RestoreStats" where
  "extractFileNodes X capturedStdOut stats =
     extract_loop (x_DecodeFileNode X) (Split capturedStdOut newline) 0 None stats"

definition getTarHeaderFromFileNode :: "fileNode \<Rightarrow> tar_Header" where
  "getTarHeaderFromFileNode f = \<lparr>th_Name = ReplaceFirst (fn_Path f) CHR ''/'', th_Size = fn_Size f, th_Mode = fn_Mode f,
     th_Uid = fn_UID f, th_Gid = fn_GID f, th_ModTime = fn_Mtime f, th_AccessTime = fn_Atime f, th_ChangeTime = fn_Ctime f\<rparr>"

definition last_path :: "string list \<Rightarrow> string result" where
  "last_path paths = (if paths = [] then Inl (Panic ''index out of range'') else Inr (paths ! (length paths - 1)))"

definition parsePath :: "string list \<Rightarrow> string result" where
  "parsePath paths = rbind (last_path paths) (\<lambda>p. Inr (path_Base p))"

definition getSnapshotRoot ::
  "'w outside \<Rightarrow> Restic \<Rightarrow> dto_Snapshot \<Rightarrow> RestoreStats \<Rightarrow> 'w \<Rightarrow> (string \<times> tar_Header option) result \<times> RestoreStats \<times> 'w" where
  "getSnapshotRoot X r snapshot stats w =
     (case ls_command X r snapshot w of (capturedStdOut, w) \<Rightarrow>
       (case extractFileNodes X capturedStdOut stats of (amountOfFiles, lastNode, stats) \<Rightarrow>
         (case (amountOfFiles = 1, lastNode) of
            (True, Some node) \<Rightarrow> (Inr (fn_Path node, Some (getTarHeaderFromFileNode node)), stats, w)
          | _ \<Rightarrow> (rbind (last_path (sn_Paths snapshot)) (\<lambda>p. Inr (p, None)), stats, w))))"

section \<open>Restores into a folder\<close>

definition trimRestorePath :: "dto_Snapshot \<Rightarrow> string result" where
  "trimRestorePath snapshot =
     (case sn_Paths snapshot of [] \<Rightarrow> Inl (Panic ''index out of range'') | p # _ \<Rightarrow> Inr p)"

definition restore_args :: "string \<Rightarrow> string \<Rightarrow> string \<Rightarrow> bool \<Rightarrow> bool \<Rightarrow> string list" where
  "restore_args snap restoreDir restoreFilter del verify =
     [snap, ''--target'', restoreDir] @ (if restoreFilter \<noteq> [] then [''--include'', restoreFilter] else []) @
     (if verify then [''--verify''] else []) @ (if del then [''--delete''] else [])"

text \<open>The error of the restic process is not looked at.\<close>

definition folderRestore ::
  "'w outside \<Rightarrow> ResticConfiguration \<Rightarrow> Restic \<Rightarrow> string \<Rightarrow> dto_Snapshot \<Rightarrow> string \<Rightarrow> bool \<Rightarrow> bool \<Rightarrow> 'w \<Rightarrow> gerr option \<times> 'w" where
  "folderRestore X c r restoreDir snapshot restoreFilter del verify w =
     (case isRestoreSingleFile X r snapshot w of
        (Inl err, w) \<Rightarrow> (Some err, w)
      | (Inr singleFile, w) \<Rightarrow>
         (case (if \<not> singleFile \<and> rc_RestoreTrimPath c
                then rbind (trimRestorePath snapshot) (\<lambda>restoreRoot. Inr (sn_ID snapshot @ '':'' @ restoreRoot))
                else Inr (sn_ID snapshot)) of
            Inl err \<Rightarrow> (Some err, w)
          | Inr snap \<Rightarrow>
             (case log_command X (r_resticPath r)
                (command_args X (r_globalFlags r) ''restore'' (restore_args snap restoreDir restoreFilter del verify)) w
              of (_, w) \<Rightarrow> (None, w))))"

section \<open>Restores to S3\<close>

definition tgz_content :: "'w outside \<Rightarrow> tar_Header option \<Rightarrow> string \<Rightarrow> string" where
  "tgz_content X tarHeader data = (case tarHeader of None \<Rightarrow> x_Gzip X data | Some h \<Rightarrow> x_TarGz X h data)"

definition tgzWriter :: "'w outside \<Rightarrow> tar_Header option \<Rightarrow> gerr option" where
  "tgzWriter X tarHeader =
     (case tarHeader of
        None \<Rightarrow> None
      | Some h \<Rightarrow> map_option (Wrapped ''unable to write the given tar header'') (x_TarHeader X h))"

definition doRestore :: "'w outside \<Rightarrow> Restic \<Rightarrow> dto_Snapshot \<Rightarrow> string \<Rightarrow> 'w \<Rightarrow> string \<times> 'w" where
  "doRestore X r latestSnap snapRoot w =
     (case run_command X
        \<lparr>co_Path = r_resticPath r, co_StdIn = None, co_StdOut = Some buffer_sink, co_StdErr = Some log_sink,
         co_Args = command_args X (r_globalFlags r) ''dump'' [sn_ID latestSnap, snapRoot]\<rparr> [] w
      of (_, data, w) \<Rightarrow> (data, w))"

definition s3Connect :: "'w outside \<Rightarrow> S3Bucket \<Rightarrow> 'w \<Rightarrow> gerr option \<times> S3Client \<times> 'w" where
  "s3Connect X s3Options w =
     Connect X (S3_New (s3b_Endpoint s3Options) (s3b_AccessKey s3Options) (s3b_SecretKey s3Options) (s3b_Cert s3Options)) w"

text \<open>What \<^verbatim>\<open>s3Transmission\<close> writes into the pipe before it closes it.\<close>

definition s3Transmission :: "'w outside \<Rightarrow> Restic \<Rightarrow> RestoreStats \<Rightarrow> 'w \<Rightarrow> string result \<times> RestoreStats \<times> 'w" where
  "s3Transmission X r stats w =
     (case getLatestSnapshot X r (rs_SnapshotID stats) [] of
        Inl err \<Rightarrow> (Inl err, stats, w)
      | Inr latestSnap \<Rightarrow>
         (case getSnapshotRoot X r latestSnap stats w of
            (Inl err, stats, w) \<Rightarrow> (Inl err, stats, w)
          | (Inr (snapRoot, tarHeader), stats, w) \<Rightarrow>
             (case tgzWriter X tarHeader of
                Some err \<Rightarrow> (Inl err, stats, w)
              | None \<Rightarrow>
                 (case doRestore X r latestSnap snapRoot w of (data, w) \<Rightarrow>
                    (Inr (tgz_content X tarHeader data), stats, w)))))"

definition archive_name :: "'w outside \<Rightarrow> dto_Snapshot \<Rightarrow> string \<Rightarrow> string" where
  "archive_name X snapshot PVCName =
     ''backup-'' @ sn_Hostname snapshot @ ''-'' @ PVCName @ ''-'' @ x_TimeRFC3339 X (sn_Time snapshot) @ ''.tar.gz''"

definition s3Restore ::
  "'w outside \<Rightarrow> Restic \<Rightarrow> S3Bucket \<Rightarrow> dto_Snapshot \<Rightarrow> RestoreStats \<Rightarrow> 'w \<Rightarrow> gerr option \<times> RestoreStats \<times> 'w" where
  "s3Restore X r s3Options snapshot stats w =
     (case parsePath (sn_Paths snapshot) of
        Inl err \<Rightarrow> (Some err, stats, w)
      | Inr PVCName \<Rightarrow>
         (let fileName = archive_name X snapshot PVCName;
              stats = stats\<lparr>rs_RestoreLocation := s3b_Endpoint s3Options @ ''/'' @ fileName, rs_SnapshotID := sn_ID snapshot\<rparr>
          in case s3Connect X s3Options w of
               (Some err, _, w) \<Rightarrow> (Some err, stats, w)
             | (None, s3Client, w) \<Rightarrow>
                (case (case s3_minioClient s3Client of
                         None \<Rightarrow> None
                       | Some mc \<Rightarrow> x_UploadFailsFirst X mc (s3_bucket s3Client) fileName w) of
                   Some err \<Rightarrow> (Some err, stats, w)
                 | None \<Rightarrow>
                    (case s3Transmission X r stats w of
                       (Inl err, stats, w) \<Rightarrow> (Some err, stats, w)
                     | (Inr content, stats, w) \<Rightarrow>
                        (case Upload X s3Client fileName content w of (err, w) \<Rightarrow> (err, stats, w))))))"

section \<open>Restore and archive\<close>

definition Restore ::
  "'w outside \<Rightarrow> ResticConfiguration \<Rightarrow> Restic \<Rightarrow> string \<Rightarrow> RestoreOptions \<Rightarrow> string list \<Rightarrow> string list \<Rightarrow> 'w
   \<Rightarrow> gerr option \<times> Restic \<times> 'w" where
  "Restore X c r snapshotID options tags paths w =
     (case Snapshots X r tags paths w of
        (Some err, r, w) \<Rightarrow> (Some err, r, w)
      | (None, r, w) \<Rightarrow>
         (case getLatestSnapshot X r snapshotID (ro_RestoreTimeFilter options) of
            Inl err \<Rightarrow> (Some err, r, w)
          | Inr latestSnap \<Rightarrow>
             (case (if ro_RestoreType options = FolderRestoreType
                    then (case folderRestore X c r (ro_RestoreDir options) latestSnap (ro_RestoreFilter options)
                                 (ro_Delete options) (ro_Verify options) w of
                            (err, w) \<Rightarrow> (err, Some \<lparr>rs_RestoreLocation = ro_RestoreDir options, rs_SnapshotID = sn_ID latestSnap,
                               rs_RestoredFiles = [''not supported for folder restores'']\<rparr>, w))
                    else if ro_RestoreType options = S3RestoreType
                    then (case s3Restore X r (ro_S3Destination options) latestSnap zero_restore_stats w of
                            (err, stats, w) \<Rightarrow> (err, Some stats, w))
                    else (Some (PlainError ''no valid restore type''), None, w)) of
                (None, Some stats, w) \<Rightarrow>
                  (case SendWebhook X (r_statsHandler r) (x_MarshalRestoreStats X stats) w of (err, w) \<Rightarrow> (err, r, w))
              | (err, _, w) \<Rightarrow> (err, r, w))))"

fun archive_loop ::
  "'w outside \<Rightarrow> ResticConfiguration \<Rightarrow> RestoreOptions \<Rightarrow> dto_Snapshot list \<Rightarrow> Restic \<Rightarrow> 'w \<Rightarrow> gerr option \<times> Restic \<times> 'w" where
  "archive_loop X c options [] r w = (None, r, w)"
| "archive_loop X c options (v # snaps) r w =
     (case parsePath (sn_Paths v) of
        Inl err \<Rightarrow> (Some err, r, w)
      | Inr PVCname \<Rightarrow>
         (case Restore X c r (sn_ID v) options [] [] w of
            (Some err, r, w) \<Rightarrow> (Some err, r, w)
          | (None, r, w) \<Rightarrow> archive_loop X c options snaps r w))"

text \<open>An error of the listing is only logged; the snapshots of an earlier listing are archived then.\<close>

definition Archive ::
  "'w outside \<Rightarrow> ResticConfiguration \<Rightarrow> Restic \<Rightarrow> RestoreOptions \<Rightarrow> string list \<Rightarrow> string list \<Rightarrow> 'w
   \<Rightarrow> gerr option \<times> Restic \<times> 'w" where
  "Archive X c r options tags paths w =
     (case LastSnapshots X r tags paths w of (_, r, w) \<Rightarrow> archive_loop X c options (r_snapshots r) r w)"

section \<open>Lemmas\<close>

lemma time_filter_loop_Some:
  "time_filter_loop X tf snaps n = Some s \<Longrightarrow>
   \<exists>i < n. s = snaps ! i \<and> HasPrefix (x_TimeString X (sn_Time s)) tf \<and>
     (\<forall>j. i < j \<and> j < n \<longrightarrow> \<not> HasPrefix (x_TimeString X (sn_Time (snaps ! j))) tf)"
proof (induction n)
  case (Suc n)
  show ?case
  proof (cases "HasPrefix (x_TimeString X (sn_Time (snaps ! n))) tf")
    case True
    then show ?thesis using Suc(2) by (intro exI [of _ n]) auto
  next
    case False
    then obtain i where "i < n" "s = snaps ! i" "HasPrefix (x_TimeString X (sn_Time s)) tf"
        "\<forall>j. i < j \<and> j < n \<longrightarrow> \<not> HasPrefix (x_TimeString X (sn_Time (snaps ! j))) tf"
      using Suc by auto
    then show ?thesis using False by (intro exI [of _ i]) (auto simp: less_Suc_eq)
  qed
qed simp

lemma time_filter_loop_None:
  "time_filter_loop X tf snaps n = None \<longleftrightarrow> (\<forall>i < n. \<not> HasPrefix (x_TimeString X (sn_Time (snaps ! i))) tf)"
  by (induction n) (auto simp: less_Suc_eq)

lemma id_loop_Some:
  "id_loop i snaps = Some s \<longleftrightarrow>
   (\<exists>k < length snaps. s = snaps ! k \<and> HasPrefix (sn_ID s) i \<and> (\<forall>j < k. \<not> HasPrefix (sn_ID (snaps ! j)) i))"
proof (induction snaps)
  case (Cons t snaps)
  show ?case
  proof (cases "HasPrefix (sn_ID t) i")
    case True
    have l: "id_loop i (t # snaps) = Some s \<longleftrightarrow> t = s" using True by simp
    show ?thesis unfolding l
    proof
      assume "t = s"
      then show "\<exists>k < length (t # snaps). s = (t # snaps) ! k \<and> HasPrefix (sn_ID s) i \<and> (\<forall>j < k. \<not> HasPrefix (sn_ID ((t # snaps) ! j)) i)"
        using True by (intro exI [of _ 0]) simp
    next
      assume "\<exists>k < length (t # snaps). s = (t # snaps) ! k \<and> HasPrefix (sn_ID s) i \<and> (\<forall>j < k. \<not> HasPrefix (sn_ID ((t # snaps) ! j)) i)"
      then obtain k where "s = (t # snaps) ! k" "\<forall>j < k. \<not> HasPrefix (sn_ID ((t # snaps) ! j)) i" by blast
      then show "t = s" using True by (cases k) auto
    qed
  next
    case False
    then show ?thesis using Cons by (auto simp: Ex_less_Suc2 All_less_Suc2)
  qed
qed simp

lemma id_loop_None: "id_loop i snaps = None \<longleftrightarrow> (\<forall>s \<in> set snaps. \<not> HasPrefix (sn_ID s) i)"
  by (induction snaps) auto

text \<open>What a restore is asked for, and the snapshot that answers it.\<close>

definition chosen :: "'w outside \<Rightarrow> dto_Snapshot list \<Rightarrow> string \<Rightarrow> string \<Rightarrow> nat \<Rightarrow> bool" where
  "chosen X snaps snapshotID timeFilter k \<longleftrightarrow> k < length snaps \<and>
     (if snapshotID \<noteq> []
      then HasPrefix (sn_ID (snaps ! k)) snapshotID \<and> (\<forall>j < k. \<not> HasPrefix (sn_ID (snaps ! j)) snapshotID)
      else let fits = (\<lambda>j. timeFilter \<noteq> [] \<and> HasPrefix (x_TimeString X (sn_Time (snaps ! j))) timeFilter)
           in if \<exists>j < length snaps. fits j then fits k \<and> (\<forall>j < length snaps. k < j \<longrightarrow> \<not> fits j)
              else k = length snaps - 1)"

lemma getLatestSnapshot_chosen:
  assumes "getLatestSnapshot X r snapshotID timeFilter = Inr s"
  shows "\<exists>k. chosen X (r_snapshots r) snapshotID timeFilter k \<and> s = r_snapshots r ! k"
proof -
  let ?snaps = "r_snapshots r"
  have ne: "?snaps \<noteq> []" using assms by (auto simp: getLatestSnapshot_def split: if_splits)
  show ?thesis
  proof (cases "snapshotID = []")
    case False
    then have "id_loop snapshotID ?snaps = Some s"
      using assms ne by (auto simp: getLatestSnapshot_def split: option.splits)
    then show ?thesis using False by (auto simp: id_loop_Some chosen_def)
  next
    case True
    show ?thesis
    proof (cases "timeFilter \<noteq> [] \<and> time_filter_loop X timeFilter ?snaps (length ?snaps) \<noteq> None")
      case t: True
      then obtain s' where s': "time_filter_loop X timeFilter ?snaps (length ?snaps) = Some s'" by blast
      then have "s = s'" using assms True t ne by (simp add: getLatestSnapshot_def)
      then obtain k where "k < length ?snaps" "s = ?snaps ! k" "HasPrefix (x_TimeString X (sn_Time s)) timeFilter"
          "\<forall>j. k < j \<and> j < length ?snaps \<longrightarrow> \<not> HasPrefix (x_TimeString X (sn_Time (?snaps ! j))) timeFilter"
        using time_filter_loop_Some [OF s'] by auto
      then show ?thesis using True t by (intro exI [of _ k]) (auto simp: chosen_def)
    next
      case n: False
      then have "s = ?snaps ! (length ?snaps - 1)"
        using assms True ne by (auto simp: getLatestSnapshot_def split: if_splits)
      moreover have "timeFilter = [] \<or> (\<forall>j < length ?snaps. \<not> HasPrefix (x_TimeString X (sn_Time (?snaps ! j))) timeFilter)"
        using n time_filter_loop_None by blast
      ultimately show ?thesis using True ne by (intro exI [of _ "length ?snaps - 1"]) (auto simp: chosen_def)
    qed
  qed
qed

lemma getLatestSnapshot_error:
  "(\<exists>err. getLatestSnapshot X r snapshotID timeFilter = Inl err) \<longleftrightarrow>
   r_snapshots r = [] \<or> snapshotID \<noteq> [] \<and> (\<forall>s \<in> set (r_snapshots r). \<not> HasPrefix (sn_ID s) snapshotID)"
  by (auto simp: getLatestSnapshot_def id_loop_None [symmetric] split: option.splits)

text \<open>The counting loop of \<^verbatim>\<open>isRestoreSingleFile\<close>: one file and nothing that is a directory.\<close>

definition node_types :: "(string \<Rightarrow> fileNode result) \<Rightarrow> string list \<Rightarrow> string list result" where
  "node_types decode ls =
     (if \<exists>l \<in> set ls. l \<noteq> [] \<and> (\<exists>e. decode l = Inl e) then Inl (PlainError [])
      else Inr (map (\<lambda>l. case decode l of Inr n \<Rightarrow> fn_Type n | Inl _ \<Rightarrow> []) (filter (\<lambda>l. l \<noteq> []) ls)))"

lemma single_loop_one:
  "single_loop decode ls n = Inr 1 \<Longrightarrow> node_types decode ls = Inr ts \<Longrightarrow> n \<le> 1 \<Longrightarrow>
   ''dir'' \<notin> set ts \<and> n + length (filter (\<lambda>t. t = ''file'') ts) = 1"
proof (induction decode ls n arbitrary: ts rule: single_loop.induct)
  case (1 decode n)
  then show ?case by (auto simp: node_types_def)
next
  case (2 decode l ls n)
  show ?case
  proof (cases "l = []")
    case True
    then show ?thesis using 2(1) [of ts] 2(3-) by (auto simp: node_types_def split: if_splits)
  next
    case False
    then obtain node where d: "decode l = Inr node" using 2(3) by (auto split: sum.splits)
    let ?n = "if fn_Type node = ''file'' then n + 1 else n"
    have nd: "fn_Type node \<noteq> ''dir''" using 2(3) False d by auto
    then have s: "?n < 2 \<and> single_loop decode ls ?n = Inr 1" using 2(3) False d by (auto simp: Let_def split: if_splits)
    obtain ts' where t: "node_types decode ls = Inr ts'" "ts = fn_Type node # ts'"
      using 2(4) False d by (auto simp: node_types_def split: if_splits)
    have "''dir'' \<notin> set ts' \<and> ?n + length (filter (\<lambda>t. t = ''file'') ts') = 1"
      using 2(2) [of node ?n ts'] False d nd s t(1) by auto
    then show ?thesis using nd t(2) by (auto split: if_splits)
  qed
qed

text \<open>\<^verbatim>\<open>LastSnapshots\<close> lists the same snapshots as \<^verbatim>\<open>Snapshots\<close>, all of them.\<close>

lemma LastSnapshots_lists_all: "LastSnapshots X r tags paths w = Snapshots X r tags paths w"
  by (simp add: LastSnapshots_def Snapshots_def listSnapshots_def)

section \<open>Properties\<close>

text \<open>
  C38. Which snapshot is restored: with an identifier the first of the list whose identifier starts
  with it; without one the last that matches the time filter, or the last of the list if none does.
  It is an error exactly when there is no snapshot or none with that identifier.
\<close>

theorem getLatestSnapshot_spec:
  "case getLatestSnapshot X r snapshotID timeFilter of
     Inr s \<Rightarrow> \<exists>k. chosen X (r_snapshots r) snapshotID timeFilter k \<and> s = r_snapshots r ! k
   | Inl err \<Rightarrow> r_snapshots r = [] \<or> snapshotID \<noteq> [] \<and> (\<nexists>s. s \<in> set (r_snapshots r) \<and> HasPrefix (sn_ID s) snapshotID)"
  using getLatestSnapshot_chosen getLatestSnapshot_error [of X r snapshotID timeFilter]
  by (cases "getLatestSnapshot X r snapshotID timeFilter") auto

text \<open>
  C39. A folder restore does not report that restic failed: once the snapshot has been listed, the
  result is no error although the process that restores the files could not be started or ended with
  an error.
\<close>

theorem folderRestore_ignores_failure:
  assumes "isRestoreSingleFile X r snapshot w = (Inr single, w1)"
    and "snap = (if \<not> single \<and> rc_RestoreTrimPath c then sn_ID snapshot @ '':'' @ hd (sn_Paths snapshot) else sn_ID snapshot)"
    and "sn_Paths snapshot \<noteq> []"
    and "log_command X (r_resticPath r) (command_args X (r_globalFlags r) ''restore'' (restore_args snap dir filt del verify)) w1 = (Some err, w2)"
  shows "folderRestore X c r dir snapshot filt del verify w = (None, w2)"
  using assms by (auto simp: folderRestore_def trimRestorePath_def split: list.splits)

text \<open>A restic binary that fails on every command but the listing.\<close>

definition failing_outside :: "ref_state outside" where
  "failing_outside = ref_outside\<lparr>x_Exec := (\<lambda>path args env stdin w.
     if hd args = ''ls'' then (Inr (ok_process []), w) else (Inr \<lparr>pr_Writes = [], pr_Wait = WaitExit 1\<rparr>, w))\<rparr>"

theorem folderRestore_ignores_failure_witness:
  "folderRestore failing_outside ref_config ref_restic ''/restore'' (ref_snapshot ''0123456789'') [] False True ref_empty = (None, ref_empty)"
proof -
  let ?s = "ref_snapshot ''0123456789''"
  have i: "isRestoreSingleFile failing_outside ref_restic ?s ref_empty = (Inr False, ref_empty)"
    by (simp add: isRestoreSingleFile_def ls_command_def run_command_eq failing_outside_def ok_process_def ref_outside_def)
  have l: "log_command failing_outside p (command_args failing_outside f ''restore'' args) ref_empty =
      (Some (PlainError (''cmd.Wait() err: '' @ Itoa 1)), ref_empty)" for p f args
    by (simp add: log_command_def run_command_eq failing_outside_def)
  show ?thesis by (rule folderRestore_ignores_failure [OF i refl _ l]) (simp add: ref_snapshot_def)
qed

end
