(* ===== verification/Restic_Snapshots.thy ===== *)
theory Restic_Snapshots
  imports Restic_Ref
begin

text \<open>
  \<^verbatim>\<open>restic/kubernetes/snapshots.go\<close> with the client of \<^verbatim>\<open>restic/kubernetes/config.go\<close>:
  bringing the snapshot resources of a namespace and repository in line with restic's list. A nil
  pointer or a slice bound out of range is a \<open>Panic\<close>.
\<close>

definition getClientConfig :: "'w outside \<Rightarrow> ResticConfiguration \<Rightarrow> 'w \<Rightarrow> gerr option" where
  "getClientConfig X c w =
     (case x_InClusterConfig X w of
        None \<Rightarrow> None
      | Some err1 \<Rightarrow>
         (case x_BuildConfigFromFlags X (rc_KubeConfig c) w of
            None \<Rightarrow> None
          | Some err \<Rightarrow> Some (PlainError
              (''InClusterConfig as well as BuildConfigFromFlags Failed. Error in InClusterConfig: '' @ err_text err1 @
               [newline] @ ''Error in BuildConfigFromFlags: '' @ err_text err))))"

definition NewTypedClient :: "'w outside \<Rightarrow> ResticConfiguration \<Rightarrow> 'w \<Rightarrow> gerr option" where
  "NewTypedClient X c w =
     (case getClientConfig X c w of
        Some err \<Rightarrow> Some err
      | None \<Rightarrow> x_NewClient X w)"

section \<open>Lists\<close>

fun filter_convert_loop :: "string \<Rightarrow> string \<Rightarrow> dto_Snapshot list \<Rightarrow> SnapshotList \<Rightarrow> SnapshotList result" where
  "filter_convert_loop namespace repository [] finalList = Inr finalList"
| "filter_convert_loop namespace repository (snapshot # list) finalList =
     (if sn_Hostname snapshot \<noteq> namespace then filter_convert_loop namespace repository list finalList
      else if length (sn_ID snapshot) < 8 then Inl (Panic ''slice bounds out of range'')
      else filter_convert_loop namespace repository list
        (finalList @ [\<lparr>cr_Name = take 8 (sn_ID snapshot), cr_Namespace = namespace,
           cr_Spec = \<lparr>ss_ID = Some (sn_ID snapshot), ss_Date = Some (sn_Time snapshot),
             ss_Paths = Some (sn_Paths snapshot), ss_Repository = Some repository\<rparr>\<rparr>]))"

definition filterAndConvert :: "dto_Snapshot list \<Rightarrow> string \<Rightarrow> string \<Rightarrow> SnapshotList result" where
  "filterAndConvert list namespace repository = filter_convert_loop namespace repository list []"

fun filter_repo_loop :: "string \<Rightarrow> SnapshotList \<Rightarrow> SnapshotList \<Rightarrow> SnapshotList result" where
  "filter_repo_loop repo [] filteredList = Inr filteredList"
| "filter_repo_loop repo (snap # list) filteredList =
     (case ss_Repository (cr_Spec snap) of
        None \<Rightarrow> Inl (Panic ''nil pointer dereference'')
      | Some rp \<Rightarrow> filter_repo_loop repo list (if rp = repo then filteredList @ [snap] else filteredList))"

definition filterByRepo :: "SnapshotList \<Rightarrow> string \<Rightarrow> SnapshotList result" where
  "filterByRepo list repo = filter_repo_loop repo list []"

fun list_to_map_loop :: "SnapshotList \<Rightarrow> string set \<Rightarrow> string set result" where
  "list_to_map_loop [] finalMap = Inr finalMap"
| "list_to_map_loop (snap # list) finalMap =
     (case ss_ID (cr_Spec snap) of
        None \<Rightarrow> Inl (Panic ''nil pointer dereference'')
      | Some i \<Rightarrow> list_to_map_loop list (insert i finalMap))"

text \<open>\<^verbatim>\<open>listToMap\<close>: the keys of the map, all of which have the value true.\<close>

definition listToMap :: "SnapshotList \<Rightarrow> string set result" where
  "listToMap list = list_to_map_loop list {}"

fun diff_loop :: "(Snapshot \<Rightarrow> 'w \<Rightarrow> gerr option \<times> 'w) \<Rightarrow> string set \<Rightarrow> SnapshotList \<Rightarrow> 'w \<Rightarrow> gerr option \<times> 'w" where
  "diff_loop diffFunc snapMap [] w = (None, w)"
| "diff_loop diffFunc snapMap (snapshot # list) w =
     (case ss_ID (cr_Spec snapshot) of
        None \<Rightarrow> (Some (Panic ''nil pointer dereference''), w)
      | Some i \<Rightarrow>
         (if i \<notin> snapMap
          then (case diffFunc snapshot w of
                  (Some err, w) \<Rightarrow> (Some err, w)
                | (None, w) \<Rightarrow> diff_loop diffFunc snapMap list w)
          else diff_loop diffFunc snapMap list w))"

definition snap_diff :: "SnapshotList \<Rightarrow> SnapshotList \<Rightarrow> (Snapshot \<Rightarrow> 'w \<Rightarrow> gerr option \<times> 'w) \<Rightarrow> 'w \<Rightarrow> gerr option \<times> 'w" where
  "snap_diff a b diffFunc w =
     (case listToMap b of
        Inl err \<Rightarrow> (Some err, w)
      | Inr snapMap \<Rightarrow> diff_loop diffFunc snapMap a w)"

definition createNewSnapshots :: "'w outside \<Rightarrow> SnapshotList \<Rightarrow> SnapshotList \<Rightarrow> 'w \<Rightarrow> gerr option \<times> 'w" where
  "createNewSnapshots X newList oldList w = snap_diff newList oldList (x_CreateSnapshot X) w"

definition deleteOldSnapshots :: "'w outside \<Rightarrow> SnapshotList \<Rightarrow> SnapshotList \<Rightarrow> 'w \<Rightarrow> gerr option \<times> 'w" where
  "deleteOldSnapshots X newList oldList w = snap_diff oldList newList (x_DeleteSnapshot X) w"

definition SyncSnapshotList ::
  "'w outside \<Rightarrow> ResticConfiguration \<Rightarrow> dto_Snapshot list \<Rightarrow> string \<Rightarrow> string \<Rightarrow> 'w \<Rightarrow> gerr option \<times> 'w" where
  "SyncSnapshotList X c list namespace repository w =
     (case filterAndConvert list namespace repository of
        Inl err \<Rightarrow> (Some err, w)
      | Inr newList \<Rightarrow>
         (case NewTypedClient X c w of
            Some err \<Rightarrow> (Some err, w)
          | None \<Rightarrow>
             (case x_ListSnapshots X namespace w of
                (Inl err, w) \<Rightarrow> (Some err, w)
              | (Inr oldList, w) \<Rightarrow>
                 (case filterByRepo oldList repository of
                    Inl err \<Rightarrow> (Some err, w)
                  | Inr oldList \<Rightarrow>
                     (case createNewSnapshots X newList oldList w of
                        (Some err, w) \<Rightarrow> (Some err, w)
                      | (None, w) \<Rightarrow> deleteOldSnapshots X newList oldList w)))))"

section \<open>Lemmas\<close>

abbreviation snap_id :: "Snapshot \<Rightarrow> string" where
  "snap_id s \<equiv> the (ss_ID (cr_Spec s))"

definition converted :: "string \<Rightarrow> string \<Rightarrow> dto_Snapshot \<Rightarrow> Snapshot" where
  "converted namespace repository s = \<lparr>cr_Name = take 8 (sn_ID s), cr_Namespace = namespace,
     cr_Spec = \<lparr>ss_ID = Some (sn_ID s), ss_Date = Some (sn_Time s), ss_Paths = Some (sn_Paths s),
       ss_Repository = Some repository\<rparr>\<rparr>"

lemma filter_convert_loop_eq:
  "filter_convert_loop ns repo list acc = Inr out \<Longrightarrow>
   out = acc @ map (converted ns repo) (filter (\<lambda>s. sn_Hostname s = ns) list)"
  by (induction list arbitrary: acc) (fastforce simp: converted_def split: if_splits)+

lemma filterAndConvert_eq:
  "filterAndConvert list ns repo = Inr out \<Longrightarrow> out = map (converted ns repo) (filter (\<lambda>s. sn_Hostname s = ns) list)"
  by (auto simp: filterAndConvert_def dest: filter_convert_loop_eq)

text \<open>The identifiers restic gives are 64 hexadecimal digits: then nothing panics.\<close>

lemma filter_convert_loop_total:
  "\<forall>s \<in> set list. sn_Hostname s = ns \<longrightarrow> 8 \<le> length (sn_ID s) \<Longrightarrow>
   filter_convert_loop ns repo list acc = Inr (acc @ map (converted ns repo) (filter (\<lambda>s. sn_Hostname s = ns) list))"
  by (induction list arbitrary: acc) (auto simp: converted_def)

lemma filter_repo_loop_eq:
  "filter_repo_loop repo list acc = Inr out \<Longrightarrow>
   out = acc @ filter (\<lambda>s. ss_Repository (cr_Spec s) = Some repo) list"
  by (induction list arbitrary: acc) (fastforce split: option.splits if_splits)+

lemma filterByRepo_eq:
  "filterByRepo list repo = Inr out \<Longrightarrow> out = filter (\<lambda>s. ss_Repository (cr_Spec s) = Some repo) list"
  by (auto simp: filterByRepo_def dest: filter_repo_loop_eq)

lemma list_to_map_loop_eq: "list_to_map_loop list m = Inr k \<Longrightarrow> k = m \<union> snap_id ` set list"
  by (induction list arbitrary: m) (auto split: option.splits)

lemma listToMap_eq: "listToMap list = Inr k \<Longrightarrow> k = snap_id ` set list"
  by (auto simp: listToMap_def dest: list_to_map_loop_eq)

text \<open>The loop of \<^verbatim>\<open>diff\<close>, followed through an observation of the state.\<close>

lemma diff_loop_observe:
  assumes "diff_loop f k list w = (None, w')"
    and "\<And>s w w'. s \<in> set list \<Longrightarrow> f s w = (None, w') \<Longrightarrow> view w' = g s (view w)"
  shows "view w' = fold g (filter (\<lambda>s. snap_id s \<notin> k) list) (view w)"
  using assms
proof (induction list arbitrary: w)
  case (Cons s list)
  obtain i where i: "ss_ID (cr_Spec s) = Some i" using Cons(2) by (auto split: option.splits)
  show ?case
  proof (cases "i \<in> k")
    case True
    then show ?thesis using Cons i by simp
  next
    case False
    then obtain w1 where w1: "f s w = (None, w1)" "diff_loop f k list w1 = (None, w')"
      using Cons(2) i by (auto split: prod.splits option.splits)
    have "view w1 = g s (view w)" by (rule Cons(3) [OF _ w1(1)]) simp
    then show ?thesis using Cons(1) [OF w1(2)] Cons(3) i False by simp
  qed
qed simp

lemma diff_loop_keeps:
  assumes "diff_loop f k list w = (None, w')" "\<And>s w w'. f s w = (None, w') \<Longrightarrow> P w \<Longrightarrow> P w'" "P w"
  shows "P w'"
  using assms(1,3)
proof (induction list arbitrary: w)
  case (Cons s list)
  obtain i where "ss_ID (cr_Spec s) = Some i" using Cons(2) by (auto split: option.splits)
  then show ?case using Cons assms(2) by (cases "i \<in> k") (auto split: prod.splits option.splits)
qed simp

section \<open>The cluster\<close>

abbreviation snap_key :: "Snapshot \<Rightarrow> string \<times> string" where
  "snap_key s \<equiv> (cr_Namespace s, cr_Name s)"

text \<open>
  What the API server promises: a list of the snapshot resources that successful calls of
  \<^verbatim>\<open>List\<close>, \<^verbatim>\<open>Create\<close> and \<^verbatim>\<open>Delete\<close> read and change, a new one
  only under a name that is free in its namespace.
\<close>

locale snapshot_api =
  fixes X :: "'w outside" and view :: "'w \<Rightarrow> Snapshot list"
  assumes list_snapshots: "x_ListSnapshots X ns w = (Inr l, w') \<Longrightarrow>
      l = filter (\<lambda>s. cr_Namespace s = ns) (view w) \<and> view w' = view w"
    and create_snapshot: "x_CreateSnapshot X s w = (None, w') \<Longrightarrow> view w' = view w @ [s] \<and> snap_key s \<notin> snap_key ` set (view w)"
    and delete_snapshot: "x_DeleteSnapshot X s w = (None, w') \<Longrightarrow>
      view w' = filter (\<lambda>t. snap_key t \<noteq> snap_key s) (view w)"
begin

lemma created_view:
  assumes "createNewSnapshots X new old w = (None, w')"
  shows "view w' = view w @ filter (\<lambda>s. snap_id s \<notin> snap_id ` set old) new"
proof -
  obtain k where k: "listToMap old = Inr k" "diff_loop (x_CreateSnapshot X) k new w = (None, w')"
    using assms by (auto simp: createNewSnapshots_def snap_diff_def split: sum.splits)
  have "fold (\<lambda>s v. v @ [s]) ss v = v @ ss" for ss and v :: "Snapshot list"
    by (induction ss arbitrary: v) simp_all
  then show ?thesis
    using diff_loop_observe [OF k(2), of view "\<lambda>s v. v @ [s]"] create_snapshot listToMap_eq [OF k(1)] by simp
qed

lemma created_distinct:
  assumes "createNewSnapshots X new old w = (None, w')" "distinct (map snap_key (view w))"
  shows "distinct (map snap_key (view w'))"
proof -
  obtain k where k: "diff_loop (x_CreateSnapshot X) k new w = (None, w')"
    using assms by (auto simp: createNewSnapshots_def snap_diff_def split: sum.splits)
  show ?thesis
    by (rule diff_loop_keeps [where P = "\<lambda>w. distinct (map snap_key (view w))", OF k _ assms(2)]) (auto dest: create_snapshot)
qed

lemma deleted_view:
  assumes "deleteOldSnapshots X new old w = (None, w')"
  shows "view w' = filter (\<lambda>t. \<forall>s \<in> set old. snap_id s \<notin> snap_id ` set new \<longrightarrow> snap_key t \<noteq> snap_key s) (view w)"
proof -
  obtain k where k: "listToMap new = Inr k" "diff_loop (x_DeleteSnapshot X) k old w = (None, w')"
    using assms by (auto simp: deleteOldSnapshots_def snap_diff_def split: sum.splits)
  have "fold (\<lambda>s v. filter (\<lambda>t. snap_key t \<noteq> snap_key s) v) ss v = filter (\<lambda>t. \<forall>s \<in> set ss. snap_key t \<noteq> snap_key s) v"
    for ss v by (induction ss arbitrary: v) (auto simp: conj_commute)
  moreover have "(\<forall>s \<in> set (filter (\<lambda>s. snap_id s \<notin> k) old). snap_key t \<noteq> snap_key s) \<longleftrightarrow>
      (\<forall>s \<in> set old. snap_id s \<notin> k \<longrightarrow> snap_key t \<noteq> snap_key s)" for t
    by auto
  ultimately show ?thesis
    using diff_loop_observe [OF k(2), of view "\<lambda>s. filter (\<lambda>t. snap_key t \<noteq> snap_key s)"] delete_snapshot
      listToMap_eq [OF k(1)] by simp
qed

text \<open>After a synchronisation without an error.\<close>

lemma synced_view:
  assumes "SyncSnapshotList X c list ns repo w = (None, w')" "distinct (map snap_key (view w))"
  shows "\<exists>new old. new = map (converted ns repo) (filter (\<lambda>s. sn_Hostname s = ns) list) \<and>
     old = filter (\<lambda>s. cr_Namespace s = ns \<and> ss_Repository (cr_Spec s) = Some repo) (view w) \<and>
     distinct (map snap_key (view w @ filter (\<lambda>s. snap_id s \<notin> snap_id ` set old) new)) \<and>
     view w' = filter (\<lambda>t. \<forall>s \<in> set old. snap_id s \<notin> snap_id ` set new \<longrightarrow> snap_key t \<noteq> snap_key s)
       (view w @ filter (\<lambda>s. snap_id s \<notin> snap_id ` set old) new)"
proof -
  obtain new where n: "filterAndConvert list ns repo = Inr new"
    using assms by (auto simp: SyncSnapshotList_def split: sum.splits)
  have kc: "NewTypedClient X c w = None" using assms n by (auto simp: SyncSnapshotList_def split: option.splits)
  obtain l w1 where l: "x_ListSnapshots X ns w = (Inr l, w1)"
    using assms n kc by (auto simp: SyncSnapshotList_def split: prod.splits sum.splits)
  obtain old where o: "filterByRepo l repo = Inr old"
    using assms n kc l by (auto simp: SyncSnapshotList_def split: sum.splits)
  obtain w2 where c: "createNewSnapshots X new old w1 = (None, w2)" and d: "deleteOldSnapshots X new old w2 = (None, w')"
    using assms n kc l o by (auto simp: SyncSnapshotList_def split: prod.splits option.splits)
  have old: "old = filter (\<lambda>s. cr_Namespace s = ns \<and> ss_Repository (cr_Spec s) = Some repo) (view w)"
    using filterByRepo_eq [OF o] list_snapshots [OF l] by (simp add: conj_commute)
  have v2: "view w2 = view w @ filter (\<lambda>s. snap_id s \<notin> snap_id ` set old) new"
    using created_view [OF c] list_snapshots [OF l] by simp
  show ?thesis
    using filterAndConvert_eq [OF n] old deleted_view [OF d] v2 created_distinct [OF c] list_snapshots [OF l] assms(2)
    by (intro exI [of _ new] exI [of _ old]) simp
qed

end

interpretation ref_snapshots: snapshot_api ref_outside rf_Cluster
  by unfold_locales (auto simp: ref_outside_def ref_create_def ref_delete_def split: if_splits)

section \<open>Properties\<close>

text \<open>The abstract state: which snapshots of a namespace and repository the cluster knows, and everything else.\<close>

definition mirrors :: "string \<Rightarrow> string \<Rightarrow> Snapshot \<Rightarrow> bool" where
  "mirrors ns repo s \<longleftrightarrow> cr_Namespace s = ns \<and> ss_Repository (cr_Spec s) = Some repo"

definition mirrored_ids :: "string \<Rightarrow> string \<Rightarrow> Snapshot list \<Rightarrow> string set" where
  "mirrored_ids ns repo v = snap_id ` {s \<in> set v. mirrors ns repo s}"

definition repository_ids :: "string \<Rightarrow> dto_Snapshot list \<Rightarrow> string set" where
  "repository_ids ns list = sn_ID ` {s \<in> set list. sn_Hostname s = ns}"

lemma converted_simps [simp]: "snap_id (converted ns repo s) = sn_ID s" "mirrors ns repo (converted ns repo s)"
  by (simp_all add: converted_def mirrors_def)

lemma filter_outdated:
  assumes "distinct (map snap_key v)" "set out \<subseteq> set v"
  shows "filter (\<lambda>t. \<forall>s \<in> set out. snap_key t \<noteq> snap_key s) v = filter (\<lambda>t. t \<notin> set out) v"
proof (rule filter_cong [OF refl])
  fix t
  assume t: "t \<in> set v"
  have "t = s" if "s \<in> set out" "snap_key t = snap_key s" for s
    using inj_onD [OF assms(1) [unfolded distinct_map, THEN conjunct2] that(2) t] that(1) assms(2) by blast
  then show "(\<forall>s \<in> set out. snap_key t \<noteq> snap_key s) = (t \<notin> set out)" by blast
qed

text \<open>
  C34. A synchronisation that reports no error makes the snapshot resources of the namespace and
  repository mirror restic's list: their identifiers are exactly those of the snapshots restic lists
  for the host of that name. The resources of other namespaces and repositories stay as they are.
\<close>

theorem SyncSnapshotList_refines:
  assumes "snapshot_api X view" "distinct (map snap_key (view w))"
    and "SyncSnapshotList X c list ns repo w = (None, w')"
  shows "mirrored_ids ns repo (view w') = repository_ids ns list \<and>
    filter (\<lambda>s. \<not> mirrors ns repo s) (view w') = filter (\<lambda>s. \<not> mirrors ns repo s) (view w)"
proof -
  obtain new old where n: "new = map (converted ns repo) (filter (\<lambda>s. sn_Hostname s = ns) list)"
    and o: "old = filter (mirrors ns repo) (view w)"
    and dist: "distinct (map snap_key (view w @ filter (\<lambda>s. snap_id s \<notin> snap_id ` set old) new))"
    and v: "view w' = filter (\<lambda>t. \<forall>s \<in> set old. snap_id s \<notin> snap_id ` set new \<longrightarrow> snap_key t \<noteq> snap_key s)
       (view w @ filter (\<lambda>s. snap_id s \<notin> snap_id ` set old) new)"
    using snapshot_api.synced_view [OF assms(1,3,2)] unfolding mirrors_def by metis
  let ?created = "filter (\<lambda>s. snap_id s \<notin> snap_id ` set old) new"
  let ?out = "filter (\<lambda>s. snap_id s \<notin> snap_id ` set new) old"
  have sub: "set ?out \<subseteq> set (view w @ ?created)" using o by auto
  have v': "view w' = filter (\<lambda>t. t \<notin> set ?out) (view w @ ?created)"
    unfolding v using filter_outdated [OF dist sub] by (simp add: Ball_def imp_conjL)
  have m: "mirrors ns repo s" if "s \<in> set new" for s using that n by auto
  have ids: "snap_id ` set new = repository_ids ns list"
    by (auto simp: n repository_ids_def image_image)
  have "mirrored_ids ns repo (view w') = snap_id ` set new"
  proof
    show "mirrored_ids ns repo (view w') \<subseteq> snap_id ` set new"
      unfolding mirrored_ids_def v' using o by auto
    show "snap_id ` set new \<subseteq> mirrored_ids ns repo (view w')"
    proof
      fix i
      assume i: "i \<in> snap_id ` set new"
      then obtain s where s: "s \<in> set new" "i = snap_id s" by blast
      have "\<exists>t \<in> set (view w @ ?created). mirrors ns repo t \<and> snap_id t = i \<and> t \<notin> set ?out"
      proof (cases "i \<in> snap_id ` set old")
        case True
        then obtain t where t: "t \<in> set old" "i = snap_id t" by blast
        have "snap_id t \<in> snap_id ` set new" using i t(2) by simp
        then show ?thesis using t o by (intro bexI [of _ t]) auto
      next
        case False
        then show ?thesis using s m by (intro bexI [of _ s]) auto
      qed
      then show "i \<in> mirrored_ids ns repo (view w')" unfolding mirrored_ids_def v' by force
    qed
  qed
  moreover have "filter (\<lambda>s. \<not> mirrors ns repo s) (view w') = filter (\<lambda>s. \<not> mirrors ns repo s) (view w @ ?created)"
    unfolding v' filter_filter by (rule filter_cong [OF refl]) (use o in auto)
  moreover have "filter (\<lambda>s. \<not> mirrors ns repo s) ?created = []" using m by (auto simp: filter_empty_conv)
  ultimately show ?thesis using ids by simp
qed

definition ex_resource :: "string \<Rightarrow> string \<Rightarrow> Snapshot" where
  "ex_resource i repo = converted ''prod'' repo (ref_snapshot i)"

theorem SyncSnapshotList_refines_witness:
  "mirrored_ids ''prod'' ''r'' (rf_Cluster (snd (SyncSnapshotList ref_outside ref_config
     [ref_snapshot ''aaaaaaaa1'', ref_snapshot ''bbbbbbbb2''] ''prod'' ''r''
     (ref_empty\<lparr>rf_Cluster := [ex_resource ''bbbbbbbb2'' ''r'', ex_resource ''cccccccc3'' ''r'', ex_resource ''dddddddd4'' ''q'']\<rparr>))))
   = {''aaaaaaaa1'', ''bbbbbbbb2''}"
proof -
  let ?w = "ref_empty\<lparr>rf_Cluster := [ex_resource ''bbbbbbbb2'' ''r'', ex_resource ''cccccccc3'' ''r'', ex_resource ''dddddddd4'' ''q'']\<rparr>"
  let ?l = "[ref_snapshot ''aaaaaaaa1'', ref_snapshot ''bbbbbbbb2'']"
  have "fst (SyncSnapshotList ref_outside ref_config ?l ''prod'' ''r'' ?w) = None"
    by (simp add: SyncSnapshotList_def filterAndConvert_def NewTypedClient_def getClientConfig_def ref_outside_def filterByRepo_def
        createNewSnapshots_def deleteOldSnapshots_def snap_diff_def listToMap_def ref_create_def ref_delete_def ref_snapshot_def
        zero_snapshot_def ex_resource_def converted_def ref_empty_def)
  then have r: "SyncSnapshotList ref_outside ref_config ?l ''prod'' ''r'' ?w = (None, snd (SyncSnapshotList ref_outside ref_config ?l ''prod'' ''r'' ?w))"
    by (metis prod.collapse)
  have d: "distinct (map snap_key (rf_Cluster ?w))"
    by (simp add: ex_resource_def converted_def ref_snapshot_def zero_snapshot_def)
  have "repository_ids ''prod'' ?l = {''aaaaaaaa1'', ''bbbbbbbb2''}"
    unfolding repository_ids_def by (intro set_eqI) (force simp: ref_snapshot_def)
  then show ?thesis
    using SyncSnapshotList_refines [OF ref_snapshots.snapshot_api_axioms d r] by metis
qed

end
