(* ===== verification/Restic_Backup.thy ===== *)
theory Restic_Backup
  imports Restic_Snapshots
begin

text \<open>
  \<^verbatim>\<open>restic/cli/backup.go\<close>, \<^verbatim>\<open>stdinbackup.go\<close> and \<^verbatim>\<open>prune.go\<close>: backing up the
  folders of the backup directory and the output of commands, the statistics that are sent
  meanwhile, and the retention policy. Errors that are only logged are dropped; a panic of the code
  behind them is not, it ends the process.
\<close>

section \<open>Statistics\<close>

definition getMountedFolders :: "'w outside \<Rightarrow> ResticConfiguration \<Rightarrow> 'w \<Rightarrow> string list" where
  "getMountedFolders X c w =
     (case x_ReadDir X (rc_BackupDir c) w of
        Inl err \<Rightarrow> []
      | Inr files \<Rightarrow> map fst (filter snd files))"

definition parseSummary ::
  "'w outside \<Rightarrow> ResticConfiguration \<Rightarrow> Restic \<Rightarrow> BackupSummary \<Rightarrow> int \<Rightarrow> string \<Rightarrow> int \<Rightarrow> int \<Rightarrow> 'w \<Rightarrow> RawMetrics" where
  "parseSummary X c r summary errorCount folder startTimestamp endTimestamp w = \<lparr>
     rm_runningBackupDuration = bs_TotalDuration summary,
     rm_BackupStartTimestamp = OfInt startTimestamp,
     rm_BackupEndTimestamp = OfInt endTimestamp,
     rm_Errors = OfInt errorCount,
     rm_NewFiles = OfInt (bs_FilesNew summary),
     rm_ChangedFiles = OfInt (bs_FilesChanged summary),
     rm_UnmodifiedFiles = OfInt (bs_FilesUnmodified summary),
     rm_NewDirs = OfInt (bs_DirsNew summary),
     rm_ChangedDirs = OfInt (bs_DirsChanged summary),
     rm_UnmodifiedDirs = OfInt (bs_DirsUnmodified summary),
     rm_DataTransferred = OfInt (bs_DataAdded summary),
     rm_MountedPVCs = getMountedFolders X c w,
     rm_availableSnapshots = OfInt (int (length (r_snapshots r))),
     rm_Folder = folder,
     rm_hostname = rc_Hostname c,
     rm_ID = bs_SnapshotID summary\<rparr>"

text \<open>\<^verbatim>\<open>sendBackupStats\<close>: both errors are only logged.\<close>

definition sendBackupStats ::
  "'w outside \<Rightarrow> ResticConfiguration \<Rightarrow> Restic \<Rightarrow> BackupSummary \<Rightarrow> int \<Rightarrow> string \<Rightarrow> 'w \<Rightarrow> 'w" where
  "sendBackupStats X c r summary errorCount folder w =
     (let metrics = parseSummary X c r summary errorCount folder 1 (x_Now X w) w;
          currentStats = \<lparr>bks_Name = rc_Hostname c, bks_BucketName = r_bucket r,
            bks_BackupMetrics = Some metrics, bks_Snapshots = []\<rparr>;
          w1 = snd (SendWebhook X (r_statsHandler r) (x_MarshalBackupStats X currentStats) w)
      in snd (SendPrometheus X (r_statsHandler r) currentStats w1))"

text \<open>A writer that parses the backup output and sends the statistics.\<close>

definition backup_sink ::
  "'w outside \<Rightarrow> ResticConfiguration \<Rightarrow> Restic \<Rightarrow> (BackupOutputParser, 'w) sink" where
  "backup_sink X c r p s =
     snd (writer_Write (bop_out (x_DecodeEnvelope X) (sendBackupStats X c r)) p s)"

text \<open>
  \<^verbatim>\<open>sendSnapshotList\<close>: fetches, reports and synchronises the list. Every error is only
  logged; the result is a panic of the synchronisation, if there is one.
\<close>

fun panic_of :: "gerr option \<Rightarrow> gerr option" where
  "panic_of (Some (Panic m)) = Some (Panic m)"
| "panic_of _ = None"

definition sendSnapshotList ::
  "'w outside \<Rightarrow> ResticConfiguration \<Rightarrow> Restic \<Rightarrow> 'w \<Rightarrow> gerr option \<times> Restic \<times> 'w" where
  "sendSnapshotList X c r w =
     (case Snapshots X r [] [] w of (_, r, w) \<Rightarrow>
       (let stats = \<lparr>bks_Name = rc_Hostname c, bks_BucketName = r_bucket r, bks_BackupMetrics = None,
              bks_Snapshots = r_snapshots r\<rparr>
        in case SendWebhook X (r_statsHandler r) (x_MarshalBackupStats X stats) w of (_, w) \<Rightarrow>
             (if rc_SkipSnapshotSync c then (None, r, w)
              else case SyncSnapshotList X c (r_snapshots r) (rc_Hostname c) (rc_ResticRepository c) w of
                     (err, w) \<Rightarrow> (panic_of err, r, w))))"

section \<open>Backups\<close>

definition triggerBackup ::
  "'w outside \<Rightarrow> string list \<Rightarrow> ('l, 'w) CommandOptions \<Rightarrow> 'l \<Rightarrow> 'w \<Rightarrow> gerr option \<times> 'l \<times> 'w" where
  "triggerBackup X tags opts l w =
     run_command X (opts\<lparr>co_Args := co_Args opts @ tag_args tags\<rparr>) l w"

definition folder_flags :: "'w outside \<Rightarrow> ResticConfiguration \<Rightarrow> Restic \<Rightarrow> Flags" where
  "folder_flags X c r =
     mixinBackupFlags (x_Ord X) c
       (Combine (x_Ord X) (r_globalFlags r) [''--host'' \<mapsto> [rc_Hostname c], ''--json'' \<mapsto> []])"

definition folderBackup ::
  "'w outside \<Rightarrow> ResticConfiguration \<Rightarrow> Restic \<Rightarrow> string \<Rightarrow> string list \<Rightarrow> 'w \<Rightarrow> gerr option \<times> 'w" where
  "folderBackup X c r folder tags w =
     (case triggerBackup X tags
        \<lparr>co_Path = r_resticPath r, co_StdIn = None, co_StdOut = Some (backup_sink X c r),
         co_StdErr = Some (backup_sink X c r),
         co_Args = command_args X (folder_flags X c r) ''backup'' [folder]\<rparr>
        (NewBackupOutputParser folder) w
      of (err, _, w) \<Rightarrow> (err, w))"

fun backup_loop ::
  "'w outside \<Rightarrow> ResticConfiguration \<Rightarrow> Restic \<Rightarrow> string \<Rightarrow> string list \<Rightarrow> (string \<times> bool) list \<Rightarrow> 'w \<Rightarrow> gerr option \<times> 'w" where
  "backup_loop X c r backupDir tags [] w = (None, w)"
| "backup_loop X c r backupDir tags ((name, isDir) # files) w =
     (if isDir
      then (case folderBackup X c r (path_Join backupDir name) tags w of
              (Some err, w) \<Rightarrow> (Some err, w)
            | (None, w) \<Rightarrow> backup_loop X c r backupDir tags files w)
      else backup_loop X c r backupDir tags files w)"

definition Backup ::
  "'w outside \<Rightarrow> ResticConfiguration \<Rightarrow> Restic \<Rightarrow> string \<Rightarrow> string list \<Rightarrow> 'w \<Rightarrow> gerr option \<times> Restic \<times> 'w" where
  "Backup X c r backupDir tags w =
     (if x_NotExist X backupDir w then sendSnapshotList X c r w
      else case x_ReadDir X backupDir w of
             Inl err \<Rightarrow> (Some (Wrapped (''can't read backupdir '' @ [CHR 0x27] @ backupDir @ [CHR 0x27]) err), r, w)
           | Inr files \<Rightarrow>
              (case backup_loop X c r backupDir tags files w of
                 (Some err, w) \<Rightarrow> (Some err, r, w)
               | (None, w) \<Rightarrow> sendSnapshotList X c r w))"

definition StdinBackup ::
  "'w outside \<Rightarrow> ResticConfiguration \<Rightarrow> Restic \<Rightarrow> string \<Rightarrow> string \<Rightarrow> string \<Rightarrow> string list \<Rightarrow> 'w \<Rightarrow> gerr option \<times> 'w" where
  "StdinBackup X c r data filename fileExt tags w =
     (let flags = Combine (x_Ord X) (r_globalFlags r)
            [''--host'' \<mapsto> [rc_Hostname c], ''--json'' \<mapsto> [], ''--stdin'' \<mapsto> [], ''--stdin-filename'' \<mapsto> [filename @ fileExt]]
      in case triggerBackup X tags
        \<lparr>co_Path = r_resticPath r, co_StdIn = Some data, co_StdOut = Some (backup_sink X c r),
         co_StdErr = Some (backup_sink X c r), co_Args = command_args X flags ''backup'' []\<rparr>
        (NewStdinBackupOutputParser (filename @ fileExt)) w
      of (err, _, w) \<Rightarrow> (err, w))"

section \<open>Prune\<close>

definition keepN_flags :: "ResticConfiguration \<Rightarrow> string \<rightharpoonup> int" where
  "keepN_flags c = [''--keep-last'' \<mapsto> rc_PruneKeepLast c, ''--keep-hourly'' \<mapsto> rc_PruneKeepHourly c,
     ''--keep-daily'' \<mapsto> rc_PruneKeepDaily c, ''--keep-weekly'' \<mapsto> rc_PruneKeepWeekly c,
     ''--keep-monthly'' \<mapsto> rc_PruneKeepMonthly c, ''--keep-yearly'' \<mapsto> rc_PruneKeepYearly c]"

definition keepWithin_flags :: "ResticConfiguration \<Rightarrow> string \<rightharpoonup> string" where
  "keepWithin_flags c = [''--keep-within'' \<mapsto> rc_PruneKeepWithin c, ''--keep-within-hourly'' \<mapsto> rc_PruneKeepWithinHourly c,
     ''--keep-within-daily'' \<mapsto> rc_PruneKeepWithinDaily c, ''--keep-within-weekly'' \<mapsto> rc_PruneKeepWithinWeekly c,
     ''--keep-within-monthly'' \<mapsto> rc_PruneKeepWithinMonthly c, ''--keep-within-yearly'' \<mapsto> rc_PruneKeepWithinYearly c]"

fun keepN_args_loop :: "(string \<times> int) list \<Rightarrow> string list \<Rightarrow> string list" where
  "keepN_args_loop [] args = args"
| "keepN_args_loop ((argName, argVal) # rest) args =
     keepN_args_loop rest (if argVal > 0 then args @ [argName, Itoa argVal] else args)"

fun keepWithin_args_loop :: "(string \<times> string) list \<Rightarrow> string list \<Rightarrow> string list" where
  "keepWithin_args_loop [] args = args"
| "keepWithin_args_loop ((argName, argVal) # rest) args =
     keepWithin_args_loop rest (if argVal \<noteq> [] then args @ [argName, argVal] else args)"

definition prune_args :: "(string set \<Rightarrow> string list) \<Rightarrow> ResticConfiguration \<Rightarrow> string list" where
  "prune_args ord c =
     (let args1 = keepN_args_loop (entries ord (keepN_flags c)) [''--prune''];
          args2 = keepWithin_args_loop (entries ord (keepWithin_flags c)) args1;
          args3 = (if rc_PruneKeepTags c then args2 @ [''--keep-tag''] else args2)
      in if rc_Hostname c \<noteq> [] then args3 @ [''--host='' @ rc_Hostname c] else args3)"

definition Prune ::
  "'w outside \<Rightarrow> ResticConfiguration \<Rightarrow> Restic \<Rightarrow> string list \<Rightarrow> 'w \<Rightarrow> gerr option \<times> Restic \<times> 'w" where
  "Prune X c r tags w =
     (case log_command X (r_resticPath r)
        (command_args X (r_globalFlags r) ''forget'' (prune_args (x_Ord X) c) @ tag_args tags) w
      of (Some err, w) \<Rightarrow> (Some err, r, w)
       | (None, w) \<Rightarrow> sendSnapshotList X c r w)"

section \<open>Lemmas\<close>

text \<open>A folder is done when its process ran and ended well, or with unreadable files (exit code 3).\<close>

definition backup_process ::
  "'w outside \<Rightarrow> Restic \<Rightarrow> string list \<Rightarrow> string option \<Rightarrow> 'w \<Rightarrow> 'w \<Rightarrow> bool" where
  "backup_process X r args stdin w w' \<longleftrightarrow>
     (\<exists>p. x_Exec X (r_resticPath r) args (setResticProgressFPSIfNotDefined (x_Environ X w)) stdin w = (Inr p, w') \<and>
        pr_Wait p \<in> {WaitOk, WaitEOF, WaitExit 3})"

definition folder_args :: "'w outside \<Rightarrow> ResticConfiguration \<Rightarrow> Restic \<Rightarrow> string \<Rightarrow> string list \<Rightarrow> string list" where
  "folder_args X c r folder tags = command_args X (folder_flags X c r) ''backup'' [folder] @ tag_args tags"

lemma triggerBackup_done:
  assumes "triggerBackup X tags opts l w = (None, l', w')" "co_Path opts = r_resticPath r"
  shows "\<exists>v. backup_process X r (co_Args opts @ tag_args tags) (co_StdIn opts) w v"
  using run_command_no_fatal [OF assms(1) [unfolded triggerBackup_def]] assms(2) by (auto simp: backup_process_def)

lemma folderBackup_done:
  assumes "folderBackup X c r folder tags w = (None, w')"
  shows "\<exists>v. backup_process X r (folder_args X c r folder tags) None w v"
  using assms triggerBackup_done [where r = r] by (fastforce simp: folderBackup_def folder_args_def split: prod.splits)

definition stdin_args :: "'w outside \<Rightarrow> ResticConfiguration \<Rightarrow> Restic \<Rightarrow> string \<Rightarrow> string list \<Rightarrow> string list" where
  "stdin_args X c r file tags = command_args X (Combine (x_Ord X) (r_globalFlags r)
     [''--host'' \<mapsto> [rc_Hostname c], ''--json'' \<mapsto> [], ''--stdin'' \<mapsto> [], ''--stdin-filename'' \<mapsto> [file]]) ''backup'' [] @ tag_args tags"

lemma StdinBackup_done:
  assumes "StdinBackup X c r data filename ext tags w = (None, w')"
  shows "\<exists>v. backup_process X r (stdin_args X c r (filename @ ext) tags) (Some data) w v"
  using assms triggerBackup_done [where r = r] by (fastforce simp: StdinBackup_def stdin_args_def Let_def split: prod.splits)

text \<open>The states in which the folders were backed up, one after the other.\<close>

fun folders_done :: "'w outside \<Rightarrow> ResticConfiguration \<Rightarrow> Restic \<Rightarrow> string list \<Rightarrow> string list \<Rightarrow> 'w \<Rightarrow> 'w \<Rightarrow> bool" where
  "folders_done X c r tags [] w w' \<longleftrightarrow> w = w'"
| "folders_done X c r tags (folder # folders) w w' \<longleftrightarrow>
     (\<exists>v v'. backup_process X r (folder_args X c r folder tags) None w v \<and>
        folderBackup X c r folder tags w = (None, v') \<and> folders_done X c r tags folders v' w')"

definition subfolders :: "string \<Rightarrow> (string \<times> bool) list \<Rightarrow> string list" where
  "subfolders dir files = map (\<lambda>f. path_Join dir (fst f)) (filter snd files)"

lemma backup_loop_done:
  "backup_loop X c r dir tags files w = (None, w') \<Longrightarrow> folders_done X c r tags (subfolders dir files) w w'"
proof (induction X c r dir tags files w rule: backup_loop.induct)
  case (2 X c r dir tags name isDir files w)
  show ?case
  proof (cases isDir)
    case False
    then show ?thesis using 2 by (simp add: subfolders_def)
  next
    case True
    then obtain v where v: "folderBackup X c r (path_Join dir name) tags w = (None, v)"
        "backup_loop X c r dir tags files v = (None, w')"
      using 2(3) by (auto split: prod.splits option.splits)
    have "folders_done X c r tags (subfolders dir files) v w'"
      using 2(1) [OF True v(1) [symmetric] refl v(2)] .
    then show ?thesis using True v(1) folderBackup_done [OF v(1)] by (auto simp: subfolders_def)
  qed
qed (simp add: subfolders_def)

lemma Backup_folders:
  assumes "Backup X c r dir tags w = (None, r', w')" "\<not> x_NotExist X dir w"
  shows "\<exists>files v. x_ReadDir X dir w = Inr files \<and> folders_done X c r tags (subfolders dir files) w v \<and>
    sendSnapshotList X c r v = (None, r', w')"
proof -
  obtain files where f: "x_ReadDir X dir w = Inr files"
    using assms by (auto simp: Backup_def split: sum.splits)
  obtain v where v: "backup_loop X c r dir tags files w = (None, v)" "sendSnapshotList X c r v = (None, r', w')"
    using assms f by (auto simp: Backup_def split: prod.splits option.splits)
  then show ?thesis using f backup_loop_done [OF v(1)] by (intro exI [of _ files] exI [of _ v]) simp
qed

text \<open>The flags of \<^verbatim>\<open>mixinBackupFlags\<close>, apart from the order of the loop.\<close>

definition mixed :: "ResticConfiguration \<Rightarrow> Flags" where
  "mixed c k =
     (case toMix c k of
        Some v \<Rightarrow> if v = [] then None else Some v
      | None \<Rightarrow>
         (if k = ''--exclude-caches'' \<and> rc_ExcludeCaches c then Some []
          else if k = ''--one-file-system'' \<and> rc_OneFileSystem c then Some [] else None))"

lemma finite_toMix: "finite (dom (toMix c))"
  by (simp add: toMix_def)

lemma mix_loop_finite:
  "enumerates ord \<Longrightarrow> finite (dom f) \<Longrightarrow> finite (dom (mix_loop ord es f))"
  by (induction ord es f rule: mix_loop.induct) (auto simp: Combine_dom)

lemma mix_loop_apply:
  assumes "enumerates ord" "finite (dom f)" "distinct (map fst es)"
  shows "mix_loop ord es f k =
    (case map_of es k of Some v \<Rightarrow> if v = [] then f k else Some (combine_value f k v) | None \<Rightarrow> f k)"
  using assms(2,3)
proof (induction es arbitrary: f)
  case (Cons e es)
  obtain a v where e: "e = (a, v)" by fastforce
  let ?g = "if length v > 0 then Combine ord f [a \<mapsto> v] else f"
  have fin: "finite (dom ?g)" using Cons(2) assms(1) by (auto intro: Combine_finite)
  have a: "map_of es a = None" using Cons(3) e by (auto simp: map_of_eq_None_iff)
  have g: "?g x = (if x = a \<and> v \<noteq> [] then Some (combine_value f a v) else f x)" for x
    using Combine_apply [OF assms(1) Cons(2), of "[a \<mapsto> v]" x] by auto
  have "mix_loop ord es ?g k = (case map_of es k of Some v \<Rightarrow> if v = [] then ?g k else Some (combine_value ?g k v) | None \<Rightarrow> ?g k)"
    by (rule Cons(1) [OF fin]) (use Cons(3) in simp)
  moreover have "k \<noteq> a \<Longrightarrow> ?g k = f k \<and> combine_value ?g k = combine_value f k"
    using g [of k] by (auto simp: combine_value_def fun_eq_iff)
  ultimately show ?case using a g [of k] by (cases "k = a") (auto simp: e split: option.splits)
qed simp

text \<open>The result does not depend on the order of the map iteration.\<close>

lemma mixinBackupFlags_apply:
  assumes "enumerates ord" "finite (dom f)"
  shows "mixinBackupFlags ord c f k = (case mixed c k of Some v \<Rightarrow> Some (combine_value f k v) | None \<Rightarrow> f k)"
proof -
  let ?m = "mix_loop ord (entries ord (toMix c)) f"
  have m: "?m k = (case toMix c k of Some v \<Rightarrow> if v = [] then f k else Some (combine_value f k v) | None \<Rightarrow> f k)" for k
    using mix_loop_apply [OF assms distinct_entries [OF assms(1) finite_toMix]]
    by (simp add: map_of_entries [OF assms(1) finite_toMix])
  have fin: "finite (dom ?m)" by (rule mix_loop_finite [OF assms])
  let ?m1 = "if rc_ExcludeCaches c then Combine ord ?m [''--exclude-caches'' \<mapsto> []] else ?m"
  let ?m2 = "if rc_OneFileSystem c then Combine ord ?m1 [''--one-file-system'' \<mapsto> []] else ?m1"
  have sw: "(if b then Combine ord g [s \<mapsto> []] else g) x = (if x = s \<and> b then Some (combine_value g s []) else g x)"
    if "finite (dom g)" for g s x b
    using Combine_apply [OF assms(1) that, of "[s \<mapsto> []]" x] by auto
  have none: "toMix c ''--exclude-caches'' = None" "toMix c ''--one-file-system'' = None" by (simp_all add: toMix_def)
  have m1: "?m1 x = (if x = ''--exclude-caches'' \<and> rc_ExcludeCaches c then Some (combine_value f x []) else ?m x)" for x
    unfolding sw [OF fin] using m none by (simp add: combine_value_def)
  have fin1: "finite (dom ?m1)" using fin assms(1) by (simp add: Combine_dom)
  have "?m1 ''--one-file-system'' = f ''--one-file-system''" unfolding m1 m using none by simp
  then have cv: "combine_value ?m1 ''--one-file-system'' [] = combine_value f ''--one-file-system'' []"
    unfolding combine_value_def by (rule arg_cong)
  have m2: "?m2 x = (if x = ''--one-file-system'' \<and> rc_OneFileSystem c then Some (combine_value f x []) else ?m1 x)" for x
    unfolding sw [OF fin1] cv by (rule if_cong) auto
  have "mixinBackupFlags ord c f k = ?m2 k" by (simp add: mixinBackupFlags_def Let_def)
  also have "\<dots> = (case mixed c k of Some v \<Rightarrow> Some (combine_value f k v) | None \<Rightarrow> f k)"
    unfolding m2 m1 m mixed_def using none by (auto split: option.splits)
  finally show ?thesis .
qed

text \<open>The retention arguments.\<close>

lemma keepN_args_loop_eq:
  "keepN_args_loop es args = args @ concat (map (\<lambda>(k, v). [k, Itoa v]) (filter (\<lambda>(k, v). v > 0) es))"
  by (induction es args rule: keepN_args_loop.induct) auto

lemma keepWithin_args_loop_eq:
  "keepWithin_args_loop es args = args @ concat (map (\<lambda>(k, v). [k, v]) (filter (\<lambda>(k, v). v \<noteq> []) es))"
  by (induction es args rule: keepWithin_args_loop.induct) auto

lemma filter_entries:
  assumes "enumerates ord" "finite (dom m)"
  shows "distinct (map fst (filter P (entries ord m)))" "set (filter P (entries ord m)) = {(k, v). m k = Some v \<and> P (k, v)}"
  using distinct_entries [OF assms] set_entries [OF assms] by (auto simp: distinct_map_filter)

section \<open>The reference repository\<close>

lemma ref_stats [simp]:
  "h_promURL (r_statsHandler r) = [] \<Longrightarrow> h_webhookURL (r_statsHandler r) = [] \<Longrightarrow> sendBackupStats X c r sm n f w = w"
  by (simp add: sendBackupStats_def SendWebhook_def SendPrometheus_def)

lemma ref_folderBackup: "fst (folderBackup ref_outside c r folder tags w) = None"
  by (simp add: folderBackup_def triggerBackup_def run_command_eq ref_outside_def ref_exec_def ok_process_def Let_def
      split: prod.splits)

lemma ref_backup_loop: "fst (backup_loop ref_outside c r dir tags files w) = None"
proof (induction files arbitrary: w)
  case (Cons f files)
  obtain name isDir where f: "f = (name, isDir)" by fastforce
  obtain e v where v: "folderBackup ref_outside c r (path_Join dir name) tags w = (e, v)" by fastforce
  then have "e = None" using ref_folderBackup [of c r "path_Join dir name" tags w] by simp
  then show ?case using Cons f v by simp
qed simp

section \<open>Properties\<close>

text \<open>
  A backup that reports no error has run \<^verbatim>\<open>restic backup\<close> on every directory in the backup
  directory, in the order of the listing, and each of these processes was started and ended with
  success or with restic's exit code for a snapshot with unreadable files. Then the list of
  snapshots was sent.
\<close>

theorem Backup_complete:
  assumes "Backup X c r dir tags w = (None, r', w')" "\<not> x_NotExist X dir w" "x_ReadDir X dir w = Inr files"
  shows "\<exists>v. folders_done X c r tags (subfolders dir files) w v \<and> sendSnapshotList X c r v = (None, r', w')"
  using Backup_folders [OF assms(1,2)] assms(3) by auto

definition ref_backup_config :: ResticConfiguration where
  "ref_backup_config = ref_config\<lparr>rc_SkipSnapshotSync := True\<rparr>"

definition ref_backup_state :: ref_state where
  "ref_backup_state = ref_empty\<lparr>rf_Dir := [(''pvc'', True), (''notes.txt'', False)]\<rparr>"

theorem Backup_complete_witness:
  "\<exists>v. folders_done ref_outside ref_backup_config ref_restic [] [''/data/pvc''] ref_backup_state v"
proof -
  obtain e r' w' where b: "Backup ref_outside ref_backup_config ref_restic ''/data'' [] ref_backup_state = (e, r', w')"
    by (metis prod_cases3)
  have n: "\<not> x_NotExist ref_outside ''/data'' ref_backup_state"
    and d: "x_ReadDir ref_outside ''/data'' ref_backup_state = Inr [(''pvc'', True), (''notes.txt'', False)]"
    by (simp_all add: ref_outside_def ref_backup_state_def)
  obtain v where v: "backup_loop ref_outside ref_backup_config ref_restic ''/data'' [] [(''pvc'', True), (''notes.txt'', False)] ref_backup_state = (None, v)"
    using ref_backup_loop [of ref_backup_config ref_restic "''/data''" "[]" "[(''pvc'', True), (''notes.txt'', False)]" ref_backup_state]
    by (metis prod.collapse)
  have "fst (sendSnapshotList ref_outside ref_backup_config ref_restic v) = None"
    by (simp add: sendSnapshotList_def ref_backup_config_def split: prod.splits)
  then have "e = None" using b n d v by (simp add: Backup_def)
  then have "Backup ref_outside ref_backup_config ref_restic ''/data'' [] ref_backup_state = (None, r', w')" using b by simp
  moreover have "subfolders ''/data'' [(''pvc'', True), (''notes.txt'', False)] = [''/data/pvc'']" by code_simp
  ultimately show ?thesis using Backup_complete [OF _ n d] by metis
qed

text \<open>
  The flags of a backup do not depend on the order in which Go iterates over the map of exclude
  and include options: in every order each option with values, and each of the two switches that are
  set, is appended to the flags that were there.
\<close>

theorem mixinBackupFlags_order:
  assumes "enumerates ord" "enumerates ord'" "finite (dom f)"
  shows "mixinBackupFlags ord c f = mixinBackupFlags ord' c f \<and>
    mixinBackupFlags ord c f k = (case mixed c k of Some v \<Rightarrow> Some (combine_value f k v) | None \<Rightarrow> f k)"
  using mixinBackupFlags_apply [OF assms(1,3)] mixinBackupFlags_apply [OF assms(2,3)] by (auto simp: fun_eq_iff)

theorem mixinBackupFlags_order_witness:
  "mixinBackupFlags key_order (ref_config\<lparr>rc_Exclude := [''*.tmp''], rc_OneFileSystem := True\<rparr>) [''--json'' \<mapsto> []] ''--exclude'' = Some [''*.tmp''] \<and>
   mixinBackupFlags (rev \<circ> key_order) (ref_config\<lparr>rc_Exclude := [''*.tmp''], rc_OneFileSystem := True\<rparr>) [''--json'' \<mapsto> []] =
   mixinBackupFlags key_order (ref_config\<lparr>rc_Exclude := [''*.tmp''], rc_OneFileSystem := True\<rparr>) [''--json'' \<mapsto> []]"
proof -
  have r: "enumerates (rev \<circ> key_order)" using key_order_enumerates by (simp add: enumerates_def)
  have "mixed (ref_config\<lparr>rc_Exclude := [''*.tmp''], rc_OneFileSystem := True\<rparr>) ''--exclude'' = Some [''*.tmp'']"
    by (simp add: mixed_def toMix_def)
  then show ?thesis
    using mixinBackupFlags_order [OF key_order_enumerates r, of "[''--json'' \<mapsto> []]"
        "ref_config\<lparr>rc_Exclude := [''*.tmp''], rc_OneFileSystem := True\<rparr>" "''--exclude''"]
    by (auto simp: combine_value_def)
qed

text \<open>
  The arguments of \<^verbatim>\<open>restic forget\<close> are \<^verbatim>\<open>--prune\<close>, each positive count and each
  given duration of the retention policy once with its flag, in some order, \<^verbatim>\<open>--keep-tag\<close> if
  tags are to be kept, and the host: no other policy is ever passed on.
\<close>

theorem prune_args_policy:
  assumes "enumerates ord"
  shows "\<exists>ns ws. prune_args ord c = [''--prune''] @ concat (map (\<lambda>(k, v). [k, Itoa v]) ns) @ concat (map (\<lambda>(k, v). [k, v]) ws) @
      (if rc_PruneKeepTags c then [''--keep-tag''] else []) @ (if rc_Hostname c \<noteq> [] then [''--host='' @ rc_Hostname c] else []) \<and>
    distinct (map fst ns) \<and> set ns = {(k, n). keepN_flags c k = Some n \<and> n > 0} \<and>
    distinct (map fst ws) \<and> set ws = {(k, d). keepWithin_flags c k = Some d \<and> d \<noteq> []}"
proof -
  have f: "finite (dom (keepN_flags c))" "finite (dom (keepWithin_flags c))"
    by (simp_all add: keepN_flags_def keepWithin_flags_def)
  let ?ns = "filter (\<lambda>(k, v). v > 0) (entries ord (keepN_flags c))"
  let ?ws = "filter (\<lambda>(k, v). v \<noteq> []) (entries ord (keepWithin_flags c))"
  show ?thesis
    by (rule exI [of _ ?ns], rule exI [of _ ?ws])
      (auto simp: prune_args_def keepN_args_loop_eq keepWithin_args_loop_eq
        set_entries [OF assms f(1)] set_entries [OF assms f(2)] filter_entries(1) [OF assms f(1)] filter_entries(1) [OF assms f(2)])
qed

theorem prune_args_policy_witness:
  "\<exists>ns. set ns = {(''--keep-last'', 5)} \<and> prune_args key_order (ref_config\<lparr>rc_PruneKeepLast := 5\<rparr>) =
     [''--prune''] @ concat (map (\<lambda>(k, v). [k, Itoa v]) ns) @ [''--host=prod'']"
proof -
  let ?c = "ref_config\<lparr>rc_PruneKeepLast := 5\<rparr>"
  have w: "{(k, d). keepWithin_flags ?c k = Some d \<and> d \<noteq> []} = {}"
    by (auto simp: keepWithin_flags_def ref_config_def default_restic_config_def split: if_splits)
  have n: "{(k, n). keepN_flags ?c k = Some n \<and> n > 0} = {(''--keep-last'', 5)}"
    by (auto simp: keepN_flags_def ref_config_def default_restic_config_def split: if_splits)
  show ?thesis
    using prune_args_policy [OF key_order_enumerates, of ?c] unfolding w n
    by (auto simp: ref_config_def default_restic_config_def)
qed

end
