(* ===== verification/Restic_Wait.thy ===== *)
theory Restic_Wait
  imports Restic_Ref
begin

text \<open>
  \<^verbatim>\<open>restic/cli/wait.go\<close>: when \<^verbatim>\<open>Wait\<close> returns. The function polls the locks of the
  repository and removes the stale ones until there is none; restic decides which locks are stale.
\<close>

text \<open>
  One round of the loop that finds a lock: the locks are listed, the stale ones removed, and the
  function sleeps. \<open>locked_round\<close> says that both commands worked and a lock was found,
  \<open>wait_round\<close> is the world after it.
\<close>

definition locked_round :: "'w outside \<Rightarrow> Restic \<Rightarrow> 'w \<Rightarrow> bool" where
  "locked_round X r v \<longleftrightarrow> (\<exists>l ls w1 w2. getLockList X r v = (None, l # ls, w1) \<and> Unlock X r False w1 = (None, w2))"

definition wait_round :: "'w outside \<Rightarrow> Restic \<Rightarrow> 'w \<Rightarrow> 'w" where
  "wait_round X r v = x_Sleep X 35000000000 (snd (Unlock X r False (snd (snd (getLockList X r v)))))"

lemma wait_loop_locked: "locked_round X r v \<Longrightarrow> wait_loop X r v = wait_loop X r (wait_round X r v)"
  by (subst wait_loop.simps) (auto simp: locked_round_def wait_round_def)

lemma wait_loop_rounds:
  "\<forall>k < n. locked_round X r ((wait_round X r ^^ k) v) \<Longrightarrow> wait_loop X r v = wait_loop X r ((wait_round X r ^^ n) v)"
proof (induction n)
  case (Suc n)
  then show ?case using wait_loop_locked [of X r "(wait_round X r ^^ n) v"] by simp
qed simp

lemma wait_loop_unlocked:
  assumes "\<not> locked_round X r v"
  shows "\<exists>y. wait_loop X r v = Some y" "wait_loop X r v = Some (None, w') \<longleftrightarrow> getLockList X r v = (None, [], w')"
proof -
  obtain e locks w1 where g: "getLockList X r v = (e, locks, w1)" by (metis prod_cases3)
  obtain e2 w2 where u: "Unlock X r False w1 = (e2, w2)" by fastforce
  have n: "e = None \<Longrightarrow> locks \<noteq> [] \<Longrightarrow> e2 \<noteq> None" using assms g u by (cases locks) (auto simp: locked_round_def)
  show "\<exists>y. wait_loop X r v = Some y" by (subst wait_loop.simps) (use n in \<open>auto simp: g u split: option.splits\<close>)
  show "wait_loop X r v = Some (None, w') \<longleftrightarrow> getLockList X r v = (None, [], w')"
    by (subst wait_loop.simps) (use n in \<open>auto simp: g u split: option.splits\<close>)
qed

lemma wait_loop_all_locked:
  assumes "\<forall>k. locked_round X r ((wait_round X r ^^ k) v)"
  shows "wait_loop X r v = None"
proof (rule wait_loop_blocks [where P = "\<lambda>w. \<exists>k. w = (wait_round X r ^^ k) v"])
  show "\<exists>k. v = (wait_round X r ^^ k) v" by (rule exI [of _ 0]) simp
  fix w
  assume "\<exists>k. w = (wait_round X r ^^ k) v"
  then obtain k where k: "w = (wait_round X r ^^ k) v" by blast
  obtain l ls w1 w2 where s: "getLockList X r w = (None, l # ls, w1)" "Unlock X r False w1 = (None, w2)"
    using spec [OF assms, of k] unfolding k locked_round_def by blast
  then have "x_Sleep X 35000000000 w2 = (wait_round X r ^^ Suc k) v" by (simp add: wait_round_def k [symmetric])
  then show "\<exists>l ls w1 w2. getLockList X r w = (None, l # ls, w1) \<and> Unlock X r False w1 = (None, w2) \<and>
      (\<exists>k. x_Sleep X 35000000000 w2 = (wait_round X r ^^ k) v)" using s by blast
qed

text \<open>The loop returns after the first round that is not locked.\<close>

lemma first_unlocked:
  assumes "\<not> (\<forall>k. locked_round X r ((wait_round X r ^^ k) v))"
  obtains n where "\<forall>k < n. locked_round X r ((wait_round X r ^^ k) v)" "\<not> locked_round X r ((wait_round X r ^^ n) v)"
  using assms exists_least_iff [of "\<lambda>k. \<not> locked_round X r ((wait_round X r ^^ k) v)"] by blast

lemma wait_loop_None: "wait_loop X r v = None \<longleftrightarrow> (\<forall>k. locked_round X r ((wait_round X r ^^ k) v))"
proof
  show "\<forall>k. locked_round X r ((wait_round X r ^^ k) v)" if "wait_loop X r v = None"
  proof (rule ccontr)
    assume "\<not> ?thesis"
    then obtain n where "\<forall>k < n. locked_round X r ((wait_round X r ^^ k) v)" "\<not> locked_round X r ((wait_round X r ^^ n) v)"
      by (rule first_unlocked)
    then show False using wait_loop_rounds wait_loop_unlocked(1) that by (metis option.distinct(1))
  qed
qed (rule wait_loop_all_locked)

lemma wait_loop_Some:
  "wait_loop X r v = Some (None, w') \<longleftrightarrow>
     (\<exists>n. (\<forall>k < n. locked_round X r ((wait_round X r ^^ k) v)) \<and> getLockList X r ((wait_round X r ^^ n) v) = (None, [], w'))"
proof
  assume l: "wait_loop X r v = Some (None, w')"
  then have "\<not> (\<forall>k. locked_round X r ((wait_round X r ^^ k) v))" using wait_loop_None by (metis option.distinct(1))
  then obtain n where n: "\<forall>k < n. locked_round X r ((wait_round X r ^^ k) v)" "\<not> locked_round X r ((wait_round X r ^^ n) v)"
    by (rule first_unlocked)
  then show "\<exists>n. (\<forall>k < n. locked_round X r ((wait_round X r ^^ k) v)) \<and> getLockList X r ((wait_round X r ^^ n) v) = (None, [], w')"
    using wait_loop_rounds [OF n(1)] wait_loop_unlocked(2) [OF n(2), of w'] l by (intro exI [of _ n]) simp
next
  assume "\<exists>n. (\<forall>k < n. locked_round X r ((wait_round X r ^^ k) v)) \<and> getLockList X r ((wait_round X r ^^ n) v) = (None, [], w')"
  then obtain n where n: "\<forall>k < n. locked_round X r ((wait_round X r ^^ k) v)" "getLockList X r ((wait_round X r ^^ n) v) = (None, [], w')"
    by blast
  then have "\<not> locked_round X r ((wait_round X r ^^ n) v)" by (simp add: locked_round_def)
  from wait_loop_rounds [OF n(1)] wait_loop_unlocked(2) [OF this, of w'] n(2) show "wait_loop X r v = Some (None, w')" by simp
qed

lemma Wait_free: "Wait X r w = Some (None, w') \<Longrightarrow> \<exists>v. getLockList X r v = (None, [], w')"
  using wait_loop_result by (fastforce simp: Wait_def split: prod.splits option.splits)

section \<open>The reference repository\<close>

lemma scan_newline_line: "newline \<notin> set l \<Longrightarrow> length l < MaxScanTokenSize \<Longrightarrow> scan_lines (l @ [newline]) = [dropCR l]"
  by (simp add: scan_lines_def raw_lines_newline Split_single)

lemma fold_locklist:
  assumes "co_StdOut opts = Some locklist_sink"
  shows "fold (sinks_of opts) (map (\<lambda>_. (Stdout, lock_line)) ns) (ls, w) = (ls @ map (\<lambda>_. ''lock'') ns, w)"
proof -
  have "scan_lines lock_line = [''lock'']"
    unfolding lock_line_def using scan_newline_line [of "''lock''"] by (simp add: MaxScanTokenSize_def dropCR_def)
  then show ?thesis
    using assms by (induction ns arbitrary: ls) (simp_all add: sinks_of_def locklist_sink_def)
qed

lemma ref_simps [simp]: "x_Exec ref_outside = ref_exec" "x_Ord ref_outside = key_order" "x_Environ ref_outside = (\<lambda>_. [])"
  "x_Sleep ref_outside = (\<lambda>_ w. w\<lparr>rf_Locks := map (\<lambda>n. n - 1) (rf_Locks w)\<rparr>)"
  by (simp_all add: ref_outside_def)

lemma ref_getLockList:
  "\<exists>runs. getLockList ref_outside r w = (None, map (\<lambda>_. ''lock'') (rf_Locks w), w\<lparr>rf_Runs := runs\<rparr>)"
  by (simp add: getLockList_def run_command_eq ref_exec_def ok_process_def fold_locklist Let_def) blast

lemma ref_Unlock:
  "\<exists>runs. Unlock ref_outside r False w = (None, w\<lparr>rf_Runs := runs, rf_Locks := filter (\<lambda>n. 0 < n) (rf_Locks w)\<rparr>)"
  by (auto simp: Unlock_def log_command_def run_command_eq ref_exec_def ok_process_def Let_def)

lemma lock_round: "ns \<noteq> [] \<Longrightarrow> sum_list (map Suc (map (\<lambda>n. n - 1) (filter (\<lambda>n. 0 < n) ns))) < sum_list (map Suc ns)"
proof (induction ns)
  case (Cons n ns)
  then show ?case by (cases "ns = []"; cases n) auto
qed simp

lemma ref_wait_round:
  "rf_Locks (wait_round ref_outside r w) = map (\<lambda>n. n - 1) (filter (\<lambda>n. 0 < n) (rf_Locks w))"
  "locked_round ref_outside r w \<longleftrightarrow> rf_Locks w \<noteq> []"
proof -
  obtain runs where g: "getLockList ref_outside r w = (None, map (\<lambda>_. ''lock'') (rf_Locks w), w\<lparr>rf_Runs := runs\<rparr>)"
    using ref_getLockList by blast
  obtain runs' where u: "Unlock ref_outside r False (w\<lparr>rf_Runs := runs\<rparr>) =
      (None, w\<lparr>rf_Runs := runs', rf_Locks := filter (\<lambda>n. 0 < n) (rf_Locks w)\<rparr>)"
    using ref_Unlock [of r "w\<lparr>rf_Runs := runs\<rparr>"] by auto
  show "rf_Locks (wait_round ref_outside r w) = map (\<lambda>n. n - 1) (filter (\<lambda>n. 0 < n) (rf_Locks w))"
    by (simp add: wait_round_def g u)
  show "locked_round ref_outside r w \<longleftrightarrow> rf_Locks w \<noteq> []"
    by (cases "rf_Locks w") (simp_all add: locked_round_def g u)
qed

text \<open>In the reference repository every lock ends.\<close>

lemma ref_Wait_returns: "\<exists>err w'. Wait ref_outside r w = Some (err, w')"
proof -
  have "sum_list (map Suc (rf_Locks (x_Sleep ref_outside 35000000000 w2))) < sum_list (map Suc (rf_Locks w))"
    if g: "getLockList ref_outside r w = (None, l # ls, w1)" and u: "Unlock ref_outside r False w1 = (None, w2)" for w l ls w1 w2
  proof -
    have l: "rf_Locks w1 = rf_Locks w" "rf_Locks w \<noteq> []" using ref_getLockList [of r w] g by auto
    have "rf_Locks w2 = filter (\<lambda>n. 0 < n) (rf_Locks w1)" using ref_Unlock [of r w1] u by auto
    then show ?thesis using lock_round [OF l(2)] l(1) by simp
  qed
  then have "wait_loop ref_outside r v \<noteq> None" for v
    by (rule wait_loop_returns [where \<mu> = "\<lambda>w. sum_list (map Suc (rf_Locks w))"])
  then show ?thesis
    by (cases "Unlock ref_outside r False w") (auto simp: Wait_def split: option.splits)
qed

section \<open>Properties\<close>

text \<open>
  C35. When \<^verbatim>\<open>Wait\<close> returns. It returns without an error exactly when the first removal of
  stale locks works and then, after some number of rounds that each found a lock and removed the
  stale ones, a round finds no lock; it never returns before. It does not return exactly when the
  first removal works and every round finds a lock and no command fails. In all other cases it
  returns an error. No limit on the time is part of the function: whether the locks of others go
  away is up to them.
\<close>

theorem Wait_returns:
  "(Wait X r w = Some (None, w') \<longleftrightarrow>
      (\<exists>w0 n. Unlock X r False w = (None, w0) \<and> (\<forall>k < n. locked_round X r ((wait_round X r ^^ k) w0)) \<and>
         getLockList X r ((wait_round X r ^^ n) w0) = (None, [], w'))) \<and>
   (Wait X r w = None \<longleftrightarrow>
      (\<exists>w0. Unlock X r False w = (None, w0) \<and> (\<forall>k. locked_round X r ((wait_round X r ^^ k) w0))))"
proof (cases "fst (Unlock X r False w)")
  case None
  then obtain w0 where "Unlock X r False w = (None, w0)" by (metis prod.collapse)
  then show ?thesis by (simp add: Wait_def wait_loop_Some wait_loop_None)
next
  case (Some e)
  then obtain w0 where "Unlock X r False w = (Some e, w0)" by (metis prod.collapse)
  then show ?thesis by (simp add: Wait_def)
qed

theorem Wait_returns_witness:
  "\<exists>w'. Wait ref_outside ref_restic (ref_empty\<lparr>rf_Locks := [3, 1]\<rparr>) = Some (None, w') \<and> rf_Locks w' = []"
proof -
  let ?w = "ref_empty\<lparr>rf_Locks := [3, 1]\<rparr>" and ?round = "wait_round ref_outside ref_restic"
  obtain w0 where u: "Unlock ref_outside ref_restic False ?w = (None, w0)" "rf_Locks w0 = [3, 1]"
    using ref_Unlock [of ref_restic ?w] by auto
  have l: "rf_Locks ((?round ^^ 1) w0) = [2, 0]" "rf_Locks ((?round ^^ 2) w0) = [1]" "rf_Locks ((?round ^^ 3) w0) = [0]"
      "rf_Locks ((?round ^^ 4) w0) = []"
    by (simp_all add: ref_wait_round u(2) numeral_eq_Suc)
  have lr: "\<forall>k < 4. locked_round ref_outside ref_restic ((?round ^^ k) w0)"
    using l u(2) by (auto simp: ref_wait_round(2) numeral_eq_Suc less_Suc_eq)
  obtain w' where g: "getLockList ref_outside ref_restic ((?round ^^ 4) w0) = (None, [], w')" "rf_Locks w' = []"
    using ref_getLockList [of ref_restic "(?round ^^ 4) w0"] l(4) by auto
  have "Wait ref_outside ref_restic ?w = Some (None, w')"
    using Wait_returns [of ref_outside ref_restic ?w w', THEN conjunct1] u(1) lr g(1) by blast
  then show ?thesis using g(2) by blast
qed

end
