(* ===== verification/Restic_Main.thy ===== *)
theory Restic_Main
  imports Restic_Restore Restic_Backup Restic_Wait
begin

text \<open>
  \<^verbatim>\<open>cmd/restic/main.go\<close>: one run of the restic module, from the configuration to the end of
  its task, with \<^verbatim>\<open>restic/kubernetes/pod_exec.go\<close>. A run that waits for ever for the locks of
  the repository is \<open>None\<close>.
\<close>

text \<open>Wrapping an error; a panic passes through.\<close>

fun wrap_err :: "string \<Rightarrow> gerr \<Rightarrow> gerr" where
  "wrap_err m (Panic p) = Panic p"
| "wrap_err m e = Wrapped m e"

definition wrapped :: "string \<Rightarrow> gerr option \<times> 'b \<Rightarrow> gerr option \<times> 'b" where
  "wrapped m res = (map_option (wrap_err m) (fst res), snd res)"

section \<open>Tasks\<close>

definition resticInitialization :: "'w outside \<Rightarrow> ResticConfiguration \<Rightarrow> Restic \<Rightarrow> 'w \<Rightarrow> gerr option \<times> Restic \<times> 'w" where
  "resticInitialization X c r w =
     (let w = (if rc_SleepDuration c > 0 then x_Sleep X (rc_SleepDuration c) w else w)
      in case wrapped ''failed to initialise the restic repository'' (Init X r w) of
           (Some err, w) \<Rightarrow> (Some err, r, w)
         | (None, w) \<Rightarrow>
            (case Unlock X r False w of (_, w) \<Rightarrow>
               wrapped ''failed to list snapshots'' (Snapshots X r [] [] w)))"

definition waitForEndOfConcurrentOperations ::
  "'w outside \<Rightarrow> ResticConfiguration \<Rightarrow> Restic \<Rightarrow> 'w \<Rightarrow> (gerr option \<times> 'w) option" where
  "waitForEndOfConcurrentOperations X c r w =
     (if rc_DoPrune c \<or> rc_DoCheck c
      then map_option (wrapped ''failed to list repository locks'') (Wait X r w)
      else Some (None, w))"

definition doPrune :: "'w outside \<Rightarrow> ResticConfiguration \<Rightarrow> Restic \<Rightarrow> 'w \<Rightarrow> gerr option \<times> Restic \<times> 'w" where
  "doPrune X c r w =
     (if rc_DoPrune c then wrapped ''prune job failed'' (Prune X c r (rc_Tags c) w) else (None, r, w))"

definition doCheck :: "'w outside \<Rightarrow> ResticConfiguration \<Rightarrow> Restic \<Rightarrow> 'w \<Rightarrow> gerr option \<times> Restic \<times> 'w" where
  "doCheck X c r w =
     (if rc_DoCheck c then (case wrapped ''check job failed'' (Restic_Cli.Check X r w) of (err, w) \<Rightarrow> (err, r, w)) else (None, r, w))"

definition fillRestoreS3Cert :: "ResticConfiguration \<Rightarrow> S3Cert" where
  "fillRestoreS3Cert c =
     (let cert = \<lparr>s3c_CACert = [], s3c_ClientCert = [], s3c_ClientKey = []\<rparr>;
          cert = (if rc_RestoreCACert c \<noteq> [] then cert\<lparr>s3c_CACert := rc_RestoreCACert c\<rparr> else cert)
      in if rc_RestoreClientCert c \<noteq> [] \<and> rc_RestoreClientKey c \<noteq> []
         then cert\<lparr>s3c_ClientCert := rc_RestoreClientCert c, s3c_ClientKey := rc_RestoreClientKey c\<rparr> else cert)"

definition s3_destination :: "ResticConfiguration \<Rightarrow> S3Bucket" where
  "s3_destination c = \<lparr>s3b_Endpoint = rc_RestoreS3Endpoint c, s3b_AccessKey = rc_RestoreS3AccessKey c,
     s3b_SecretKey = rc_RestoreS3SecretKey c, s3b_Cert = fillRestoreS3Cert c\<rparr>"

definition doRestoreTask :: "'w outside \<Rightarrow> ResticConfiguration \<Rightarrow> Restic \<Rightarrow> 'w \<Rightarrow> gerr option \<times> Restic \<times> 'w" where
  "doRestoreTask X c r w =
     (if \<not> rc_DoRestore c then (None, r, w)
      else wrapped ''restore job failed'' (Restore X c r (rc_RestoreSnap c)
        \<lparr>ro_RestoreType = rc_RestoreType c, ro_RestoreDir = rc_RestoreDir c, ro_RestoreFilter = rc_RestoreFilter c,
         ro_RestoreTimeFilter = rc_RestoreTimeFilter c, ro_Delete = rc_Delete c, ro_Verify = rc_VerifyRestore c,
         ro_S3Destination = s3_destination c\<rparr> (rc_Tags c) (rc_Paths c) w))"

definition doArchive :: "'w outside \<Rightarrow> ResticConfiguration \<Rightarrow> Restic \<Rightarrow> 'w \<Rightarrow> gerr option \<times> Restic \<times> 'w" where
  "doArchive X c r w =
     (if \<not> rc_DoArchive c then (None, r, w)
      else wrapped ''archive job failed'' (Archive X c r
        \<lparr>ro_RestoreType = rc_RestoreType c, ro_RestoreDir = rc_RestoreDir c, ro_RestoreFilter = rc_RestoreFilter c,
         ro_RestoreTimeFilter = [], ro_Delete = False, ro_Verify = rc_VerifyRestore c,
         ro_S3Destination = s3_destination c\<rparr> (rc_Tags c) (rc_Paths c) w))"

definition doNonBackupTasks :: "'w outside \<Rightarrow> ResticConfiguration \<Rightarrow> Restic \<Rightarrow> 'w \<Rightarrow> gerr option \<times> Restic \<times> 'w" where
  "doNonBackupTasks X c r w =
     (case doPrune X c r w of
        (Some err, r, w) \<Rightarrow> (Some err, r, w)
      | (None, r, w) \<Rightarrow>
         (case doCheck X c r w of
            (Some err, r, w) \<Rightarrow> (Some err, r, w)
          | (None, r, w) \<Rightarrow>
             (case doRestoreTask X c r w of
                (Some err, r, w) \<Rightarrow> (Some err, r, w)
              | (None, r, w) \<Rightarrow> doArchive X c r w)))"

section \<open>Backups\<close>

text \<open>
  \<^verbatim>\<open>PodExec\<close> ignores the error of \<^verbatim>\<open>getClientConfig\<close>, and the client for a nil configuration
  panics. The output is streamed while restic reads it; here it is handed on as a whole. A stream
  that breaks ends the process with exit code 1, which is a \<open>Panic\<close>: what restic makes of the part
  it has read until then is left out.
\<close>

definition exec_request_of :: "'w outside \<Rightarrow> BackupPod \<Rightarrow> exec_request" where
  "exec_request_of X pod = \<lparr>er_Pod = bp_PodName pod, er_Namespace = bp_Namespace pod,
     er_Command = x_SplitCommand X (bp_Command pod), er_Container = bp_ContainerName pod,
     er_Stdin = False, er_Stdout = True, er_Stderr = True, er_TTY = False\<rparr>"

definition spdy_fallback :: "'w outside \<Rightarrow> ResticConfiguration \<Rightarrow> exec_request \<Rightarrow> gerr option" where
  "spdy_fallback X c req =
     (if rc_InsecureAllowPodExecSPDYFallback c
      then (case x_NewSPDYExecutor X req of
              Some err \<Rightarrow> Some err
            | None \<Rightarrow> x_NewFallbackExecutor X req)
      else None)"

definition stream_output :: "'w outside \<Rightarrow> ResticConfiguration \<Rightarrow> exec_request \<Rightarrow> 'w \<Rightarrow> string result \<times> 'w" where
  "stream_output X c req w =
     (case x_Stream X (rc_InsecureAllowPodExecSPDYFallback c) req w of
        ((data, Some err), w) \<Rightarrow> (Inl (Panic ''exit status 1''), w)
      | ((data, None), w) \<Rightarrow> (Inr data, w))"

definition PodExec :: "'w outside \<Rightarrow> ResticConfiguration \<Rightarrow> BackupPod \<Rightarrow> 'w \<Rightarrow> string result \<times> 'w" where
  "PodExec X c pod w =
     (case getClientConfig X c w of
        Some _ \<Rightarrow> (Inl (Panic ''nil pointer dereference''), w)
      | None \<Rightarrow>
     (case x_KubeNewForConfig X w of
        Some err \<Rightarrow> (Inl (wrap_err (''can'' @ [CHR 0x27] @ ''t create k8s for exec'') err), w)
      | None \<Rightarrow>
     (case x_AddToScheme X of
        Some err \<Rightarrow> (Inl (wrap_err (''can'' @ [CHR 0x27] @ ''t add runtime scheme'') err), w)
      | None \<Rightarrow>
     (let req = exec_request_of X pod
      in case x_NewWebSocketExecutor X req of
           Some err \<Rightarrow> (Inl err, w)
         | None \<Rightarrow>
            (case spdy_fallback X c req of
               Some err \<Rightarrow> (Inl err, w)
             | None \<Rightarrow> stream_output X c req w)))))"

definition stdin_filename :: "string \<Rightarrow> BackupPod \<Rightarrow> string" where
  "stdin_filename hostname pod = ''/'' @ hostname @ ''-'' @ bp_ContainerName pod"

definition backupAnnotatedPod ::
  "'w outside \<Rightarrow> ResticConfiguration \<Rightarrow> Restic \<Rightarrow> BackupPod \<Rightarrow> string \<Rightarrow> 'w \<Rightarrow> gerr option \<times> 'w" where
  "backupAnnotatedPod X c r pod hostname w =
     (case PodExec X c pod w of
        (Inl err, w) \<Rightarrow> (Some (wrap_err ''error occurred during data stream from k8s'' err), w)
      | (Inr data, w) \<Rightarrow>
         wrapped ''backup commands failed'' (StdinBackup X c r data (stdin_filename hostname pod) (bp_FileExtension pod) (rc_Tags c) w))"

fun pods_loop ::
  "'w outside \<Rightarrow> ResticConfiguration \<Rightarrow> Restic \<Rightarrow> BackupPod list \<Rightarrow> 'w \<Rightarrow> gerr option \<times> 'w" where
  "pods_loop X c r [] w = (None, w)"
| "pods_loop X c r (pod # podList) w =
     (case backupAnnotatedPod X c r pod (rc_Hostname c) w of
        (Some err, w) \<Rightarrow> (Some err, w)
      | (None, w) \<Rightarrow> pods_loop X c r podList w)"

definition pod_lister :: "ResticConfiguration \<Rightarrow> PodLister" where
  "pod_lister c = NewPodLister (rc_BackupCommandAnnotation c) (rc_BackupFileExtensionAnnotation c)
     (rc_BackupContainerAnnotation c) (rc_Hostname c) (rc_TargetPods c) (rc_SkipPreBackup c)"

definition backupAnnotatedPods :: "'w outside \<Rightarrow> ResticConfiguration \<Rightarrow> Restic \<Rightarrow> 'w \<Rightarrow> gerr option \<times> 'w" where
  "backupAnnotatedPods X c r w =
     (if x_StatFails X ''/var/run/secrets/kubernetes.io'' w \<and> x_StatFails X (rc_KubeConfig c) w then (None, w)
      else case NewTypedClient X c w of
             Some err \<Rightarrow> (Some (wrap_err ''could not create kubernetes client'' err), w)
           | None \<Rightarrow>
              (case ListPods (x_Kube X) (pod_lister c) w of
                 (Inl err, w) \<Rightarrow> (Some (wrap_err ''could not list pods'' err), w)
               | (Inr podList, w) \<Rightarrow> pods_loop X c r podList w))"

definition doBackup :: "'w outside \<Rightarrow> ResticConfiguration \<Rightarrow> Restic \<Rightarrow> 'w \<Rightarrow> gerr option \<times> Restic \<times> 'w" where
  "doBackup X c r w =
     (case wrapped ''backup of annotated pods failed'' (backupAnnotatedPods X c r w) of
        (Some err, w) \<Rightarrow> (Some err, r, w)
      | (None, w) \<Rightarrow>
         wrapped (''backup job failed in dir '' @ [CHR 0x27] @ rc_BackupDir c @ [CHR 0x27])
           (Backup X c r (rc_BackupDir c) (rc_Tags c) w))"

section \<open>The run\<close>

definition run :: "'w outside \<Rightarrow> ResticConfiguration \<Rightarrow> Restic \<Rightarrow> 'w \<Rightarrow> (gerr option \<times> Restic \<times> 'w) option" where
  "run X c r w =
     (case resticInitialization X c r w of
        (Some err, r, w) \<Rightarrow> Some (Some err, r, w)
      | (None, r, w) \<Rightarrow>
         (case waitForEndOfConcurrentOperations X c r w of
            None \<Rightarrow> None
          | Some (Some err, w) \<Rightarrow> Some (Some err, r, w)
          | Some (None, w) \<Rightarrow>
             (if rc_DoPrune c \<or> rc_DoCheck c \<or> rc_DoRestore c \<or> rc_DoArchive c
              then Some (doNonBackupTasks X c r w)
              else Some (doBackup X c r w))))"

text \<open>\<^verbatim>\<open>resticMain\<close>; \<open>slices\<close> are the values of the flags that may be given several times.\<close>

definition slice_flags :: "(string \<Rightarrow> string list) \<Rightarrow> ResticConfiguration \<Rightarrow> ResticConfiguration" where
  "slice_flags slices c = c\<lparr>
     rc_Tags := slices ''tag'',
     rc_Paths := SplitAtComma (slices ''path''),
     rc_TargetPods := SplitAtComma (slices ''targetPods''),
     rc_Exclude := SplitAtComma (slices ''exclude''),
     rc_ExcludeFile := SplitAtComma (slices ''excludeFile''),
     rc_ExcludeIfPresent := SplitAtComma (slices ''excludeIfPresent''),
     rc_FilesFrom := SplitAtComma (slices ''filesFrom''),
     rc_FilesFromRaw := SplitAtComma (slices ''filesFromRaw''),
     rc_FilesFromVerbatim := SplitAtComma (slices ''filesFromVerbatim''),
     rc_IExclude := SplitAtComma (slices ''iExclude''),
     rc_IExcludeFile := SplitAtComma (slices ''iExcludeFile'')\<rparr>"

definition resticMain ::
  "'w outside \<Rightarrow> ResticConfiguration \<Rightarrow> (string \<Rightarrow> string list) \<Rightarrow> 'w \<Rightarrow> (gerr option \<times> Restic option \<times> 'w) option" where
  "resticMain X c0 slices w =
     (case Validate (x_Ord X) (x_ParseDuration X) (slice_flags slices c0) of
        (Some err, c) \<Rightarrow> Some (Some err, None, w)
      | (None, c) \<Rightarrow>
         (let statHandler = NewHandler (rc_PromURL c) (rc_ClusterName c) (rc_Hostname c) (rc_WebhookURL c);
              resticCLI = New X c statHandler
          in map_option (\<lambda>(err, r, w). (err, Some r, w)) (run X c resticCLI w)))"

section \<open>Lemmas\<close>

lemma wrapped_None [simp]: "wrapped m res = (None, x) \<longleftrightarrow> res = (None, x)"
  by (cases res) (auto simp: wrapped_def)

lemma wrapped_None_case:
  "(case wrapped m res of (Some e, s) \<Rightarrow> f e s | (None, s) \<Rightarrow> g s) =
   (case res of (Some e, s) \<Rightarrow> f (wrap_err m e) s | (None, s) \<Rightarrow> g s)"
  by (cases res) (auto simp: wrapped_def split: option.splits)

text \<open>
  The data that is backed up for a pod is the whole output of its command, run without a terminal
  in the container that was listed.
\<close>

lemma PodExec_output:
  assumes "PodExec X c pod w = (Inr data, v)"
  shows "x_Stream X (rc_InsecureAllowPodExecSPDYFallback c) (exec_request_of X pod) w = ((data, None), v)"
  using assms by (auto simp: PodExec_def stream_output_def Let_def split: option.splits prod.splits)

fun pods_done :: "'w outside \<Rightarrow> ResticConfiguration \<Rightarrow> Restic \<Rightarrow> BackupPod list \<Rightarrow> 'w \<Rightarrow> 'w \<Rightarrow> bool" where
  "pods_done X c r [] w w' \<longleftrightarrow> w = w'"
| "pods_done X c r (pod # pods) w w' \<longleftrightarrow>
     (\<exists>data v v1 v2. x_Stream X (rc_InsecureAllowPodExecSPDYFallback c) (exec_request_of X pod) w = ((data, None), v) \<and>
        backup_process X r (stdin_args X c r (stdin_filename (rc_Hostname c) pod @ bp_FileExtension pod) (rc_Tags c)) (Some data) v v1 \<and>
        StdinBackup X c r data (stdin_filename (rc_Hostname c) pod) (bp_FileExtension pod) (rc_Tags c) v = (None, v2) \<and>
        pods_done X c r pods v2 w')"

lemma pods_loop_done: "pods_loop X c r pods w = (None, w') \<Longrightarrow> pods_done X c r pods w w'"
proof (induction X c r pods w rule: pods_loop.induct)
  case (2 X c r pod pods w)
  obtain v2 where v2: "backupAnnotatedPod X c r pod (rc_Hostname c) w = (None, v2)" "pods_loop X c r pods v2 = (None, w')"
    using 2(2) by (auto split: prod.splits option.splits)
  obtain data v where d: "PodExec X c pod w = (Inr data, v)"
      "StdinBackup X c r data (stdin_filename (rc_Hostname c) pod) (bp_FileExtension pod) (rc_Tags c) v = (None, v2)"
    using v2(1) by (auto simp: backupAnnotatedPod_def split: prod.splits sum.splits)
  have "pods_done X c r pods v2 w'" using 2(1) [OF v2(1) [symmetric] refl v2(2)] .
  then show ?case using PodExec_output [OF d(1)] d(2) StdinBackup_done [OF d(2)] by auto
qed simp

text \<open>The backups of the annotated pods, with no pods at all where there are no credentials.\<close>

definition annotated_done :: "'w outside \<Rightarrow> ResticConfiguration \<Rightarrow> Restic \<Rightarrow> 'w \<Rightarrow> 'w \<Rightarrow> bool" where
  "annotated_done X c r w w' \<longleftrightarrow>
     (if x_StatFails X ''/var/run/secrets/kubernetes.io'' w \<and> x_StatFails X (rc_KubeConfig c) w then w' = w
      else \<exists>pods v. ListPods (x_Kube X) (pod_lister c) w = (Inr pods, v) \<and> pods_done X c r pods v w')"

lemma backupAnnotatedPods_done: "backupAnnotatedPods X c r w = (None, w') \<Longrightarrow> annotated_done X c r w w'"
  by (auto simp: backupAnnotatedPods_def annotated_done_def split: if_splits option.splits prod.splits sum.splits
      dest: pods_loop_done)

lemma run_initialised:
  assumes "run X c r w = Some (None, r', w')"
  shows "\<exists>r1 w1. resticInitialization X c r w = (None, r1, w1) \<and>
    (\<exists>w2. waitForEndOfConcurrentOperations X c r1 w1 = Some (None, w2) \<and>
      (if rc_DoPrune c \<or> rc_DoCheck c \<or> rc_DoRestore c \<or> rc_DoArchive c
       then doNonBackupTasks X c r1 w2 else doBackup X c r1 w2) = (None, r', w'))"
  using assms by (auto simp: run_def split: prod.splits option.splits if_splits)

section \<open>Properties\<close>

text \<open>
  C36. A run without a special task that ends without an error has initialised the repository, has
  backed up the output of the command of every annotated pod that was listed, and has backed up
  every directory in the backup directory, unless that does not exist.
\<close>

theorem run_backup_complete:
  assumes "run X c r w = Some (None, r', w')" "\<not> (rc_DoPrune c \<or> rc_DoCheck c \<or> rc_DoRestore c \<or> rc_DoArchive c)"
  shows "\<exists>r1 w1 w2. resticInitialization X c r w = (None, r1, w1) \<and> annotated_done X c r1 w1 w2 \<and>
    (x_NotExist X (rc_BackupDir c) w2 \<or>
     (\<exists>files v. x_ReadDir X (rc_BackupDir c) w2 = Inr files \<and>
        folders_done X c r1 (rc_Tags c) (subfolders (rc_BackupDir c) files) w2 v))"
proof -
  obtain r1 w1 where i: "resticInitialization X c r w = (None, r1, w1)" and b: "doBackup X c r1 w1 = (None, r', w')"
    using run_initialised [OF assms(1)] assms(2) by (auto simp: waitForEndOfConcurrentOperations_def)
  obtain w2 where p: "backupAnnotatedPods X c r1 w1 = (None, w2)"
      and f: "Backup X c r1 (rc_BackupDir c) (rc_Tags c) w2 = (None, r', w')"
    using b by (auto simp: doBackup_def wrapped_None_case split: prod.splits option.splits)
  show ?thesis
    using i backupAnnotatedPods_done [OF p] Backup_folders [OF f] by blast
qed

text \<open>
  C37. A prune or check that reports success started when the repository was seen without locks: the
  tasks of the run begin in the state in which the last look at the locks found none.
\<close>

theorem run_waits_for_locks:
  assumes "run X c r w = Some (None, r', w')" "rc_DoPrune c \<or> rc_DoCheck c"
  shows "\<exists>r1 w1 w2 v. resticInitialization X c r w = (None, r1, w1) \<and> getLockList X r1 v = (None, [], w2) \<and>
    doNonBackupTasks X c r1 w2 = (None, r', w')"
proof -
  obtain r1 w1 w2 where i: "resticInitialization X c r w = (None, r1, w1)"
      and l: "Wait X r1 w1 = Some (None, w2)" and t: "doNonBackupTasks X c r1 w2 = (None, r', w')"
    using run_initialised [OF assms(1)] assms(2)
    by (auto simp: waitForEndOfConcurrentOperations_def wrapped_def split: if_splits)
  then show ?thesis using Wait_free [OF l] by blast
qed

section \<open>Runs on the reference repository\<close>

lemma ref_run_command_ok: "fst (run_command ref_outside opts l w) = None"
  by (auto simp: run_command_eq ref_exec_def ok_process_def Let_def split: prod.splits)

lemma ref_command_result:
  assumes "run_command ref_outside opts l w = (e, l', w')"
  shows "e = None"
  using ref_run_command_ok [of opts l w] assms by simp

lemma ref_Init: "r_clientCert r = zero_clientCert \<Longrightarrow> fst (Init ref_outside r w) = None"
  by (auto simp: Init_def split: prod.splits dest: ref_command_result)

lemma ref_decode [simp]: "x_DecodeSnapshots ref_outside = (\<lambda>t. Inr (map ref_snapshot (raw_lines t)))"
  by (simp add: ref_outside_def)

lemma ref_Snapshots: "fst (Snapshots ref_outside r tags paths w) = None"
  by (auto simp: Snapshots_def listSnapshots_def split: prod.splits dest: ref_command_result)

lemma ref_Check: "fst (Restic_Cli.Check ref_outside r w) = None"
  by (auto simp: Restic_Cli.Check_def log_command_def split: prod.splits dest: ref_command_result)

lemma ref_initialization:
  assumes "r_clientCert r = zero_clientCert"
  shows "\<exists>r1 w1. resticInitialization ref_outside c r w = (None, r1, w1)"
proof -
  let ?w = "if rc_SleepDuration c > 0 then x_Sleep ref_outside (rc_SleepDuration c) w else w"
  obtain w1 where "Init ref_outside r ?w = (None, w1)" using ref_Init [OF assms, of ?w] by (metis prod.collapse)
  moreover obtain e w2 where "Unlock ref_outside r False w1 = (e, w2)" by fastforce
  moreover obtain r3 w3 where "Snapshots ref_outside r [] [] w2 = (None, r3, w3)"
    using ref_Snapshots [of r "[]" "[]" w2] by (metis prod.collapse)
  ultimately show ?thesis by (simp add: resticInitialization_def wrapped_def Let_def)
qed

lemma ref_lock_commands:
  "getLockList ref_outside r w \<noteq> (Some e, ls, w')" "Unlock ref_outside r False w \<noteq> (Some e, w')"
  using ref_getLockList [of r w] ref_Unlock [of r w] by auto

lemma ref_wait_loop:
  assumes "wait_loop X r w = Some y" "X = ref_outside"
  shows "fst y = None"
proof -
  have "X = ref_outside \<longrightarrow> fst y = None"
    by (rule wait_loop.raw_induct [where P = "\<lambda>X r w y. X = ref_outside \<longrightarrow> fst y = None", OF _ assms(1)])
      (auto simp: ref_lock_commands split: prod.splits option.splits if_splits)
  then show ?thesis using assms(2) by blast
qed

lemma ref_wait: "Wait ref_outside r w = Some (e, w') \<Longrightarrow> e = None"
  using ref_wait_loop [OF _ refl] by (fastforce simp: Wait_def ref_lock_commands split: prod.splits option.splits)

lemma ref_exists: "\<not> x_NotExist ref_outside dir w"
  by (simp add: ref_outside_def)

lemma ref_backup_run:
  "\<exists>r' w'. Backup ref_outside ref_backup_config r dir tags w = (None, r', w')"
proof -
  obtain v where v: "backup_loop ref_outside ref_backup_config r dir tags (rf_Dir w) w = (None, v)"
    using ref_backup_loop [of ref_backup_config r dir tags "rf_Dir w" w] by (metis prod.collapse)
  have d: "x_ReadDir ref_outside dir w = Inr (rf_Dir w)"
    by (simp add: ref_outside_def)
  obtain e r' w' where s: "sendSnapshotList ref_outside ref_backup_config r v = (e, r', w')" by (metis prod_cases3)
  have "fst (sendSnapshotList ref_outside ref_backup_config r v) = None"
    by (simp add: sendSnapshotList_def ref_backup_config_def split: prod.splits)
  then show ?thesis using v d s by (simp add: Backup_def ref_exists)
qed

lemma ref_config_tasks:
  "rc_DoPrune ref_config = False" "rc_DoCheck ref_config = False" "rc_DoRestore ref_config = False" "rc_DoArchive ref_config = False"
  "rc_BackupDir ref_config = ''/data''" "rc_Tags ref_config = []" "r_clientCert ref_restic = zero_clientCert"
  by (simp_all add: ref_config_def default_restic_config_def ref_restic_def New_def Let_def zero_clientCert_def)

theorem run_backup_complete_witness:
  "\<exists>r1 w1 w2 files v. resticInitialization ref_outside ref_backup_config ref_restic ref_backup_state = (None, r1, w1) \<and>
     annotated_done ref_outside ref_backup_config r1 w1 w2 \<and>
     folders_done ref_outside ref_backup_config r1 [] (subfolders ''/data'' files) w2 v"
proof -
  let ?c = ref_backup_config
  have t: "\<not> (rc_DoPrune ?c \<or> rc_DoCheck ?c \<or> rc_DoRestore ?c \<or> rc_DoArchive ?c)" "rc_BackupDir ?c = ''/data''" "rc_Tags ?c = []"
    by (simp_all add: ref_backup_config_def ref_config_tasks)
  obtain r1 w1 where i: "resticInitialization ref_outside ?c ref_restic ref_backup_state = (None, r1, w1)"
    using ref_initialization ref_config_tasks(7) by blast
  obtain r' w' where b: "Backup ref_outside ?c r1 ''/data'' [] w1 = (None, r', w')" using ref_backup_run by blast
  have "backupAnnotatedPods ref_outside ?c r1 w1 = (None, w1)" by (simp add: backupAnnotatedPods_def ref_outside_def)
  then have "run ref_outside ?c ref_restic ref_backup_state = Some (None, r', w')"
    using i b t by (simp add: run_def waitForEndOfConcurrentOperations_def doBackup_def wrapped_def)
  from run_backup_complete [OF this t(1)] show ?thesis unfolding t(2,3) using ref_exists by blast
qed

theorem run_waits_for_locks_witness:
  "\<exists>r1 w1 w2 v. resticInitialization ref_outside (ref_config\<lparr>rc_DoCheck := True\<rparr>) ref_restic (ref_empty\<lparr>rf_Locks := [2]\<rparr>) = (None, r1, w1) \<and>
     getLockList ref_outside r1 v = (None, [], w2)"
proof -
  let ?c = "ref_config\<lparr>rc_DoCheck := True\<rparr>"
  let ?w = "ref_empty\<lparr>rf_Locks := [2]\<rparr>"
  obtain r1 w1 where i: "resticInitialization ref_outside ?c ref_restic ?w = (None, r1, w1)"
    using ref_initialization ref_config_tasks(7) by blast
  obtain w2 where l: "Wait ref_outside r1 w1 = Some (None, w2)"
    using ref_Wait_returns [of r1 w1] ref_wait by blast
  obtain w3 where k: "Restic_Cli.Check ref_outside r1 w2 = (None, w3)"
    using ref_Check [of r1 w2] by (metis prod.collapse)
  have "doNonBackupTasks ref_outside ?c r1 w2 = (None, r1, w3)"
    using k by (simp add: doNonBackupTasks_def doPrune_def doCheck_def doRestoreTask_def doArchive_def ref_config_tasks wrapped_def)
  then have "run ref_outside ?c ref_restic ?w = Some (None, r1, w3)"
    using i l by (simp add: run_def waitForEndOfConcurrentOperations_def wrapped_def)
  from run_waits_for_locks [OF this] show ?thesis by auto
qed

end
