(* ===== verification/Restic_Command_Line.thy ===== *)
theory Restic_Command_Line
  imports Go_Flags Restic_Main
begin

text \<open>
  The command line of \<^verbatim>\<open>cmd/restic/main.go\<close>: the flags with their environment variables, where
  their values go, and the whole command from its arguments and its environment to the end of the
  run. Reading the command line is the library of \<open>Go_Flags\<close>.
\<close>

section \<open>Flags\<close>

definition new_flag :: "flag_kind \<Rightarrow> string \<Rightarrow> string list \<Rightarrow> cli_flag" where
  "new_flag kind name envVars = \<lparr>fl_Kind = kind, fl_Name = name, fl_Aliases = [], fl_EnvVars = envVars, fl_Required = False\<rparr>"

definition restic_flags :: "cli_flag list" where
  "restic_flags = [
      new_flag BoolFlag ''check'' [],
      new_flag BoolFlag ''prune'' [],
      new_flag BoolFlag ''restore'' [],
      new_flag BoolFlag ''archive'' [],
      new_flag StringSliceFlag ''tag'' [],
      new_flag StringSliceFlag ''path'' [],
      new_flag StringFlag ''backupCommandAnnotation'' [''BACKUPCOMMAND_ANNOTATION''],
      new_flag StringFlag ''fileExtensionAnnotation'' [''FILEEXTENSION_ANNOTATION''],
      new_flag StringFlag ''backucontainerannotation'' [''BACKUP_CONTAINERANNOTATION''],
      new_flag BoolFlag ''skipPreBackup'' [''SKIP_PREBACKUP''],
      new_flag BoolFlag ''skipSnapshotSync'' [''BACKUP_SKIP_SNAPSHOT_SYNC''],
      new_flag StringFlag ''promURL'' [''PROM_URL''],
      new_flag StringFlag ''clusterName'' [''CLUSTER_NAME''],
      (new_flag StringFlag ''webhookURL'' [''STATS_URL''])\<lparr>fl_Aliases := [''statsURL'']\<rparr>,
      (new_flag StringFlag ''hostname'' [''HOSTNAME''])\<lparr>fl_Required := True\<rparr>,
      new_flag StringFlag ''kubeconfig'' [''KUBECONFIG''],
      new_flag StringFlag ''backupDir'' [''BACKUP_DIR''],
      new_flag StringFlag ''restoreDir'' [''RESTORE_DIR''],
      new_flag StringFlag ''restoreFilter'' [],
      new_flag StringFlag ''restoreTimeFilter'' [],
      new_flag StringFlag ''restoreSnap'' [],
      new_flag StringFlag ''restoreType'' [],
      new_flag StringFlag ''restoreS3AccessKey'' [''RESTORE_ACCESSKEYID''],
      new_flag StringFlag ''restoreS3SecretKey'' [''RESTORE_SECRETACCESSKEY''],
      new_flag StringFlag ''restoreS3Endpoint'' [''RESTORE_S3ENDPOINT''],
      new_flag StringFlag ''restoreCaCert'' [''RESTORE_CA_CERT_FILE''],
      new_flag StringFlag ''restoreClientCert'' [''RESTORE_CLIENT_CERT_FILE''],
      new_flag StringFlag ''restoreClientKey'' [''RESTORE_CLIENT_KEY_FILE''],
      new_flag BoolFlag ''verifyRestore'' [],
      new_flag BoolFlag ''trimRestorePath'' [''TRIM_RESTOREPATH''],
      new_flag StringFlag ''resticBin'' [''RESTIC_BINARY''],
      (new_flag StringFlag ''resticRepository'' [''RESTIC_REPOSITORY''])\<lparr>fl_Required := True\<rparr>,
      new_flag StringFlag ''resticOptions'' [''RESTIC_OPTIONS''],
      new_flag StringSliceFlag ''exclude'' [''RESTIC_EXCLUDE''],
      new_flag BoolFlag ''excludeCaches'' [''RESTIC_EXCLUDE_CACHES''],
      new_flag StringSliceFlag ''excludeFile'' [''RESTIC_EXCLUDE_FILE''],
      new_flag StringSliceFlag ''excludeIfPresent'' [''RESTIC_EXCLUDE_IF_PRESENT''],
      new_flag StringFlag ''excludeLargerThan'' [''RESTIC_EXCLUDE_LARGER_THAT''],
      new_flag StringSliceFlag ''filesFrom'' [''RESTIC_FILES_FROM''],
      new_flag StringSliceFlag ''filesFromRaw'' [''RESTIC_FILES_FROM_RAW''],
      new_flag StringSliceFlag ''filesFromVerbatim'' [''RESTIC_FILES_FROM_VERBATIM''],
      new_flag StringSliceFlag ''iExclude'' [''RESTIC_IEXCLUDE''],
      new_flag StringSliceFlag ''iExcludeFile'' [''RESTIC_IEXCLUDE_FILE''],
      new_flag BoolFlag ''oneFileSystem'' [''RESTIC_ONE_FILESYSTEM''],
      new_flag BoolFlag ''delete'' [],
      new_flag IntFlag ''keepLatest'' [''KEEP_LAST'', ''KEEP_LATEST''],
      new_flag IntFlag ''keepHourly'' [''KEEP_HOURLY''],
      new_flag IntFlag ''keepDaily'' [''KEEP_DAILY''],
      new_flag IntFlag ''keepWeekly'' [''KEEP_WEEKLY''],
      new_flag IntFlag ''keepMonthly'' [''KEEP_MONTHLY''],
      new_flag IntFlag ''keepYearly'' [''KEEP_YEARLY''],
      new_flag BoolFlag ''keepTags'' [''KEEP_TAG'', ''KEEP_TAGS''],
      new_flag StringFlag ''keepWithinHourly'' [''KEEP_WITHIN_HOURLY''],
      new_flag StringFlag ''keepWithinDaily'' [''KEEP_WITHIN_DAILY''],
      new_flag StringFlag ''keepWithinWeekly'' [''KEEP_WITHIN_WEEKLY''],
      new_flag StringFlag ''keepWithinMonthly'' [''KEEP_WITHIN_MONTHLY''],
      new_flag StringFlag ''keepWithinYearly'' [''KEEP_WITHIN_YEARLY''],
      new_flag StringFlag ''keepWithin'' [''KEEP_WITHIN''],
      new_flag StringSliceFlag ''targetPods'' [''TARGET_PODS''],
      new_flag DurationFlag ''sleepDuration'' [''SLEEP_DURATION''],
      new_flag StringFlag ''varDir'' [],
      new_flag StringFlag ''caCert'' [''CA_CERT_FILE''],
      new_flag StringFlag ''clientCert'' [''CLIENT_CERT_FILE''],
      new_flag StringFlag ''clientKey'' [''CLIENT_KEY_FILE''],
      new_flag BoolFlag ''insecure-allow-podexec-spdy-fallback'' [''INSECURE_ALLOW_PODEXEC_SPDY_FALLBACK'']]"

section \<open>Values\<close>

text \<open>
  What a flag writes to its destination; \<open>vals\<close> are the texts that were given for it. The last text
  counts. An empty environment variable switches a switch off and leaves a number as it is.
\<close>

definition string_dest :: "(string \<Rightarrow> string list option) \<Rightarrow> string \<Rightarrow> string \<Rightarrow> string" where
  "string_dest vals name d = (case vals name of Some vs \<Rightarrow> last vs | None \<Rightarrow> d)"

definition bool_dest :: "(string \<Rightarrow> string list option) \<Rightarrow> string \<Rightarrow> bool \<Rightarrow> bool" where
  "bool_dest vals name d = (case vals name of Some vs \<Rightarrow> parse_bool (last vs) = Some True | None \<Rightarrow> d)"

definition int_dest :: "(string \<Rightarrow> int option) \<Rightarrow> (string \<Rightarrow> string list option) \<Rightarrow> string \<Rightarrow> int \<Rightarrow> int" where
  "int_dest ParseInt vals name d =
     (case vals name of
        Some vs \<Rightarrow> (case ParseInt (last vs) of Some i \<Rightarrow> i | None \<Rightarrow> d)
      | None \<Rightarrow> d)"

definition duration_dest :: "(string \<Rightarrow> int result) \<Rightarrow> (string \<Rightarrow> string list option) \<Rightarrow> string \<Rightarrow> int \<Rightarrow> int" where
  "duration_dest ParseDur vals name d =
     (case vals name of
        Some vs \<Rightarrow> (case ParseDur (last vs) of Inr i \<Rightarrow> i | Inl _ \<Rightarrow> d)
      | None \<Rightarrow> d)"

definition slice_value :: "(string \<Rightarrow> string list option) \<Rightarrow> string \<Rightarrow> string list" where
  "slice_value vals name = (case vals name of Some vs \<Rightarrow> vs | None \<Rightarrow> [])"

definition flag_config ::
  "(string \<Rightarrow> int option) \<Rightarrow> (string \<Rightarrow> int result) \<Rightarrow> (string \<Rightarrow> string list option) \<Rightarrow> ResticConfiguration \<Rightarrow> ResticConfiguration" where
  "flag_config ParseInt ParseDur vals c = c\<lparr>
     rc_DoCheck := bool_dest vals ''check'' (rc_DoCheck c),
     rc_DoPrune := bool_dest vals ''prune'' (rc_DoPrune c),
     rc_DoRestore := bool_dest vals ''restore'' (rc_DoRestore c),
     rc_DoArchive := bool_dest vals ''archive'' (rc_DoArchive c),
     rc_BackupCommandAnnotation := string_dest vals ''backupCommandAnnotation'' (rc_BackupCommandAnnotation c),
     rc_BackupFileExtensionAnnotation := string_dest vals ''fileExtensionAnnotation'' (rc_BackupFileExtensionAnnotation c),
     rc_BackupContainerAnnotation := string_dest vals ''backucontainerannotation'' (rc_BackupContainerAnnotation c),
     rc_SkipPreBackup := bool_dest vals ''skipPreBackup'' (rc_SkipPreBackup c),
     rc_SkipSnapshotSync := bool_dest vals ''skipSnapshotSync'' (rc_SkipSnapshotSync c),
     rc_PromURL := string_dest vals ''promURL'' (rc_PromURL c),
     rc_ClusterName := string_dest vals ''clusterName'' (rc_ClusterName c),
     rc_WebhookURL := string_dest vals ''webhookURL'' (rc_WebhookURL c),
     rc_Hostname := string_dest vals ''hostname'' (rc_Hostname c),
     rc_KubeConfig := string_dest vals ''kubeconfig'' (rc_KubeConfig c),
     rc_BackupDir := string_dest vals ''backupDir'' (rc_BackupDir c),
     rc_RestoreDir := string_dest vals ''restoreDir'' (rc_RestoreDir c),
     rc_RestoreFilter := string_dest vals ''restoreFilter'' (rc_RestoreFilter c),
     rc_RestoreTimeFilter := string_dest vals ''restoreTimeFilter'' (rc_RestoreTimeFilter c),
     rc_RestoreSnap := string_dest vals ''restoreSnap'' (rc_RestoreSnap c),
     rc_RestoreType := string_dest vals ''restoreType'' (rc_RestoreType c),
     rc_RestoreS3AccessKey := string_dest vals ''restoreS3AccessKey'' (rc_RestoreS3AccessKey c),
     rc_RestoreS3SecretKey := string_dest vals ''restoreS3SecretKey'' (rc_RestoreS3SecretKey c),
     rc_RestoreS3Endpoint := string_dest vals ''restoreS3Endpoint'' (rc_RestoreS3Endpoint c),
     rc_RestoreCACert := string_dest vals ''restoreCaCert'' (rc_RestoreCACert c),
     rc_RestoreClientCert := string_dest vals ''restoreClientCert'' (rc_RestoreClientCert c),
     rc_RestoreClientKey := string_dest vals ''restoreClientKey'' (rc_RestoreClientKey c),
     rc_VerifyRestore := bool_dest vals ''verifyRestore'' (rc_VerifyRestore c),
     rc_RestoreTrimPath := bool_dest vals ''trimRestorePath'' (rc_RestoreTrimPath c),
     rc_ResticBin := string_dest vals ''resticBin'' (rc_ResticBin c),
     rc_ResticRepository := string_dest vals ''resticRepository'' (rc_ResticRepository c),
     rc_ResticOptions := string_dest vals ''resticOptions'' (rc_ResticOptions c),
     rc_ExcludeCaches := bool_dest vals ''excludeCaches'' (rc_ExcludeCaches c),
     rc_ExcludeLargerThan := string_dest vals ''excludeLargerThan'' (rc_ExcludeLargerThan c),
     rc_OneFileSystem := bool_dest vals ''oneFileSystem'' (rc_OneFileSystem c),
     rc_Delete := bool_dest vals ''delete'' (rc_Delete c),
     rc_PruneKeepLast := int_dest ParseInt vals ''keepLatest'' (rc_PruneKeepLast c),
     rc_PruneKeepHourly := int_dest ParseInt vals ''keepHourly'' (rc_PruneKeepHourly c),
     rc_PruneKeepDaily := int_dest ParseInt vals ''keepDaily'' (rc_PruneKeepDaily c),
     rc_PruneKeepWeekly := int_dest ParseInt vals ''keepWeekly'' (rc_PruneKeepWeekly c),
     rc_PruneKeepMonthly := int_dest ParseInt vals ''keepMonthly'' (rc_PruneKeepMonthly c),
     rc_PruneKeepYearly := int_dest ParseInt vals ''keepYearly'' (rc_PruneKeepYearly c),
     rc_PruneKeepTags := bool_dest vals ''keepTags'' (rc_PruneKeepTags c),
     rc_PruneKeepWithinHourly := string_dest vals ''keepWithinHourly'' (rc_PruneKeepWithinHourly c),
     rc_PruneKeepWithinDaily := string_dest vals ''keepWithinDaily'' (rc_PruneKeepWithinDaily c),
     rc_PruneKeepWithinWeekly := string_dest vals ''keepWithinWeekly'' (rc_PruneKeepWithinWeekly c),
     rc_PruneKeepWithinMonthly := string_dest vals ''keepWithinMonthly'' (rc_PruneKeepWithinMonthly c),
     rc_PruneKeepWithinYearly := string_dest vals ''keepWithinYearly'' (rc_PruneKeepWithinYearly c),
     rc_PruneKeepWithin := string_dest vals ''keepWithin'' (rc_PruneKeepWithin c),
     rc_SleepDuration := duration_dest ParseDur vals ''sleepDuration'' (rc_SleepDuration c),
     rc_VarDir := string_dest vals ''varDir'' (rc_VarDir c),
     rc_CACert := string_dest vals ''caCert'' (rc_CACert c),
     rc_ClientCert := string_dest vals ''clientCert'' (rc_ClientCert c),
     rc_ClientKey := string_dest vals ''clientKey'' (rc_ClientKey c),
     rc_InsecureAllowPodExecSPDYFallback := bool_dest vals ''insecure-allow-podexec-spdy-fallback'' (rc_InsecureAllowPodExecSPDYFallback c)\<rparr>"

text \<open>
  The configuration of a run before it is validated: the defaults, the flags, and the slices that
  \<^verbatim>\<open>resticMain\<close> splits.
\<close>

definition command_config ::
  "(string \<Rightarrow> int option) \<Rightarrow> (string \<Rightarrow> int result) \<Rightarrow> string \<Rightarrow> (string \<Rightarrow> string list option) \<Rightarrow> ResticConfiguration" where
  "command_config ParseInt ParseDur homeFile vals =
     slice_flags (slice_value vals) (flag_config ParseInt ParseDur vals (default_restic_config homeFile [] []))"

definition resticCommand ::
  "(cli_flag list \<Rightarrow> string list \<Rightarrow> (string \<rightharpoonup> string) \<Rightarrow> (string \<Rightarrow> string list option) result) \<Rightarrow> (string \<Rightarrow> int option) \<Rightarrow> string \<Rightarrow>
   'w outside \<Rightarrow> string list \<Rightarrow> (string \<rightharpoonup> string) \<Rightarrow> 'w \<Rightarrow> (gerr option \<times> Restic option \<times> 'w) option" where
  "resticCommand cli_parse ParseInt homeFile X args env w =
     (case cli_parse restic_flags args env of
        Inl err \<Rightarrow> Some (Some err, None, w)
      | Inr vals \<Rightarrow>
         resticMain X (flag_config ParseInt (x_ParseDuration X) vals (default_restic_config homeFile [] [])) (slice_value vals) w)"

section \<open>Lemmas\<close>

lemma distinct_flags: "distinct (map fl_Name restic_flags)"
  by (simp add: restic_flags_def new_flag_def)

text \<open>The flag of a name, and that no alias hides one.\<close>

lemma flag_named_in:
  assumes "f \<in> set restic_flags"
  shows "flag_named restic_flags (fl_Name f) = Some f"
proof -
  have "list_all (\<lambda>f. flag_named restic_flags (fl_Name f) = Some f) restic_flags" by code_simp
  then show ?thesis using assms by (simp add: list_all_iff)
qed

text \<open>How the arguments the operator uses are read.\<close>

lemma operator_flags_named:
  "flag_named restic_flags ''varDir'' = Some (new_flag StringFlag ''varDir'' [])"
  "flag_named restic_flags ''tag'' = Some (new_flag StringSliceFlag ''tag'' [])"
  "flag_named restic_flags ''path'' = Some (new_flag StringSliceFlag ''path'' [])"
  "flag_named restic_flags ''restoreFilter'' = Some (new_flag StringFlag ''restoreFilter'' [])"
  "flag_named restic_flags ''restoreSnap'' = Some (new_flag StringFlag ''restoreSnap'' [])"
  "flag_named restic_flags ''restoreTimeFilter'' = Some (new_flag StringFlag ''restoreTimeFilter'' [])"
  "flag_named restic_flags ''restoreType'' = Some (new_flag StringFlag ''restoreType'' [])"
  "flag_named restic_flags ''check'' = Some (new_flag BoolFlag ''check'' [])"
  "flag_named restic_flags ''prune'' = Some (new_flag BoolFlag ''prune'' [])"
  "flag_named restic_flags ''archive'' = Some (new_flag BoolFlag ''archive'' [])"
  "flag_named restic_flags ''restore'' = Some (new_flag BoolFlag ''restore'' [])"
  "flag_named restic_flags ''delete'' = Some (new_flag BoolFlag ''delete'' [])"
  "flag_named restic_flags ''caCert'' = Some (new_flag StringFlag ''caCert'' [''CA_CERT_FILE''])"
  "flag_named restic_flags ''clientCert'' = Some (new_flag StringFlag ''clientCert'' [''CLIENT_CERT_FILE''])"
  "flag_named restic_flags ''clientKey'' = Some (new_flag StringFlag ''clientKey'' [''CLIENT_KEY_FILE''])"
  "flag_named restic_flags ''restoreCaCert'' = Some (new_flag StringFlag ''restoreCaCert'' [''RESTORE_CA_CERT_FILE''])"
  "flag_named restic_flags ''restoreClientCert'' = Some (new_flag StringFlag ''restoreClientCert'' [''RESTORE_CLIENT_CERT_FILE''])"
  "flag_named restic_flags ''restoreClientKey'' = Some (new_flag StringFlag ''restoreClientKey'' [''RESTORE_CLIENT_KEY_FILE''])"
  by code_simp+

lemma restic_value_args:
  "parse_flags restic_flags given (''-varDir'' # v # args) = parse_flags restic_flags (given @ [(''varDir'', v)]) args"
  "parse_flags restic_flags given (''--tag'' # v # args) = parse_flags restic_flags (given @ [(''tag'', v)]) args"
  "parse_flags restic_flags given (''--path'' # v # args) = parse_flags restic_flags (given @ [(''path'', v)]) args"
  "parse_flags restic_flags given (''-restoreFilter'' # v # args) = parse_flags restic_flags (given @ [(''restoreFilter'', v)]) args"
  "parse_flags restic_flags given (''-restoreSnap'' # v # args) = parse_flags restic_flags (given @ [(''restoreSnap'', v)]) args"
  "parse_flags restic_flags given (''-restoreTimeFilter'' # v # args) = parse_flags restic_flags (given @ [(''restoreTimeFilter'', v)]) args"
  "parse_flags restic_flags given (''-restoreType'' # v # args) = parse_flags restic_flags (given @ [(''restoreType'', v)]) args"
  "parse_flags restic_flags given (''-caCert'' # v # args) = parse_flags restic_flags (given @ [(''caCert'', v)]) args"
  "parse_flags restic_flags given (''-clientCert'' # v # args) = parse_flags restic_flags (given @ [(''clientCert'', v)]) args"
  "parse_flags restic_flags given (''-clientKey'' # v # args) = parse_flags restic_flags (given @ [(''clientKey'', v)]) args"
  "parse_flags restic_flags given (''-restoreCaCert'' # v # args) = parse_flags restic_flags (given @ [(''restoreCaCert'', v)]) args"
  "parse_flags restic_flags given (''-restoreClientCert'' # v # args) = parse_flags restic_flags (given @ [(''restoreClientCert'', v)]) args"
  "parse_flags restic_flags given (''-restoreClientKey'' # v # args) = parse_flags restic_flags (given @ [(''restoreClientKey'', v)]) args"
  by (simp_all add: operator_flags_named new_flag_def)

lemma restic_switches:
  "parse_flags restic_flags given (''-check'' # args) = parse_flags restic_flags (given @ [(''check'', ''true'')]) args"
  "parse_flags restic_flags given (''-prune'' # args) = parse_flags restic_flags (given @ [(''prune'', ''true'')]) args"
  "parse_flags restic_flags given (''-archive'' # args) = parse_flags restic_flags (given @ [(''archive'', ''true'')]) args"
  "parse_flags restic_flags given (''-restore'' # args) = parse_flags restic_flags (given @ [(''restore'', ''true'')]) args"
  "parse_flags restic_flags given (''--delete'' # args) = parse_flags restic_flags (given @ [(''delete'', ''true'')]) args"
  by (simp_all add: operator_flags_named new_flag_def)

lemmas restic_args = restic_value_args restic_switches

section \<open>Reading the command line\<close>

text \<open>An environment in which every flag can be read, and that has the two required values.\<close>

definition readable :: "(string \<Rightarrow> int option) \<Rightarrow> (string \<Rightarrow> int result) \<Rightarrow> (string \<rightharpoonup> string) \<Rightarrow> bool" where
  "readable ParseInt ParseDur env \<longleftrightarrow>
     (\<forall>f \<in> set restic_flags.
        (\<forall>v. env_text env f = Some v \<longrightarrow> v \<noteq> [] \<longrightarrow> converts ParseInt ParseDur (fl_Kind f) v) \<and>
        (fl_Required f \<longrightarrow> env_text env f \<noteq> None))"

text \<open>Values that need no conversion: switches without a value, and texts.\<close>

definition plain_value :: "string \<Rightarrow> string \<Rightarrow> bool" where
  "plain_value n v =
     (case flag_named restic_flags n of
        Some f \<Rightarrow> fl_Name f = n \<and> (fl_Kind f \<in> {StringFlag, StringSliceFlag} \<or> fl_Kind f = BoolFlag \<and> v = ''true'')
      | None \<Rightarrow> False)"

definition plain :: "(string \<times> string) list \<Rightarrow> bool" where
  "plain given = list_all (\<lambda>(n, v). plain_value n v) given"

lemma plain_simps [simp]:
  "plain []" "plain (given @ given') \<longleftrightarrow> plain given \<and> plain given'"
  "plain ((n, v) # given) \<longleftrightarrow> plain_value n v \<and> plain given"
  "plain (map (Pair n) vs) \<longleftrightarrow> (\<forall>v \<in> set vs. plain_value n v)"
  by (auto simp: plain_def list_all_iff)

text \<open>Values that can be converted to the types of their flags.\<close>

definition convertible :: "(string \<Rightarrow> int option) \<Rightarrow> (string \<Rightarrow> int result) \<Rightarrow> (string \<times> string) list \<Rightarrow> bool" where
  "convertible ParseInt ParseDur given \<longleftrightarrow>
     (\<forall>f \<in> set restic_flags. \<forall>v \<in> set (given_texts given (fl_Name f)). converts ParseInt ParseDur (fl_Kind f) v)"

lemma convertible_append [simp]:
  "convertible pint pdur (given @ given') \<longleftrightarrow> convertible pint pdur given \<and> convertible pint pdur given'"
  by (auto simp: convertible_def)

lemma plain_convertible: "plain given \<Longrightarrow> convertible pint pdur given"
  unfolding convertible_def
proof (intro ballI)
  fix f v
  assume p: "plain given" and f: "f \<in> set restic_flags" and v: "v \<in> set (given_texts given (fl_Name f))"
  have "plain_value (fl_Name f) v" using p v by (auto simp: plain_def list_all_iff given_texts_def)
  then show "converts pint pdur (fl_Kind f) v" by (auto simp: plain_value_def flag_named_in [OF f] converts_def parse_bool_def)
qed

context cli_library
begin

lemma reads:
  assumes "parse_flags restic_flags [] args = Inr (given, [])" "convertible ParseInt ParseDur given" "readable ParseInt ParseDur env"
  shows "\<exists>vals. cli_parse restic_flags args env = Inr vals \<and> (\<forall>f \<in> set restic_flags. vals (fl_Name f) = flag_texts env given f)"
proof (rule accepts [OF assms(1) distinct_flags])
  show "converts ParseInt ParseDur (fl_Kind f) v" if "f \<in> set restic_flags" "v \<in> set (given_texts given (fl_Name f))" for f v
    using assms(2) that by (simp add: convertible_def)
qed (use assms(3) in \<open>auto simp: readable_def flag_texts_def\<close>)

end

end
