(* ===== verification/Job_Arguments.thy ===== *)
theory Job_Arguments
  imports Restic_Command_Line Controller_Properties
begin

text \<open>
  What the restic command reads from the arguments that the operator writes into the container of a
  batch job (\<open>Executors\<close>, \<open>Backup_Controller\<close>): the flags and their values, for each kind of job, and
  the configuration that they make.
\<close>

section \<open>Arguments\<close>

text \<open>The tasks of a run, by the names of the job types.\<close>

definition tasks :: "ResticConfiguration \<Rightarrow> JobType set" where
  "tasks c = (if rc_DoPrune c then {PruneType} else {}) \<union> (if rc_DoCheck c then {CheckType} else {}) \<union>
     (if rc_DoRestore c then {RestoreType} else {}) \<union> (if rc_DoArchive c then {ArchiveType} else {})"

lemma parse_list_args:
  "parse_flags restic_flags given (BuildListArgs ''--tag'' vs @ args) = parse_flags restic_flags (given @ map (Pair ''tag'') vs) args"
  "parse_flags restic_flags given (BuildListArgs ''--path'' vs @ args) = parse_flags restic_flags (given @ map (Pair ''path'') vs) args"
  by (induction vs arbitrary: given) (simp_all add: restic_args del: parse_flags.simps)

text \<open>The values of the TLS options of a backend or of the target of a restore.\<close>

definition tls_given :: "string \<Rightarrow> string \<Rightarrow> string \<Rightarrow> TLSOptions option \<Rightarrow> (string \<times> string) list" where
  "tls_given ca cert key opts =
     (case opts of
        None \<Rightarrow> []
      | Some t \<Rightarrow> (if tls_CACert t \<noteq> [] then [(ca, tls_CACert t)] else []) @
          (if tls_ClientCert t \<noteq> [] \<and> tls_ClientKey t \<noteq> [] then [(cert, tls_ClientCert t), (key, tls_ClientKey t)] else []))"

abbreviation "backend_tls \<equiv> tls_given ''caCert'' ''clientCert'' ''clientKey''"
abbreviation "target_tls \<equiv> tls_given ''restoreCaCert'' ''restoreClientCert'' ''restoreClientKey''"

lemma parse_tls_args:
  "parse_flags restic_flags given (AppendTLSOptionsArgs opts [] @ args) = parse_flags restic_flags (given @ backend_tls opts) args"
  "parse_flags restic_flags given (AppendTLSOptionsArgs opts [certPrefixName] @ args) = parse_flags restic_flags (given @ target_tls opts) args"
  by (simp_all add: AppendTLSOptionsArgs_def tls_given_def Let_def restic_args certPrefixName_def del: parse_flags.simps split: option.splits)

definition tls_of :: "Backend option \<Rightarrow> TLSOptions option" where
  "tls_of backend = (case backend of Some b \<Rightarrow> be_TLSOptions b | None \<Rightarrow> None)"

lemma backend_args: "(case backend of Some b \<Rightarrow> AppendTLSOptionsArgs (be_TLSOptions b) [] | None \<Rightarrow> []) = AppendTLSOptionsArgs (tls_of backend) []"
  by (simp add: tls_of_def AppendTLSOptionsArgs_def split: option.splits)

lemma method_args: "(case m of Some m \<Rightarrow> AppendTLSOptionsArgs (rm_TLSOptions m) p | None \<Rightarrow> []) = AppendTLSOptionsArgs (Option.bind m rm_TLSOptions) p"
  by (simp add: AppendTLSOptionsArgs_def split: option.splits)

lemma list_args: "(if length vs > 0 then BuildListArgs a vs else []) = BuildListArgs a vs"
  by simp

lemma parse_end: "parse_flags fs given [] = Inr (given, [])"
  by simp

lemmas job_arg_rules = parse_list_args parse_tls_args parse_list_args [where args = "[]", simplified append_Nil2]
  parse_tls_args [where args = "[]", simplified append_Nil2] restic_args parse_end

lemma parse_check_args:
  "parse_flags restic_flags [] (check_setupArgs cfg c) =
     Inr ([(''varDir'', cfg_PodVarDir cfg), (''check'', ''true'')] @ backend_tls (tls_of (rs_Backend (cs_RunnableSpec (c_Spec c)))), [])"
  by (simp only: check_setupArgs_def backend_args append_Cons append_Nil job_arg_rules append_assoc)

lemma parse_prune_args:
  "parse_flags restic_flags [] (prune_setupArgs cfg p) =
     Inr ([(''varDir'', cfg_PodVarDir cfg), (''prune'', ''true'')] @ map (Pair ''tag'') (rp_Tags (prs_Retention (p_Spec p))) @
       backend_tls (tls_of (rs_Backend (prs_RunnableSpec (p_Spec p)))), [])"
  by (simp only: prune_setupArgs_def list_args backend_args append_Cons append_Nil job_arg_rules append_assoc)

lemma parse_archive_args:
  "parse_flags restic_flags [] (archive_setupArgs cfg r) =
     Inr ([(''varDir'', cfg_PodVarDir cfg), (''archive'', ''true''), (''restoreType'', ''s3'')] @ map (Pair ''tag'') (res_Tags r) @
       backend_tls (tls_of (rs_Backend (res_RunnableSpec r))) @ target_tls (Option.bind (res_RestoreMethod r) rm_TLSOptions), [])"
  by (simp only: archive_setupArgs_def list_args backend_args method_args append_Cons append_Nil job_arg_rules append_assoc)

lemma parse_backup_args:
  "parse_flags restic_flags [] (backup_setupArgs cfg b userArgs) =
     parse_flags restic_flags ([(''varDir'', cfg_PodVarDir cfg)] @ map (Pair ''tag'') (bs_Tags (b_Spec b)) @
       backend_tls (tls_of (rs_Backend (bs_RunnableSpec (b_Spec b))))) userArgs"
  by (simp only: backup_setupArgs_def list_args backend_args append_Cons append_Nil job_arg_rules append_assoc)

text \<open>What a restore asks for.\<close>

definition opt_arg :: "string \<Rightarrow> string \<Rightarrow> (string \<times> string) list" where
  "opt_arg n v = (if v \<noteq> [] then [(n, v)] else [])"

definition restore_given :: "Configuration \<Rightarrow> Restore \<Rightarrow> RestoreMethod \<Rightarrow> (string \<times> string) list" where
  "restore_given cfg r m =
     (let spec = r_Spec r
      in [(''varDir'', cfg_PodVarDir cfg), (''restore'', ''true'')] @ map (Pair ''tag'') (res_Tags spec) @ map (Pair ''path'') (res_Paths spec) @
         opt_arg ''restoreFilter'' (res_RestoreFilter spec) @ (if res_Delete spec then [(''delete'', ''true'')] else []) @
         opt_arg ''restoreSnap'' (res_Snapshot spec) @ opt_arg ''restoreTimeFilter'' (res_RestoreTimeFilter spec) @
         [(''restoreType'', if RestoreMethod.rm_Folder m \<noteq> None then ''folder'' else ''s3'')] @
         backend_tls (tls_of (rs_Backend (res_RunnableSpec spec))) @ target_tls (rm_TLSOptions m))"

lemma restore_args_shape:
  assumes "restore_setupArgs cfg r = Inr args" "res_RestoreMethod (r_Spec r) = Some m"
  shows "args = [''-varDir'', cfg_PodVarDir cfg, ''-restore''] @ BuildListArgs ''--tag'' (res_Tags (r_Spec r)) @ BuildListArgs ''--path'' (res_Paths (r_Spec r)) @
      (if res_RestoreFilter (r_Spec r) \<noteq> [] then [''-restoreFilter'', res_RestoreFilter (r_Spec r)] else []) @
      (if res_Delete (r_Spec r) then [''--delete''] else []) @
      (if res_Snapshot (r_Spec r) \<noteq> [] then [''-restoreSnap'', res_Snapshot (r_Spec r)] else []) @
      (if res_RestoreTimeFilter (r_Spec r) \<noteq> [] then [''-restoreTimeFilter'', res_RestoreTimeFilter (r_Spec r)] else []) @
      [''-restoreType'', if RestoreMethod.rm_Folder m \<noteq> None then ''folder'' else ''s3''] @
      AppendTLSOptionsArgs (tls_of (rs_Backend (res_RunnableSpec (r_Spec r)))) [] @ AppendTLSOptionsArgs (rm_TLSOptions m) [certPrefixName]"
  using assms by (auto simp: restore_setupArgs_def Let_def rbind_def backend_args split: if_splits)

lemma parse_opt_args:
  "parse_flags restic_flags given ((if v \<noteq> [] then [''-restoreFilter'', v] else []) @ args) = parse_flags restic_flags (given @ opt_arg ''restoreFilter'' v) args"
  "parse_flags restic_flags given ((if v \<noteq> [] then [''-restoreSnap'', v] else []) @ args) = parse_flags restic_flags (given @ opt_arg ''restoreSnap'' v) args"
  "parse_flags restic_flags given ((if v \<noteq> [] then [''-restoreTimeFilter'', v] else []) @ args) = parse_flags restic_flags (given @ opt_arg ''restoreTimeFilter'' v) args"
  "parse_flags restic_flags given ((if b then [''--delete''] else []) @ args) = parse_flags restic_flags (given @ (if b then [(''delete'', ''true'')] else [])) args"
  by (simp_all add: opt_arg_def restic_args del: parse_flags.simps)

lemma parse_restore_args:
  assumes "restore_setupArgs cfg r = Inr args" "res_RestoreMethod (r_Spec r) = Some m"
  shows "parse_flags restic_flags [] args = Inr (restore_given cfg r m, [])"
  unfolding restore_args_shape [OF assms] restore_given_def Let_def
  by (simp only: append_Cons append_Nil job_arg_rules parse_opt_args append_assoc)

section \<open>The configuration of the container\<close>

lemma command_config_sel:
  "rc_DoCheck (command_config pint pdur h vals) = bool_dest vals ''check'' False"
  "rc_DoPrune (command_config pint pdur h vals) = bool_dest vals ''prune'' False"
  "rc_DoRestore (command_config pint pdur h vals) = bool_dest vals ''restore'' False"
  "rc_DoArchive (command_config pint pdur h vals) = bool_dest vals ''archive'' False"
  "rc_Delete (command_config pint pdur h vals) = bool_dest vals ''delete'' False"
  "rc_PruneKeepTags (command_config pint pdur h vals) = bool_dest vals ''keepTags'' False"
  "rc_VarDir (command_config pint pdur h vals) = string_dest vals ''varDir'' ''/k8up''"
  "rc_RestoreType (command_config pint pdur h vals) = string_dest vals ''restoreType'' []"
  "rc_RestoreSnap (command_config pint pdur h vals) = string_dest vals ''restoreSnap'' []"
  "rc_RestoreFilter (command_config pint pdur h vals) = string_dest vals ''restoreFilter'' []"
  "rc_RestoreTimeFilter (command_config pint pdur h vals) = string_dest vals ''restoreTimeFilter'' []"
  "rc_PruneKeepWithin (command_config pint pdur h vals) = string_dest vals ''keepWithin'' []"
  "rc_PruneKeepWithinHourly (command_config pint pdur h vals) = string_dest vals ''keepWithinHourly'' []"
  "rc_PruneKeepWithinDaily (command_config pint pdur h vals) = string_dest vals ''keepWithinDaily'' []"
  "rc_PruneKeepWithinWeekly (command_config pint pdur h vals) = string_dest vals ''keepWithinWeekly'' []"
  "rc_PruneKeepWithinMonthly (command_config pint pdur h vals) = string_dest vals ''keepWithinMonthly'' []"
  "rc_PruneKeepWithinYearly (command_config pint pdur h vals) = string_dest vals ''keepWithinYearly'' []"
  "rc_ResticRepository (command_config pint pdur h vals) = string_dest vals ''resticRepository'' []"
  "rc_Hostname (command_config pint pdur h vals) = string_dest vals ''hostname'' []"
  "rc_PruneKeepLast (command_config pint pdur h vals) = int_dest pint vals ''keepLatest'' 0"
  "rc_PruneKeepHourly (command_config pint pdur h vals) = int_dest pint vals ''keepHourly'' 0"
  "rc_PruneKeepDaily (command_config pint pdur h vals) = int_dest pint vals ''keepDaily'' 0"
  "rc_PruneKeepWeekly (command_config pint pdur h vals) = int_dest pint vals ''keepWeekly'' 0"
  "rc_PruneKeepMonthly (command_config pint pdur h vals) = int_dest pint vals ''keepMonthly'' 0"
  "rc_PruneKeepYearly (command_config pint pdur h vals) = int_dest pint vals ''keepYearly'' 0"
  "rc_Tags (command_config pint pdur h vals) = slice_value vals ''tag''"
  "rc_Paths (command_config pint pdur h vals) = SplitAtComma (slice_value vals ''path'')"
  "rc_TargetPods (command_config pint pdur h vals) = SplitAtComma (slice_value vals ''targetPods'')"
  by (simp_all add: command_config_def flag_config_def slice_flags_def default_restic_config_def)

lemma named_value:
  assumes "\<forall>f \<in> set restic_flags. vals (fl_Name f) = flag_texts env given f" "flag_named restic_flags n = Some f" "fl_Name f = n"
  shows "vals n = (if given_texts given n \<noteq> [] then Some (map (slice_text (fl_Kind f)) (given_texts given n))
     else map_option (\<lambda>v. [v]) (env_text env f))"
proof -
  have "f \<in> set restic_flags" using assms(2) by (auto simp: flag_named_def find_Some_iff in_set_conv_nth)
  then show ?thesis using assms(1,3) by (auto simp: flag_texts_def)
qed

text \<open>The flags without an environment variable have what the arguments say.\<close>

lemma argument_values:
  assumes "\<forall>f \<in> set restic_flags. vals (fl_Name f) = flag_texts env given f"
    and "n \<in> set [''varDir'', ''restoreFilter'', ''restoreSnap'', ''restoreTimeFilter'', ''restoreType'',
      ''check'', ''prune'', ''archive'', ''restore'', ''delete'']"
  shows "vals n = (if given_texts given n \<noteq> [] then Some (given_texts given n) else None)"
proof -
  obtain k where f: "flag_named restic_flags n = Some (new_flag k n [])" "k \<noteq> StringSliceFlag"
    using assms(2) operator_flags_named by auto
  then show ?thesis using named_value [OF assms(1) f(1)] by (simp add: new_flag_def env_text_def)
qed

lemma argument_lists:
  assumes "\<forall>f \<in> set restic_flags. vals (fl_Name f) = flag_texts env given f" "n \<in> set [''tag'', ''path'']"
  shows "slice_value vals n = map TrimSpace (given_texts given n)"
proof -
  have f: "flag_named restic_flags n = Some (new_flag StringSliceFlag n [])" using assms(2) operator_flags_named by auto
  then show ?thesis using named_value [OF assms(1) f] by (simp add: new_flag_def env_text_def slice_value_def)
qed

lemma given_tls [simp]:
  "n \<notin> {ca, cert, key} \<Longrightarrow> given_texts (tls_given ca cert key t) n = []"
  by (auto simp: tls_given_def split: option.splits)

lemma given_opt [simp]: "given_texts (opt_arg n v) n' = (if n = n' \<and> v \<noteq> [] then [v] else [])"
  by (simp add: opt_arg_def)

lemma plain_tls [simp]: "plain (backend_tls t)" "plain (target_tls t)"
  by (auto simp: tls_given_def plain_value_def operator_flags_named new_flag_def split: option.splits)

lemma plain_operator_values [simp]:
  "plain_value ''varDir'' v" "plain_value ''tag'' v" "plain_value ''path'' v" "plain_value ''restoreType'' v"
  "plain_value ''check'' ''true''" "plain_value ''prune'' ''true''" "plain_value ''archive'' ''true''"
  "plain_value ''restore'' ''true''" "plain_value ''delete'' ''true''"
  "plain (opt_arg ''restoreFilter'' v)" "plain (opt_arg ''restoreSnap'' v)" "plain (opt_arg ''restoreTimeFilter'' v)"
  by (simp_all add: plain_value_def operator_flags_named new_flag_def opt_arg_def)

lemma parse_bool_true [simp]: "parse_bool ''true'' = Some True"
  by (simp add: parse_bool_def)

definition switched :: "(string \<times> string) list \<Rightarrow> string \<Rightarrow> bool" where
  "switched given n \<longleftrightarrow> given_texts given n \<noteq> [] \<and> parse_bool (last (given_texts given n)) = Some True"

definition given_tasks :: "(string \<times> string) list \<Rightarrow> JobType set" where
  "given_tasks given =
     (if switched given ''prune'' then {PruneType} else {}) \<union> (if switched given ''check'' then {CheckType} else {}) \<union>
     (if switched given ''restore'' then {RestoreType} else {}) \<union> (if switched given ''archive'' then {ArchiveType} else {})"

lemma given_config:
  assumes "\<forall>f \<in> set restic_flags. vals (fl_Name f) = flag_texts env given f"
  shows "tasks (command_config pint pdur h vals) = given_tasks given"
    and "rc_Delete (command_config pint pdur h vals) = switched given ''delete''"
    and "rc_Tags (command_config pint pdur h vals) = map TrimSpace (given_texts given ''tag'')"
    and "rc_Paths (command_config pint pdur h vals) = SplitAtComma (map TrimSpace (given_texts given ''path''))"
    and "rc_VarDir (command_config pint pdur h vals) = last (''/k8up'' # given_texts given ''varDir'')"
    and "rc_RestoreType (command_config pint pdur h vals) = last ([] # given_texts given ''restoreType'')"
    and "rc_RestoreSnap (command_config pint pdur h vals) = last ([] # given_texts given ''restoreSnap'')"
    and "rc_RestoreFilter (command_config pint pdur h vals) = last ([] # given_texts given ''restoreFilter'')"
    and "rc_RestoreTimeFilter (command_config pint pdur h vals) = last ([] # given_texts given ''restoreTimeFilter'')"
  by (simp_all add: tasks_def given_tasks_def command_config_sel bool_dest_def string_dest_def switched_def argument_values [OF assms] argument_lists [OF assms])

text \<open>The configuration that convertible arguments give in a readable environment.\<close>

lemma container_config:
  assumes "cli_library cli_parse pint pdur" "readable pint pdur env" "parse_flags restic_flags [] args = Inr (given, [])" "convertible pint pdur given"
  shows "\<exists>vals c. cli_parse restic_flags args env = Inr vals \<and> c = command_config pint pdur h vals \<and>
    (\<forall>f \<in> set restic_flags. vals (fl_Name f) = flag_texts env given f) \<and>
    tasks c = given_tasks given \<and> rc_Delete c = switched given ''delete'' \<and>
    rc_Tags c = map TrimSpace (given_texts given ''tag'') \<and> rc_Paths c = SplitAtComma (map TrimSpace (given_texts given ''path'')) \<and>
    rc_VarDir c = last (''/k8up'' # given_texts given ''varDir'') \<and> rc_RestoreType c = last ([] # given_texts given ''restoreType'') \<and>
    rc_RestoreSnap c = last ([] # given_texts given ''restoreSnap'') \<and> rc_RestoreFilter c = last ([] # given_texts given ''restoreFilter'') \<and>
    rc_RestoreTimeFilter c = last ([] # given_texts given ''restoreTimeFilter'')"
proof -
  obtain vals where v: "cli_parse restic_flags args env = Inr vals" and f: "\<forall>f \<in> set restic_flags. vals (fl_Name f) = flag_texts env given f"
    using cli_library.reads [OF assms(1,3,4,2)] by blast
  show ?thesis
    by (rule exI [of _ vals], rule exI [of _ "command_config pint pdur h vals"], intro conjI)
      (rule v refl f given_config [OF f])+
qed

section \<open>The run of the container\<close>

text \<open>The run of the restic command with a configuration.\<close>

definition run_with :: "'w outside \<Rightarrow> ResticConfiguration \<Rightarrow> 'w \<Rightarrow> (gerr option \<times> Restic option \<times> 'w) option" where
  "run_with X c w = map_option (\<lambda>(err, r, w). (err, Some r, w))
     (run X c (New X c (NewHandler (rc_PromURL c) (rc_ClusterName c) (rc_Hostname c) (rc_WebhookURL c))) w)"

lemma resticCommand_runs:
  assumes "cli_parse restic_flags args env = Inr vals"
    and "Validate (x_Ord X) (x_ParseDuration X) (command_config pint (x_ParseDuration X) h vals) = (None, command_config pint (x_ParseDuration X) h vals)"
  shows "resticCommand cli_parse pint h X args env w = run_with X (command_config pint (x_ParseDuration X) h vals) w"
  using assms by (simp add: resticCommand_def resticMain_def run_with_def Let_def command_config_def)

lemma tasks_iff [simp]:
  "RestoreType \<in> tasks c \<longleftrightarrow> rc_DoRestore c" "PruneType \<in> tasks c \<longleftrightarrow> rc_DoPrune c"
  by (auto simp: tasks_def k8up_consts)

lemma Validate_other_tasks: "\<not> rc_DoRestore c \<Longrightarrow> \<not> rc_DoPrune c \<Longrightarrow> Validate ord pd c = (None, c)"
  by (simp add: Validate_def validateRestore_def validatePrune_def)

lemma Validate_prune: "enumerates ord \<Longrightarrow> \<not> rc_DoRestore c \<Longrightarrow> prune_ok pd c \<Longrightarrow> Validate ord pd c = (None, c)"
  using validatePrune_spec [of ord pd c] by (simp add: Validate_def validateRestore_def)

text \<open>A container whose arguments ask for neither a prune nor a restore passes the validation and runs.\<close>

lemma container_runs:
  assumes "cli_library cli_parse pint (x_ParseDuration X)" "readable pint (x_ParseDuration X) env"
    and "parse_flags restic_flags [] args = Inr (given, [])" "convertible pint (x_ParseDuration X) given" "PruneType \<notin> given_tasks given" "RestoreType \<notin> given_tasks given"
  shows "\<exists>c. resticCommand cli_parse pint h X args env w = run_with X c w \<and> tasks c = given_tasks given \<and>
    rc_Tags c = map TrimSpace (given_texts given ''tag'') \<and> rc_RestoreType c = last ([] # given_texts given ''restoreType'')"
proof -
  obtain vals where v: "cli_parse restic_flags args env = Inr vals"
    and f: "\<forall>f \<in> set restic_flags. vals (fl_Name f) = flag_texts env given f"
    using container_config [OF assms(1-4), of h] by blast
  let ?c = "command_config pint (x_ParseDuration X) h vals"
  have "\<not> rc_DoRestore ?c" "\<not> rc_DoPrune ?c"
    using given_config(1) [OF f, of pint "x_ParseDuration X" h] assms(5,6) unfolding tasks_iff [symmetric] by simp_all
  then have "resticCommand cli_parse pint h X args env w = run_with X ?c w"
    by (intro resticCommand_runs v Validate_other_tasks)
  then show ?thesis
    using given_config [OF f, of pint "x_ParseDuration X" h] by blast
qed

end
