(* ===== verification/Job_Environment.thy ===== *)
theory Job_Environment
  imports Job_Arguments
begin

text \<open>
  What the restic command reads from the environment that the operator writes into the container of
  a batch job (\<open>Env_Vars\<close>, \<open>Operator_Env\<close>): the variables of the container, as the values of
  the flags that are not given as arguments, and the environment of a prune in detail.
\<close>

section \<open>Environment\<close>

text \<open>
  The expansion of references in the value of a variable, as the API of Kubernetes documents it: a
  reference \<^verbatim>\<open>$(NAME)\<close> to a variable that is already defined is replaced by its value, one to an
  unknown variable stays, and text without a dollar sign is left alone.
\<close>

locale kube_expansion =
  fixes expn :: "(string \<rightharpoonup> string) \<Rightarrow> string \<Rightarrow> string"
  assumes expand_Nil: "expn env [] = []"
    and expand_char: "c \<noteq> CHR ''$'' \<Longrightarrow> expn env (c # s) = c # expn env s"
    and expand_ref: "CHR '')'' \<notin> set k \<Longrightarrow> expn env (''$('' @ k @ '')'' @ s) =
      (case env k of Some v \<Rightarrow> v | None \<Rightarrow> ''$('' @ k @ '')'') @ expn env s"
begin

lemma expand_prefix: "CHR ''$'' \<notin> set s \<Longrightarrow> expn env (s @ t) = s @ expn env t"
  by (induction s) (auto simp: expand_char)

lemma expand_plain: "CHR ''$'' \<notin> set s \<Longrightarrow> expn env s = s"
  using expand_prefix [of s env "[]"] by (simp add: expand_Nil)

end

text \<open>One such expansion, in which also two dollar signs make one.\<close>

function Expand :: "(string \<rightharpoonup> string) \<Rightarrow> string \<Rightarrow> string" where
  "Expand env [] = []"
| "Expand env (c # s) =
     (if c \<noteq> CHR ''$'' \<or> s = [] then c # Expand env s
      else if hd s = CHR ''('' \<and> CHR '')'' \<in> set (tl s)
      then (let k = takeWhile (\<lambda>c. c \<noteq> CHR '')'') (tl s)
            in (case env k of Some v \<Rightarrow> v | None \<Rightarrow> ''$('' @ k @ '')'') @ Expand env (drop (length k + 1) (tl s)))
      else if hd s = CHR ''$'' then CHR ''$'' # Expand env (tl s)
      else c # Expand env s)"
  by pat_completeness auto
termination by (relation "measure (length \<circ> snd)") auto

interpretation Expand: kube_expansion Expand
proof
  fix env k s
  assume "CHR '')'' \<notin> set k"
  then have "takeWhile (\<lambda>c. c \<noteq> CHR '')'') (k @ '')'' @ s) = k" by (induction k) auto
  then show "Expand env (''$('' @ k @ '')'' @ s) = (case env k of Some v \<Rightarrow> v | None \<Rightarrow> ''$('' @ k @ '')'') @ Expand env s"
    by (simp add: Let_def)
qed simp_all

text \<open>
  The environment of a container: its variables on top of what else it has, one after the other.
  \<open>secret\<close> looks up what a variable refers to.
\<close>

definition var_value ::
  "((string \<rightharpoonup> string) \<Rightarrow> string \<Rightarrow> string) \<Rightarrow> (env_var_source \<Rightarrow> string option) \<Rightarrow> (string \<rightharpoonup> string) \<Rightarrow> env_var \<Rightarrow> string option" where
  "var_value expn secret env v = (case ev_ValueFrom v of Some src \<Rightarrow> secret src | None \<Rightarrow> Some (expn env (ev_Value v)))"

fun container_env ::
  "((string \<rightharpoonup> string) \<Rightarrow> string \<Rightarrow> string) \<Rightarrow> (env_var_source \<Rightarrow> string option) \<Rightarrow> (string \<rightharpoonup> string) \<Rightarrow> env_var list \<Rightarrow> (string \<rightharpoonup> string)" where
  "container_env expn secret env [] = env"
| "container_env expn secret env (v # vars) =
     container_env expn secret (env(ev_Name v := var_value expn secret env v)) vars"

lemma container_env_append:
  "container_env expn secret env (us @ vs) = container_env expn secret (container_env expn secret env us) vs"
  by (induction us arbitrary: env) simp_all

lemma container_env_other: "k \<notin> set (map ev_Name vars) \<Longrightarrow> container_env expn secret env vars k = env k"
  by (induction vars arbitrary: env) auto

text \<open>A variable that is defined once has its value in the environment of the variables before it.\<close>

lemma container_env_at:
  assumes "ev_Name v \<notin> set (map ev_Name ws)"
  shows "container_env expn secret env (us @ v # ws) (ev_Name v) = var_value expn secret (container_env expn secret env us) v"
  by (simp add: container_env_append container_env_other [OF assms])

text \<open>The text an entry of the converter has in the container, and entries without references.\<close>

definition entry_text :: "(env_var_source \<Rightarrow> string option) \<Rightarrow> envVarEntry \<Rightarrow> string option" where
  "entry_text secret e = var_value (\<lambda>_ s. s) secret Map.empty (entry_env_var [] e)"

definition no_refs :: "envVarEntry \<Rightarrow> bool" where
  "no_refs e \<longleftrightarrow> ee_envVarSource e \<noteq> None \<or> (case ee_stringEnv e of Some s \<Rightarrow> CHR ''$'' \<notin> set s | None \<Rightarrow> True)"

lemma entry_text_simps [simp]:
  "entry_text secret \<lparr>ee_stringEnv = Some s, ee_envVarSource = None\<rparr> = Some s"
  "entry_text secret \<lparr>ee_stringEnv = s', ee_envVarSource = Some src\<rparr> = secret src"
  by (simp_all add: entry_text_def entry_env_var_def var_value_def)

lemma no_refs_simps [simp]:
  "no_refs \<lparr>ee_stringEnv = Some s, ee_envVarSource = None\<rparr> \<longleftrightarrow> CHR ''$'' \<notin> set s"
  "no_refs \<lparr>ee_stringEnv = s', ee_envVarSource = Some src\<rparr>"
  by (simp_all add: no_refs_def)

lemma set_Convert:
  assumes "range_order e ord"
  shows "set (Convert ord e) = {entry_env_var k v |k v. e k = Some v}"
proof -
  have "set ord = dom e" using assms by (simp add: range_order_def)
  then have v: "set (var_list e ord) = {entry_env_var k v |k v. e k = Some v \<and> k \<noteq> ResticRepositoryEnvName}"
    by (auto simp: var_list_def) force
  show ?thesis
  proof (cases "e ResticRepositoryEnvName")
    case None
    then show ?thesis unfolding Convert_eq [OF assms] by (auto simp: v) (metis option.distinct(1))
  next
    case (Some r)
    then show ?thesis unfolding Convert_eq [OF assms] by (auto simp: v) (metis option.inject)
  qed
qed

lemma distinct_Convert:
  assumes "range_order e ord"
  shows "distinct (map ev_Name (Convert ord e))"
  using assms var_list_names [OF assms] unfolding Convert_eq [OF assms]
  by (auto simp: range_order_def split: option.splits)

context kube_expansion
begin

lemma var_value_entry: "no_refs e \<Longrightarrow> var_value expn secret env (entry_env_var k e) = entry_text secret e"
  by (auto simp: entry_text_def entry_env_var_def var_value_def no_refs_def expand_plain expand_Nil split: option.splits)

lemma container_env_entries:
  assumes "distinct (map ev_Name vars)" "entry_env_var k v \<in> set vars" "no_refs v"
  shows "container_env expn secret env vars k = entry_text secret v"
proof -
  obtain us ws where vars: "vars = us @ entry_env_var k v # ws" using assms(2) by (auto simp: in_set_conv_decomp)
  then have "ev_Name (entry_env_var k v) \<notin> set (map ev_Name ws)" using assms(1) by simp
  from container_env_at [OF this, of expn secret env us] show ?thesis
    by (simp add: vars var_value_entry [OF assms(3)])
qed

lemma container_env_Convert:
  assumes "range_order e ord" "\<forall>v. e k = Some v \<longrightarrow> no_refs v"
  shows "container_env expn secret env (Convert ord e) k = (case e k of Some v \<Rightarrow> entry_text secret v | None \<Rightarrow> env k)"
proof (cases "e k")
  case None
  then have "k \<notin> set (map ev_Name (Convert ord e))" by (auto simp: set_Convert [OF assms(1)])
  then show ?thesis using None container_env_other [of k] by simp
next
  case (Some v)
  then have "entry_env_var k v \<in> set (Convert ord e)" by (auto simp: set_Convert [OF assms(1)])
  from container_env_entries [OF distinct_Convert [OF assms(1)] this] show ?thesis using Some assms(2) by simp
qed

text \<open>The repository comes last, so that it is expanded with all other variables.\<close>

lemma container_env_repository:
  assumes "range_order e ord" "e ResticRepositoryEnvName = Some \<lparr>ee_stringEnv = Some repo, ee_envVarSource = None\<rparr>"
  shows "container_env expn secret env (Convert ord e) ResticRepositoryEnvName =
    Some (expn (container_env expn secret env (var_list e ord)) repo)"
  using container_env_at [of "entry_env_var ResticRepositoryEnvName \<lparr>ee_stringEnv = Some repo, ee_envVarSource = None\<rparr>" "[]" expn secret env "var_list e ord"]
  unfolding Convert_eq [OF assms(1)] by (simp add: assms(2) entry_env_var_def var_value_def)

lemma container_env_before_repository:
  assumes "range_order e ord" "k \<noteq> ResticRepositoryEnvName" "e k = Some v" "no_refs v"
  shows "container_env expn secret env (var_list e ord) k = entry_text secret v"
proof (rule container_env_entries [OF _ _ assms(4)])
  show "distinct (map ev_Name (var_list e ord))"
    using assms(1) unfolding var_list_names [OF assms(1)] by (simp add: range_order_def)
  have "k \<in> set ord" using assms(1,3) by (auto simp: range_order_def)
  then show "entry_env_var k v \<in> set (var_list e ord)" using assms(2,3) by (force simp: var_list_def)
qed

end

text \<open>The merged variables of a job: the object's value, else the operator's default.\<close>

lemma merged_vars_apply:
  assumes "merge_ok L" "order_laws L" "finite (dom e)"
  shows "range_order (merged_vars L cfg ns e) (lib_Order L (merged_vars L cfg ns e))"
    and "e k \<noteq> Some \<lparr>ee_stringEnv = None, ee_envVarSource = None\<rparr> \<Longrightarrow>
      merged_vars L cfg ns e k = (case e k of Some v \<Rightarrow> Some v | None \<Rightarrow> DefaultEnv cfg ns k)"
proof -
  have m: "lib_MergoVars L e (DefaultEnv cfg ns) = (None, merged_vars L cfg ns e)"
    using assms(1) by (metis Merge_def merge_ok_def merged_vars_def prod.collapse)
  have laws: "mergo_laws (lib_MergoVars L)" using assms(1) by (simp add: merge_ok_def)
  note D = mergo_lawsD [OF laws m]
  have "finite (dom (merged_vars L cfg ns e))" using D(1) assms(3) by simp
  then show "range_order (merged_vars L cfg ns e) (lib_Order L (merged_vars L cfg ns e))" using assms(2) by (simp add: order_laws_def)
  show "e k \<noteq> Some \<lparr>ee_stringEnv = None, ee_envVarSource = None\<rparr> \<Longrightarrow>
      merged_vars L cfg ns e k = (case e k of Some v \<Rightarrow> Some v | None \<Rightarrow> DefaultEnv cfg ns k)"
    using D(2,3) [of k] by (cases "e k") auto
qed

text \<open>What a variable of the job has in the container, when its value has no references.\<close>

context kube_expansion
begin

lemma job_env_value:
  assumes "merge_ok L" "order_laws L" "finite (dom e)"
    and "e k \<noteq> Some \<lparr>ee_stringEnv = None, ee_envVarSource = None\<rparr>"
    and "m = (case e k of Some v \<Rightarrow> Some v | None \<Rightarrow> DefaultEnv cfg ns k)" "\<forall>v. m = Some v \<longrightarrow> no_refs v"
  shows "container_env expn secret env (finish_env L cfg ns e) k = (case m of Some v \<Rightarrow> entry_text secret v | None \<Rightarrow> env k)"
proof -
  have k: "merged_vars L cfg ns e k = m" using merged_vars_apply(2) [OF assms(1-4)] assms(5) by simp
  show ?thesis
    using container_env_Convert [OF merged_vars_apply(1) [OF assms(1-3)], of cfg ns k secret env] assms(6)
    by (simp add: finish_env_def k)
qed

end

section \<open>The repository of a REST server\<close>

text \<open>The variables of a backend that is a REST server with credentials in secrets.\<close>

definition from_secret :: "secret_key_selector \<Rightarrow> envVarEntry" where
  "from_secret s = \<lparr>ee_stringEnv = None, ee_envVarSource = Some \<lparr>evs_SecretKeyRef = Some s\<rparr>\<rparr>"

definition rest_vars :: "Configuration \<Rightarrow> RestServerSpec \<Rightarrow> Vars \<Rightarrow> bool" where
  "rest_vars cfg r e \<longleftrightarrow> finite (dom e) \<and>
     e ResticRepositoryEnvName = Some \<lparr>ee_stringEnv = Some (RestServerSpec_String r), ee_envVarSource = None\<rparr> \<and>
     (\<forall>s. rest_UserSecretRef r = Some s \<longrightarrow> e RestUserEnvName = Some (from_secret s)) \<and>
     (\<forall>s. rest_PasswordSecretReg r = Some s \<longrightarrow> e RestPasswordEnvName = Some (from_secret s))"

lemma rest_credentials:
  assumes "first_backend (getSupportedBackends b) = Some (RestBackend r)"
  shows "rest_UserSecretRef r = Some s \<Longrightarrow> GetCredentialEnv b RestUserEnvName = Some \<lparr>evs_SecretKeyRef = Some s\<rparr>"
    and "rest_PasswordSecretReg r = Some s \<Longrightarrow> GetCredentialEnv b RestPasswordEnvName = Some \<lparr>evs_SecretKeyRef = Some s\<rparr>"
  by (simp_all add: GetCredentialEnv_def Let_def assms addEnvVarFromSecret_def RestUserEnvName_def RestPasswordEnvName_def split: option.splits)

lemma rest_vars_backend:
  assumes "finite (dom e)" "first_backend (getSupportedBackends b) = Some (RestBackend r)"
  shows "rest_vars cfg r (set_backend_vars cfg (Some b) e)"
proof -
  have n: "RestUserEnvName \<noteq> ResticRepositoryEnvName" "RestPasswordEnvName \<noteq> ResticRepositoryEnvName"
    by (simp_all add: RestUserEnvName_def RestPasswordEnvName_def ResticRepositoryEnvName_def)
  have "finite (dom (set_backend_vars cfg (Some b) e))" using assms(1) by simp
  then show ?thesis
    unfolding rest_vars_def using rest_credentials [OF assms(2)]
    by (auto simp: set_backend_vars_def set_string_apply range_assign_def Backend_String_def assms(2) from_secret_def n)
qed

lemma rest_vars_set [simp]:
  "k \<notin> {ResticRepositoryEnvName, RestUserEnvName, RestPasswordEnvName} \<Longrightarrow> rest_vars cfg r (SetString k v e) = rest_vars cfg r e"
  by (auto simp: rest_vars_def SetString_def setEntry_def)

context kube_expansion
begin

lemma rest_repository:
  assumes "merge_ok L" "order_laws L" "rest_vars cfg r e"
    and "rest_UserSecretRef r = Some u" "secret \<lparr>evs_SecretKeyRef = Some u\<rparr> = Some user"
    and "rest_PasswordSecretReg r = Some p" "secret \<lparr>evs_SecretKeyRef = Some p\<rparr> = Some password"
    and "Cut (rest_URL r) ''://'' = (protocol, url, found)" "CHR ''$'' \<notin> set (protocol @ url)"
  shows "container_env expn secret env (finish_env L cfg ns e) ResticRepositoryEnvName =
    Some (''rest:'' @ protocol @ ''://'' @ user @ '':'' @ password @ ''@'' @ url)"
proof -
  let ?m = "merged_vars L cfg ns e" and ?before = "\<lambda>ord. container_env expn secret env (var_list (merged_vars L cfg ns e) ord)"
  have f: "finite (dom e)" using assms(3) by (simp add: rest_vars_def)
  note m = merged_vars_apply(2) [OF assms(1,2) f, of _ cfg ns] and o = merged_vars_apply(1) [OF assms(1,2) f, of cfg ns]
  have v: "?m ResticRepositoryEnvName = Some \<lparr>ee_stringEnv = Some (RestServerSpec_String r), ee_envVarSource = None\<rparr>"
    "?m RestUserEnvName = Some (from_secret u)" "?m RestPasswordEnvName = Some (from_secret p)"
    using assms(3,4,6) m [of ResticRepositoryEnvName] m [of RestUserEnvName] m [of RestPasswordEnvName]
    by (simp_all add: rest_vars_def from_secret_def)
  have b: "?before (lib_Order L ?m) ''USER'' = Some user" "?before (lib_Order L ?m) ''PASSWORD'' = Some password"
    using container_env_before_repository [OF o _ v(2), of secret env] container_env_before_repository [OF o _ v(3), of secret env] assms(5,7)
    by (simp_all add: from_secret_def RestUserEnvName_def RestPasswordEnvName_def ResticRepositoryEnvName_def)
  have d: "CHR ''$'' \<notin> set protocol" "CHR ''$'' \<notin> set url" using assms(9) by simp_all
  have "expn (?before (lib_Order L ?m)) (''rest:'' @ protocol @ ''://'' @ (''$('' @ ''USER'' @ '')'' @ '':'' @ (''$('' @ ''PASSWORD'' @ '')'' @ ''@'' @ url))) =
      ''rest:'' @ protocol @ ''://'' @ user @ '':'' @ password @ ''@'' @ url"
    using b d expand_ref [of "''USER''", simplified] expand_ref [of "''PASSWORD''", simplified]
    by (simp add: expand_char expand_prefix expand_plain)
  then show ?thesis
    unfolding finish_env_def container_env_repository [OF o v(1)] by (simp add: RestServerSpec_String_def assms(8))
qed

end

section \<open>What the restic command reads\<close>

text \<open>The names of the variables that the restic command reads; no credential is among them.\<close>

definition flag_variables :: "string list" where
  "flag_variables = concat (map fl_EnvVars restic_flags)"

lemma credential_names: "dom (GetCredentialEnv b) \<subseteq> set [ResticPasswordEnvName, AwsAccessKeyIDEnvName, AwsSecretAccessKeyEnvName,
    GcsProjectIDEnvName, GcsAccessTokenEnvName, AzureAccountEnvName, AzureAccountKeyEnvName, B2AccountIDEnvName, B2AccountKeyEnvName,
    RestUserEnvName, RestPasswordEnvName]"
proof -
  have "dom (EnvVars be vars) \<subseteq> dom vars \<union> set [AwsAccessKeyIDEnvName, AwsSecretAccessKeyEnvName,
    GcsProjectIDEnvName, GcsAccessTokenEnvName, AzureAccountEnvName, AzureAccountKeyEnvName, B2AccountIDEnvName, B2AccountKeyEnvName,
    RestUserEnvName, RestPasswordEnvName]" for be vars
    by (cases be) (auto simp: addEnvVarFromSecret_def split: option.splits if_splits)
  then show ?thesis by (fastforce simp: GetCredentialEnv_def Let_def split: option.splits)
qed

lemma backend_variables:
  assumes "k \<in> set flag_variables"
  shows "set_backend_vars cfg be e k =
    (case be of None \<Rightarrow> e k
     | Some b \<Rightarrow> if k = ResticRepositoryEnvName then Some \<lparr>ee_stringEnv = Some (Backend_String cfg b), ee_envVarSource = None\<rparr> else e k)"
proof -
  have "list_all (\<lambda>k. k \<notin> set [ResticPasswordEnvName, AwsAccessKeyIDEnvName, AwsSecretAccessKeyEnvName,
    GcsProjectIDEnvName, GcsAccessTokenEnvName, AzureAccountEnvName, AzureAccountKeyEnvName, B2AccountIDEnvName, B2AccountKeyEnvName,
    RestUserEnvName, RestPasswordEnvName]) flag_variables" by code_simp
  then have "GetCredentialEnv b k = None" for b using assms credential_names [of b] by (auto simp: list_all_iff domIff)
  then show ?thesis by (simp add: set_backend_vars_def set_string_apply range_assign_def split: option.splits)
qed

text \<open>A readable environment, by the flags that need a conversion.\<close>

definition converted_flags :: "cli_flag list" where
  "converted_flags = filter (\<lambda>f. fl_Kind f \<in> set [BoolFlag, IntFlag, DurationFlag] \<and> fl_EnvVars f \<noteq> []) restic_flags"

lemma readable_iff:
  "readable pint pdur env \<longleftrightarrow>
     (\<forall>f \<in> set converted_flags. \<forall>v. env_text env f = Some v \<longrightarrow> v \<noteq> [] \<longrightarrow> converts pint pdur (fl_Kind f) v) \<and>
     env ''HOSTNAME'' \<noteq> None \<and> env ''RESTIC_REPOSITORY'' \<noteq> None"
proof -
  have conv: "f \<notin> set converted_flags \<Longrightarrow> f \<in> set restic_flags \<Longrightarrow> env_text env f = Some v \<Longrightarrow> converts pint pdur (fl_Kind f) v" for f v
    by (cases "fl_Kind f") (auto simp: converted_flags_def converts_def env_text_def)
  have sub: "set converted_flags \<subseteq> set restic_flags" by (simp add: converted_flags_def)
  have req: "filter fl_Required restic_flags =
      [(new_flag StringFlag ''hostname'' [''HOSTNAME''])\<lparr>fl_Required := True\<rparr>,
       (new_flag StringFlag ''resticRepository'' [''RESTIC_REPOSITORY''])\<lparr>fl_Required := True\<rparr>]" by code_simp
  have "(\<forall>f \<in> set restic_flags. fl_Required f \<longrightarrow> env_text env f \<noteq> None) \<longleftrightarrow>
      (\<forall>f \<in> set (filter fl_Required restic_flags). env_text env f \<noteq> None)" by auto
  also have "\<dots> \<longleftrightarrow> env ''HOSTNAME'' \<noteq> None \<and> env ''RESTIC_REPOSITORY'' \<noteq> None"
    unfolding req by (simp add: new_flag_def env_text_def)
  finally show ?thesis using conv sub unfolding readable_def by blast
qed

section \<open>The environment of a prune\<close>

text \<open>The variables of a prune before they are merged with the defaults.\<close>

definition prune_vars :: "Configuration \<Rightarrow> Prune \<Rightarrow> Vars" where
  "prune_vars cfg p =
     (let ret = prs_Retention (p_Spec p);
          vars = keep_var ''KEEP_HOURLY'' (rp_KeepHourly ret) (keep_var ''KEEP_LAST'' (rp_KeepLast ret) NewEnvVarConverter);
          vars = SetString ''KEEP_DAILY'' (if rp_KeepDaily ret > 0 then Itoa (rp_KeepDaily ret) else ''14'') vars;
          vars = keep_var ''KEEP_YEARLY'' (rp_KeepYearly ret) (keep_var ''KEEP_MONTHLY'' (rp_KeepMonthly ret)
                   (keep_var ''KEEP_WEEKLY'' (rp_KeepWeekly ret) vars));
          vars = (if rp_KeepTags ret \<noteq> [] then SetString ''KEEP_TAGS'' (Join (rp_KeepTags ret) '','') vars else vars);
          vars = SetString ''PROM_URL'' (cfg_PromURL cfg) (set_backend_vars cfg (rs_Backend (prs_RunnableSpec (p_Spec p))) vars)
      in if cfg_SkipSnapshotSync cfg then SetString ''BACKUP_SKIP_SNAPSHOT_SYNC'' ''true'' vars else vars)"

lemma prune_setupEnvVars_eq: "prune_setupEnvVars L cfg p = finish_env L cfg (om_Namespace (p_Meta p)) (prune_vars cfg p)"
  by (simp add: prune_setupEnvVars_def prune_vars_def Let_def)

lemma finite_prune_vars: "finite (dom (prune_vars cfg p))"
  by (simp add: prune_vars_def Let_def)

definition keep_text :: "int \<Rightarrow> string option" where
  "keep_text n = (if n > 0 then Some (Itoa n) else None)"

text \<open>The text of each variable that the restic command reads in the container of a prune.\<close>

definition prune_text :: "Configuration \<Rightarrow> Prune \<Rightarrow> string \<Rightarrow> string option" where
  "prune_text cfg p k =
     (let ret = prs_Retention (p_Spec p)
      in if k = ''KEEP_LAST'' then keep_text (rp_KeepLast ret)
         else if k = ''KEEP_HOURLY'' then keep_text (rp_KeepHourly ret)
         else if k = ''KEEP_DAILY'' then Some (if rp_KeepDaily ret > 0 then Itoa (rp_KeepDaily ret) else ''14'')
         else if k = ''KEEP_WEEKLY'' then keep_text (rp_KeepWeekly ret)
         else if k = ''KEEP_MONTHLY'' then keep_text (rp_KeepMonthly ret)
         else if k = ''KEEP_YEARLY'' then keep_text (rp_KeepYearly ret)
         else if k = ''KEEP_TAGS'' then (if rp_KeepTags ret \<noteq> [] then Some (Join (rp_KeepTags ret) '','') else None)
         else if k = ''PROM_URL'' then Some (cfg_PromURL cfg)
         else if k = ''BACKUP_SKIP_SNAPSHOT_SYNC'' then (if cfg_SkipSnapshotSync cfg then Some ''true'' else None)
         else if k = ''RESTIC_REPOSITORY'' then Some (repository_of cfg (rs_Backend (prs_RunnableSpec (p_Spec p))))
         else if k = ''STATS_URL'' then Some (cfg_GlobalStatsURL cfg)
         else if k = ''HOSTNAME'' then Some (om_Namespace (p_Meta p))
         else if k = ''RESTIC_OPTIONS'' then (if cfg_ResticOptions cfg \<noteq> [] then Some (cfg_ResticOptions cfg) else None)
         else None)"

lemma keep_var_apply: "keep_var k n e k' = (if k' = k \<and> n > 0 then Some \<lparr>ee_stringEnv = Some (Itoa n), ee_envVarSource = None\<rparr> else e k')"
  by (simp add: keep_var_def set_string_apply)

lemma default_env_apply:
  assumes "k \<in> set flag_variables"
  shows "DefaultEnv cfg ns k =
    (if k = ''STATS_URL'' then Some \<lparr>ee_stringEnv = Some (cfg_GlobalStatsURL cfg), ee_envVarSource = None\<rparr>
     else if k = ''RESTIC_REPOSITORY'' then Some \<lparr>ee_stringEnv = Some (GetGlobalRepository cfg), ee_envVarSource = None\<rparr>
     else if k = ''HOSTNAME'' then Some \<lparr>ee_stringEnv = Some ns, ee_envVarSource = None\<rparr>
     else if k = ''RESTIC_OPTIONS'' \<and> cfg_ResticOptions cfg \<noteq> [] then Some \<lparr>ee_stringEnv = Some (cfg_ResticOptions cfg), ee_envVarSource = None\<rparr>
     else None)"
proof -
  have "list_all (\<lambda>k. k \<notin> set [ResticPasswordEnvName, AwsAccessKeyIDEnvName, AwsSecretAccessKeyEnvName]) flag_variables" by code_simp
  then have "k \<notin> set [ResticPasswordEnvName, AwsAccessKeyIDEnvName, AwsSecretAccessKeyEnvName]" using assms by (simp add: list_all_iff)
  then show ?thesis
    by (simp add: DefaultEnv_def Let_def set_string_apply NewEnvVarConverter_def GetGlobalRepository_def ResticRepositoryEnvName_def ResticOptionsEnvName_def)
qed

lemma read_variables:
  "''STATS_URL'' \<in> set flag_variables" "''HOSTNAME'' \<in> set flag_variables" "''RESTIC_OPTIONS'' \<in> set flag_variables"
  "''RESTIC_REPOSITORY'' \<in> set flag_variables" "''PROM_URL'' \<in> set flag_variables" "''BACKUP_SKIP_SNAPSHOT_SYNC'' \<in> set flag_variables"
  "''KEEP_LAST'' \<in> set flag_variables" "''KEEP_HOURLY'' \<in> set flag_variables" "''KEEP_DAILY'' \<in> set flag_variables"
  "''KEEP_WEEKLY'' \<in> set flag_variables" "''KEEP_MONTHLY'' \<in> set flag_variables" "''KEEP_YEARLY'' \<in> set flag_variables"
  "''KEEP_TAGS'' \<in> set flag_variables" "''KEEP_TAG'' \<in> set flag_variables" "''KEEP_LATEST'' \<in> set flag_variables"
  "''KEEP_WITHIN'' \<in> set flag_variables" "''KEEP_WITHIN_HOURLY'' \<in> set flag_variables" "''KEEP_WITHIN_DAILY'' \<in> set flag_variables"
  "''KEEP_WITHIN_WEEKLY'' \<in> set flag_variables" "''KEEP_WITHIN_MONTHLY'' \<in> set flag_variables" "''KEEP_WITHIN_YEARLY'' \<in> set flag_variables"
  by code_simp+

lemma prune_vars_apply:
  assumes "k \<in> set flag_variables"
  shows "prune_vars cfg p k =
    (if k \<in> set [''STATS_URL'', ''HOSTNAME'', ''RESTIC_OPTIONS''] \<or> k = ''RESTIC_REPOSITORY'' \<and> rs_Backend (prs_RunnableSpec (p_Spec p)) = None then None
     else map_option (\<lambda>s. \<lparr>ee_stringEnv = Some s, ee_envVarSource = None\<rparr>) (prune_text cfg p k))"
proof -
  note defs = prune_vars_def Let_def set_string_apply backend_variables assms read_variables keep_var_apply prune_text_def keep_text_def
    NewEnvVarConverter_def ResticRepositoryEnvName_def repository_of_def if_distribR
  show ?thesis
  proof (cases "rs_Backend (prs_RunnableSpec (p_Spec p))")
    case None
    then show ?thesis by (simp add: defs)
  next
    case (Some b)
    then show ?thesis by (simp add: defs)
  qed
qed

text \<open>The environment of a prune as the restic command sees it.\<close>

abbreviation prune_env ::
  "((string \<rightharpoonup> string) \<Rightarrow> string \<Rightarrow> string) \<Rightarrow> lib \<Rightarrow> Configuration \<Rightarrow> (env_var_source \<Rightarrow> string option) \<Rightarrow> (string \<rightharpoonup> string) \<Rightarrow> Prune \<Rightarrow>
   (string \<rightharpoonup> string)" where
  "prune_env expn L cfg secret env p \<equiv> container_env expn secret env (prune_setupEnvVars L cfg p)"

context kube_expansion
begin

lemma prune_env_text:
  assumes "merge_ok L" "order_laws L" "k \<in> set flag_variables" "\<forall>s. prune_text cfg p k = Some s \<longrightarrow> CHR ''$'' \<notin> set s"
  shows "prune_env expn L cfg secret env p k = (case prune_text cfg p k of Some s \<Rightarrow> Some s | None \<Rightarrow> env k)"
proof -
  note v = prune_vars_apply [OF assms(3), of cfg p] default_env_apply [OF assms(3)]
  let ?m = "map_option (\<lambda>s. \<lparr>ee_stringEnv = Some s, ee_envVarSource = None\<rparr>) (prune_text cfg p k)"
  have n: "prune_vars cfg p k \<noteq> Some \<lparr>ee_stringEnv = None, ee_envVarSource = None\<rparr>" by (simp add: v)
  have m: "?m = (case prune_vars cfg p k of Some v \<Rightarrow> Some v | None \<Rightarrow> DefaultEnv cfg (om_Namespace (p_Meta p)) k)"
    by (cases "rs_Backend (prs_RunnableSpec (p_Spec p))"; cases "prune_text cfg p k")
      (auto simp: v prune_text_def Let_def repository_of_def split: if_splits)
  have r: "\<forall>v. ?m = Some v \<longrightarrow> no_refs v" using assms(4) by auto
  show ?thesis
    unfolding prune_setupEnvVars_eq job_env_value [OF assms(1,2) finite_prune_vars n m r]
    by (cases "prune_text cfg p k") simp_all
qed

end

lemma prune_flags_named:
  "flag_named restic_flags ''keepLatest'' = Some (new_flag IntFlag ''keepLatest'' [''KEEP_LAST'', ''KEEP_LATEST''])"
  "flag_named restic_flags ''keepHourly'' = Some (new_flag IntFlag ''keepHourly'' [''KEEP_HOURLY''])"
  "flag_named restic_flags ''keepDaily'' = Some (new_flag IntFlag ''keepDaily'' [''KEEP_DAILY''])"
  "flag_named restic_flags ''keepWeekly'' = Some (new_flag IntFlag ''keepWeekly'' [''KEEP_WEEKLY''])"
  "flag_named restic_flags ''keepMonthly'' = Some (new_flag IntFlag ''keepMonthly'' [''KEEP_MONTHLY''])"
  "flag_named restic_flags ''keepYearly'' = Some (new_flag IntFlag ''keepYearly'' [''KEEP_YEARLY''])"
  "flag_named restic_flags ''keepTags'' = Some (new_flag BoolFlag ''keepTags'' [''KEEP_TAG'', ''KEEP_TAGS''])"
  "flag_named restic_flags ''keepWithin'' = Some (new_flag StringFlag ''keepWithin'' [''KEEP_WITHIN''])"
  "flag_named restic_flags ''keepWithinHourly'' = Some (new_flag StringFlag ''keepWithinHourly'' [''KEEP_WITHIN_HOURLY''])"
  "flag_named restic_flags ''keepWithinDaily'' = Some (new_flag StringFlag ''keepWithinDaily'' [''KEEP_WITHIN_DAILY''])"
  "flag_named restic_flags ''keepWithinWeekly'' = Some (new_flag StringFlag ''keepWithinWeekly'' [''KEEP_WITHIN_WEEKLY''])"
  "flag_named restic_flags ''keepWithinMonthly'' = Some (new_flag StringFlag ''keepWithinMonthly'' [''KEEP_WITHIN_MONTHLY''])"
  "flag_named restic_flags ''keepWithinYearly'' = Some (new_flag StringFlag ''keepWithinYearly'' [''KEEP_WITHIN_YEARLY''])"
  "flag_named restic_flags ''hostname'' = Some ((new_flag StringFlag ''hostname'' [''HOSTNAME''])\<lparr>fl_Required := True\<rparr>)"
  "flag_named restic_flags ''resticRepository'' = Some ((new_flag StringFlag ''resticRepository'' [''RESTIC_REPOSITORY''])\<lparr>fl_Required := True\<rparr>)"
  by code_simp+

lemma converted_flags_eq: "converted_flags = [new_flag BoolFlag ''skipPreBackup'' [''SKIP_PREBACKUP''],
    new_flag BoolFlag ''skipSnapshotSync'' [''BACKUP_SKIP_SNAPSHOT_SYNC''],
    new_flag BoolFlag ''trimRestorePath'' [''TRIM_RESTOREPATH''],
    new_flag BoolFlag ''excludeCaches'' [''RESTIC_EXCLUDE_CACHES''],
    new_flag BoolFlag ''oneFileSystem'' [''RESTIC_ONE_FILESYSTEM''],
    new_flag IntFlag ''keepLatest'' [''KEEP_LAST'', ''KEEP_LATEST''],
    new_flag IntFlag ''keepHourly'' [''KEEP_HOURLY''],
    new_flag IntFlag ''keepDaily'' [''KEEP_DAILY''],
    new_flag IntFlag ''keepWeekly'' [''KEEP_WEEKLY''],
    new_flag IntFlag ''keepMonthly'' [''KEEP_MONTHLY''],
    new_flag IntFlag ''keepYearly'' [''KEEP_YEARLY''],
    new_flag BoolFlag ''keepTags'' [''KEEP_TAG'', ''KEEP_TAGS''],
    new_flag DurationFlag ''sleepDuration'' [''SLEEP_DURATION''],
    new_flag BoolFlag ''insecure-allow-podexec-spdy-fallback'' [''INSECURE_ALLOW_PODEXEC_SPDY_FALLBACK'']]"
  by code_simp

lemma env_text_simps [simp]:
  "env_text env (new_flag k n []) = None" "k \<noteq> StringSliceFlag \<Longrightarrow> env_text env (new_flag k n [a]) = env a"
  "k \<noteq> StringSliceFlag \<Longrightarrow> env_text env (new_flag k n [a, b]) = (if env a \<noteq> None then env a else env b)"
  "env_text env (f\<lparr>fl_Required := b'\<rparr>) = env_text env f"
  by (auto simp: new_flag_def env_text_def split: option.splits)

text \<open>
  The variables that are converted, and those of the retention periods: the ones that could make the
  command fail or change what a prune keeps. \<open>operator_variables\<close> are the two required ones.
\<close>

definition policy_variables :: "string list" where
  "policy_variables = [''SKIP_PREBACKUP'', ''BACKUP_SKIP_SNAPSHOT_SYNC'', ''TRIM_RESTOREPATH'', ''RESTIC_EXCLUDE_CACHES'', ''RESTIC_ONE_FILESYSTEM'',
     ''KEEP_LAST'', ''KEEP_LATEST'', ''KEEP_HOURLY'', ''KEEP_DAILY'', ''KEEP_WEEKLY'', ''KEEP_MONTHLY'', ''KEEP_YEARLY'',
     ''KEEP_TAG'', ''KEEP_TAGS'', ''SLEEP_DURATION'', ''INSECURE_ALLOW_PODEXEC_SPDY_FALLBACK'',
     ''KEEP_WITHIN'', ''KEEP_WITHIN_HOURLY'', ''KEEP_WITHIN_DAILY'', ''KEEP_WITHIN_WEEKLY'', ''KEEP_WITHIN_MONTHLY'', ''KEEP_WITHIN_YEARLY'']"

definition operator_variables :: "string list" where
  "operator_variables = [''HOSTNAME'', ''RESTIC_REPOSITORY'']"

lemma policy_variables_read: "list_all (\<lambda>k. k \<in> set flag_variables \<and> k \<notin> set [''PROM_URL'', ''STATS_URL'', ''RESTIC_OPTIONS''])
    (policy_variables @ operator_variables)"
  by code_simp

lemma new_flag_sel [simp]: "fl_Kind (new_flag k n e) = k" "fl_Name (new_flag k n e) = n"
  by (simp_all add: new_flag_def)

definition small_retention :: "RetentionPolicy \<Rightarrow> bool" where
  "small_retention ret \<longleftrightarrow> rp_KeepLast ret < 2 ^ 63 \<and> rp_KeepHourly ret < 2 ^ 63 \<and> rp_KeepDaily ret < 2 ^ 63 \<and>
     rp_KeepWeekly ret < 2 ^ 63 \<and> rp_KeepMonthly ret < 2 ^ 63 \<and> rp_KeepYearly ret < 2 ^ 63"

lemma Itoa_14: "Itoa 14 = ''14''"
  by code_simp

lemma Itoa_no_refs: "0 < n \<Longrightarrow> CHR ''$'' \<notin> set (Itoa n)"
proof -
  assume "0 < n"
  then have i: "Itoa n = nat_numeral (nat n)" by (simp add: Itoa_def del: nat_numeral.simps)
  have "CHR ''$'' \<notin> set ''0123456789''" by simp
  then show ?thesis using decimal_digits(2) [of "nat n"] unfolding i list_all_iff by blast
qed

text \<open>
  The variables that have a text without references in any case: those that are converted, and none of
  them names the host or the repository.
\<close>

lemma prune_text_plain:
  assumes "list_all (\<lambda>s. CHR ''$'' \<notin> set s) [repository_of cfg (rs_Backend (prs_RunnableSpec (p_Spec p))), om_Namespace (p_Meta p)]"
    and "k \<notin> set [''PROM_URL'', ''STATS_URL'', ''RESTIC_OPTIONS'', ''KEEP_TAGS'']" "prune_text cfg p k = Some s"
  shows "CHR ''$'' \<notin> set s"
  using assms by (simp add: prune_text_def Let_def keep_text_def split: if_splits) (auto simp: Itoa_no_refs)

context cli_library
begin

lemma keep_converts: "n < 2 ^ 63 \<Longrightarrow> keep_text n = Some v \<Longrightarrow> ParseInt v = Some n"
  by (auto simp: keep_text_def intro: ParseInt_Itoa split: if_splits)

text \<open>Whatever environment agrees with the texts of a prune can be read.\<close>

lemma prune_texts_readable:
  assumes "\<forall>k \<in> set (policy_variables @ operator_variables). e k = prune_text cfg p k"
    and "rp_KeepTags (prs_Retention (p_Spec p)) = []" "small_retention (prs_Retention (p_Spec p))"
  shows "readable ParseInt ParseDur e"
proof -
  have v: "e k = prune_text cfg p k" if "k \<in> set [''SKIP_PREBACKUP'', ''BACKUP_SKIP_SNAPSHOT_SYNC'', ''TRIM_RESTOREPATH'', ''RESTIC_EXCLUDE_CACHES'', ''RESTIC_ONE_FILESYSTEM'', ''KEEP_LAST'', ''KEEP_LATEST'', ''KEEP_HOURLY'', ''KEEP_DAILY'', ''KEEP_WEEKLY'', ''KEEP_MONTHLY'', ''KEEP_YEARLY'', ''KEEP_TAG'', ''KEEP_TAGS'', ''SLEEP_DURATION'', ''INSECURE_ALLOW_PODEXEC_SPDY_FALLBACK'']" for k
  proof -
    have "k \<in> set policy_variables" using that by (auto simp: policy_variables_def)
    then show ?thesis using assms(1) by simp
  qed
  have w: "e ''HOSTNAME'' = prune_text cfg p ''HOSTNAME''" "e ''RESTIC_REPOSITORY'' = prune_text cfg p ''RESTIC_REPOSITORY''"
    using assms(1) by (simp_all add: operator_variables_def)
  have d: "ParseInt ''14'' = Some 14" using ParseInt_Itoa [of 14] by (simp add: Itoa_14)
  show ?thesis
    unfolding readable_iff converted_flags_eq
    using assms(2,3) keep_converts ParseInt_Itoa
    by (auto simp: v w prune_text_def Let_def converts_def parse_bool_def d small_retention_def keep_text_def split: if_splits)
qed

end

end
