(* ===== verification/Commands.thy ===== *)
theory Commands
  imports Restic_Types
begin

text \<open>
  Two further commands of the binary. \<^verbatim>\<open>cmd/cli/main.go\<close> with \<^verbatim>\<open>cli/restore\<close>
  creates a \<^verbatim>\<open>Restore\<close> from the command line; the client of the API server and the codecs
  are the record \<open>cli_api\<close>. Of \<^verbatim>\<open>cmd/operator/main.go\<close> what the flags do to the
  configuration, and the check of the quantities; \<open>Operator_Main\<close> has the rest, and
  \<open>Restore_Command\<close> the flags of the restore.
\<close>

section \<open>Creating a restore\<close>

record RestoreConfig =
  rcf_ClaimName :: string
  rcf_Kubeconfig :: string
  rcf_Namespace :: string
  rcf_RestoreName :: string
  rcf_RunAsUser :: int
  rcf_RestoreMethod :: string
  rcf_Snapshot :: string
  rcf_SecretRef :: string
  rcf_SecretRefKey :: string
  rcf_S3Endpoint :: string
  rcf_S3Bucket :: string
  rcf_S3SecretRef :: string
  rcf_S3SecretRefUsernameKey :: string
  rcf_S3SecretRefPasswordKey :: string
  rcf_RestoreToS3Endpoint :: string
  rcf_RestoreToS3Bucket :: string
  rcf_RestoreToS3Secret :: string
  rcf_RestoreToS3SecretUsernameKey :: string
  rcf_RestoreToS3SecretPasswordKey :: string

text \<open>The configuration when only the five required flags are given.\<close>

definition default_restore_config :: "string \<Rightarrow> string \<Rightarrow> string \<Rightarrow> string \<Rightarrow> string \<Rightarrow> RestoreConfig" where
  "default_restore_config secretRef s3endpoint s3bucket s3secretRef restoreMethod = \<lparr>
     rcf_ClaimName = [], rcf_Kubeconfig = ''~/.kube/config'', rcf_Namespace = ''default'', rcf_RestoreName = [],
     rcf_RunAsUser = 0, rcf_RestoreMethod = restoreMethod, rcf_Snapshot = ''latest'', rcf_SecretRef = secretRef,
     rcf_SecretRefKey = ''password'', rcf_S3Endpoint = s3endpoint, rcf_S3Bucket = s3bucket, rcf_S3SecretRef = s3secretRef,
     rcf_S3SecretRefUsernameKey = ''username'', rcf_S3SecretRefPasswordKey = ''password'',
     rcf_RestoreToS3Endpoint = [], rcf_RestoreToS3Bucket = [], rcf_RestoreToS3Secret = [],
     rcf_RestoreToS3SecretUsernameKey = ''username'', rcf_RestoreToS3SecretPasswordKey = ''password''\<rparr>"

text \<open>The action of the flag \<^verbatim>\<open>restoreMethod\<close>.\<close>

definition restoreMethod_action :: "string \<Rightarrow> gerr option" where
  "restoreMethod_action s =
     (if s \<noteq> ''pvc'' \<and> s \<noteq> ''s3''
      then Some (PlainError (''--restoreMethod must be set to either '' @ [CHR 0x27] @ ''pvc'' @ [CHR 0x27] @ '' or '' @ [CHR 0x27] @ ''s3'' @ [CHR 0x27]))
      else None)"

definition cli_RandomStringGenerator :: "(nat \<Rightarrow> nat) \<Rightarrow> nat \<Rightarrow> string" where
  "cli_RandomStringGenerator intn n =
     (let characters = ''abcdefghijklmnopqrstuvwxyz1234567890'' in map (\<lambda>i. characters ! intn i) [0..<n])"

text \<open>
  The client: requests for the snapshots and for a new restore in a namespace, both with the raw
  body of the answer; the second gives the body of an error too.
\<close>

record 'w cli_api =
  k_BuildConfigFromFlags :: "string \<Rightarrow> 'w \<Rightarrow> gerr option"
  k_NewForConfig :: "'w \<Rightarrow> gerr option"
  k_GetSnapshots :: "string \<Rightarrow> 'w \<Rightarrow> string result \<times> 'w"
  k_DecodeSnapshotList :: "string \<Rightarrow> SnapshotList result"
  k_MarshalRestore :: "Restore \<Rightarrow> string result"
  k_PostRestore :: "string \<Rightarrow> string \<Rightarrow> 'w \<Rightarrow> (string \<times> gerr option) \<times> 'w"
  k_DecodeStatus :: "string \<Rightarrow> string result"

text \<open>The first snapshot whose identifier has the prefix; a snapshot without identifier panics.\<close>

fun snapshot_loop :: "string \<Rightarrow> SnapshotList \<Rightarrow> string result" where
  "snapshot_loop prefix [] = Inr []"
| "snapshot_loop prefix (snap # snaps) =
     (case ss_ID (cr_Spec snap) of
        None \<Rightarrow> Inl (Panic ''nil pointer dereference'')
      | Some i \<Rightarrow> if HasPrefix i prefix then Inr i else snapshot_loop prefix snaps)"

definition key_selector :: "string \<Rightarrow> string \<Rightarrow> secret_key_selector option" where
  "key_selector key name = Some \<lparr>sks_Name = name, sks_Key = key\<rparr>"

definition s3_method :: "RestoreConfig \<Rightarrow> RestoreMethod" where
  "s3_method c = \<lparr>
     rm_S3 = Some \<lparr>s3_Endpoint = rcf_RestoreToS3Endpoint c, s3_Bucket = rcf_RestoreToS3Bucket c,
       s3_AccessKeyIDSecretRef = key_selector (rcf_RestoreToS3SecretUsernameKey c) (rcf_RestoreToS3Secret c),
       s3_SecretAccessKeySecretRef = key_selector (rcf_RestoreToS3SecretPasswordKey c) (rcf_RestoreToS3Secret c)\<rparr>,
     rm_Folder = None, rm_TLSOptions = None, rm_VolumeMounts = None\<rparr>"

definition pvc_method :: "RestoreConfig \<Rightarrow> RestoreMethod" where
  "pvc_method c = \<lparr>rm_S3 = None,
     rm_Folder = Some \<lparr>fr_PersistentVolumeClaim = Some \<lparr>pvs_ClaimName = rcf_ClaimName c, pvs_ReadOnly = False\<rparr>\<rparr>,
     rm_TLSOptions = None, rm_VolumeMounts = None\<rparr>"

definition restore_backend :: "RestoreConfig \<Rightarrow> Backend" where
  "restore_backend c = \<lparr>
     be_RepoPasswordSecretRef = key_selector (rcf_SecretRefKey c) (rcf_SecretRef c), be_EnvFrom = [], be_Local = None,
     be_S3 = Some \<lparr>s3_Endpoint = rcf_S3Endpoint c, s3_Bucket = rcf_S3Bucket c,
       s3_AccessKeyIDSecretRef = key_selector (rcf_S3SecretRefUsernameKey c) (rcf_S3SecretRef c),
       s3_SecretAccessKeySecretRef = key_selector (rcf_S3SecretRefPasswordKey c) (rcf_S3SecretRef c)\<rparr>,
     be_GCS = None, be_Azure = None, be_Swift = None, be_B2 = None, be_Rest = None, be_TLSOptions = None, be_VolumeMounts = None\<rparr>"

text \<open>\<open>isSet\<close> tells whether the flag \<^verbatim>\<open>runAsUser\<close> was given.\<close>

definition restore_object :: "bool \<Rightarrow> string \<Rightarrow> RestoreConfig \<Rightarrow> Restore" where
  "restore_object isSet restoreName c =
     (let runnable = empty_runnable\<lparr>rs_Backend := Some (restore_backend c)\<rparr>;
          runnable = (if isSet then runnable\<lparr>rs_PodSecurityContext := Some \<lparr>psc_RunAsUser = Some (rcf_RunAsUser c), psc_FSGroup = None\<rparr>\<rparr>
                      else runnable)
      in \<lparr>r_Meta = empty_meta\<lparr>om_Name := restoreName, om_Namespace := rcf_Namespace c\<rparr>,
          r_Spec = empty_restore_spec\<lparr>res_RunnableSpec := runnable,
            res_RestoreMethod := Some (if rcf_RestoreMethod c = ''s3'' then s3_method c else pvc_method c)\<rparr>,
          r_Status = empty_status\<rparr>)"

definition restore_name :: "(nat \<Rightarrow> nat) \<Rightarrow> RestoreConfig \<Rightarrow> string" where
  "restore_name intn c =
     (if rcf_RestoreName c = [] then ''cli-restore-'' @ cli_RandomStringGenerator intn 5 else rcf_RestoreName c)"

text \<open>
  The end of \<^verbatim>\<open>RunRestore\<close>. The error of a failed request is shadowed by the error of
  decoding its body, and that is what is returned.
\<close>

definition post_restore :: "'w cli_api \<Rightarrow> Restore \<Rightarrow> 'w \<Rightarrow> gerr option \<times> 'w" where
  "post_restore K restoreObject w =
     (case k_MarshalRestore K restoreObject of
        Inl err \<Rightarrow> (Some err, w)
      | Inr body \<Rightarrow>
         (case k_PostRestore K ''default'' body w of
            ((status, Some _), w) \<Rightarrow>
              (case k_DecodeStatus K status of Inl err \<Rightarrow> (Some err, w) | Inr message \<Rightarrow> (None, w))
          | ((status, None), w) \<Rightarrow> (None, w)))"

definition RunRestore :: "'w cli_api \<Rightarrow> bool \<Rightarrow> (nat \<Rightarrow> nat) \<Rightarrow> RestoreConfig \<Rightarrow> 'w \<Rightarrow> gerr option \<times> 'w" where
  "RunRestore K isSet intn c w =
     (let restoreObject = restore_object isSet (restore_name intn c) c
      in case k_BuildConfigFromFlags K (rcf_Kubeconfig c) w of
           Some err \<Rightarrow> (Some err, w)
         | None \<Rightarrow>
        (case k_NewForConfig K w of
           Some err \<Rightarrow> (Some err, w)
         | None \<Rightarrow>
        (case k_GetSnapshots K ''default'' w of
           (Inl err, w) \<Rightarrow> (Some err, w)
         | (Inr crd, w) \<Rightarrow>
        (if rcf_Snapshot c \<noteq> ''latest''
         then (case k_DecodeSnapshotList K crd of
                 Inl err \<Rightarrow> (Some err, w)
               | Inr items \<Rightarrow>
                  (case snapshot_loop (rcf_Snapshot c) items of
                     Inl err \<Rightarrow> (Some err, w)
                   | Inr snapshot \<Rightarrow> if snapshot = [] then (None, w) else post_restore K restoreObject w))
         else post_restore K restoreObject w))))"

section \<open>Starting the operator\<close>

text \<open>\<open>slices\<close> and \<open>flag\<close> are the values the command line library gives, \<open>isSet\<close> whether a flag was given.\<close>

definition operator_flags :: "(string \<Rightarrow> string list) \<Rightarrow> Configuration \<Rightarrow> Configuration" where
  "operator_flags slices c = c\<lparr>
     cfg_BackupCommandRestic := SplitAtComma (slices ''command-restic''),
     cfg_ResticOptions := Join (SplitAtComma (slices ''restic-options'')) '',''\<rparr>"

definition quantityFlags :: "string list" where
  "quantityFlags = [''global-cpu-request'', ''global-cpu-limit'', ''global-memory-request'', ''global-memory-limit'']"

definition invalid_quantity :: "string \<Rightarrow> string \<Rightarrow> gerr \<Rightarrow> gerr" where
  "invalid_quantity v f err = Wrapped (''the value '' @ [CHR 0x27] @ v @ [CHR 0x27] @ '' of flag '' @ [CHR 0x27] @ f @ [CHR 0x27] @
     '' is not a valid Kubernetes quantity'') err"

fun quantity_loop :: "(string \<Rightarrow> gerr + quantity) \<Rightarrow> (string \<Rightarrow> bool) \<Rightarrow> (string \<Rightarrow> string) \<Rightarrow> string list \<Rightarrow> gerr option" where
  "quantity_loop ParseQuantity isSet flag [] = None"
| "quantity_loop ParseQuantity isSet flag (f # fs) =
     (if \<not> isSet f then quantity_loop ParseQuantity isSet flag fs
      else case ParseQuantity (flag f) of
             Inl err \<Rightarrow> Some (invalid_quantity (flag f) f err)
           | Inr _ \<Rightarrow> quantity_loop ParseQuantity isSet flag fs)"

definition validateQuantityFlags :: "(string \<Rightarrow> gerr + quantity) \<Rightarrow> (string \<Rightarrow> bool) \<Rightarrow> (string \<Rightarrow> string) \<Rightarrow> gerr option" where
  "validateQuantityFlags ParseQuantity isSet flag = quantity_loop ParseQuantity isSet flag quantityFlags"

section \<open>Lemmas\<close>

lemma snapshot_loop_found:
  "snapshot_loop p snaps = Inr i \<Longrightarrow> i \<noteq> [] \<Longrightarrow> \<exists>s \<in> set snaps. ss_ID (cr_Spec s) = Some i \<and> HasPrefix i p"
  by (induction p snaps rule: snapshot_loop.induct) (auto split: option.splits if_splits)

lemma snapshot_loop_none:
  "(\<And>s. s \<in> set snaps \<Longrightarrow> \<exists>i. ss_ID (cr_Spec s) = Some i \<and> \<not> HasPrefix i p) \<Longrightarrow> snapshot_loop p snaps = Inr []"
  by (induction p snaps rule: snapshot_loop.induct) fastforce+

lemma quantity_loop_None:
  "quantity_loop pq isSet flag fs = None \<longleftrightarrow> (\<forall>f \<in> set fs. isSet f \<longrightarrow> (\<exists>q. pq (flag f) = Inr q))"
  by (induction pq isSet flag fs rule: quantity_loop.induct) (auto split: sum.splits)

lemma validateQuantityFlags_parse:
  assumes "validateQuantityFlags pq isSet flag = None" "f \<in> set quantityFlags" "isSet f"
  obtains q where "pq (flag f) = Inr q"
  using assms by (auto simp: validateQuantityFlags_def quantity_loop_None simp del: quantity_loop.simps)

text \<open>
  A global resource setting that was given on the command line and passed the check is in the
  default resources of the jobs.
\<close>

lemma validated_quantities_apply:
  assumes "validateQuantityFlags pq isSet flag = None" "isSet ''global-memory-limit''" "flag ''global-memory-limit'' \<noteq> []"
    and "cfg_GlobalMemoryResourceLimit c = flag ''global-memory-limit''"
  shows "\<exists>q. pq (flag ''global-memory-limit'') = Inr q \<and>
    rr_Limits (GetGlobalDefaultResources (\<lambda>s. case pq s of Inl _ \<Rightarrow> None | Inr q \<Rightarrow> Some q) c) ''memory'' = Some q"
proof -
  obtain q where "pq (flag ''global-memory-limit'') = Inr q"
    using validateQuantityFlags_parse [OF assms(1) _ assms(2)] by (auto simp: quantityFlags_def)
  then show ?thesis using assms(3,4) by (simp add: GetGlobalDefaultResources_def add_quantity_apply)
qed

text \<open>The restore never names the snapshot that was asked for, so the latest one is restored.\<close>

lemma restore_object_latest: "res_Snapshot (r_Spec (restore_object isSet restoreName c)) = []"
  by (simp add: restore_object_def empty_restore_spec_def Let_def)

section \<open>Properties\<close>

text \<open>
  C40. The command reports success although no restore exists: when a snapshot is asked for
  that no listed identifier starts with, it ends without an error and sends nothing; and when the
  server refuses the new restore with a status that can be decoded, the error is lost.
\<close>

theorem RunRestore_hides_errors:
  assumes "k_BuildConfigFromFlags K (rcf_Kubeconfig c) w = None" "k_NewForConfig K w = None"
    and "k_GetSnapshots K ''default'' w = (Inr crd, w1)"
  shows "(rcf_Snapshot c \<noteq> ''latest'' \<and> k_DecodeSnapshotList K crd = Inr items \<and>
          (\<forall>s \<in> set items. \<exists>i. ss_ID (cr_Spec s) = Some i \<and> \<not> HasPrefix i (rcf_Snapshot c))
          \<longrightarrow> RunRestore K isSet intn c w = (None, w1)) \<and>
         (rcf_Snapshot c = ''latest'' \<and> k_MarshalRestore K (restore_object isSet (restore_name intn c) c) = Inr body \<and>
          k_PostRestore K ''default'' body w1 = ((status, Some err), w2) \<and> k_DecodeStatus K status = Inr message
          \<longrightarrow> RunRestore K isSet intn c w = (None, w2))"
  using assms snapshot_loop_none [of items "rcf_Snapshot c"]
  by (auto simp: RunRestore_def post_restore_def Let_def)

text \<open>A server without snapshots that refuses every restore.\<close>

definition refusing_api :: "nat cli_api" where
  "refusing_api = \<lparr>k_BuildConfigFromFlags = (\<lambda>_ _. None), k_NewForConfig = (\<lambda>_. None),
     k_GetSnapshots = (\<lambda>_ w. (Inr [], w)), k_DecodeSnapshotList = (\<lambda>_. Inr []), k_MarshalRestore = (\<lambda>_. Inr []),
     k_PostRestore = (\<lambda>_ _ w. ((''forbidden'', Some (ApiError OtherReason ''forbidden'')), Suc w)),
     k_DecodeStatus = Inr\<rparr>"

theorem RunRestore_hides_errors_witness:
  "RunRestore refusing_api False (\<lambda>_. 0) (default_restore_config ''s'' ''e'' ''b'' ''t'' ''pvc'') 0 = (None, 1) \<and>
   RunRestore refusing_api False (\<lambda>_. 0) (default_restore_config ''s'' ''e'' ''b'' ''t'' ''pvc''\<lparr>rcf_Snapshot := ''abcdef''\<rparr>) 0 = (None, 0)"
proof -
  let ?c = "default_restore_config ''s'' ''e'' ''b'' ''t'' ''pvc''"
  have g: "k_BuildConfigFromFlags refusing_api p 0 = None" "k_NewForConfig refusing_api 0 = None"
      "k_GetSnapshots refusing_api ''default'' 0 = (Inr [], 0)" for p
    by (simp_all add: refusing_api_def)
  have "RunRestore refusing_api False (\<lambda>_. 0) ?c 0 = (None, 1)"
    using RunRestore_hides_errors [OF g(1) g(2) g(3), of ?c] by (simp add: refusing_api_def default_restore_config_def)
  moreover have "RunRestore refusing_api False (\<lambda>_. 0) (?c\<lparr>rcf_Snapshot := ''abcdef''\<rparr>) 0 = (None, 0)"
    using RunRestore_hides_errors [OF g(1) g(2) g(3), of "?c\<lparr>rcf_Snapshot := ''abcdef''\<rparr>" "[]"]
    by (simp add: refusing_api_def)
  ultimately show ?thesis by blast
qed

end
