(* ===== verification/Restore_Command.thy ===== *)
theory Restore_Command
  imports Commands Restic_Command_Line
begin

text \<open>
  The command line of \<^verbatim>\<open>cmd/cli/main.go\<close>: the flags of \<^verbatim>\<open>k8up cli restore\<close> with their
  environment variables, their defaults and what they set, and the command from its arguments to
  \<open>RunRestore\<close> of \<open>Commands\<close>. Reading the command line is the library of \<open>Go_Flags\<close>.
\<close>

section \<open>Flags\<close>

abbreviation "required f \<equiv> f\<lparr>fl_Required := True\<rparr>"

definition restore_flags :: "cli_flag list" where
  "restore_flags = [
      new_flag StringFlag ''snapshot'' [''SNAPSHOT''],
      required (new_flag StringFlag ''secretRef'' [''SECRET_REF'']),
      required (new_flag StringFlag ''s3endpoint'' [''S3ENDPOINT'']),
      required (new_flag StringFlag ''s3bucket'' [''S3BUCKET'']),
      required (new_flag StringFlag ''s3secretRef'' [''S3SECRETREF'']),
      required (new_flag StringFlag ''restoreMethod'' [''RESTOREMETHOD'']),
      new_flag StringFlag ''secretRefKey'' [''SECRETREFKEY''],
      new_flag StringFlag ''claimName'' [''CLAIMNAME''],
      new_flag StringFlag ''S3SecretRefUsernameKey'' [''S3SECRETREFUSERNAMEKEY''],
      new_flag StringFlag ''S3SecretRefPasswordKey'' [''S3SECRETREFPASSWORDKEY''],
      new_flag StringFlag ''restoreName'' [''RESTORENAME''],
      new_flag IntFlag ''runAsUser'' [''RUNASUSER''],
      new_flag StringFlag ''restoreToS3Endpoint'' [''RESTORETOS3ENDPOINT''],
      new_flag StringFlag ''restoreToS3Bucket'' [''RESTORETOS3BUCKET''],
      new_flag StringFlag ''restoreToS3Secret'' [''RESTORETOS3SECRET''],
      new_flag StringFlag ''RestoreToS3SecretUsernameKey'' [''RESTORETOS3SECRETUSERNAMEKEY''],
      new_flag StringFlag ''RestoreToS3SecretPasswordKey'' [''RESTORETOS3SECRETPASSWORDKEY''],
      (new_flag StringFlag ''namespace'' [''NAMESPACE''])\<lparr>fl_Aliases := [''n'']\<rparr>,
      new_flag StringFlag ''kubeconfig'' [''KUBECONFIG'']]"

text \<open>Where the values go, with the default of each flag.\<close>

definition restore_flag_config :: "(string \<Rightarrow> int option) \<Rightarrow> (string \<Rightarrow> string list option) \<Rightarrow> RestoreConfig" where
  "restore_flag_config ParseInt vals = \<lparr>
     rcf_ClaimName = string_dest vals ''claimName'' [],
     rcf_Kubeconfig = string_dest vals ''kubeconfig'' ''~/.kube/config'',
     rcf_Namespace = string_dest vals ''namespace'' ''default'',
     rcf_RestoreName = string_dest vals ''restoreName'' [],
     rcf_RunAsUser = int_dest ParseInt vals ''runAsUser'' 0,
     rcf_RestoreMethod = string_dest vals ''restoreMethod'' ''pvc'',
     rcf_Snapshot = string_dest vals ''snapshot'' ''latest'',
     rcf_SecretRef = string_dest vals ''secretRef'' [],
     rcf_SecretRefKey = string_dest vals ''secretRefKey'' ''password'',
     rcf_S3Endpoint = string_dest vals ''s3endpoint'' [],
     rcf_S3Bucket = string_dest vals ''s3bucket'' [],
     rcf_S3SecretRef = string_dest vals ''s3secretRef'' [],
     rcf_S3SecretRefUsernameKey = string_dest vals ''S3SecretRefUsernameKey'' ''username'',
     rcf_S3SecretRefPasswordKey = string_dest vals ''S3SecretRefPasswordKey'' ''password'',
     rcf_RestoreToS3Endpoint = string_dest vals ''restoreToS3Endpoint'' [],
     rcf_RestoreToS3Bucket = string_dest vals ''restoreToS3Bucket'' [],
     rcf_RestoreToS3Secret = string_dest vals ''restoreToS3Secret'' [],
     rcf_RestoreToS3SecretUsernameKey = string_dest vals ''RestoreToS3SecretUsernameKey'' ''username'',
     rcf_RestoreToS3SecretPasswordKey = string_dest vals ''RestoreToS3SecretPasswordKey'' ''password''\<rparr>"

text \<open>
  The command: the library reads the flags, runs the action of \<^verbatim>\<open>restoreMethod\<close>, and then the
  command's. An empty variable does not set the number \<^verbatim>\<open>runAsUser\<close>.
\<close>

definition restoreCommand ::
  "(cli_flag list \<Rightarrow> string list \<Rightarrow> (string \<rightharpoonup> string) \<Rightarrow> (string \<Rightarrow> string list option) result) \<Rightarrow> (string \<Rightarrow> int option) \<Rightarrow>
   'w cli_api \<Rightarrow> (nat \<Rightarrow> nat) \<Rightarrow> string list \<Rightarrow> (string \<rightharpoonup> string) \<Rightarrow> 'w \<Rightarrow> gerr option \<times> 'w" where
  "restoreCommand cli_parse ParseInt K intn args env w =
     (case cli_parse restore_flags args env of
        Inl err \<Rightarrow> (Some err, w)
      | Inr vals \<Rightarrow>
         (case Option.bind (vals ''restoreMethod'') (\<lambda>vs. restoreMethod_action (last vs)) of
            Some err \<Rightarrow> (Some err, w)
          | None \<Rightarrow> RunRestore K (string_dest vals ''runAsUser'' [] \<noteq> []) intn (restore_flag_config ParseInt vals) w))"

section \<open>Lemmas\<close>

lemma distinct_restore_flags: "distinct (map fl_Name restore_flags)"
  by (simp add: restore_flags_def new_flag_def)

text \<open>The arguments with only the five required flags, and how they are read.\<close>

definition required_args :: "string \<Rightarrow> string \<Rightarrow> string \<Rightarrow> string \<Rightarrow> string \<Rightarrow> string list" where
  "required_args secretRef endpoint bucket s3secretRef method =
     [''--secretRef'', secretRef, ''--s3endpoint'', endpoint, ''--s3bucket'', bucket, ''--s3secretRef'', s3secretRef, ''--restoreMethod'', method]"

definition required_given :: "string \<Rightarrow> string \<Rightarrow> string \<Rightarrow> string \<Rightarrow> string \<Rightarrow> (string \<times> string) list" where
  "required_given secretRef endpoint bucket s3secretRef method =
     [(''secretRef'', secretRef), (''s3endpoint'', endpoint), (''s3bucket'', bucket), (''s3secretRef'', s3secretRef), (''restoreMethod'', method)]"

lemma required_flags_named:
  "flag_named restore_flags ''secretRef'' = Some (required (new_flag StringFlag ''secretRef'' [''SECRET_REF'']))"
  "flag_named restore_flags ''s3endpoint'' = Some (required (new_flag StringFlag ''s3endpoint'' [''S3ENDPOINT'']))"
  "flag_named restore_flags ''s3bucket'' = Some (required (new_flag StringFlag ''s3bucket'' [''S3BUCKET'']))"
  "flag_named restore_flags ''s3secretRef'' = Some (required (new_flag StringFlag ''s3secretRef'' [''S3SECRETREF'']))"
  "flag_named restore_flags ''restoreMethod'' = Some (required (new_flag StringFlag ''restoreMethod'' [''RESTOREMETHOD'']))"
  by code_simp+

lemma parse_required: "parse_flags restore_flags [] (required_args a b c d m) = Inr (required_given a b c d m, [])"
  by (simp add: required_args_def required_given_def required_flags_named new_flag_def Let_def)

context cli_library
begin

lemma required_values:
  assumes "\<And>f k. f \<in> set restore_flags \<Longrightarrow> k \<in> set (fl_EnvVars f) \<Longrightarrow> env k = None"
  shows "\<exists>vals. cli_parse restore_flags (required_args a b c d m) env = Inr vals \<and>
    restore_flag_config ParseInt vals = default_restore_config a b c d m \<and> vals ''restoreMethod'' = Some [m] \<and> vals ''runAsUser'' = None"
proof -
  have e: "env_text env f = None" if "f \<in> set restore_flags" for f
    using assms [OF that] by (auto simp: env_text_def find_Some_iff split: option.splits)
  have r: "flag_texts env (required_given a b c d m) f \<noteq> None" if "f \<in> set restore_flags" "fl_Required f" for f
    using that by (auto simp: restore_flags_def new_flag_def flag_texts_def required_given_def)
  have k: "converts ParseInt ParseDur (fl_Kind f) v" if "f \<in> set restore_flags" "v \<in> set (given_texts (required_given a b c d m) (fl_Name f))" for f v
    using that by (auto simp: restore_flags_def new_flag_def required_given_def converts_def)
  from accepts [OF parse_required distinct_restore_flags k _ r] e obtain vals where
    v: "cli_parse restore_flags (required_args a b c d m) env = Inr vals" "\<forall>f \<in> set restore_flags. vals (fl_Name f) = flag_texts env (required_given a b c d m) f"
    by fastforce
  then have "\<forall>f \<in> set restore_flags. vals (fl_Name f) =
      (if given_texts (required_given a b c d m) (fl_Name f) \<noteq> [] then Some (map (slice_text (fl_Kind f)) (given_texts (required_given a b c d m) (fl_Name f))) else None)"
    using e by (simp add: flag_texts_def)
  then show ?thesis
    using v(1) by (simp add: restore_flags_def new_flag_def required_given_def restore_flag_config_def default_restore_config_def string_dest_def int_dest_def)
qed

text \<open>
  With the required flags the command runs the restore with the defaults of all others, and with
  another method than the two it knows it ends with an error and reaches no server.
\<close>

lemma restoreCommand_required:
  assumes "\<And>f k. f \<in> set restore_flags \<Longrightarrow> k \<in> set (fl_EnvVars f) \<Longrightarrow> env k = None"
  shows "restoreCommand cli_parse ParseInt K intn (required_args a b c d m) env w =
    (case restoreMethod_action m of Some err \<Rightarrow> (Some err, w) | None \<Rightarrow> RunRestore K False intn (default_restore_config a b c d m) w)"
proof -
  obtain vals where "cli_parse restore_flags (required_args a b c d m) env = Inr vals"
    "restore_flag_config ParseInt vals = default_restore_config a b c d m" "vals ''restoreMethod'' = Some [m]" "vals ''runAsUser'' = None"
    using required_values [of env a b c d m] assms by blast
  then show ?thesis by (simp add: restoreCommand_def string_dest_def split: option.splits)
qed

end

text \<open>On the library of the examples: a run that asks for an unknown method.\<close>

lemma restoreCommand_unknown_method:
  "restoreCommand (cli_ref pdur) decimal refusing_api intn (required_args a b c d ''nfs'') Map.empty w = (restoreMethod_action ''nfs'', w)"
  by (simp add: cli_ref.restoreCommand_required restoreMethod_action_def)

end
