(* ===== verification/Tar_Gzip.thy ===== *)
theory Tar_Gzip
  imports Restic_Types
begin

text \<open>
  \<^verbatim>\<open>common/targzipwriter.go\<close>: a tar writer on top of a gzip writer. The two writers of Go's
  library are the record \<open>tar_gzip\<close>: a tar writer (\<open>'t\<close>) hands what it has to write to the gzip
  writer (\<open>'g\<close>) below it, which has its own downstream writer.
\<close>

record ('t, 'g) tar_gzip =
  tar_NewWriter :: 't
  tar_WriteHeader :: "tar_Header \<Rightarrow> 't \<Rightarrow> 'g \<Rightarrow> gerr option \<times> 't \<times> 'g"
  tar_Write :: "string \<Rightarrow> 't \<Rightarrow> 'g \<Rightarrow> (int \<times> gerr option) \<times> 't \<times> 'g"
  tar_Close :: "'t \<Rightarrow> 'g \<Rightarrow> gerr option \<times> 't \<times> 'g"
  gzip_Close :: "'g \<Rightarrow> gerr option \<times> 'g"

record ('t, 'g) TarGzipWriter =
  tgw_tarWriter :: 't
  tgw_gzipWriter :: 'g

definition NewTarGzipWriter :: "('t, 'g) tar_gzip \<Rightarrow> 'g \<Rightarrow> ('t, 'g) TarGzipWriter" where
  "NewTarGzipWriter T gzipWriter = \<lparr>tgw_tarWriter = tar_NewWriter T, tgw_gzipWriter = gzipWriter\<rparr>"

definition tgw_update :: "'a \<times> 't \<times> 'g \<Rightarrow> 'a \<times> ('t, 'g) TarGzipWriter" where
  "tgw_update res = (case res of (a, tw, gw) \<Rightarrow> (a, \<lparr>tgw_tarWriter = tw, tgw_gzipWriter = gw\<rparr>))"

definition WriteHeader :: "('t, 'g) tar_gzip \<Rightarrow> tar_Header \<Rightarrow> ('t, 'g) TarGzipWriter \<Rightarrow> gerr option \<times> ('t, 'g) TarGzipWriter" where
  "WriteHeader T hdr t = tgw_update (tar_WriteHeader T hdr (tgw_tarWriter t) (tgw_gzipWriter t))"

definition tgw_Write :: "('t, 'g) tar_gzip \<Rightarrow> string \<Rightarrow> ('t, 'g) TarGzipWriter \<Rightarrow> (int \<times> gerr option) \<times> ('t, 'g) TarGzipWriter" where
  "tgw_Write T p t = tgw_update (tar_Write T p (tgw_tarWriter t) (tgw_gzipWriter t))"

definition tgw_Close :: "('t, 'g) tar_gzip \<Rightarrow> ('t, 'g) TarGzipWriter \<Rightarrow> gerr option \<times> ('t, 'g) TarGzipWriter" where
  "tgw_Close T t =
     (case tar_Close T (tgw_tarWriter t) (tgw_gzipWriter t) of (tarErr, tw, gw) \<Rightarrow>
       (case gzip_Close T gw of (gzipErr, gw) \<Rightarrow>
         (if gzipErr \<noteq> None then gzipErr else tarErr, \<lparr>tgw_tarWriter = tw, tgw_gzipWriter = gw\<rparr>)))"

section \<open>Lemmas\<close>

text \<open>
  Both writers are closed whatever happens, the gzip writer after the tar writer has handed it its
  end; the result has an error exactly when one of them has, the one of the gzip writer if both do.
\<close>

lemma tgw_Close_closes_both:
  assumes "tar_Close T (tgw_tarWriter t) (tgw_gzipWriter t) = (tarErr, tw, gw)" "gzip_Close T gw = (gzipErr, gw')"
  shows "snd (tgw_Close T t) = \<lparr>tgw_tarWriter = tw, tgw_gzipWriter = gw'\<rparr>"
    and "fst (tgw_Close T t) = None \<longleftrightarrow> tarErr = None \<and> gzipErr = None"
    and "gzipErr \<noteq> None \<Longrightarrow> fst (tgw_Close T t) = gzipErr"
  using assms by (auto simp: tgw_Close_def)

text \<open>What is written through the pair is what the tar writer makes of it: a file is a header and its content.\<close>

lemma tgw_file:
  assumes "tar_WriteHeader T hdr (tgw_tarWriter t) (tgw_gzipWriter t) = (None, tw, gw)" "tar_Write T data tw gw = ((n, None), tw', gw')"
  shows "WriteHeader T hdr t = (None, \<lparr>tgw_tarWriter = tw, tgw_gzipWriter = gw\<rparr>)"
    and "tgw_Write T data \<lparr>tgw_tarWriter = tw, tgw_gzipWriter = gw\<rparr> = ((n, None), \<lparr>tgw_tarWriter = tw', tgw_gzipWriter = gw'\<rparr>)"
  using assms by (simp_all add: WriteHeader_def tgw_Write_def tgw_update_def)

end
