(* ===== verification/Operator_Main.thy ===== *)
theory Operator_Main
  imports Commands Reconciler
begin

text \<open>
  The start of the operator: \<^verbatim>\<open>operatorMain\<close> of \<^verbatim>\<open>cmd/operator/main.go\<close>, the six
  \<^verbatim>\<open>SetupWithManager\<close> of \<^verbatim>\<open>operator/*controller/setup.go\<close>, and the logger and the exit code
  of the binary (\<^verbatim>\<open>cmd/logger.go\<close>, \<^verbatim>\<open>cmd/k8up/main.go\<close>). The manager of the controller runtime is
  the record \<open>manager_api\<close>, and what its documentation promises is the locale \<open>controller_manager\<close>.
\<close>

section \<open>The controller runtime\<close>

text \<open>
  What a controller is built from. The type of the objects it is for is that of its reconciler; the
  kinds it owns are by name.
\<close>

datatype event_filter = GenerationChangedPredicate

record 'w controller =
  ct_Name :: string
  ct_For :: JobType
  ct_Owns :: "string list"
  ct_EventFilter :: event_filter
  ct_Reconciler :: "namespaced_name \<Rightarrow> 'w env \<Rightarrow> (Result \<times> gerr option) \<times> 'w env"

record 's manager_options =
  mo_Scheme :: 's
  mo_LeaderElection :: bool
  mo_LeaderElectionID :: string
  mo_BindAddress :: string
  mo_WebhookPort :: int

text \<open>
  \<open>ma_GetConfig\<close> is \<^verbatim>\<open>GetConfigOrDie\<close>, which ends the process when there is no configuration. A scheme
  is extended by the types of Kubernetes and by those of k8up.
\<close>

record ('c, 's, 'm, 'w) manager_api =
  ma_GetConfig :: "'c option"
  ma_NewScheme :: 's
  ma_AddClientGo :: "'s \<Rightarrow> 's result"
  ma_AddK8up :: "'s \<Rightarrow> 's result"
  ma_NewManager :: "'c \<Rightarrow> 's manager_options \<Rightarrow> 'm result"
  ma_Complete :: "'w controller \<Rightarrow> 'm \<Rightarrow> gerr option \<times> 'm"
  ma_Start :: "'m \<Rightarrow> gerr option \<times> 'm"

section \<open>Setup of the controllers\<close>

text \<open>\<open>P\<close> and \<open>D\<close> are the handlers \<^verbatim>\<open>Provision\<close> and \<^verbatim>\<open>Deprovision\<close> of the reconcilers.\<close>

definition NewReconciler ::
  "'w kube \<Rightarrow> 'w handler \<Rightarrow> 'w handler \<Rightarrow> JobType \<Rightarrow> namespaced_name \<Rightarrow> 'w env \<Rightarrow> (Result \<times> gerr option) \<times> 'w env" where
  "NewReconciler K P D kind = Reconcile K P D kind"

definition archive_SetupWithManager :: "('c, 's, 'm, 'w) manager_api \<Rightarrow> 'w kube \<Rightarrow> 'w handler \<Rightarrow> 'w handler \<Rightarrow> 'm \<Rightarrow> gerr option \<times> 'm" where
  "archive_SetupWithManager M K P D mgr =
     ma_Complete M \<lparr>ct_Name = ''archive.k8up.io'', ct_For = ArchiveType, ct_Owns = [''Job''],
       ct_EventFilter = GenerationChangedPredicate, ct_Reconciler = NewReconciler K P D ArchiveType\<rparr> mgr"

definition backup_SetupWithManager :: "('c, 's, 'm, 'w) manager_api \<Rightarrow> 'w kube \<Rightarrow> 'w handler \<Rightarrow> 'w handler \<Rightarrow> 'm \<Rightarrow> gerr option \<times> 'm" where
  "backup_SetupWithManager M K P D mgr =
     ma_Complete M \<lparr>ct_Name = ''backup.k8up.io'', ct_For = BackupType, ct_Owns = [''Job''],
       ct_EventFilter = GenerationChangedPredicate, ct_Reconciler = NewReconciler K P D BackupType\<rparr> mgr"

definition check_SetupWithManager :: "('c, 's, 'm, 'w) manager_api \<Rightarrow> 'w kube \<Rightarrow> 'w handler \<Rightarrow> 'w handler \<Rightarrow> 'm \<Rightarrow> gerr option \<times> 'm" where
  "check_SetupWithManager M K P D mgr =
     ma_Complete M \<lparr>ct_Name = ''check.k8up.io'', ct_For = CheckType, ct_Owns = [''Job''],
       ct_EventFilter = GenerationChangedPredicate, ct_Reconciler = NewReconciler K P D CheckType\<rparr> mgr"

definition prune_SetupWithManager :: "('c, 's, 'm, 'w) manager_api \<Rightarrow> 'w kube \<Rightarrow> 'w handler \<Rightarrow> 'w handler \<Rightarrow> 'm \<Rightarrow> gerr option \<times> 'm" where
  "prune_SetupWithManager M K P D mgr =
     ma_Complete M \<lparr>ct_Name = ''prune.k8up.io'', ct_For = PruneType, ct_Owns = [''Job''],
       ct_EventFilter = GenerationChangedPredicate, ct_Reconciler = NewReconciler K P D PruneType\<rparr> mgr"

definition restore_SetupWithManager :: "('c, 's, 'm, 'w) manager_api \<Rightarrow> 'w kube \<Rightarrow> 'w handler \<Rightarrow> 'w handler \<Rightarrow> 'm \<Rightarrow> gerr option \<times> 'm" where
  "restore_SetupWithManager M K P D mgr =
     ma_Complete M \<lparr>ct_Name = ''restore.k8up.io'', ct_For = RestoreType, ct_Owns = [''Job''],
       ct_EventFilter = GenerationChangedPredicate, ct_Reconciler = NewReconciler K P D RestoreType\<rparr> mgr"

definition schedule_SetupWithManager :: "('c, 's, 'm, 'w) manager_api \<Rightarrow> 'w kube \<Rightarrow> 'w handler \<Rightarrow> 'w handler \<Rightarrow> 'm \<Rightarrow> gerr option \<times> 'm" where
  "schedule_SetupWithManager M K P D mgr =
     ma_Complete M \<lparr>ct_Name = ''schedule.k8up.io'', ct_For = ScheduleType, ct_Owns = [],
       ct_EventFilter = GenerationChangedPredicate, ct_Reconciler = NewReconciler K P D ScheduleType\<rparr> mgr"

section \<open>The command\<close>

definition leaderElectionID :: string where
  "leaderElectionID = ''d2ab61da.syn.tools''"

definition setup_functions ::
  "('c, 's, 'm, 'w) manager_api \<Rightarrow> 'w kube \<Rightarrow> 'w handler \<Rightarrow> 'w handler \<Rightarrow> (string \<times> ('m \<Rightarrow> gerr option \<times> 'm)) list" where
  "setup_functions M K P D = [
     (''Schedule'', schedule_SetupWithManager M K P D),
     (''Backup'', backup_SetupWithManager M K P D),
     (''Restore'', restore_SetupWithManager M K P D),
     (''Archive'', archive_SetupWithManager M K P D),
     (''Check'', check_SetupWithManager M K P D),
     (''Prune'', prune_SetupWithManager M K P D)]"

fun setup_loop :: "(string \<rightharpoonup> ('m \<Rightarrow> gerr option \<times> 'm)) \<Rightarrow> string list \<Rightarrow> 'm \<Rightarrow> gerr option \<times> 'm" where
  "setup_loop fns [] mgr = (None, mgr)"
| "setup_loop fns (name # ord) mgr =
     (case fns name of
        None \<Rightarrow> setup_loop fns ord mgr
      | Some setupFn \<Rightarrow>
         (case setupFn mgr of
            (Some setupErr, mgr) \<Rightarrow> (Some (Wrapped ''unable to setup reconciler'' setupErr), mgr)
          | (None, mgr) \<Rightarrow> setup_loop fns ord mgr))"

definition k8upScheme :: "('c, 's, 'm, 'w) manager_api \<Rightarrow> 's result" where
  "k8upScheme M =
     (case ma_AddClientGo M (ma_NewScheme M) of
        Inl err \<Rightarrow> Inl (Panic (err_text err))
      | Inr scheme \<Rightarrow>
         (case ma_AddK8up M scheme of
            Inl err \<Rightarrow> Inl (Panic (err_text err))
          | Inr scheme \<Rightarrow> Inr scheme))"

text \<open>
  The controllers are set up in the order \<open>ord\<close> in which Go enumerates the map; the second result is
  the manager if it was started. The last two arguments of \<^const>\<open>Provision\<close> are the orders in which
  the controllers enumerate their maps.
\<close>

definition start_manager ::
  "('c, 's, 'm, 'w) manager_api \<Rightarrow> (string \<times> ('m \<Rightarrow> gerr option \<times> 'm)) list \<Rightarrow> string list \<Rightarrow> 'm \<Rightarrow> gerr option \<times> 'm option" where
  "start_manager M fns ord mgr =
     (case setup_loop (map_of fns) ord mgr of
        (Some err, _) \<Rightarrow> (Some err, None)
      | (None, mgr) \<Rightarrow>
         (case ma_Start M mgr of
            (Some err, mgr) \<Rightarrow> (Some (Wrapped ''unable to setup signal handler'' err), Some mgr)
          | (None, mgr) \<Rightarrow> (None, Some mgr)))"

definition operatorMain where
  "operatorMain L M K ords jord ord ParseQuantity slices isSet flag cfg =
     (let cfg = operator_flags slices cfg
      in case validateQuantityFlags ParseQuantity isSet flag of
           Some err \<Rightarrow> (Some err, None)
         | None \<Rightarrow>
            (case ma_GetConfig M of
               None \<Rightarrow> (Some (Panic ''exit status 1''), None)
             | Some config \<Rightarrow>
                (case k8upScheme M of
                   Inl err \<Rightarrow> (Some err, None)
                 | Inr scheme \<Rightarrow>
                    (case ma_NewManager M config \<lparr>mo_Scheme = scheme, mo_LeaderElection = cfg_EnableLeaderElection cfg,
                            mo_LeaderElectionID = leaderElectionID, mo_BindAddress = cfg_MetricsBindAddress cfg, mo_WebhookPort = 9443\<rparr> of
                       Inl err \<Rightarrow> (Some (Wrapped ''unable to initialize controller runtime'' err), None)
                     | Inr mgr \<Rightarrow>
                        start_manager M (setup_functions M K (Provision L K cfg ords jord) (Deprovision L K)) ord mgr))))"

section \<open>The binary\<close>

text \<open>
  The logger of the application in the metadata of the command line library. A value of the metadata
  has a type that is known only at run time.
\<close>

datatype 'l metadata_value = LogrLogger 'l | OtherValue

definition loggerMetadataKeyName :: string where
  "loggerMetadataKeyName = ''logger''"

definition AppLogger :: "(string \<rightharpoonup> 'l metadata_value) \<Rightarrow> 'l result" where
  "AppLogger metadata =
     (case metadata loggerMetadataKeyName of
        Some (LogrLogger l) \<Rightarrow> Inr l
      | Some OtherValue \<Rightarrow> Inl (Panic ''interface conversion'')
      | None \<Rightarrow> Inl (Panic ''interface conversion''))"

definition SetAppLogger :: "'l \<Rightarrow> (string \<rightharpoonup> 'l metadata_value) \<Rightarrow> (string \<rightharpoonup> 'l metadata_value)" where
  "SetAppLogger logger metadata = metadata(loggerMetadataKeyName \<mapsto> LogrLogger logger)"

section \<open>The controllers that are registered\<close>

text \<open>
  What the documentation of the controller runtime promises of the controllers \<open>ctrls\<close>
  that are registered with a manager: a new manager has none, completing a controller without an error
  adds it, and starting the manager leaves them as they are.
\<close>

locale controller_manager =
  fixes M :: "('c, 's, 'm, 'w) manager_api" and ctrls :: "'m \<Rightarrow> 'w controller list"
  assumes new_manager: "ma_NewManager M config opts = Inr m \<Longrightarrow> ctrls m = []"
    and completed: "ma_Complete M c m = (None, m') \<Longrightarrow> ctrls m' = ctrls m @ [c]"
    and started: "ma_Start M m = (r, m') \<Longrightarrow> ctrls m' = ctrls m"
begin

lemma setup_loop_registers:
  assumes "\<And>n. fns n = map_option (ma_Complete M) (table n)" "setup_loop fns ord m = (None, m')"
  shows "ctrls m' = ctrls m @ List.map_filter table ord"
  using assms(2)
proof (induction ord arbitrary: m)
  case Nil
  then show ?case by (simp add: List.map_filter_def)
next
  case (Cons n ord)
  show ?case
  proof (cases "table n")
    case None
    then show ?thesis using Cons by (simp add: assms(1) [of n] List.map_filter_def)
  next
    case (Some c)
    with Cons.prems obtain m1 where c: "ma_Complete M c m = (None, m1)" and l: "setup_loop fns ord m1 = (None, m')"
      by (auto simp: assms(1) [of n] split: prod.splits option.splits)
    show ?thesis using Cons.IH [OF l] completed [OF c] Some by (simp add: List.map_filter_def)
  qed
qed

lemma start_registers:
  assumes "\<And>n. map_of fns n = map_option (ma_Complete M) (table n)" "start_manager M fns ord m = (r, Some m')"
  shows "ctrls m' = ctrls m @ List.map_filter table ord"
proof -
  obtain m1 r' where l: "setup_loop (map_of fns) ord m = (None, m1)" and s: "ma_Start M m1 = (r', m')"
    using assms(2) by (auto simp: start_manager_def split: prod.splits option.splits)
  show ?thesis using setup_loop_registers [OF assms(1) l] started [OF s] by simp
qed

end

text \<open>The controllers by the names of the map.\<close>

definition controller_for :: "'w kube \<Rightarrow> 'w handler \<Rightarrow> 'w handler \<Rightarrow> string \<Rightarrow> JobType \<Rightarrow> 'w controller" where
  "controller_for K P D label kind = \<lparr>ct_Name = label, ct_For = kind, ct_Owns = (if kind = ScheduleType then [] else [''Job'']),
     ct_EventFilter = GenerationChangedPredicate, ct_Reconciler = Reconcile K P D kind\<rparr>"

definition controller_table :: "'w kube \<Rightarrow> 'w handler \<Rightarrow> 'w handler \<Rightarrow> (string \<times> 'w controller) list" where
  "controller_table K P D = map (\<lambda>(name, label, kind). (name, controller_for K P D label kind))
     [(''Schedule'', ''schedule.k8up.io'', ScheduleType), (''Backup'', ''backup.k8up.io'', BackupType),
      (''Restore'', ''restore.k8up.io'', RestoreType), (''Archive'', ''archive.k8up.io'', ArchiveType),
      (''Check'', ''check.k8up.io'', CheckType), (''Prune'', ''prune.k8up.io'', PruneType)]"

lemma setup_functions_table:
  "map_of (setup_functions M K P D) n = map_option (ma_Complete M) (map_of (controller_table K P D) n)"
  by (simp add: setup_functions_def controller_table_def controller_for_def NewReconciler_def fun_eq_iff k8up_consts
      schedule_SetupWithManager_def backup_SetupWithManager_def restore_SetupWithManager_def
      archive_SetupWithManager_def check_SetupWithManager_def prune_SetupWithManager_def)

lemma map_filter_table:
  assumes "mset ord = mset (map fst table)" "distinct (map fst table)"
  shows "mset (List.map_filter (map_of table) ord) = mset (map snd table)"
proof -
  have "mset (List.map_filter (map_of table) ord) = mset (List.map_filter (map_of table) (map fst table))"
    using assms(1) unfolding List.map_filter_def mset_map mset_filter by metis
  also have "List.map_filter (map_of table) (map fst table) = map snd table"
  proof -
    have "map_of table (fst x) = Some (snd x)" if "x \<in> set table" for x
      using that assms(2) by simp
    then have "filter (\<lambda>n. map_of table n \<noteq> None) (map fst table) = map fst table" by (auto simp: filter_id_conv)
    then show ?thesis using \<open>\<And>x. x \<in> set table \<Longrightarrow> map_of table (fst x) = Some (snd x)\<close>
      by (simp add: List.map_filter_def)
  qed
  finally show ?thesis .
qed

section \<open>Properties\<close>

text \<open>
  C23. When the operator starts its manager, it has registered, in whatever order, exactly one
  controller for each of the six kinds of objects; each runs the generic reconciliation with the
  handlers and the configuration of the operator, and all but the schedules watch the batch jobs they
  own; and every resource quantity that was given as a flag is valid.
\<close>

theorem operator_serves_all_kinds:
  assumes "controller_manager M ctrls"
    and "mset ord = {#''Schedule'', ''Backup'', ''Restore'', ''Archive'', ''Check'', ''Prune''#}"
    and "operatorMain L M K ords jord ord ParseQuantity slices isSet flag cfg = (err, Some mgr)"
  shows "mset (map ct_For (ctrls mgr)) = {#ScheduleType, BackupType, RestoreType, ArchiveType, CheckType, PruneType#} \<and>
    (\<forall>c \<in> set (ctrls mgr).
       ct_Reconciler c = Reconcile K (Provision L K (operator_flags slices cfg) ords jord) (Deprovision L K) (ct_For c) \<and>
       (ct_Owns c = [''Job''] \<longleftrightarrow> ct_For c \<noteq> ScheduleType)) \<and>
    (\<forall>f \<in> set quantityFlags. isSet f \<longrightarrow> (\<exists>q. ParseQuantity (flag f) = Inr q))"
proof -
  let ?P = "Provision L K (operator_flags slices cfg) ords jord" and ?D = "Deprovision L K"
  let ?t = "controller_table K ?P ?D"
  have q: "validateQuantityFlags ParseQuantity isSet flag = None"
    using assms(3) by (cases "validateQuantityFlags ParseQuantity isSet flag") (simp_all add: operatorMain_def Let_def)
  obtain config opts m where n: "ma_NewManager M config opts = Inr m"
    and s: "start_manager M (setup_functions M K ?P ?D) ord m = (err, Some mgr)"
    using assms(3) q by (auto simp: operatorMain_def Let_def split: option.splits sum.splits)
  have "ctrls mgr = List.map_filter (map_of ?t) ord"
    using controller_manager.start_registers [OF assms(1) setup_functions_table s] controller_manager.new_manager [OF assms(1) n] by simp
  then have r: "mset (ctrls mgr) = mset (map snd ?t)"
    using map_filter_table [of ord ?t] assms(2) by (simp add: controller_table_def)
  have "mset (map ct_For (ctrls mgr)) = mset (map ct_For (map snd ?t))" using r by (simp only: mset_map)
  moreover have "\<forall>c \<in> set (ctrls mgr). ct_Reconciler c = Reconcile K ?P ?D (ct_For c) \<and> (ct_Owns c = [''Job''] \<longleftrightarrow> ct_For c \<noteq> ScheduleType)"
    unfolding mset_eq_setD [OF r] by (simp add: controller_table_def controller_for_def)
  moreover have "\<forall>f \<in> set quantityFlags. isSet f \<longrightarrow> (\<exists>q. ParseQuantity (flag f) = Inr q)"
    using q validateQuantityFlags_parse by blast
  ultimately show ?thesis by (simp add: controller_table_def controller_for_def)
qed

section \<open>An instance\<close>

text \<open>A manager that is the list of its controllers.\<close>

definition manager_ref :: "(unit, unit, 'w controller list, 'w) manager_api" where
  "manager_ref = \<lparr>ma_GetConfig = Some (), ma_NewScheme = (), ma_AddClientGo = Inr, ma_AddK8up = Inr,
     ma_NewManager = (\<lambda>_ _. Inr []), ma_Complete = (\<lambda>c m. (None, m @ [c])), ma_Start = (\<lambda>m. (None, m))\<rparr>"

interpretation manager_ref: controller_manager manager_ref id
  by unfold_locales (simp_all add: manager_ref_def)

abbreviation "ref_start \<equiv> operatorMain lib_ref manager_ref kube_ref [] id [''Prune'', ''Check'', ''Archive'', ''Restore'', ''Backup'', ''Schedule'']
  (\<lambda>_. Inl (PlainError ''quantity'')) (\<lambda>_. []) (\<lambda>_. False) (\<lambda>_. []) (default_config ''k8up'')"

theorem operator_serves_all_kinds_witness:
  "\<exists>mgr. ref_start = (None, Some mgr) \<and> mset (map ct_For mgr) = {#ScheduleType, BackupType, RestoreType, ArchiveType, CheckType, PruneType#}"
proof -
  have r: "ref_start = (None, Some (the (snd ref_start)))"
    by (simp add: operatorMain_def Let_def validateQuantityFlags_def quantityFlags_def k8upScheme_def manager_ref_def start_manager_def setup_functions_def
      schedule_SetupWithManager_def backup_SetupWithManager_def restore_SetupWithManager_def
      archive_SetupWithManager_def check_SetupWithManager_def prune_SetupWithManager_def)
  show ?thesis
    using operator_serves_all_kinds [OF manager_ref.controller_manager_axioms _ r] by (intro exI [of _ "the (snd ref_start)"]) (simp add: r [symmetric])
qed

text \<open>A logger that was set is found; without one the type assertion panics.\<close>

lemma AppLogger_SetAppLogger: "AppLogger (SetAppLogger l metadata) = Inr l"
  by (simp add: AppLogger_def SetAppLogger_def)

lemma AppLogger_unset_panics: "AppLogger Map.empty = Inl (Panic ''interface conversion'')"
  by (simp add: AppLogger_def)

end
