(* ===== verification/Spec2Isabelle.thy ===== *)
theory Spec2Isabelle
  imports Controller_Properties Locker_Steps Job_Command Restore_Command Tar_Gzip Operator_Main
begin

text \<open>
  A verification of k8up, the Kubernetes backup operator, by a shallow embedding of its Go code.

  \<^bold>\<open>The program.\<close> One binary with three commands. The \<^emph>\<open>operator\<close>
  (\<^verbatim>\<open>operator/\<close>, \<^verbatim>\<open>cmd/operator\<close>) reconciles the custom resources of
  \<^verbatim>\<open>api/v1\<close>: a schedule keeps cron entries that create backups, checks, prunes, archives and
  restores, and each of these gets batch jobs, which the locker admits by what else runs on the
  repository. The batch jobs run the \<^emph>\<open>restic\<close> command (\<^verbatim>\<open>cmd/restic\<close>,
  \<^verbatim>\<open>restic/\<close>), which drives the restic binary, sends statistics and mirrors the snapshots into
  the cluster. The \<^emph>\<open>cli\<close> command (\<^verbatim>\<open>cmd/cli\<close>, \<^verbatim>\<open>cli/restore\<close>) creates a restore.

  \<^bold>\<open>State and effects.\<close> Everything outside the repository is a parameter on an arbitrary type
  \<open>'w\<close> of worlds, threaded through: \<open>kube\<close> (client of the API server and cron table,
  \<open>Operator_Env\<close>), \<open>lib\<close> (pure functions of libraries: hashes, merging, quantities, name
  order of maps), \<open>outside\<close> (processes, files, HTTP, S3, JSON codecs, \<open>Restic_Types\<close>) and
  \<open>cli_api\<close> (\<open>Commands\<close>), \<open>manager_api\<close> (the controller runtime, \<open>Operator_Main\<close>) and the functions
  of the locales below. What a theorem needs of them is a named locale over documented
  behaviour (\<open>meta_laws\<close>, \<open>lib_laws\<close>, \<open>cron_laws\<close>, \<open>delete_log\<close>,
  \<open>create_log\<close>, \<open>job_log\<close>, \<open>job_server\<close>, \<open>api_server\<close>, \<open>snapshot_api\<close>,
  \<open>mergo_laws\<close> for the merging of maps, \<open>cli_library\<close> for the command line,
  \<open>kube_expansion\<close> for the references in variables of a container, \<open>controller_manager\<close>).
  \<open>Kube_Ref\<close> and \<open>Restic_Ref\<close> give a small cluster and a small
  restic repository that satisfy them, and the witnesses run there. The operator's own global state
  (metrics, registry of schedules, lockers) is the record \<open>env\<close> around the world. Errors are values of \<open>gerr\<close>;
  a panic is the constructor \<open>Panic\<close>, which stops the enclosing operation like an error. The order
  of a loop over a Go map is a parameter, and the theorems hold for every order. Log output has no
  effect and is left out.

  \<^bold>\<open>Theories.\<close>
  \<^item> \<open>K8up_Prelude\<close>: errors, string functions, Go maps, shared lemmas.
  \<^item> \<open>Kube_Types\<close>, \<open>Api_Status\<close>, \<open>Api_Backend\<close>, \<open>Api_Resources\<close>, \<open>Api_Types\<close>: objects of
    Kubernetes and of \<^verbatim>\<open>api/v1\<close>, the methods of each resource and backend, and the interfaces that
    dispatch on them; \<open>Operator_Cfg\<close>: \<^verbatim>\<open>operator/cfg\<close>.
  \<^item> \<open>Monitoring\<close>, \<open>Scheduler\<close>: \<^verbatim>\<open>operator/monitoring\<close>, \<^verbatim>\<open>operator/scheduler\<close>; the
    registry and the cron table stay in agreement.
  \<^item> \<open>Env_Vars\<close>, \<open>Operator_Env\<close>, \<open>Kube_Ref\<close>: the environment converter and
    \<^verbatim>\<open>operator/utils\<close>; the parameters and their laws.
  \<^item> \<open>Job_Pkg\<close>: \<^verbatim>\<open>operator/job\<close>; the labels of a job, the status state machine and when an end
    is counted. \<open>Cleaner\<close>: \<^verbatim>\<open>operator/executor\<close>; which old objects are deleted.
  \<^item> \<open>Locker\<close>: \<^verbatim>\<open>operator/locker\<close> as functions; \<open>Locker_Steps\<close>: the interleavings of the
    workers around the shared table of lockers and their mutexes as a step relation, with mutual
    exclusion (from the table that \<open>GetForRepository\<close> keeps), when exclusive jobs are alone and when
    they overlap, and the release of the mutex in every fair run.
  \<^item> \<open>Randomizer\<close>, \<open>Schedule_Controller\<close>: \<^verbatim>\<open>operator/schedulecontroller\<close>.
  \<^item> \<open>Executors\<close>: the check, prune, archive and restore controllers. \<open>Pod_List\<close>,
    \<open>Backup_PreBackup\<close>, \<open>Backup_Items\<close>, \<open>Backup_Grouping\<close>, \<open>Backup_Controller\<close>: the
    backup controller, and what its grouping of claims into jobs computes.
  \<^item> \<open>Job_Submission\<close>, \<open>Backup_Submission\<close>, \<open>Reconciler\<close>, \<open>Controller_Properties\<close>:
    \<^verbatim>\<open>operator/reconciler\<close> over all controllers; which jobs reach the server, their labels and
    environment, that an active exclusive job blocks its repository, and the backup that is counted
    again when its clean-up fails.
  \<^item> \<open>Go_Duration\<close>, \<open>Restic_Cfg\<close>, \<open>Restic_Flags\<close>: \<^verbatim>\<open>time.ParseDuration\<close>, the
    configuration and its validation, the flags of the restic process and their round trip.
  \<^item> \<open>Restic_Types\<close>, \<open>Restic_Logging\<close>, \<open>Restic_Command\<close>, \<open>Restic_Stats\<close>,
    \<open>Restic_Cli\<close>: the writers behind the output of a process, running a process, statistics, and
    the calls of restic. \<open>Restic_Wait\<close>: exactly when waiting for the locks ends, and how.
  \<^item> \<open>Restic_Snapshots\<close>: the mirror of the snapshots in the cluster as a refinement of a set.
  \<^item> \<open>Restic_S3\<close>, \<open>Restic_Backup\<close>, \<open>Restic_Restore\<close>, \<open>Restic_Main\<close>: the S3 client, backup
    and prune, restore and archive, and a whole run of \<^verbatim>\<open>cmd/restic\<close>.
  \<^item> \<open>Go_Flags\<close>, \<open>Restic_Command_Line\<close>: \<^verbatim>\<open>flag.FlagSet.Parse\<close>, the laws of the command line
    library, the table of flags of \<^verbatim>\<open>cmd/restic\<close> and where their values go.
  \<^item> \<open>Job_Arguments\<close>, \<open>Job_Environment\<close>, \<open>Job_Command\<close>: the seam between operator and restic.
    What the restic command in a container reads from the arguments and the environment that the
    operator writes: each job runs the task of its kind (a backup with arguments of the user the
    tasks these ask for), a restore what its object asks for, a prune the retention policy of its
    object, and the references in the repository of a REST server become its credentials. Lists lose
    the white space around each text.
  \<^item> \<open>Commands\<close>: \<^verbatim>\<open>cmd/cli\<close> with \<^verbatim>\<open>cli/restore\<close>, and the flags of \<^verbatim>\<open>cmd/operator\<close>;
    \<open>Restore_Command\<close>: the table of flags of \<^verbatim>\<open>cmd/cli\<close> and the command from its arguments;
    \<open>Operator_Main\<close>: the start of the operator, the setup of its six controllers and the logger;
    \<open>Tar_Gzip\<close>: \<^verbatim>\<open>common\<close>.

  Names are the Go names; where one Go name stands for several things it has a prefix
  (\<open>check_Execute\<close>, \<open>backup_mutate\<close>, \<open>S3_Get\<close>) or the theory's name tells them apart.
  Loops are recursive functions named after the function they are in (\<open>group_loop_items\<close>,
  \<open>backup_loop\<close>).

  \<^bold>\<open>Termination.\<close> Nearly all loops run over lists and are structurally recursive; the loop of
  \<^verbatim>\<open>ParseDuration\<close>, the numerals, the parsing of a command line and the reference expansion have a measure. The loop of \<open>Wait\<close> may run for ever: it is a \<open>partial_function\<close> into \<open>option\<close>, \<open>None\<close> when it does
  not end, and \<open>Restic_Wait\<close> proves exactly when that is. There is no fuel.

  \<^bold>\<open>Integers.\<close> Go's \<^verbatim>\<open>int\<close> is \<open>int\<close>; the values are counts, limits and exit codes far
  below the width. Durations are nanoseconds, and \<open>Go_Duration\<close> has the overflow checks of
  \<^verbatim>\<open>ParseDuration\<close> at 64 bits written out.

  \<^bold>\<open>Not modelled.\<close>
  \<^item> \<^verbatim>\<open>zz_generated.deepcopy.go\<close>: generated copies; values of HOL are never shared.
  \<^item> The registration of types in \<^verbatim>\<open>groupversion_info.go\<close> and the \<^verbatim>\<open>init\<close> functions, and the markers
    for code generation.
  \<^item> \<^verbatim>\<open>cmd/k8up\<close>: handing the commands to the command line library and building the zap logger.
  \<^item> The bytes of tar and gzip: \<open>Tar_Gzip\<close> has the writer of \<^verbatim>\<open>common/targzipwriter.go\<close> over the two
    writers of the library, and the restore takes the archive of a header and its content as the
    parameter \<open>x_TarGz\<close>.
  \<^item> The running stream of \<^verbatim>\<open>PodExec\<close>: its output is handed on as a whole, and a broken stream ends
    the run with a panic.
  \<^item> Signals and the cancelling of contexts, and the goroutines of an S3 restore, whose pipe is
    modelled as the whole content being handed to the upload.
  \<^item> \<^verbatim>\<open>envtest\<close>, \<^verbatim>\<open>e2e\<close>, charts and tools: tests and packaging.
\<close>

end
